(* ===== verification/Go_Prelude.thy ===== *)
theory Go_Prelude
  imports Main "HOL-Library.Multiset" "HOL-Library.AList"
begin

text \<open>
  What every component of the order management system shares: Go's 64-bit integers and the
  functions of \<^verbatim>\<open>strings\<close> and \<^verbatim>\<open>strconv\<close> that the services call on request data, and the
  lemmas on lists and lookups that carry the component proofs.

  \<^item> \<open>int64\<close> and \<open>wrap64\<close>: a Go \<^verbatim>\<open>int64\<close> is an \<open>int\<close> in the two's complement range;
    \<open>wrap64\<close> is written wherever the source adds or multiplies two of them.
  \<^item> \<open>TrimSpace\<close>, \<open>ParseInt\<close>, \<open>FormatInt\<close>: on strings as byte sequences, as Go has them.
  \<^item> \<open>lookup_by\<close> is the row that \<^verbatim>\<open>First\<close> finds by a key.
\<close>

section \<open>Collections of facts\<close>

named_theorems go_arith \<open>bounds and identities of 64-bit arithmetic\<close>
named_theorems go_string \<open>facts on the string functions\<close>
named_theorems sql \<open>facts on tables, statements and transactions\<close>

section \<open>Machine integers\<close>

definition int64_max :: int where
  "int64_max = 9223372036854775807"

definition int64_min :: int where
  "int64_min = - 9223372036854775808"

definition int64 :: "int \<Rightarrow> bool" where
  "int64 x \<longleftrightarrow> int64_min \<le> x \<and> x \<le> int64_max"

definition wrap64 :: "int \<Rightarrow> int" where
  "wrap64 x = (x + 9223372036854775808) mod 18446744073709551616 - 9223372036854775808"

text \<open>Go's integer division truncates towards zero; division by zero panics, so callers
  that can divide by zero model the panic themselves.\<close>

definition go_div :: "int \<Rightarrow> int \<Rightarrow> int" where
  "go_div a b = sgn a * sgn b * (\<bar>a\<bar> div \<bar>b\<bar>)"

lemmas int64_defs = int64_def int64_min_def int64_max_def

lemma wrap64_id [simp, go_arith]: "int64 x \<Longrightarrow> wrap64 x = x"
  by (simp add: wrap64_def int64_defs)

lemma int64_wrap64 [simp, go_arith]: "int64 (wrap64 x)"
proof -
  let ?m = "(x + 9223372036854775808) mod 18446744073709551616"
  have "0 \<le> ?m" and "?m < 18446744073709551616" by simp_all
  then show ?thesis unfolding wrap64_def int64_defs by linarith
qed

lemma wrap64_wrap_add: "wrap64 (wrap64 x + y) = wrap64 (x + y)"
proof -
  let ?M = "18446744073709551616 :: int"
  let ?H = "9223372036854775808 :: int"
  have "wrap64 x + y + ?H = (x + ?H) mod ?M + y" by (simp add: wrap64_def)
  moreover have "((x + ?H) mod ?M + y) mod ?M = (x + ?H + y) mod ?M"
    by (rule mod_add_left_eq)
  moreover have "x + ?H + y = x + y + ?H" by simp
  ultimately have "(wrap64 x + y + ?H) mod ?M = (x + y + ?H) mod ?M" by (simp only:)
  then show ?thesis by (simp only: wrap64_def)
qed

lemma int64_small [go_arith]: "0 \<le> x \<Longrightarrow> x \<le> int64_max \<Longrightarrow> int64 x"
  by (simp add: int64_defs)

lemma go_div_nonneg [go_arith]: "0 \<le> a \<Longrightarrow> 0 < b \<Longrightarrow> go_div a b = a div b"
  by (cases "a = 0") (simp_all add: go_div_def sgn_if)

section \<open>Strings\<close>

text \<open>The byte sequences that encode Unicode white space (\<^verbatim>\<open>unicode.IsSpace\<close>), which
  \<^verbatim>\<open>strings.TrimSpace\<close> removes at both ends.\<close>

definition white_space :: "string list" where
  "white_space =
    [[CHR 0x09], [CHR 0x0A], [CHR 0x0B], [CHR 0x0C], [CHR 0x0D], [CHR 0x20],
     [CHR 0xC2, CHR 0x85], [CHR 0xC2, CHR 0xA0], [CHR 0xE1, CHR 0x9A, CHR 0x80],
     [CHR 0xE2, CHR 0x80, CHR 0x80], [CHR 0xE2, CHR 0x80, CHR 0x81],
     [CHR 0xE2, CHR 0x80, CHR 0x82], [CHR 0xE2, CHR 0x80, CHR 0x83],
     [CHR 0xE2, CHR 0x80, CHR 0x84], [CHR 0xE2, CHR 0x80, CHR 0x85],
     [CHR 0xE2, CHR 0x80, CHR 0x86], [CHR 0xE2, CHR 0x80, CHR 0x87],
     [CHR 0xE2, CHR 0x80, CHR 0x88], [CHR 0xE2, CHR 0x80, CHR 0x89],
     [CHR 0xE2, CHR 0x80, CHR 0x8A], [CHR 0xE2, CHR 0x80, CHR 0xA8],
     [CHR 0xE2, CHR 0x80, CHR 0xA9], [CHR 0xE2, CHR 0x80, CHR 0xAF],
     [CHR 0xE2, CHR 0x81, CHR 0x9F], [CHR 0xE3, CHR 0x80, CHR 0x80]]"

text \<open>The length of the white space sequence \<open>s\<close> starts with, 0 when it starts with none.\<close>

definition space_prefix :: "string list \<Rightarrow> string \<Rightarrow> nat" where
  "space_prefix ws s =
    (case List.find (\<lambda>w. take (length w) s = w) ws of None \<Rightarrow> 0 | Some w \<Rightarrow> length w)"

function trim_left :: "string list \<Rightarrow> string \<Rightarrow> string" where
  "trim_left ws s =
    (if s = [] \<or> space_prefix ws s = 0 then s
     else trim_left ws (drop (space_prefix ws s) s))"
  by pat_completeness auto
termination
  by (relation "measure (\<lambda>(ws, s). length s)") auto

declare trim_left.simps [simp del]

definition trim_right :: "string list \<Rightarrow> string \<Rightarrow> string" where
  "trim_right ws s = rev (trim_left (map rev ws) (rev s))"

definition TrimSpace :: "string \<Rightarrow> string" where
  "TrimSpace s = trim_right white_space (trim_left white_space s)"

definition HasPrefix :: "string \<Rightarrow> string \<Rightarrow> bool" where
  "HasPrefix s p \<longleftrightarrow> take (length p) s = p"

lemma trim_left_Nil [simp, go_string]: "trim_left ws [] = []"
  by (simp add: trim_left.simps)

lemma trim_left_stop [go_string]: "space_prefix ws s = 0 \<Longrightarrow> trim_left ws s = s"
  by (subst trim_left.simps) simp

lemma trim_left_stopped: "trim_left ws s = [] \<or> space_prefix ws (trim_left ws s) = 0"
proof (induction ws s rule: trim_left.induct)
  case (1 ws s)
  show ?case
  proof (cases "s = [] \<or> space_prefix ws s = 0")
    case True
    then show ?thesis by (auto simp: trim_left.simps [of ws s])
  next
    case False
    with "1.IH" show ?thesis by (simp add: trim_left.simps [of ws s])
  qed
qed

lemma trim_left_idem [simp, go_string]: "trim_left ws (trim_left ws s) = trim_left ws s"
  using trim_left_stopped [of ws s] by (auto intro: trim_left_stop)

lemma trim_left_suffix: "\<exists>u. s = u @ trim_left ws s"
proof (induction ws s rule: trim_left.induct)
  case (1 ws s)
  show ?case
  proof (cases "s = [] \<or> space_prefix ws s = 0")
    case True
    then show ?thesis by (auto simp: trim_left.simps [of ws s])
  next
    case False
    then obtain u where "drop (space_prefix ws s) s = u @ trim_left ws (drop (space_prefix ws s) s)"
      using "1.IH" by auto
    then have "s = (take (space_prefix ws s) s @ u) @ trim_left ws (drop (space_prefix ws s) s)"
      by (metis append.assoc append_take_drop_id)
    moreover from False have "trim_left ws s = trim_left ws (drop (space_prefix ws s) s)"
      by (simp add: trim_left.simps [of ws s])
    ultimately show ?thesis by (simp only:) blast
  qed
qed

lemma trim_right_idem [simp, go_string]: "trim_right ws (trim_right ws s) = trim_right ws s"
  by (simp add: trim_right_def)

lemma trim_right_prefix: "\<exists>u. s = trim_right ws s @ u"
proof -
  obtain u where "rev s = u @ trim_left (map rev ws) (rev s)"
    using trim_left_suffix by blast
  then have "s = trim_right ws s @ rev u"
    unfolding trim_right_def by (metis rev_append rev_rev_ident)
  then show ?thesis by blast
qed

lemma find_take_append:
  assumes "List.find (\<lambda>w. take (length w) (s @ t) = w) ws = None"
  shows "List.find (\<lambda>w. take (length w) s = w) ws = None"
proof -
  have "take (length w) (s @ t) = w" if "take (length w) s = w" for w
  proof -
    from that have "length w \<le> length s" by (metis length_take min.bounded_iff order_refl)
    with that show ?thesis by simp
  qed
  with assms show ?thesis by (auto simp: find_None_iff)
qed

text \<open>A prefix of a string that starts with no white space starts with none.\<close>

lemma space_prefix_prefix:
  assumes "[] \<notin> set ws" and "space_prefix ws (s @ t) = 0"
  shows "space_prefix ws s = 0"
proof -
  have "List.find (\<lambda>w. take (length w) (s @ t) = w) ws = None"
  proof (cases "List.find (\<lambda>w. take (length w) (s @ t) = w) ws")
    case (Some w)
    then have "w \<in> set ws" by (auto simp: find_Some_iff)
    with Some assms show ?thesis by (auto simp: space_prefix_def)
  qed
  then show ?thesis by (simp add: space_prefix_def find_take_append)
qed

lemma Nil_notin_white_space: "[] \<notin> set white_space"
  by (simp add: white_space_def)

lemma TrimSpace_idem [simp, go_string]: "TrimSpace (TrimSpace s) = TrimSpace s"
proof -
  let ?l = "trim_left white_space s"
  obtain u where u: "?l = trim_right white_space ?l @ u"
    using trim_right_prefix [of ?l white_space] by (elim exE)
  have "trim_left white_space (trim_right white_space ?l) = trim_right white_space ?l"
  proof (cases "?l = []")
    case True
    then show ?thesis by (simp add: trim_right_def)
  next
    case False
    then have "space_prefix white_space ?l = 0"
      using trim_left_stopped [of white_space s] by simp
    then have "space_prefix white_space (trim_right white_space ?l @ u) = 0"
      by (rule subst [OF u, where P = "\<lambda>x. space_prefix white_space x = 0"])
    then show ?thesis
      by (rule trim_left_stop [OF space_prefix_prefix [OF Nil_notin_white_space]])
  qed
  then show ?thesis unfolding TrimSpace_def by (simp only: trim_right_idem)
qed

subsection \<open>Decimal numbers: strconv.ParseInt and strconv.FormatInt\<close>

definition is_digit :: "char \<Rightarrow> bool" where
  "is_digit c \<longleftrightarrow> 48 \<le> (of_char c :: nat) \<and> (of_char c :: nat) \<le> 57"

definition digit_val :: "char \<Rightarrow> int" where
  "digit_val c = int (of_char c) - 48"

definition digits_val :: "string \<Rightarrow> int" where
  "digits_val s = foldl (\<lambda>n c. 10 * n + digit_val c) 0 s"

text \<open>\<^verbatim>\<open>strconv.ParseInt(s, 10, bits)\<close>: \<open>None\<close> stands for either of its errors
  (\<^verbatim>\<open>ErrSyntax\<close>, \<^verbatim>\<open>ErrRange\<close>), which no caller tells apart.\<close>

definition ParseInt :: "nat \<Rightarrow> string \<Rightarrow> int option" where
  "ParseInt bits s =
    (let neg = (s \<noteq> [] \<and> hd s = CHR ''-'');
         ds = (if s \<noteq> [] \<and> (hd s = CHR ''-'' \<or> hd s = CHR ''+'') then tl s else s);
         n = (if neg then - digits_val ds else digits_val ds)
     in if ds = [] \<or> \<not> list_all is_digit ds then None
        else if n < - (2 ^ (bits - 1)) \<or> 2 ^ (bits - 1) - 1 < n then None
        else Some n)"

definition Atoi :: "string \<Rightarrow> int option" where
  "Atoi = ParseInt 64"

fun format_nat :: "nat \<Rightarrow> string" where
  "format_nat n =
    (if n < 10 then [char_of (48 + n)] else format_nat (n div 10) @ [char_of (48 + n mod 10)])"

declare format_nat.simps [simp del]

definition FormatInt :: "int \<Rightarrow> string" where
  "FormatInt n = (if n < 0 then CHR ''-'' # format_nat (nat (- n)) else format_nat (nat n))"

lemma of_char_digit: "n < 10 \<Longrightarrow> (of_char (char_of (48 + n :: nat) :: char) :: nat) = 48 + n"
  by simp

lemma is_digit_char: "n < 10 \<Longrightarrow> is_digit (char_of (48 + n :: nat))"
  by (simp add: is_digit_def)

lemma digit_val_char: "n < 10 \<Longrightarrow> digit_val (char_of (48 + n :: nat)) = int n"
  by (simp add: digit_val_def)

lemma digits_val_snoc: "digits_val (s @ [c]) = 10 * digits_val s + digit_val c"
  by (simp add: digits_val_def)

lemma format_nat_spec:
  "format_nat n \<noteq> [] \<and> list_all is_digit (format_nat n) \<and> digits_val (format_nat n) = int n"
proof (induction n rule: format_nat.induct)
  case (1 n)
  show ?case
  proof (cases "n < 10")
    case True
    then show ?thesis
      by (simp add: format_nat.simps [of n] is_digit_char digit_val_char digits_val_def)
  next
    case False
    with "1.IH" show ?thesis
      by (simp add: format_nat.simps [of n] is_digit_char digit_val_char digits_val_snoc)
        (metis mod_mult_div_eq mult.commute of_nat_add of_nat_mult of_nat_numeral add.commute)
  qed
qed

lemma digit_not_sign: "is_digit c \<Longrightarrow> c \<noteq> CHR ''-'' \<and> c \<noteq> CHR ''+''"
  by (auto simp: is_digit_def)

lemma ParseInt_FormatInt [simp, go_string]:
  assumes "int64 n"
  shows "ParseInt 64 (FormatInt n) = Some n"
proof -
  have dig: "hd (format_nat m) \<noteq> CHR ''-'' \<and> hd (format_nat m) \<noteq> CHR ''+''" for m
    using format_nat_spec [of m] digit_not_sign
    by (cases "format_nat m") auto
  show ?thesis
  proof (cases "n < 0")
    case True
    with assms show ?thesis
      using format_nat_spec [of "nat (- n)"]
      by (simp add: ParseInt_def FormatInt_def int64_defs)
  next
    case False
    with assms show ?thesis
      using format_nat_spec [of "nat n"] dig [of "nat n"]
      by (simp add: ParseInt_def FormatInt_def int64_defs)
  qed
qed

lemma format_nat_notin: "\<not> is_digit c \<Longrightarrow> c \<notin> set (format_nat n)"
  using format_nat_spec [of n] by (auto simp: list_all_iff)

lemma FormatInt_inj: "FormatInt m = FormatInt n \<longleftrightarrow> m = n"
proof -
  have v: "format_nat a = format_nat b \<longleftrightarrow> a = b" for a b
    using format_nat_spec by (metis of_nat_eq_iff)
  have "format_nat a \<noteq> CHR ''-'' # t" for a t
    using format_nat_notin [of "CHR ''-''" a] by (auto simp: is_digit_def)
  then show ?thesis
    unfolding FormatInt_def using v by (smt (verit) eq_nat_nat_iff list.inject)
qed

text \<open>A text up to a character that does not occur in it can be read off.\<close>

lemma read_off: "c \<notin> set s \<Longrightarrow> c \<notin> set t \<Longrightarrow> s @ c # u = t @ c # v \<longleftrightarrow> s = t \<and> u = v"
  by (induction s arbitrary: t) (case_tac [!] t, auto)

section \<open>Lists of rows\<close>

text \<open>\<^verbatim>\<open>First(&row, "key = ?", k)\<close> on a table in primary key order.\<close>

definition lookup_by :: "('r \<Rightarrow> 'k) \<Rightarrow> 'k \<Rightarrow> 'r list \<Rightarrow> 'r option" where
  "lookup_by key k rows = List.find (\<lambda>r. key r = k) rows"

lemma lookup_by_Nil [simp, sql]: "lookup_by key k [] = None"
  by (simp add: lookup_by_def)

lemma lookup_by_Cons [simp, sql]:
  "lookup_by key k (r # rs) = (if key r = k then Some r else lookup_by key k rs)"
  by (simp add: lookup_by_def)

lemma lookup_by_append [sql]:
  "lookup_by key k (xs @ ys) = (case lookup_by key k xs of None \<Rightarrow> lookup_by key k ys | Some r \<Rightarrow> Some r)"
  by (induction xs) auto

lemma lookup_by_Some_D [sql]: "lookup_by key k rows = Some r \<Longrightarrow> r \<in> set rows \<and> key r = k"
  by (induction rows) (auto split: if_splits)

lemma lookup_by_None_iff [sql]: "lookup_by key k rows = None \<longleftrightarrow> k \<notin> key ` set rows"
  by (induction rows) auto

lemma lookup_by_distinct [sql]:
  "distinct (map key rows) \<Longrightarrow> r \<in> set rows \<Longrightarrow> lookup_by key (key r) rows = Some r"
  by (induction rows) (auto simp: rev_image_eqI)

lemma lookup_by_map [sql]:
  assumes "\<And>r. key (f r) = key r"
  shows "lookup_by key k (map f rows) = map_option f (lookup_by key k rows)"
  using assms by (induction rows) auto

lemma sum_list_map_filter_if:
  "sum_list (map f (filter P xs)) = sum_list (map (\<lambda>x. if P x then f x else 0) xs)"
  by (induction xs) auto

lemma sum_list_map_eq: "(\<And>x. x \<in> set xs \<Longrightarrow> f x = g x) \<Longrightarrow> sum_list (map f xs) = sum_list (map g xs)"
  by (induction xs) auto

lemma sum_list_nonneg_elem:
  "(\<And>y. y \<in> set xs \<Longrightarrow> 0 \<le> f y) \<Longrightarrow> x \<in> set xs \<Longrightarrow> (f x :: int) \<le> sum_list (map f xs)"
proof (induction xs)
  case (Cons a xs)
  have "0 \<le> sum_list (map f xs)" using Cons.prems(1) by (intro sum_list_nonneg) auto
  moreover have "f x \<le> sum_list (map f xs)" if "x \<in> set xs"
    using Cons that by auto
  moreover have "0 \<le> f a" using Cons.prems(1) by simp
  ultimately show ?case using Cons.prems(2) by auto
qed simp

lemma distinct_key_eq:
  "distinct (map key rows) \<Longrightarrow> x \<in> set rows \<Longrightarrow> y \<in> set rows \<Longrightarrow> key x = key y \<Longrightarrow> x = y"
  by (auto simp: distinct_map inj_on_def)

lemma distinct_filter_single:
  assumes "distinct (map key xs)" and "x \<in> set xs"
  shows "filter (\<lambda>y. key y = key x) xs = [x]"
  using assms
proof (induction xs)
  case (Cons a xs)
  show ?case
  proof (cases "x = a")
    case True
    have "filter (\<lambda>y. key y = key x) xs = []"
      using Cons.prems(1) True by (auto simp: filter_empty_conv image_iff)
    with True show ?thesis by simp
  next
    case False
    with Cons show ?thesis by (auto simp: image_iff)
  qed
qed simp

section \<open>Quantities per product\<close>

text \<open>Both the order and the inventory service add up the requested quantities per product in
  a Go map and then sort by product id. The map is an association list; \<open>accumulate\<close> is
  \<^verbatim>\<open>m[k] += v\<close> with its 64-bit wrap-around.\<close>

definition accumulate :: "int \<Rightarrow> int \<Rightarrow> (int \<times> int) list \<Rightarrow> (int \<times> int) list" where
  "accumulate k v m = AList.update k (wrap64 ((case map_of m k of None \<Rightarrow> 0 | Some w \<Rightarrow> w) + v)) m"

text \<open>The loop over the request: \<open>None\<close> as soon as an id or a quantity is not positive.\<close>

fun sum_quantities :: "(int \<times> int) list \<Rightarrow> (int \<times> int) list \<Rightarrow> (int \<times> int) list option" where
  "sum_quantities [] m = Some m"
| "sum_quantities ((p, q) # its) m =
    (if p \<le> 0 \<or> q \<le> 0 then None else sum_quantities its (accumulate p q m))"

text \<open>What the request asks of product \<open>p\<close>, without wrap-around.\<close>

definition requested :: "int \<Rightarrow> (int \<times> int) list \<Rightarrow> int" where
  "requested p its = sum_list (map snd (filter (\<lambda>it. fst it = p) its))"

definition qty :: "(int \<times> int) list \<Rightarrow> int \<Rightarrow> int" where
  "qty m p = (case map_of m p of None \<Rightarrow> 0 | Some w \<Rightarrow> w)"

lemma requested_simps [simp]:
  "requested p [] = 0"
  "requested p ((p', q) # its) = (if p' = p then q + requested p its else requested p its)"
  by (simp_all add: requested_def)

lemma distinct_accumulate: "distinct (map fst m) \<Longrightarrow> distinct (map fst (accumulate k v m))"
  unfolding accumulate_def by (rule distinct_update)

lemma keys_accumulate: "fst ` set (accumulate k v m) = insert k (fst ` set m)"
  unfolding accumulate_def by (simp add: dom_update)

lemma qty_accumulate: "qty (accumulate k v m) p = (if p = k then wrap64 (qty m k + v) else qty m p)"
  by (simp add: qty_def accumulate_def update_conv')

lemma sum_quantities_Some_D:
  assumes "sum_quantities its m = Some m'" and "distinct (map fst m)"
  shows "distinct (map fst m')" and "fst ` set m' = fst ` set m \<union> fst ` set its"
    and "\<And>p q. (p, q) \<in> set its \<Longrightarrow> 0 < p \<and> 0 < q"
proof -
  have "distinct (map fst m') \<and> fst ` set m' = fst ` set m \<union> fst ` set its
      \<and> (\<forall>(p, q) \<in> set its. 0 < p \<and> 0 < q)"
    using assms
    by (induction its m rule: sum_quantities.induct)
      (auto simp: distinct_accumulate keys_accumulate split: if_splits)
  then show "distinct (map fst m')" and "fst ` set m' = fst ` set m \<union> fst ` set its"
    and "\<And>p q. (p, q) \<in> set its \<Longrightarrow> 0 < p \<and> 0 < q"
    by auto
qed

lemma sum_quantities_None_iff:
  "sum_quantities its m = None \<longleftrightarrow> (\<exists>(p, q) \<in> set its. p \<le> 0 \<or> q \<le> 0)"
  by (induction its m rule: sum_quantities.induct) auto

lemma sum_quantities_qty:
  assumes "sum_quantities its m = Some m'"
  shows "wrap64 (qty m' p) = wrap64 (qty m p + requested p its)"
  using assms
proof (induction its m rule: sum_quantities.induct)
  case (2 p' q its m)
  then have "wrap64 (qty m' p) = wrap64 (qty (accumulate p' q m) p + requested p its)"
    by (simp split: if_splits)
  then show ?case
    by (simp add: qty_accumulate wrap64_wrap_add add.assoc)
qed simp

lemma sum_quantities_int64:
  assumes "sum_quantities its m = Some m'" and "\<And>p. int64 (qty m p)"
  shows "int64 (qty m' p)"
  using assms by (induction its m rule: sum_quantities.induct) (auto simp: qty_accumulate split: if_splits)

lemma qty_Nil [simp]: "qty [] p = 0"
  by (simp add: qty_def)

lemma int64_0 [simp]: "int64 0"
  by (simp add: int64_defs)

text \<open>The accumulated quantity is the requested one up to wrap-around.\<close>

lemma sum_quantities_wrap:
  assumes "sum_quantities its [] = Some m"
  shows "qty m p = wrap64 (requested p its)"
proof -
  have "int64 (qty m p)" by (rule sum_quantities_int64 [OF assms]) simp
  then show ?thesis using sum_quantities_qty [OF assms, of p] by simp
qed

text \<open>The order in which Go iterates over the map does not matter after sorting.\<close>

lemma sort_key_fst_perm:
  assumes "distinct (map fst m)" and "mset m' = mset m"
  shows "sort_key fst m' = sort_key fst (m :: (int \<times> int) list)"
proof (rule sort_key_inj_key_eq)
  have "set m' = set m" using assms(2) by (rule mset_eq_setD)
  with assms(1) show "inj_on fst (set m')" by (simp add: distinct_map)
qed (simp_all add: assms(2))

lemma requested_distinct: "distinct (map fst m) \<Longrightarrow> requested p m = qty m p"
proof (induction m)
  case (Cons a m)
  have "filter (\<lambda>it. fst it = p) m = []" if "fst a = p"
    using that Cons.prems by (auto simp: filter_empty_conv image_iff)
  then have "requested p m = 0" if "fst a = p"
    using that by (simp add: requested_def)
  with Cons show ?case by (cases a) (auto simp: qty_def)
qed simp

lemma requested_sort [simp]: "requested p (sort_key k m) = requested p m"
proof -
  have "mset (map snd (filter (\<lambda>it. fst it = p) (sort_key k m))) =
    mset (map snd (filter (\<lambda>it. fst it = p) m))" by simp
  then show ?thesis unfolding requested_def by (metis sum_mset_sum_list)
qed

section \<open>Exponential delays\<close>

text \<open>The doubling loop of \<^verbatim>\<open>backoff\<close> (\<^verbatim>\<open>resiliencehttp/client.go\<close>) and \<^verbatim>\<open>retryDelay\<close>
  (\<^verbatim>\<open>ordersvc/reconciliation_worker.go\<close>), with \<open>n\<close> rounds left.\<close>

fun double_delay :: "int \<Rightarrow> nat \<Rightarrow> int \<Rightarrow> int" where
  "double_delay mx 0 delay = (if mx < delay then mx else delay)"
| "double_delay mx (Suc n) delay =
    (if go_div mx 2 \<le> delay then mx else double_delay mx n (wrap64 (delay * 2)))"

lemma double_delay_bounds:
  assumes "0 < d" and "d \<le> mx" and "mx \<le> int64_max"
  shows "d \<le> double_delay mx n d \<and> double_delay mx n d \<le> mx"
  using assms
proof (induction mx n d rule: double_delay.induct)
  case (2 mx n d)
  show ?case
  proof (cases "go_div mx 2 \<le> d")
    case False
    with "2.prems" have "d * 2 \<le> mx" by (simp add: go_div_nonneg)
    moreover from this "2.prems" have "wrap64 (d * 2) = d * 2" by (intro wrap64_id) (simp add: int64_small)
    ultimately show ?thesis using "2.IH" [OF False] "2.prems" False by simp
  qed (use "2.prems" in simp)
qed simp

text \<open>The delay is the doubled one, or the maximum once doubling would pass it (or, for an odd
  maximum, come within one of it).\<close>

lemma double_delay_value:
  assumes "0 < d" and "d \<le> mx" and "mx \<le> int64_max"
  shows "(double_delay mx n d = d * 2 ^ n \<and> d * 2 ^ n \<le> mx) \<or>
    (double_delay mx n d = mx \<and> mx \<le> d * 2 ^ n + 1)"
  using assms
proof (induction mx n d rule: double_delay.induct)
  case (2 mx n d)
  show ?case
  proof (cases "go_div mx 2 \<le> d")
    case True
    with "2.prems" have "mx \<le> 2 * d + 1" by (simp add: go_div_nonneg)
    moreover have "2 * d * 1 \<le> 2 * d * 2 ^ n" using "2.prems" by (intro mult_left_mono) simp_all
    ultimately show ?thesis using True by (simp add: ac_simps)
  next
    case False
    with "2.prems" have le: "d * 2 \<le> mx" by (simp add: go_div_nonneg)
    with "2.prems" have "wrap64 (d * 2) = d * 2" by (intro wrap64_id) (simp add: int64_small)
    with "2.IH" [OF False] "2.prems" False le show ?thesis by (simp add: ac_simps)
  qed
qed simp

section \<open>HTTP replies\<close>

text \<open>What a gin handler writes: \<^verbatim>\<open>ok(c, status, data)\<close>, \<^verbatim>\<open>fail(c, status, code, msg)\<close>, the bare
  \<^verbatim>\<open>c.JSON(status, gin.H{"error": ...})\<close> and \<^verbatim>\<open>c.JSON(status, value)\<close> of the internal endpoints.
  A message that is \<^verbatim>\<open>err.Error()\<close> is kept as the error value.\<close>

datatype ('m, 'd) reply =
    OkReply (r_status: int) 'd
  | FailReply (r_status: int) int 'm
  | ErrorReply (r_status: int) 'm
  | PlainReply (r_status: int) 'd

end
