(* ===== verification/Database.thy ===== *)
theory Database
  imports Go_Prelude
begin

text \<open>
  The MySQL server the services talk to through gorm, at the level the services rely on it.
  A table is the list of its rows in primary key order. The statements are the ones the source
  writes (\<^verbatim>\<open>SELECT ... WHERE\<close>, conditional \<^verbatim>\<open>UPDATE\<close> with its \<^verbatim>\<open>RowsAffected\<close>, \<^verbatim>\<open>INSERT\<close> under
  unique keys), each with the constraints the migrations declare for its table: a row that
  leaves the range of \<^verbatim>\<open>BIGINT\<close> or breaks a \<^verbatim>\<open>CHECK\<close> makes the statement fail.

  The server is not part of the repository, so what it may do beyond that is an argument of
  every operation: an \<open>env\<close> says, for each statement site of the operation, whether the
  statement completes, fails without effect, or takes effect while the client sees an error
  (the acknowledgement is lost); it also carries the clock readings of \<^verbatim>\<open>time.Now\<close> and the
  result of \<^verbatim>\<open>uuid.NewString\<close>. Theorems hold for every \<open>env\<close> unless they say otherwise.

  Transactions run one after the other (row locks and unique keys serialise them); the steps
  that the services take outside transactions are interleaved explicitly where it matters.
\<close>

section \<open>Statements\<close>

type_synonym time = int
  \<comment> \<open>nanoseconds since the epoch, as a \<^verbatim>\<open>time.Time\<close>\<close>
type_synonym duration = int
  \<comment> \<open>a \<^verbatim>\<open>time.Duration\<close> in nanoseconds\<close>

datatype db_error =
    DuplicatedKey | CheckViolated | OutOfRange
  | ContextCanceled | ContextDeadlineExceeded
  | DriverError string

datatype outcome = Done | Failed db_error | is_Lost: Lost db_error

record 'site env =
  e_out :: "'site \<Rightarrow> outcome"
  e_now :: "'site \<Rightarrow> time"
  e_uuid :: string
  e_text :: "db_error \<Rightarrow> string" \<comment> \<open>\<^verbatim>\<open>err.Error()\<close> of an error of the driver\<close>

text \<open>No statement fails and no acknowledgement is lost.\<close>

definition fault_free :: "'site env \<Rightarrow> bool" where
  "fault_free env \<longleftrightarrow> e_out env = (\<lambda>_. Done)"

text \<open>A statement inside an open transaction: any failure is seen by the closure.\<close>

definition stmt :: "'site env \<Rightarrow> 'site \<Rightarrow> db_error + 'a \<Rightarrow> db_error + 'a" where
  "stmt env site r = (case e_out env site of Done \<Rightarrow> r | Failed e \<Rightarrow> Inl e | Lost e \<Rightarrow> Inl e)"

text \<open>\<^verbatim>\<open>db.Transaction(fc)\<close>: commit when the closure returns nil, roll back otherwise. A failed
  commit leaves the old state; a lost one leaves the new state and reports an error. A write
  outside an explicit transaction is gorm's own transaction around one statement.\<close>

definition Transaction ::
  "outcome \<Rightarrow> (db_error \<Rightarrow> 'e) \<Rightarrow> ('s \<Rightarrow> 'e + 's \<times> 'a) \<Rightarrow> 's \<Rightarrow> 's \<times> ('e + 'a)" where
  "Transaction commit wrap body s =
    (case body s of
       Inl e \<Rightarrow> (s, Inl e)
     | Inr (s', x) \<Rightarrow>
         (case commit of
            Done \<Rightarrow> (s', Inr x)
          | Failed d \<Rightarrow> (s, Inl (wrap d))
          | Lost d \<Rightarrow> (s', Inl (wrap d))))"

text \<open>A write outside an explicit transaction.\<close>

definition autocommit ::
  "'site env \<Rightarrow> 'site \<Rightarrow> ('s \<Rightarrow> db_error + 's \<times> 'a) \<Rightarrow> 's \<Rightarrow> 's \<times> (db_error + 'a)" where
  "autocommit env site = Transaction (e_out env site) id"

text \<open>\<^verbatim>\<open>UPDATE ... SET f WHERE p\<close>, with the constraint \<open>ok\<close> of the table and \<^verbatim>\<open>RowsAffected\<close>.\<close>

definition sql_update ::
  "('r \<Rightarrow> db_error option) \<Rightarrow> ('r \<Rightarrow> bool) \<Rightarrow> ('r \<Rightarrow> 'r) \<Rightarrow> 'r list \<Rightarrow> db_error + 'r list \<times> nat" where
  "sql_update ok p f rows =
    (case List.find (\<lambda>r. p r \<and> ok (f r) \<noteq> None) rows of
       Some r \<Rightarrow> (case ok (f r) of Some e \<Rightarrow> Inl e | None \<Rightarrow> Inl CheckViolated)
     | None \<Rightarrow> Inr (map (\<lambda>r. if p r then f r else r) rows, length (filter p rows)))"

text \<open>\<^verbatim>\<open>INSERT\<close> of a row with the greatest key, under the unique keys \<open>clash\<close>.\<close>

definition sql_insert ::
  "('r \<Rightarrow> db_error option) \<Rightarrow> ('r \<Rightarrow> 'r \<Rightarrow> bool) \<Rightarrow> 'r \<Rightarrow> 'r list \<Rightarrow> db_error + 'r list" where
  "sql_insert ok clash row rows =
    (case ok row of
       Some e \<Rightarrow> Inl e
     | None \<Rightarrow> if list_ex (clash row) rows then Inl DuplicatedKey else Inr (rows @ [row]))"

text \<open>\<^verbatim>\<open>Offset(o).Limit(l)\<close> of a result; gorm leaves a negative offset out of the query.\<close>

definition sql_page :: "int \<Rightarrow> int \<Rightarrow> 'r list \<Rightarrow> 'r list" where
  "sql_page off lim rows = take (nat lim) (drop (nat off) rows)"

text \<open>gorm's clock for \<^verbatim>\<open>DATETIME(3)\<close> columns: the reading rounded to milliseconds.\<close>

definition round_ms :: "time \<Rightarrow> time" where
  "round_ms t = (t + 500000) div 1000000 * 1000000"

text \<open>An environment without faults whose clock stands at zero.\<close>

definition calm_env :: "'site env" where
  "calm_env = \<lparr>e_out = (\<lambda>_. Done), e_now = (\<lambda>_. 0), e_uuid = ''uuid'', e_text = (\<lambda>_. ''db'')\<rparr>"

section \<open>Facts on statements\<close>

lemma fault_free_calm [simp]: "fault_free calm_env"
  by (simp add: fault_free_def calm_env_def)

lemma calm_env_sel [simp]:
  "e_out calm_env site = Done" "e_now calm_env site = 0" "e_uuid calm_env = ''uuid''" "e_text calm_env d = ''db''"
  by (simp_all add: calm_env_def)

lemma fault_free_Done [simp]: "fault_free env \<Longrightarrow> e_out env site = Done"
  by (simp add: fault_free_def)

lemma fault_free_stmt [simp]: "fault_free env \<Longrightarrow> stmt env site r = r"
  by (simp add: stmt_def)

lemma stmt_Inr [sql]: "stmt env site r = Inr x \<longleftrightarrow> e_out env site = Done \<and> r = Inr x"
  by (auto simp: stmt_def split: outcome.splits)

lemma stmt_Done [simp, sql]: "e_out env site = Done \<Longrightarrow> stmt env site r = r"
  by (simp add: stmt_def)

lemma stmt_other [simp, sql]: "stmt env site (Inr x) \<noteq> Inr y \<longleftrightarrow> e_out env site \<noteq> Done \<or> x \<noteq> y"
  by (auto simp: stmt_def split: outcome.splits)

lemma sql_update_Inr [sql]:
  "sql_update ok p f rows = Inr (rows', n) \<longleftrightarrow>
    (\<forall>r\<in>set rows. p r \<longrightarrow> ok (f r) = None) \<and>
    rows' = map (\<lambda>r. if p r then f r else r) rows \<and> n = length (filter p rows)"
proof (cases "List.find (\<lambda>r. p r \<and> ok (f r) \<noteq> None) rows")
  case None
  then have "\<forall>r\<in>set rows. p r \<longrightarrow> ok (f r) = None"
    by (auto simp: find_None_iff)
  with None show ?thesis by (auto simp: sql_update_def)
next
  case (Some r)
  then obtain e where "r \<in> set rows" "p r" "ok (f r) = Some e"
    by (auto simp: find_Some_iff)
  moreover from this Some have "sql_update ok p f rows = Inl e"
    by (simp add: sql_update_def)
  ultimately show ?thesis by auto
qed

lemma sql_insert_Inr [sql]:
  "sql_insert ok clash row rows = Inr rows' \<longleftrightarrow>
    ok row = None \<and> (\<forall>r\<in>set rows. \<not> clash row r) \<and> rows' = rows @ [row]"
  by (auto simp: sql_insert_def list_ex_iff split: option.splits)

lemma Transaction_Inr [sql]:
  "Transaction c w body s = (s', Inr x) \<longleftrightarrow> c = Done \<and> body s = Inr (s', x)"
  by (auto simp: Transaction_def split: sum.splits outcome.splits)

text \<open>A transaction ends in its old state or in a state its closure returned.\<close>

lemma Transaction_cases:
  assumes "Transaction c w body s = (s', r)"
  shows "s' = s \<or> (\<exists>x. body s = Inr (s', x))"
  using assms by (auto simp: Transaction_def split: sum.splits outcome.splits)

lemma Transaction_preserves:
  assumes "P s" and "\<And>s' x. body s = Inr (s', x) \<Longrightarrow> P s'"
  shows "P (fst (Transaction c w body s))"
  using assms by (auto simp: Transaction_def split: sum.splits outcome.splits)

text \<open>Without a lost acknowledgement an error leaves the state as it was.\<close>

lemma Transaction_error_same:
  assumes "Transaction c w body s = (s', Inl e)" and "\<not> is_Lost c"
  shows "s' = s"
  using assms by (auto simp: Transaction_def split: sum.splits outcome.splits)

lemma lookup_by_update [sql]:
  assumes "\<And>r. key (f r) = key r"
  shows "lookup_by key k (map (\<lambda>r. if p r then f r else r) rows) =
    map_option (\<lambda>r. if p r then f r else r) (lookup_by key k rows)"
  by (rule lookup_by_map) (simp add: assms)

lemma length_filter_key:
  assumes "distinct (map key rows)"
  shows "length (filter (\<lambda>r. key r = k \<and> p r) rows) =
    (case lookup_by key k rows of None \<Rightarrow> 0 | Some r \<Rightarrow> if p r then 1 else 0)"
  using assms
proof (induction rows)
  case (Cons a rows)
  have "filter (\<lambda>r. key r = k \<and> p r) rows = []" if "key a = k"
    using that Cons.prems by (auto simp: filter_empty_conv image_iff)
  with Cons show ?case by auto
qed simp

lemma autocommit_fst:
  "fst (autocommit env site body s) = s \<or> (\<exists>x. body s = Inr (fst (autocommit env site body s), x))"
  by (auto simp: autocommit_def Transaction_def split: sum.splits prod.splits outcome.splits)

end
