(* ===== verification/Breaker.thy ===== *)
theory Breaker
  imports Database
begin

text \<open>
  The circuit breaker of \<^verbatim>\<open>internal/platform/resiliencehttp/circuit_breaker.go\<close>. \<open>acquire\<close> and \<open>complete\<close> run
  under the breaker's mutex, so they are atomic steps on the record \<open>circuitBreaker\<close>; a caller
  holds the returned token (the flag \<^verbatim>\<open>probe\<close>) between the two. The step relation \<open>cb_step\<close>
  interleaves any number of callers.
\<close>

section \<open>State and operations\<close>

datatype circuitState = circuitClosed | circuitOpen | circuitHalfOpen

record CircuitBreakerConfig =
  FailureThreshold :: int
  OpenInterval :: duration
  HalfOpenMaxProbes :: int

definition cb_normalized :: "CircuitBreakerConfig \<Rightarrow> CircuitBreakerConfig" where
  "cb_normalized cfg =
    \<lparr>FailureThreshold = (if FailureThreshold cfg \<le> 0 then 5 else FailureThreshold cfg),
     OpenInterval = (if OpenInterval cfg \<le> 0 then 5000000000 else OpenInterval cfg),
     HalfOpenMaxProbes = (if HalfOpenMaxProbes cfg \<le> 0 then 1 else HalfOpenMaxProbes cfg)\<rparr>"

text \<open>\<^verbatim>\<open>envPositiveInt\<close> and \<^verbatim>\<open>envPositiveDuration\<close> on the value of the variable (empty when unset);
  \<^verbatim>\<open>time.ParseDuration\<close> is an argument.\<close>

definition envPositiveInt :: "string \<Rightarrow> int \<Rightarrow> int" where
  "envPositiveInt raw fallback =
    (case Atoi (TrimSpace raw) of Some v \<Rightarrow> if v \<le> 0 then fallback else v | None \<Rightarrow> fallback)"

definition envPositiveDuration :: "(string \<Rightarrow> duration option) \<Rightarrow> string \<Rightarrow> duration \<Rightarrow> duration" where
  "envPositiveDuration parseDuration raw fallback =
    (case parseDuration (TrimSpace raw) of Some v \<Rightarrow> if v \<le> 0 then fallback else v | None \<Rightarrow> fallback)"

definition CircuitBreakerConfigFromEnvironment ::
  "(string \<Rightarrow> duration option) \<Rightarrow> (string \<Rightarrow> string) \<Rightarrow> CircuitBreakerConfig" where
  "CircuitBreakerConfigFromEnvironment parseDuration getenv =
    \<lparr>FailureThreshold = envPositiveInt (getenv ''HTTP_CIRCUIT_FAILURE_THRESHOLD'') 5,
     OpenInterval = envPositiveDuration parseDuration (getenv ''HTTP_CIRCUIT_OPEN_INTERVAL'') 5000000000,
     HalfOpenMaxProbes = envPositiveInt (getenv ''HTTP_CIRCUIT_HALF_OPEN_MAX_PROBES'') 1\<rparr>"

record circuitBreaker =
  cb_key :: string
  cb_cfg :: CircuitBreakerConfig
  cb_state :: circuitState
  consecutiveFailed :: int
  openedAt :: time
  halfOpenInFlight :: int

datatype CircuitOpenError = CircuitOpenError (RetryKey: string) (RetryAfter: duration)

definition newCircuitBreaker :: "string \<Rightarrow> CircuitBreakerConfig \<Rightarrow> circuitBreaker" where
  "newCircuitBreaker key cfg =
    \<lparr>cb_key = key, cb_cfg = cb_normalized cfg, cb_state = circuitClosed,
     consecutiveFailed = 0, openedAt = 0, halfOpenInFlight = 0\<rparr>"

definition transitionLocked :: "circuitState \<Rightarrow> circuitBreaker \<Rightarrow> circuitBreaker" where
  "transitionLocked next breaker = (if cb_state breaker = next then breaker else breaker\<lparr>cb_state := next\<rparr>)"

definition openLocked :: "time \<Rightarrow> circuitBreaker \<Rightarrow> circuitBreaker" where
  "openLocked now breaker =
    transitionLocked circuitOpen (breaker\<lparr>openedAt := now, consecutiveFailed := 0, halfOpenInFlight := 0\<rparr>)"

text \<open>\<^verbatim>\<open>acquire\<close>: the token is the flag \<^verbatim>\<open>probe\<close> that the returned closure captures.\<close>

definition acquire :: "time \<Rightarrow> circuitBreaker \<Rightarrow> circuitBreaker \<times> (CircuitOpenError + bool)" where
  "acquire now breaker =
    (let retryAt = openedAt breaker + OpenInterval (cb_cfg breaker) in
     if cb_state breaker = circuitOpen \<and> now < retryAt
     then (breaker, Inl (CircuitOpenError (cb_key breaker) (retryAt - now)))
     else
       let b1 = (if cb_state breaker = circuitOpen then transitionLocked circuitHalfOpen breaker else breaker);
           probe = (cb_state b1 = circuitHalfOpen)
       in if probe
          then if HalfOpenMaxProbes (cb_cfg b1) \<le> halfOpenInFlight b1
               then (b1, Inl (CircuitOpenError (cb_key b1) (OpenInterval (cb_cfg b1))))
               else (b1\<lparr>halfOpenInFlight := halfOpenInFlight b1 + 1\<rparr>, Inr True)
          else (b1, Inr False))"

definition complete :: "time \<Rightarrow> bool \<Rightarrow> bool \<Rightarrow> circuitBreaker \<Rightarrow> circuitBreaker" where
  "complete now probe success breaker =
    (if probe then
       if cb_state breaker \<noteq> circuitHalfOpen then breaker
       else
         let b1 = (if 0 < halfOpenInFlight breaker
                   then breaker\<lparr>halfOpenInFlight := halfOpenInFlight breaker - 1\<rparr> else breaker)
         in if \<not> success then openLocked now b1
            else if halfOpenInFlight b1 = 0
              then transitionLocked circuitClosed (b1\<lparr>consecutiveFailed := 0\<rparr>)
            else b1
     else
       if cb_state breaker \<noteq> circuitClosed then breaker
       else if success then breaker\<lparr>consecutiveFailed := 0\<rparr>
       else
         let b1 = breaker\<lparr>consecutiveFailed := consecutiveFailed breaker + 1\<rparr>
         in if FailureThreshold (cb_cfg b1) \<le> consecutiveFailed b1 then openLocked now b1 else b1)"

section \<open>Callers\<close>

text \<open>The breaker and the tokens handed out and not yet completed. \<^verbatim>\<open>sync.Once\<close> makes every token
  count once.\<close>

type_synonym cb_world = "circuitBreaker \<times> bool multiset"

inductive cb_step :: "cb_world \<Rightarrow> cb_world \<Rightarrow> bool" where
  admit: "acquire now b = (b', Inr probe) \<Longrightarrow> cb_step (b, ts) (b', add_mset probe ts)"
| reject: "acquire now b = (b', Inl e) \<Longrightarrow> cb_step (b, ts) (b', ts)"
| finish: "cb_step (b, add_mset probe ts) (complete now probe success b, ts)"

inductive cb_reachable :: "string \<Rightarrow> CircuitBreakerConfig \<Rightarrow> cb_world \<Rightarrow> bool"
  for key cfg where
  cb_init: "cb_reachable key cfg (newCircuitBreaker key cfg, {#})"
| cb_next: "cb_reachable key cfg w \<Longrightarrow> cb_step w w' \<Longrightarrow> cb_reachable key cfg w'"

definition cb_ok :: "CircuitBreakerConfig \<Rightarrow> cb_world \<Rightarrow> bool" where
  "cb_ok cfg w = (case w of (b, ts) \<Rightarrow>
    cb_cfg b = cb_normalized cfg \<and>
    0 \<le> consecutiveFailed b \<and> consecutiveFailed b < FailureThreshold (cb_cfg b) \<and>
    0 \<le> halfOpenInFlight b \<and> halfOpenInFlight b \<le> HalfOpenMaxProbes (cb_cfg b) \<and>
    (cb_state b \<noteq> circuitClosed \<longrightarrow> consecutiveFailed b = 0) \<and>
    (cb_state b \<noteq> circuitHalfOpen \<longrightarrow> halfOpenInFlight b = 0) \<and>
    halfOpenInFlight b \<le> int (count ts True))"

lemma cb_normalized_pos [simp]:
  "0 < FailureThreshold (cb_normalized cfg)" "0 < OpenInterval (cb_normalized cfg)"
  "0 < HalfOpenMaxProbes (cb_normalized cfg)" "HalfOpenMaxProbes (cb_normalized cfg) \<noteq> 0"
  "1 \<le> HalfOpenMaxProbes (cb_normalized cfg)" "0 \<le> HalfOpenMaxProbes (cb_normalized cfg)"
  "\<not> HalfOpenMaxProbes (cb_normalized cfg) \<le> 0"
  by (simp_all add: cb_normalized_def)

lemmas cb_defs = acquire_def complete_def openLocked_def transitionLocked_def Let_def

lemma acquire_cfg [simp]: "cb_cfg (fst (acquire now b)) = cb_cfg b"
  by (simp add: cb_defs)

lemma complete_cfg [simp]: "cb_cfg (complete now probe success b) = cb_cfg b"
  by (simp add: cb_defs)

lemma cb_step_ok:
  assumes "cb_step w w'" and "cb_ok cfg w"
  shows "cb_ok cfg w'"
  using assms
proof (induction rule: cb_step.induct)
  case (admit now b b' probe ts)
  then show ?case by (auto simp: cb_ok_def cb_defs split: if_splits)
next
  case (reject now b b' e ts)
  then show ?case by (auto simp: cb_ok_def cb_defs split: if_splits)
next
  case (finish b probe ts now success)
  then show ?case by (auto simp: cb_ok_def cb_defs)
qed

lemma cb_reachable_ok: "cb_reachable key cfg w \<Longrightarrow> cb_ok cfg w"
proof (induction rule: cb_reachable.induct)
  case cb_init
  then show ?case by (simp add: cb_ok_def newCircuitBreaker_def order.strict_implies_order)
qed (rule cb_step_ok)

text \<open>With the default of one probe, the outstanding probes are exactly the counted ones.\<close>

lemma cb_step_single:
  assumes "cb_step w w'" and "cb_ok cfg w" and "HalfOpenMaxProbes (cb_normalized cfg) = 1"
    and "halfOpenInFlight (fst w) = int (count (snd w) True)"
  shows "halfOpenInFlight (fst w') = int (count (snd w') True)"
  using assms
proof (induction rule: cb_step.induct)
  case (admit now b b' probe ts)
  then show ?case by (auto simp: cb_ok_def cb_defs split: if_splits)
next
  case (reject now b b' e ts)
  then show ?case by (auto simp: cb_ok_def cb_defs split: if_splits)
next
  case (finish b probe ts now success)
  then show ?case by (auto simp: cb_ok_def cb_defs)
qed

lemma cb_reachable_single:
  assumes "HalfOpenMaxProbes (cb_normalized cfg) = 1" and "cb_reachable key cfg w"
  shows "halfOpenInFlight (fst w) = int (count (snd w) True)"
  using assms(2)
proof (induction rule: cb_reachable.induct)
  case cb_init
  then show ?case by (simp add: newCircuitBreaker_def)
next
  case (cb_next w w')
  then show ?case by (blast intro: cb_step_single cb_reachable_ok assms(1))
qed

section \<open>Properties\<close>



lemma complete_open_ignored: "cb_state b = circuitOpen \<Longrightarrow> complete now probe success b = b"
  by (simp add: cb_defs)

lemma failures_counted:
  assumes "cb_state b = circuitClosed" and "0 \<le> consecutiveFailed b"
    and "consecutiveFailed b < FailureThreshold (cb_cfg b)"
  shows "cb_state (fold (\<lambda>now. complete now False False) ticks b) =
    (if consecutiveFailed b + int (length ticks) < FailureThreshold (cb_cfg b)
     then circuitClosed else circuitOpen)"
  using assms
proof (induction ticks arbitrary: b)
  case (Cons now ticks)
  let ?b = "complete now False False b"
  have opened: "cb_state (fold (\<lambda>now. complete now False False) ticks c) = circuitOpen"
    if "cb_state c = circuitOpen" for c
    using that by (induction ticks) (simp_all add: complete_open_ignored)
  show ?case
  proof (cases "consecutiveFailed b + 1 < FailureThreshold (cb_cfg b)")
    case True
    then have "cb_state ?b = circuitClosed" "consecutiveFailed ?b = consecutiveFailed b + 1"
      using Cons.prems by (simp_all add: cb_defs)
    with Cons.IH [of ?b] Cons.prems True show ?thesis by simp
  next
    case False
    then have "cb_state ?b = circuitOpen" using Cons.prems by (simp add: cb_defs)
    with opened False show ?thesis by simp
  qed
qed simp

text \<open>A closed breaker opens at exactly the configured number of consecutive failures: after a
  success, or when new, it stays closed through every shorter run of failures and is open from
  then on.\<close>

theorem breaker_threshold:
  assumes "cb_state b = circuitClosed" and "0 < FailureThreshold (cb_cfg b)"
  shows "cb_state (fold (\<lambda>now. complete now False False) ticks (complete t False True b)) =
    (if int (length ticks) < FailureThreshold (cb_cfg b) then circuitClosed else circuitOpen)"
  using failures_counted [of "complete t False True b" ticks] assms by (simp add: cb_defs)

theorem breaker_threshold_witness:
  "cb_state (fold (\<lambda>now. complete now False False) [1, 2, 3, 4, 5]
     (complete 0 False True (newCircuitBreaker ''k'' (cb_normalized
        \<lparr>FailureThreshold = 0, OpenInterval = 0, HalfOpenMaxProbes = 0\<rparr>)))) = circuitOpen"
  by (subst breaker_threshold) (simp_all add: newCircuitBreaker_def cb_normalized_def)

text \<open>C20. An open breaker rejects every call until its interval has passed, telling how long is left,
  and lets a probe through from then on; a successful probe that is the only one closes the
  breaker with its failure count reset, a failed one opens it again at the present time.\<close>

theorem breaker_recovery:
  assumes "cb_ok cfg (b, ts)" and "cb_state b = circuitOpen"
  shows "if now < openedAt b + OpenInterval (cb_cfg b)
    then acquire now b = (b, Inl (CircuitOpenError (cb_key b) (openedAt b + OpenInterval (cb_cfg b) - now)))
    else \<exists>b'. acquire now b = (b', Inr True) \<and> cb_state b' = circuitHalfOpen \<and>
      cb_state (complete later True True b') = circuitClosed \<and>
      consecutiveFailed (complete later True True b') = 0 \<and>
      cb_state (complete later True False b') = circuitOpen \<and>
      openedAt (complete later True False b') = later"
  using assms by (auto simp: cb_ok_def cb_defs)

theorem breaker_recovery_witness:
  "\<exists>b b'. cb_state b = circuitOpen \<and> acquire 10 b = (b', Inr True) \<and> isl (snd (acquire 3 b))"
proof -
  let ?cfg = "\<lparr>FailureThreshold = 2, OpenInterval = 5, HalfOpenMaxProbes = 1\<rparr>"
  let ?b = "openLocked 0 (newCircuitBreaker ''k'' ?cfg)"
  have b: "cb_ok ?cfg (?b, {#})" "cb_state ?b = circuitOpen" "openedAt ?b + OpenInterval (cb_cfg ?b) = 5"
    by (simp_all add: cb_ok_def newCircuitBreaker_def cb_normalized_def openLocked_def transitionLocked_def)
  from breaker_recovery [OF b(1,2), of 10 11] b(3) obtain b' where "acquire 10 ?b = (b', Inr True)" by auto
  moreover have "isl (snd (acquire 3 ?b))" using breaker_recovery [OF b(1,2), of 3 4] b(3) by simp
  ultimately show ?thesis using b(2) by blast
qed

end
