(* ===== verification/Executor.thy ===== *)
theory Executor
  imports Breaker
begin

text \<open>
  The retrying HTTP executor of \<^verbatim>\<open>internal/platform/resiliencehttp/client.go\<close> and the request budget of
  \<^verbatim>\<open>budget.go\<close>. What the executor does not control is the record \<open>exec_ops\<close>: the state of the context
  and the clock, the HTTP client (\<^verbatim>\<open>net/http\<close>), the timer and the jitter. A call of the client and a
  sleep may change the whole state, breakers included, because other goroutines run meanwhile.
\<close>

section \<open>Retry policy\<close>

record RetryPolicy =
  MaxAttempts :: int
  BaseBackoff :: duration
  MaxBackoff :: duration
  MinimumAttemptGap :: duration

definition policy_normalized :: "RetryPolicy \<Rightarrow> RetryPolicy" where
  "policy_normalized policy =
    (let p1 = (if MaxAttempts policy \<le> 0 then policy\<lparr>MaxAttempts := 1\<rparr> else policy);
         p2 = (if BaseBackoff p1 \<le> 0 then p1\<lparr>BaseBackoff := 50000000\<rparr> else p1);
         p3 = (if MaxBackoff p2 \<le> 0 then p2\<lparr>MaxBackoff := 500000000\<rparr> else p2);
         p4 = (if MaxBackoff p3 < BaseBackoff p3 then p3\<lparr>BaseBackoff := MaxBackoff p3\<rparr> else p3)
     in if MinimumAttemptGap p4 \<le> 0 then p4\<lparr>MinimumAttemptGap := 100000000\<rparr> else p4)"

definition backoff :: "RetryPolicy \<Rightarrow> int \<Rightarrow> duration" where
  "backoff policy attempt = double_delay (MaxBackoff policy) (nat (attempt - 1)) (BaseBackoff policy)"

section \<open>Requests and contexts\<close>

datatype ctx_error = CtxCanceled | CtxDeadlineExceeded

text \<open>An error of \<^verbatim>\<open>client.Do\<close>: one that \<^verbatim>\<open>errors.As\<close> finds to be a \<^verbatim>\<open>net.Error\<close>, or another.\<close>

datatype call_error = NetError string | PlainError string

record http_request =
  rq_method :: string
  rq_url :: string
  rq_headers :: "(string \<times> string) list"
  rq_body :: string

record 'b http_response =
  hr_status :: int
  hr_body :: 'b

datatype exec_error =
    CtxError ctx_error
  | InsufficientBudget "exec_error option"
  | CircuitIsOpen CircuitOpenError
  | FactoryError string
  | CallError call_error
  | RetryableStatus int
  | NoResult

record 'w exec_state =
  xs_world :: 'w
  xs_breakers :: "(string \<times> circuitBreaker) list"

record ('w, 'b) exec_ops =
  x_ctxErr :: "'w \<Rightarrow> ctx_error option"
  x_deadline :: "'w \<Rightarrow> time option"
  x_requestID :: "'w \<Rightarrow> string"
  x_now :: "'w \<Rightarrow> time"
  x_format :: "time \<Rightarrow> string" \<comment> \<open>\<^verbatim>\<open>UTC().Format(time.RFC3339Nano)\<close>\<close>
  x_do :: "http_request \<Rightarrow> 'w exec_state \<Rightarrow> 'w exec_state \<times> (call_error + 'b http_response)"
  x_sleep :: "duration \<Rightarrow> 'w exec_state \<Rightarrow> 'w exec_state \<times> ctx_error option"
  x_jitter :: "duration \<Rightarrow> 'w \<Rightarrow> duration"

definition Remaining :: "('w, 'b) exec_ops \<Rightarrow> 'w \<Rightarrow> duration option" where
  "Remaining ops w = map_option (\<lambda>deadline. deadline - x_now ops w) (x_deadline ops w)"

definition DeadlineHeader :: string where "DeadlineHeader = ''X-Request-Deadline''"
definition RequestIDHeader :: string where "RequestIDHeader = ''X-Request-ID''"

definition ApplyMetadata :: "('w, 'b) exec_ops \<Rightarrow> 'w \<Rightarrow> http_request \<Rightarrow> http_request" where
  "ApplyMetadata ops w req =
    (let r1 = (if x_requestID ops w \<noteq> []
               then req\<lparr>rq_headers := AList.update RequestIDHeader (x_requestID ops w) (rq_headers req)\<rparr> else req)
     in case x_deadline ops w of
          None \<Rightarrow> r1
        | Some deadline \<Rightarrow>
            r1\<lparr>rq_headers := AList.update DeadlineHeader (x_format ops deadline) (rq_headers r1)\<rparr>)"

section \<open>Executor\<close>

definition shouldRetry :: "ctx_error option \<Rightarrow> call_error + 'b http_response \<Rightarrow> bool" where
  "shouldRetry ctxErr r =
    (case r of
       Inl e \<Rightarrow> (if ctxErr \<noteq> None then False else (case e of NetError _ \<Rightarrow> True | PlainError _ \<Rightarrow> False))
     | Inr resp \<Rightarrow> hr_status resp = 502 \<or> hr_status resp = 503 \<or> hr_status resp = 504)"

text \<open>\<^verbatim>\<open>breakerFor\<close>: the breaker of a key, created on first use.\<close>

definition breakerFor :: "CircuitBreakerConfig \<Rightarrow> string \<Rightarrow> 'w exec_state \<Rightarrow> circuitBreaker" where
  "breakerFor cfg key st =
    (case map_of (xs_breakers st) key of Some b \<Rightarrow> b | None \<Rightarrow> newCircuitBreaker key cfg)"

definition put_breaker :: "string \<Rightarrow> circuitBreaker \<Rightarrow> 'w exec_state \<Rightarrow> 'w exec_state" where
  "put_breaker key b st = st\<lparr>xs_breakers := AList.update key b (xs_breakers st)\<rparr>"

definition breaker_acquire ::
  "('w, 'b) exec_ops \<Rightarrow> CircuitBreakerConfig \<Rightarrow> string \<Rightarrow> 'w exec_state
    \<Rightarrow> 'w exec_state \<times> (CircuitOpenError + bool)" where
  "breaker_acquire ops cfg key st =
    (case acquire (x_now ops (xs_world st)) (breakerFor cfg key st) of
       (b, r) \<Rightarrow> (put_breaker key b st, r))"

definition breaker_complete ::
  "('w, 'b) exec_ops \<Rightarrow> CircuitBreakerConfig \<Rightarrow> string \<Rightarrow> bool \<Rightarrow> bool \<Rightarrow> 'w exec_state \<Rightarrow> 'w exec_state" where
  "breaker_complete ops cfg key probe success st =
    put_breaker key (complete (x_now ops (xs_world st)) probe success (breakerFor cfg key st)) st"

text \<open>The last error of an attempt that will be retried.\<close>

definition last_error :: "call_error + 'b http_response \<Rightarrow> exec_error" where
  "last_error r = (case r of Inl e \<Rightarrow> CallError e | Inr resp \<Rightarrow> RetryableStatus (hr_status resp))"

definition call_result :: "call_error + 'b http_response \<Rightarrow> exec_error + 'b http_response" where
  "call_result r = (case r of Inl e \<Rightarrow> Inl (CallError e) | Inr resp \<Rightarrow> Inr resp)"

text \<open>The loop of \<^verbatim>\<open>Do\<close> at \<^verbatim>\<open>attempt\<close>, with \<open>left\<close> rounds up to \<^verbatim>\<open>MaxAttempts\<close>.\<close>

fun do_loop ::
  "('w, 'b) exec_ops \<Rightarrow> CircuitBreakerConfig \<Rightarrow> string \<Rightarrow> RetryPolicy \<Rightarrow> ('w \<Rightarrow> string + http_request)
    \<Rightarrow> nat \<Rightarrow> int \<Rightarrow> exec_error option \<Rightarrow> 'w exec_state
    \<Rightarrow> 'w exec_state \<times> (exec_error + 'b http_response)" where
  "do_loop ops cfg key policy factory 0 attempt lastErr st =
    (st, Inl (case lastErr of Some e \<Rightarrow> e | None \<Rightarrow> NoResult))"
| "do_loop ops cfg key policy factory (Suc left) attempt lastErr st =
    (case x_ctxErr ops (xs_world st) of
       Some e \<Rightarrow> (st, Inl (CtxError e))
     | None \<Rightarrow>
         if 1 < attempt \<and> (case Remaining ops (xs_world st) of
              Some remaining \<Rightarrow> remaining \<le> MinimumAttemptGap policy | None \<Rightarrow> False)
         then (st, Inl (InsufficientBudget lastErr))
         else
           (case breaker_acquire ops cfg key st of
              (st1, Inl e) \<Rightarrow> (st1, Inl (CircuitIsOpen e))
            | (st1, Inr probe) \<Rightarrow>
                (case factory (xs_world st1) of
                   Inl e \<Rightarrow> (breaker_complete ops cfg key probe True st1, Inl (FactoryError e))
                 | Inr req \<Rightarrow>
                     let (st2, r) = x_do ops (ApplyMetadata ops (xs_world st1) req) st1;
                         retryable = shouldRetry (x_ctxErr ops (xs_world st2)) r;
                         st3 = breaker_complete ops cfg key probe (\<not> retryable) st2
                     in if \<not> retryable \<or> attempt = MaxAttempts policy then (st3, call_result r)
                        else
                          let delay = x_jitter ops (backoff policy attempt) (xs_world st3)
                          in if (case Remaining ops (xs_world st3) of
                                   Some remaining \<Rightarrow> remaining \<le> delay + MinimumAttemptGap policy
                                 | None \<Rightarrow> False)
                             then (st3, call_result r)
                             else
                               (case x_sleep ops delay st3 of
                                  (st4, Some e) \<Rightarrow> (st4, Inl (CtxError e))
                                | (st4, None) \<Rightarrow>
                                    do_loop ops cfg key policy factory left (attempt + 1)
                                      (Some (last_error r)) st4))))"

definition executor_Do ::
  "('w, 'b) exec_ops \<Rightarrow> CircuitBreakerConfig \<Rightarrow> string \<Rightarrow> string \<Rightarrow> RetryPolicy \<Rightarrow> ('w \<Rightarrow> string + http_request)
    \<Rightarrow> 'w exec_state \<Rightarrow> 'w exec_state \<times> (exec_error + 'b http_response)" where
  "executor_Do ops cfg upstream operation policy0 factory st =
    (let policy = policy_normalized policy0
     in do_loop ops cfg (upstream @ ''/'' @ operation) policy factory (nat (MaxAttempts policy)) 1 None st)"

section \<open>Request budget\<close>

record BudgetConfig =
  bc_Default :: duration
  bc_Maximum :: duration

definition budget_normalized :: "BudgetConfig \<Rightarrow> BudgetConfig" where
  "budget_normalized cfg =
    (let c1 = (if bc_Default cfg \<le> 0 then cfg\<lparr>bc_Default := 10000000000\<rparr> else cfg);
         c2 = (if bc_Maximum c1 \<le> 0 then c1\<lparr>bc_Maximum := 30000000000\<rparr> else c1)
     in if bc_Maximum c2 < bc_Default c2 then c2\<lparr>bc_Default := bc_Maximum c2\<rparr> else c2)"

text \<open>What \<^verbatim>\<open>BudgetHandler\<close> does with a request: the 504 reply of \<^verbatim>\<open>writeDeadlineExceeded\<close>, or the
  request id and deadline it passes on. \<open>parse\<close> is \<^verbatim>\<open>time.Parse\<close> on the header (empty when
  absent), \<open>parent\<close> the deadline of the incoming context.\<close>

definition BudgetHandler ::
  "BudgetConfig \<Rightarrow> (string \<Rightarrow> time option) \<Rightarrow> time \<Rightarrow> string \<Rightarrow> string \<Rightarrow> string \<Rightarrow> time option
    \<Rightarrow> string + string \<times> time" where
  "BudgetHandler cfg0 parse now header headerID uuid parent =
    (let cfg = budget_normalized cfg0;
         maximumDeadline = now + bc_Maximum cfg;
         d1 = (if header = [] then now + bc_Default cfg
               else case parse header of
                      None \<Rightarrow> now + bc_Default cfg
                    | Some parsed \<Rightarrow> if maximumDeadline < parsed then maximumDeadline else parsed);
         deadline = (case parent of
                       Some p \<Rightarrow> if p < d1 then p else d1
                     | None \<Rightarrow> d1);
         requestID = (if headerID = [] then ''req-'' @ uuid else headerID)
     in if \<not> now < deadline then Inl requestID else Inr (requestID, deadline))"

section \<open>Facts\<close>

lemma policy_normalized_ok:
  "1 \<le> MaxAttempts (policy_normalized p)"
  "0 < BaseBackoff (policy_normalized p)"
  "BaseBackoff (policy_normalized p) \<le> MaxBackoff (policy_normalized p)"
  "0 < MinimumAttemptGap (policy_normalized p)"
  by (auto simp: policy_normalized_def Let_def)

lemma budget_normalized_ok:
  "0 < bc_Default (budget_normalized c)" "bc_Default (budget_normalized c) \<le> bc_Maximum (budget_normalized c)"
  by (auto simp: budget_normalized_def Let_def)

text \<open>A rule for the executor: a state property \<open>P\<close> that the client, the timer and the breaker
  bookkeeping keep holds in the end, and a response that is returned satisfies what the client
  guarantees of its responses.\<close>

lemma do_loop_rule:
  assumes "P st"
    and do: "\<And>req s s' r. P s \<Longrightarrow> x_do ops req s = (s', r) \<Longrightarrow> P s' \<and> (\<forall>resp. r = Inr resp \<longrightarrow> Q resp s')"
    and sleep: "\<And>d s s' r. P s \<Longrightarrow> x_sleep ops d s = (s', r) \<Longrightarrow> P s'"
    and put: "\<And>b s. P s \<Longrightarrow> P (put_breaker key b s)"
    and put': "\<And>b resp s. Q resp s \<Longrightarrow> Q resp (put_breaker key b s)"
  shows "P (fst (do_loop ops cfg key policy factory left attempt lastErr st)) \<and>
    (\<forall>resp. snd (do_loop ops cfg key policy factory left attempt lastErr st) = Inr resp \<longrightarrow>
      Q resp (fst (do_loop ops cfg key policy factory left attempt lastErr st)))"
  using assms(1)
proof (induction left arbitrary: attempt lastErr st)
  case (Suc left)
  have acq: "P (fst (breaker_acquire ops cfg key s))" if "P s" for s
    using that put by (simp add: breaker_acquire_def split: prod.split)
  have com: "P (breaker_complete ops cfg key pr su s)" if "P s" for s pr su
    using that put by (simp add: breaker_complete_def)
  have com': "Q resp (breaker_complete ops cfg key pr su s)" if "Q resp s" for s pr su resp
    using that put' by (simp add: breaker_complete_def)
  obtain st1 tok where a: "breaker_acquire ops cfg key st = (st1, tok)" by fastforce
  then have st1: "P st1" using acq [OF Suc.prems] by simp
  show ?case
  proof (cases "\<exists>probe req. tok = Inr probe \<and> factory (xs_world st1) = Inr req")
    case False
    then show ?thesis using Suc.prems a st1 com
      by (auto split: option.split sum.split)
  next
    case True
    then obtain probe req where t: "tok = Inr probe" "factory (xs_world st1) = Inr req" by blast
    obtain st2 r where d: "x_do ops (ApplyMetadata ops (xs_world st1) req) st1 = (st2, r)" by fastforce
    note d2 = do [OF st1 d]
    let ?st3 = "\<lambda>b. breaker_complete ops cfg key probe b st2"
    have st3: "P (?st3 b)" "\<forall>resp. call_result r = Inr resp \<longrightarrow> Q resp (?st3 b)" for b
      using d2 com com' by (auto simp: call_result_def split: sum.splits)
    have st4: "P (fst (x_sleep ops d (?st3 b)))" for d b
      using sleep [OF st3(1)] by (metis prod.collapse)
    show ?thesis
      using Suc.prems a t d st3 st4 Suc.IH
      by (auto simp: Let_def split: option.split prod.split) (metis fst_conv)+
  qed
qed simp

section \<open>Attempts\<close>

text \<open>The same executor with every result of the HTTP client written to a log beside the world.\<close>

type_synonym 'b call_log = "(call_error + 'b http_response) list"

definition recording :: "('w, 'b) exec_ops \<Rightarrow> ('w \<times> 'b call_log, 'b) exec_ops" where
  "recording ops =
    \<lparr>x_ctxErr = x_ctxErr ops \<circ> fst, x_deadline = x_deadline ops \<circ> fst, x_requestID = x_requestID ops \<circ> fst,
     x_now = x_now ops \<circ> fst, x_format = x_format ops,
     x_do = (\<lambda>req st. case x_do ops req \<lparr>xs_world = fst (xs_world st), xs_breakers = xs_breakers st\<rparr> of
        (st', r) \<Rightarrow> (\<lparr>xs_world = (xs_world st', snd (xs_world st) @ [r]), xs_breakers = xs_breakers st'\<rparr>, r)),
     x_sleep = (\<lambda>d st. case x_sleep ops d \<lparr>xs_world = fst (xs_world st), xs_breakers = xs_breakers st\<rparr> of
        (st', r) \<Rightarrow> (\<lparr>xs_world = (xs_world st', snd (xs_world st)), xs_breakers = xs_breakers st'\<rparr>, r)),
     x_jitter = (\<lambda>d w. x_jitter ops d (fst w))\<rparr>"

definition calls :: "('w \<times> 'b call_log) exec_state \<Rightarrow> 'b call_log" where
  "calls st = snd (xs_world st)"

lemma calls_simps [simp]:
  "calls (put_breaker key b st) = calls st"
  "calls (fst (breaker_acquire (recording ops) cfg key st)) = calls st"
  "calls (breaker_complete (recording ops) cfg key probe success st) = calls st"
  "calls (fst (x_sleep (recording ops) d st)) = calls st"
  "calls (fst (x_do (recording ops) req st)) = calls st @ [snd (x_do (recording ops) req st)]"
  by (simp_all add: calls_def put_breaker_def breaker_acquire_def breaker_complete_def recording_def
      split: prod.split)

text \<open>An outcome that may be retried: a network error or a 502, 503 or 504.\<close>

definition transient :: "call_error + 'b http_response \<Rightarrow> bool" where
  "transient r = shouldRetry None r"

lemma shouldRetry_transient: "shouldRetry ctxErr r \<Longrightarrow> transient r"
  by (auto simp: transient_def shouldRetry_def split: sum.splits if_splits)

text \<open>What is shown of the calls of a run that started in \<open>st\<close> with at most \<open>n\<close> rounds.\<close>

definition calls_ok ::
  "nat \<Rightarrow> ('w \<times> 'b call_log) exec_state \<Rightarrow> ('w \<times> 'b call_log) exec_state \<times> (exec_error + 'b http_response) \<Rightarrow> bool" where
  "calls_ok n st x \<longleftrightarrow> (\<exists>log. calls (fst x) = calls st @ log \<and> length log \<le> n \<and> list_all transient (butlast log) \<and>
     (\<forall>resp. snd x = Inr resp \<longrightarrow> log \<noteq> [] \<and> last log = Inr resp))"

lemma calls_ok_error: "calls st' = calls st \<Longrightarrow> calls_ok n st (st', Inl e)"
  by (simp add: calls_ok_def)

lemma calls_ok_one:
  "calls st' = calls st @ [r] \<Longrightarrow> (\<And>resp. res = Inr resp \<Longrightarrow> r = Inr resp) \<Longrightarrow> calls_ok (Suc n) st (st', res)"
  by (simp add: calls_ok_def)

lemma calls_ok_more:
  assumes "calls_ok n st' x" and "calls st' = calls st @ [r]" and "transient r"
  shows "calls_ok (Suc n) st x"
proof -
  from assms(1) obtain log where "calls (fst x) = calls st' @ log" "length log \<le> n"
    "list_all transient (butlast log)" "\<forall>resp. snd x = Inr resp \<longrightarrow> log \<noteq> [] \<and> last log = Inr resp"
    unfolding calls_ok_def by blast
  with assms(2,3) show ?thesis unfolding calls_ok_def by (intro exI [of _ "r # log"]) simp
qed

lemma do_loop_calls: "calls_ok left st (do_loop (recording ops) cfg key policy factory left attempt lastErr st)"
proof (induction left arbitrary: attempt lastErr st)
  case (Suc left)
  let ?ops = "recording ops"
  obtain st1 tok where a: "breaker_acquire ?ops cfg key st = (st1, tok)" by fastforce
  then have c1: "calls st1 = calls st" using calls_simps(2) [of ops cfg key st] by simp
  show ?case
  proof (cases "\<exists>probe req. tok = Inr probe \<and> factory (xs_world st1) = Inr req")
    case False
    then show ?thesis using a c1 by (auto split: option.split sum.split intro!: calls_ok_error)
  next
    case True
    then obtain probe req where t: "tok = Inr probe" "factory (xs_world st1) = Inr req" by blast
    obtain st2 r where d: "x_do ?ops (ApplyMetadata ?ops (xs_world st1) req) st1 = (st2, r)" by fastforce
    have c2: "calls st2 = calls st @ [r]"
      using calls_simps(5) [of ops "ApplyMetadata ?ops (xs_world st1) req" st1] by (simp add: d c1)
    let ?re = "shouldRetry (x_ctxErr ?ops (xs_world st2)) r"
    let ?st3 = "breaker_complete ?ops cfg key probe (\<not> ?re) st2"
    let ?d = "x_jitter ?ops (backoff policy attempt) (xs_world ?st3)"
    obtain st4 e where s: "x_sleep ?ops ?d ?st3 = (st4, e)" by fastforce
    have c4: "calls st4 = calls st @ [r]"
      using calls_simps(4) [of ops ?d ?st3] by (simp add: s c2)
    have stop: "calls_ok (Suc left) st (?st3, call_result r)" "calls_ok (Suc left) st (st4, Inl e')" for e'
      using c2 c4 by (auto intro!: calls_ok_one simp: call_result_def split: sum.splits)
    have go: "calls_ok (Suc left) st (do_loop ?ops cfg key policy factory left (attempt + 1) (Some (last_error r)) st4)"
      if ?re using calls_ok_more [OF Suc.IH c4 shouldRetry_transient [OF that]] .
    have early: "calls_ok (Suc left) st (st, Inl e')" for e' by (rule calls_ok_error) simp
    show ?thesis
      using a t d s stop go early by (auto simp: Let_def split: option.split)
  qed
qed (simp add: calls_ok_error)

section \<open>Properties\<close>

text \<open>C21. The executor calls the HTTP client at most \<^verbatim>\<open>MaxAttempts\<close> times, makes a further attempt only
  after a network error or a 502, 503 or 504, and the response it returns is that of its last
  attempt, whatever the context, the clock, the breakers and the network do.\<close>

theorem executor_attempts:
  assumes "executor_Do (recording ops) cfg upstream operation policy factory st = (st', res)"
  shows "\<exists>log. calls st' = calls st @ log \<and> length log \<le> nat (MaxAttempts (policy_normalized policy)) \<and>
      list_all transient (butlast log) \<and> (\<forall>resp. res = Inr resp \<longrightarrow> log \<noteq> [] \<and> last log = Inr resp)"
  using do_loop_calls [of "nat (MaxAttempts (policy_normalized policy))" st ops cfg "upstream @ ''/'' @ operation"
      "policy_normalized policy" factory 1 None] assms
  by (simp add: executor_Do_def Let_def calls_ok_def)

text \<open>An upstream that always answers 503, in a context without deadline.\<close>

definition busy_ops :: "(unit, unit) exec_ops" where
  "busy_ops = \<lparr>x_ctxErr = (\<lambda>_. None), x_deadline = (\<lambda>_. None), x_requestID = (\<lambda>_. []), x_now = (\<lambda>_. 0),
     x_format = (\<lambda>_. []), x_do = (\<lambda>_ st. (st, Inr \<lparr>hr_status = 503, hr_body = ()\<rparr>)),
     x_sleep = (\<lambda>_ st. (st, None)), x_jitter = (\<lambda>d _. d)\<rparr>"

theorem executor_attempts_witness:
  "\<exists>st' res. executor_Do (recording busy_ops) \<lparr>FailureThreshold = 5, OpenInterval = 1, HalfOpenMaxProbes = 1\<rparr>
      ''inventory'' ''confirm'' \<lparr>MaxAttempts = 3, BaseBackoff = 1, MaxBackoff = 2, MinimumAttemptGap = 1\<rparr>
      (\<lambda>_. Inr \<lparr>rq_method = ''POST'', rq_url = [], rq_headers = [], rq_body = []\<rparr>)
      \<lparr>xs_world = ((), []), xs_breakers = []\<rparr> = (st', res) \<and>
    (\<exists>log. calls st' = [] @ log \<and> length log \<le> 3)"
proof -
  let ?p = "\<lparr>MaxAttempts = 3, BaseBackoff = 1, MaxBackoff = 2, MinimumAttemptGap = 1\<rparr>"
  let ?st = "\<lparr>xs_world = ((), []), xs_breakers = []\<rparr> :: (unit \<times> unit call_log) exec_state"
  obtain st' res where run: "executor_Do (recording busy_ops)
      \<lparr>FailureThreshold = 5, OpenInterval = 1, HalfOpenMaxProbes = 1\<rparr> ''inventory'' ''confirm'' ?p
      (\<lambda>_. Inr \<lparr>rq_method = ''POST'', rq_url = [], rq_headers = [], rq_body = []\<rparr>) ?st = (st', res)"
    by fastforce
  have "policy_normalized ?p = ?p" "calls ?st = []" by (simp_all add: policy_normalized_def calls_def)
  with executor_attempts [OF run] have "\<exists>log. calls st' = [] @ log \<and> length log \<le> 3" by auto
  with run show ?thesis by blast
qed

text \<open>The delay before a retry lies between the base and the maximum of the normalised policy, and
  is the base doubled per attempt until it reaches the maximum; no doubling overflows.\<close>

theorem backoff_bounds:
  assumes "MaxBackoff (policy_normalized p) \<le> int64_max" and "1 \<le> attempt"
  shows "let q = policy_normalized p; d = BaseBackoff q * 2 ^ nat (attempt - 1) in
    BaseBackoff q \<le> backoff q attempt \<and> backoff q attempt \<le> MaxBackoff q \<and>
    (backoff q attempt = d \<or> backoff q attempt = MaxBackoff q \<and> MaxBackoff q \<le> d + 1)"
  using double_delay_bounds [OF policy_normalized_ok(2,3) assms(1), of "nat (attempt - 1)"]
    double_delay_value [OF policy_normalized_ok(2,3) assms(1), of "nat (attempt - 1)"]
  by (auto simp: Let_def backoff_def)

theorem backoff_bounds_witness:
  "let q = policy_normalized \<lparr>MaxAttempts = 3, BaseBackoff = 50, MaxBackoff = 300, MinimumAttemptGap = 100\<rparr> in
    50 \<le> backoff q 2 \<and> backoff q 2 \<le> 300"
proof -
  let ?p = "\<lparr>MaxAttempts = 3, BaseBackoff = 50, MaxBackoff = 300, MinimumAttemptGap = 100\<rparr>"
  have "policy_normalized ?p = ?p" by (simp add: policy_normalized_def)
  with backoff_bounds [of ?p 2] show ?thesis by (simp add: Let_def int64_defs)
qed

text \<open>A request that passes the budget handler carries a deadline in the future that is no later
  than the configured maximum from now, than the deadline of the incoming context and than a
  deadline the caller sent; a request without time left is answered at once.\<close>

theorem budget_deadline:
  "case BudgetHandler cfg parse now header headerID uuid parent of
     Inl requestID \<Rightarrow> (case parent of Some p \<Rightarrow> p \<le> now | None \<Rightarrow> False) \<or>
       (header \<noteq> [] \<and> (case parse header of Some d \<Rightarrow> d \<le> now | None \<Rightarrow> False))
   | Inr (requestID, deadline) \<Rightarrow> now < deadline \<and> deadline \<le> now + bc_Maximum (budget_normalized cfg) \<and>
       (case parent of Some p \<Rightarrow> deadline \<le> p | None \<Rightarrow> True) \<and>
       (header = [] \<or> (case parse header of Some d \<Rightarrow> deadline \<le> d | None \<Rightarrow> True))"
  using budget_normalized_ok [of cfg]
  by (auto simp: BudgetHandler_def Let_def split: option.splits if_splits)

end
