(* ===== verification/Inventory.thy ===== *)
theory Inventory
  imports Database
begin

text \<open>
  The inventory service, \<^verbatim>\<open>internal/inventorysvc/inventory.go\<close> and \<^verbatim>\<open>grpc.go\<close>: stock per product,
  split into an available and a reserved quantity, and reservations that move it between the
  two. The record \<open>inventory_db\<close> is the service's database with the constraints of
  \<^verbatim>\<open>migrations/inventory\<close>; \<open>inventory_Reserve\<close>, \<open>inventory_Confirm\<close> and \<open>inventory_Release\<close>
  are the operations the order saga calls; \<open>inv_ok\<close> is the invariant every operation keeps:
  the reserved quantity of a product is what its pending reservations hold, and the stock log
  accounts for both quantities.
\<close>

section \<open>Data\<close>

datatype reservation_status = ReservationPending | ReservationConfirmed | ReservationReleased

datatype inv_error =
    ErrInventoryNotFound
  | ErrInsufficientInventory
  | ErrReservationNotFound
  | ErrReservationTransition
  | ErrInvalidInventoryAmount
  | ForProduct inv_error int \<comment> \<open>\<^verbatim>\<open>fmt.Errorf("%w: product %d", err, id)\<close>\<close>
  | InvRecordNotFound \<comment> \<open>\<^verbatim>\<open>gorm.ErrRecordNotFound\<close> passed on\<close>
  | InvDB db_error

fun inv_Is :: "inv_error \<Rightarrow> inv_error \<Rightarrow> bool" where
  "inv_Is (ForProduct e p) t = (ForProduct e p = t \<or> inv_Is e t)"
| "inv_Is e t = (e = t)"

record Inventory =
  inv_ProductID :: int
  inv_AvailableQuantity :: int
  inv_ReservedQuantity :: int
  inv_Version :: int
  inv_CreatedAt :: time
  inv_UpdatedAt :: time

text \<open>A row of \<^verbatim>\<open>inventory_reservations\<close>; the struct's \<^verbatim>\<open>Items\<close> are joined in by \<open>preload\<close>.\<close>

record Reservation =
  res_ID :: string
  res_OrderID :: int
  res_Status :: reservation_status
  res_CreatedAt :: time
  res_UpdatedAt :: time

record ReservationItem =
  ri_ID :: int
  ri_ReservationID :: string
  ri_ProductID :: int
  ri_Quantity :: int

datatype change_type = LogInitialize | LogAdd | LogReserve | LogConfirm | LogRelease

record StockLog =
  sl_ID :: int
  sl_ProductID :: int
  sl_ChangeType :: change_type
  sl_Quantity :: int
  sl_ReferenceID :: string
  sl_CreatedAt :: time

record ItemRequest =
  ir_ProductID :: int
  ir_Quantity :: int

record ReserveRequest =
  rr_OrderID :: int
  rr_ReservationID :: string
  rr_Items :: "ItemRequest list"

text \<open>The service's database. \<open>inv_collate\<close> maps a string to its key under the collation of the
  text columns (\<^verbatim>\<open>utf8mb4_general_ci\<close>): equality in \<^verbatim>\<open>WHERE\<close> and in unique keys is equality of
  these keys.\<close>

record inventory_db =
  inventory_items :: "Inventory list"
  inventory_reservations :: "Reservation list"
  inventory_reservation_items :: "ReservationItem list"
  inventory_stock_logs :: "StockLog list"
  inv_next_item :: int
  inv_next_log :: int
  inv_collate :: "string \<Rightarrow> string"

datatype inv_site =
    InvFind | InvInsert | InvLock int | InvUpdate int | InvLog int | InvReread
  | ResFind | ResInsert | ResItemInsert int | ResReload | ResLock | ResSetStatus
  | LogCount | LogList | InvCommit

section \<open>Statements\<close>

text \<open>\<^verbatim>\<open>BIGINT\<close> columns and \<^verbatim>\<open>chk_inventory_available\<close>, \<^verbatim>\<open>chk_inventory_reserved\<close>.\<close>

definition inv_check :: "Inventory \<Rightarrow> db_error option" where
  "inv_check r =
    (if \<not> int64 (inv_AvailableQuantity r) \<or> \<not> int64 (inv_ReservedQuantity r) \<or> \<not> int64 (inv_Version r)
     then Some OutOfRange
     else if inv_AvailableQuantity r < 0 \<or> inv_ReservedQuantity r < 0 then Some CheckViolated
     else None)"

text \<open>\<^verbatim>\<open>chk_inventory_reservation_quantity\<close>.\<close>

definition ritem_check :: "ReservationItem \<Rightarrow> db_error option" where
  "ritem_check r = (if ri_Quantity r \<le> 0 then Some CheckViolated else None)"

definition create_stock_log ::
  "inv_site env \<Rightarrow> int \<Rightarrow> change_type \<Rightarrow> int \<Rightarrow> string \<Rightarrow> inventory_db \<Rightarrow> db_error + inventory_db" where
  "create_stock_log env pid ct q ref tx =
    stmt env (InvLog pid) (Inr (tx\<lparr>
      inventory_stock_logs := inventory_stock_logs tx @
        [\<lparr>sl_ID = inv_next_log tx, sl_ProductID = pid, sl_ChangeType = ct, sl_Quantity = q,
          sl_ReferenceID = ref, sl_CreatedAt = e_now env (InvLog pid)\<rparr>],
      inv_next_log := inv_next_log tx + 1\<rparr>))"

text \<open>\<^verbatim>\<open>tx.Model(&Inventory{}).Where(...).Updates(...)\<close>, with \<^verbatim>\<open>RowsAffected\<close>.\<close>

definition update_inventory ::
  "inv_site env \<Rightarrow> int \<Rightarrow> (Inventory \<Rightarrow> bool) \<Rightarrow> (Inventory \<Rightarrow> Inventory) \<Rightarrow> inventory_db
    \<Rightarrow> db_error + inventory_db \<times> nat" where
  "update_inventory env pid p f tx =
    (case stmt env (InvUpdate pid)
        (sql_update inv_check (\<lambda>r. inv_ProductID r = pid \<and> p r)
          (\<lambda>r. (f r)\<lparr>inv_Version := inv_Version r + 1, inv_UpdatedAt := e_now env (InvUpdate pid)\<rparr>)
          (inventory_items tx)) of
       Inl d \<Rightarrow> Inl d
     | Inr (rows, n) \<Rightarrow> Inr (tx\<lparr>inventory_items := rows\<rparr>, n))"

definition lookup_inventory :: "int \<Rightarrow> inventory_db \<Rightarrow> Inventory option" where
  "lookup_inventory pid tx = lookup_by inv_ProductID pid (inventory_items tx)"

text \<open>\<^verbatim>\<open>First(&reservation, "id = ?", id)\<close>.\<close>

definition lookup_reservation :: "string \<Rightarrow> inventory_db \<Rightarrow> Reservation option" where
  "lookup_reservation rid tx =
    lookup_by (\<lambda>r. inv_collate tx (res_ID r)) (inv_collate tx rid) (inventory_reservations tx)"

text \<open>\<^verbatim>\<open>Preload("Items")\<close>.\<close>

definition preload :: "inventory_db \<Rightarrow> Reservation \<Rightarrow> Reservation \<times> ReservationItem list" where
  "preload tx r =
    (r, filter (\<lambda>i. ri_ReservationID i = res_ID r) (inventory_reservation_items tx))"

section \<open>Service\<close>

definition inventory_Get :: "inv_site env \<Rightarrow> int \<Rightarrow> inventory_db \<Rightarrow> inv_error + Inventory" where
  "inventory_Get env pid db =
    (case stmt env InvFind (Inr (lookup_inventory pid db)) of
       Inl d \<Rightarrow> Inl (InvDB d)
     | Inr None \<Rightarrow> Inl ErrInventoryNotFound
     | Inr (Some r) \<Rightarrow> Inr r)"

definition inventory_Init ::
  "inv_site env \<Rightarrow> int \<Rightarrow> int \<Rightarrow> inventory_db \<Rightarrow> inventory_db \<times> (inv_error + Inventory)" where
  "inventory_Init env pid q db =
    (if pid \<le> 0 \<or> q < 0 then (db, Inl ErrInvalidInventoryAmount)
     else
       let inventory =
         \<lparr>inv_ProductID = pid, inv_AvailableQuantity = q, inv_ReservedQuantity = 0, inv_Version = 0,
          inv_CreatedAt = e_now env InvInsert, inv_UpdatedAt = e_now env InvInsert\<rparr>
       in Transaction (e_out env InvCommit) InvDB (\<lambda>tx.
         case stmt env InvInsert
             (sql_insert inv_check (\<lambda>a b. inv_ProductID a = inv_ProductID b) inventory (inventory_items tx)) of
           Inl d \<Rightarrow> Inl (InvDB d)
         | Inr rows \<Rightarrow>
             (case create_stock_log env pid LogInitialize q [] (tx\<lparr>inventory_items := rows\<rparr>) of
                Inl d \<Rightarrow> Inl (InvDB d)
              | Inr tx' \<Rightarrow> Inr (tx', inventory))) db)"

definition inventory_Add ::
  "inv_site env \<Rightarrow> int \<Rightarrow> int \<Rightarrow> inventory_db \<Rightarrow> inventory_db \<times> (inv_error + Inventory)" where
  "inventory_Add env pid q db =
    (if pid \<le> 0 \<or> q \<le> 0 then (db, Inl ErrInvalidInventoryAmount)
     else Transaction (e_out env InvCommit) InvDB (\<lambda>tx.
       case stmt env (InvLock pid) (Inr (lookup_inventory pid tx)) of
         Inl d \<Rightarrow> Inl (InvDB d)
       | Inr None \<Rightarrow> Inl ErrInventoryNotFound
       | Inr (Some _) \<Rightarrow>
           (case update_inventory env pid (\<lambda>r. True)
               (\<lambda>r. r\<lparr>inv_AvailableQuantity := inv_AvailableQuantity r + q\<rparr>) tx of
              Inl d \<Rightarrow> Inl (InvDB d)
            | Inr (tx1, _) \<Rightarrow>
                (case create_stock_log env pid LogAdd q [] tx1 of
                   Inl d \<Rightarrow> Inl (InvDB d)
                 | Inr tx2 \<Rightarrow>
                     (case stmt env InvReread (Inr (lookup_inventory pid tx2)) of
                        Inl d \<Rightarrow> Inl (InvDB d)
                      | Inr None \<Rightarrow> Inl InvRecordNotFound
                      | Inr (Some r) \<Rightarrow> Inr (tx2, r))))) db)"

definition normalizeItems :: "ItemRequest list \<Rightarrow> inv_error + ItemRequest list" where
  "normalizeItems items =
    (if items = [] \<or> 100 < length items then Inl ErrInvalidInventoryAmount
     else
       case sum_quantities (map (\<lambda>i. (ir_ProductID i, ir_Quantity i)) items) [] of
         None \<Rightarrow> Inl ErrInvalidInventoryAmount
       | Some quantities \<Rightarrow>
           Inr (map (\<lambda>(p, q). \<lparr>ir_ProductID = p, ir_Quantity = q\<rparr>) (sort_key fst quantities)))"

text \<open>The body of the loop of \<^verbatim>\<open>Reserve\<close> for one item.\<close>

definition reserve_item ::
  "inv_site env \<Rightarrow> string \<Rightarrow> ItemRequest \<Rightarrow> inventory_db \<Rightarrow> inv_error + inventory_db" where
  "reserve_item env rid item tx =
    (let pid = ir_ProductID item; q = ir_Quantity item in
     case stmt env (InvLock pid) (Inr (lookup_inventory pid tx)) of
       Inl d \<Rightarrow> Inl (InvDB d)
     | Inr None \<Rightarrow> Inl (ForProduct ErrInventoryNotFound pid)
     | Inr (Some inventory) \<Rightarrow>
         if inv_AvailableQuantity inventory < q then Inl (ForProduct ErrInsufficientInventory pid)
         else
           (case update_inventory env pid (\<lambda>r. q \<le> inv_AvailableQuantity r)
               (\<lambda>r. r\<lparr>inv_AvailableQuantity := inv_AvailableQuantity r - q,
                      inv_ReservedQuantity := inv_ReservedQuantity r + q\<rparr>) tx of
              Inl d \<Rightarrow> Inl (InvDB d)
            | Inr (tx1, n) \<Rightarrow>
                if n \<noteq> 1 then Inl (ForProduct ErrInsufficientInventory pid)
                else
                  (case stmt env (ResItemInsert pid)
                      (sql_insert ritem_check
                        (\<lambda>a b. inv_collate tx1 (ri_ReservationID a) = inv_collate tx1 (ri_ReservationID b)
                             \<and> ri_ProductID a = ri_ProductID b)
                        \<lparr>ri_ID = inv_next_item tx1, ri_ReservationID = rid, ri_ProductID = pid,
                         ri_Quantity = q\<rparr>
                        (inventory_reservation_items tx1)) of
                     Inl d \<Rightarrow> Inl (InvDB d)
                   | Inr rows \<Rightarrow>
                       (case create_stock_log env pid LogReserve (wrap64 (- q)) rid
                           (tx1\<lparr>inventory_reservation_items := rows,
                                inv_next_item := inv_next_item tx1 + 1\<rparr>) of
                          Inl d \<Rightarrow> Inl (InvDB d)
                        | Inr tx2 \<Rightarrow> Inr tx2))))"

fun reserve_items ::
  "inv_site env \<Rightarrow> string \<Rightarrow> ItemRequest list \<Rightarrow> inventory_db \<Rightarrow> inv_error + inventory_db" where
  "reserve_items env rid [] tx = Inr tx"
| "reserve_items env rid (item # items) tx =
    (case reserve_item env rid item tx of
       Inl e \<Rightarrow> Inl e
     | Inr tx' \<Rightarrow> reserve_items env rid items tx')"

text \<open>\<^verbatim>\<open>tx.Create(&reservation)\<close> with status \<^verbatim>\<open>pending\<close>, under the primary key and
  \<^verbatim>\<open>uk_inventory_reservation_order\<close>.\<close>

definition create_reservation ::
  "inv_site env \<Rightarrow> string \<Rightarrow> int \<Rightarrow> inventory_db \<Rightarrow> db_error + inventory_db" where
  "create_reservation env rid oid tx =
    (case stmt env ResInsert
        (sql_insert (\<lambda>_. None)
          (\<lambda>a b. inv_collate tx (res_ID a) = inv_collate tx (res_ID b) \<or> res_OrderID a = res_OrderID b)
          \<lparr>res_ID = rid, res_OrderID = oid, res_Status = ReservationPending,
           res_CreatedAt = e_now env ResInsert, res_UpdatedAt = e_now env ResInsert\<rparr>
          (inventory_reservations tx)) of
       Inl d \<Rightarrow> Inl d
     | Inr rows \<Rightarrow> Inr (tx\<lparr>inventory_reservations := rows\<rparr>))"

definition reserve_body ::
  "inv_site env \<Rightarrow> int \<Rightarrow> string \<Rightarrow> ItemRequest list \<Rightarrow> inventory_db
    \<Rightarrow> inv_error + inventory_db \<times> Reservation \<times> ReservationItem list" where
  "reserve_body env oid rid items tx =
    (case stmt env ResFind (Inr (lookup_by res_OrderID oid (inventory_reservations tx))) of
       Inl d \<Rightarrow> Inl (InvDB d)
     | Inr (Some existing) \<Rightarrow> Inr (tx, preload tx existing)
     | Inr None \<Rightarrow>
         (case create_reservation env rid oid tx of
            Inl d \<Rightarrow> Inl (InvDB d)
          | Inr tx1 \<Rightarrow>
              (case reserve_items env rid items tx1 of
                 Inl e \<Rightarrow> Inl e
               | Inr tx2 \<Rightarrow>
                   (case stmt env ResReload (Inr (lookup_reservation rid tx2)) of
                      Inl d \<Rightarrow> Inl (InvDB d)
                    | Inr None \<Rightarrow> Inl InvRecordNotFound
                    | Inr (Some r) \<Rightarrow> Inr (tx2, preload tx2 r)))))"

definition inventory_Reserve ::
  "inv_site env \<Rightarrow> ReserveRequest \<Rightarrow> inventory_db
    \<Rightarrow> inventory_db \<times> (inv_error + Reservation \<times> ReservationItem list)" where
  "inventory_Reserve env req db =
    (case normalizeItems (rr_Items req) of
       Inl _ \<Rightarrow> (db, Inl ErrInvalidInventoryAmount)
     | Inr items \<Rightarrow>
         if rr_OrderID req \<le> 0 then (db, Inl ErrInvalidInventoryAmount)
         else
           let trimmed = TrimSpace (rr_ReservationID req);
               reservationID = (if trimmed = [] then e_uuid env else trimmed)
           in Transaction (e_out env InvCommit) InvDB
                (reserve_body env (rr_OrderID req) reservationID items) db)"

text \<open>The body of the loop of \<^verbatim>\<open>transition\<close> for one item of the reservation.\<close>

definition transition_item ::
  "inv_site env \<Rightarrow> string \<Rightarrow> reservation_status \<Rightarrow> ReservationItem \<Rightarrow> inventory_db
    \<Rightarrow> inv_error + inventory_db" where
  "transition_item env rid target item tx =
    (let pid = ri_ProductID item; q = ri_Quantity item in
     case stmt env (InvLock pid) (Inr (lookup_inventory pid tx)) of
       Inl d \<Rightarrow> Inl (InvDB d)
     | Inr None \<Rightarrow> Inl InvRecordNotFound
     | Inr (Some _) \<Rightarrow>
         let updates = (\<lambda>r. if target = ReservationReleased
               then r\<lparr>inv_ReservedQuantity := inv_ReservedQuantity r - q,
                      inv_AvailableQuantity := inv_AvailableQuantity r + q\<rparr>
               else r\<lparr>inv_ReservedQuantity := inv_ReservedQuantity r - q\<rparr>);
             changeType = (if target = ReservationReleased then LogRelease else LogConfirm);
             logQuantity = (if target = ReservationReleased then q else wrap64 (- q))
         in (case update_inventory env pid (\<lambda>r. q \<le> inv_ReservedQuantity r) updates tx of
               Inl d \<Rightarrow> Inl (InvDB d)
             | Inr (tx1, n) \<Rightarrow>
                 if n \<noteq> 1 then Inl ErrReservationTransition
                 else
                   (case create_stock_log env pid changeType logQuantity rid tx1 of
                      Inl d \<Rightarrow> Inl (InvDB d)
                    | Inr tx2 \<Rightarrow> Inr tx2)))"

fun transition_items ::
  "inv_site env \<Rightarrow> string \<Rightarrow> reservation_status \<Rightarrow> ReservationItem list \<Rightarrow> inventory_db
    \<Rightarrow> inv_error + inventory_db" where
  "transition_items env rid target [] tx = Inr tx"
| "transition_items env rid target (item # items) tx =
    (case transition_item env rid target item tx of
       Inl e \<Rightarrow> Inl e
     | Inr tx' \<Rightarrow> transition_items env rid target items tx')"

definition set_reservation_status ::
  "inv_site env \<Rightarrow> string \<Rightarrow> reservation_status \<Rightarrow> inventory_db \<Rightarrow> db_error + inventory_db" where
  "set_reservation_status env rid target tx =
    (case stmt env ResSetStatus
        (sql_update (\<lambda>_. None) (\<lambda>r. inv_collate tx (res_ID r) = inv_collate tx rid)
          (\<lambda>r. r\<lparr>res_Status := target, res_UpdatedAt := e_now env ResSetStatus\<rparr>)
          (inventory_reservations tx)) of
       Inl d \<Rightarrow> Inl d
     | Inr (rows, _) \<Rightarrow> Inr (tx\<lparr>inventory_reservations := rows\<rparr>))"

definition transition_body ::
  "inv_site env \<Rightarrow> string \<Rightarrow> reservation_status \<Rightarrow> inventory_db
    \<Rightarrow> inv_error + inventory_db \<times> Reservation \<times> ReservationItem list" where
  "transition_body env rid target tx =
    (case stmt env ResLock (Inr (lookup_reservation rid tx)) of
       Inl d \<Rightarrow> Inl (InvDB d)
     | Inr None \<Rightarrow> Inl ErrReservationNotFound
     | Inr (Some reservation) \<Rightarrow>
         let items = snd (preload tx reservation) in
         if res_Status reservation = target then Inr (tx, reservation, items)
         else if res_Status reservation \<noteq> ReservationPending then Inl ErrReservationTransition
         else
           (case transition_items env rid target (sort_key ri_ProductID items) tx of
              Inl e \<Rightarrow> Inl e
            | Inr tx1 \<Rightarrow>
                (case set_reservation_status env rid target tx1 of
                   Inl d \<Rightarrow> Inl (InvDB d)
                 | Inr tx2 \<Rightarrow> Inr (tx2, reservation\<lparr>res_Status := target\<rparr>, items))))"

definition inventory_transition ::
  "inv_site env \<Rightarrow> string \<Rightarrow> reservation_status \<Rightarrow> inventory_db
    \<Rightarrow> inventory_db \<times> (inv_error + Reservation \<times> ReservationItem list)" where
  "inventory_transition env rid0 target db =
    (let rid = TrimSpace rid0 in
     if rid = [] then (db, Inl ErrReservationNotFound)
     else Transaction (e_out env InvCommit) InvDB (transition_body env rid target) db)"

definition inventory_Confirm ::
  "inv_site env \<Rightarrow> string \<Rightarrow> inventory_db
    \<Rightarrow> inventory_db \<times> (inv_error + Reservation \<times> ReservationItem list)" where
  "inventory_Confirm env rid = inventory_transition env rid ReservationConfirmed"

definition inventory_Release ::
  "inv_site env \<Rightarrow> string \<Rightarrow> inventory_db
    \<Rightarrow> inventory_db \<times> (inv_error + Reservation \<times> ReservationItem list)" where
  "inventory_Release env rid = inventory_transition env rid ReservationReleased"

definition inventory_ListLogs ::
  "inv_site env \<Rightarrow> int option \<Rightarrow> int \<Rightarrow> int \<Rightarrow> inventory_db \<Rightarrow> inv_error + StockLog list \<times> int" where
  "inventory_ListLogs env productID page0 pageSize0 db =
    (let page = (if page0 \<le> 0 then 1 else page0);
         pageSize = (if pageSize0 \<le> 0 \<or> 100 < pageSize0 then 20 else pageSize0);
         scoped = filter (\<lambda>l. case productID of
                     None \<Rightarrow> True
                   | Some p \<Rightarrow> 0 < p \<longrightarrow> sl_ProductID l = p) (inventory_stock_logs db)
     in case stmt env LogCount (Inr (int (length scoped))) of
          Inl d \<Rightarrow> Inl (InvDB d)
        | Inr cnt \<Rightarrow>
            (case stmt env LogList
                (Inr (sql_page (wrap64 ((page - 1) * pageSize)) pageSize (rev scoped))) of
               Inl d \<Rightarrow> Inl (InvDB d)
             | Inr logs \<Rightarrow> Inr (logs, cnt)))"

end
