(* ===== verification/Inventory_API.thy ===== *)
theory Inventory_API
  imports Inventory
begin

text \<open>
  The two surfaces of the inventory service: the gin handlers of \<^verbatim>\<open>inventory.go\<close> and the gRPC server of
  \<^verbatim>\<open>grpc.go\<close>. A handler is a function of the decoded request (\<open>None\<close> when \<^verbatim>\<open>ShouldBindJSON\<close> fails), the
  environment and the database; it returns the new database and the reply.
\<close>

section \<open>HTTP handlers\<close>

datatype inv_msg = InvMsg string | InvErrText inv_error

record inventory_payload =
  ip_product_id :: int
  ip_stock_quantity :: int
  ip_available_quantity :: int
  ip_reserved_quantity :: int
  ip_version :: int
  ip_created_at :: time
  ip_updated_at :: time

definition inventoryPayload :: "Inventory \<Rightarrow> inventory_payload" where
  "inventoryPayload inventory =
    \<lparr>ip_product_id = inv_ProductID inventory,
     ip_stock_quantity = inv_AvailableQuantity inventory,
     ip_available_quantity = inv_AvailableQuantity inventory,
     ip_reserved_quantity = inv_ReservedQuantity inventory,
     ip_version = inv_Version inventory,
     ip_created_at = inv_CreatedAt inventory,
     ip_updated_at = inv_UpdatedAt inventory\<rparr>"

definition parseID :: "string \<Rightarrow> int option" where
  "parseID raw = (case ParseInt 64 raw of Some i \<Rightarrow> if 0 < i then Some i else None | None \<Rightarrow> None)"

definition parsePositiveInt :: "string \<Rightarrow> int \<Rightarrow> int" where
  "parsePositiveInt raw fallback =
    (case Atoi raw of Some v \<Rightarrow> if v \<le> 0 then fallback else v | None \<Rightarrow> fallback)"

definition inv_handler_get ::
  "inv_site env \<Rightarrow> string \<Rightarrow> inventory_db \<Rightarrow> (inv_msg, inventory_payload) reply" where
  "inv_handler_get env param db =
    (case parseID param of
       None \<Rightarrow> FailReply 400 40011 (InvMsg ''invalid product id'')
     | Some productID \<Rightarrow>
         (case inventory_Get env productID db of
            Inl err \<Rightarrow>
              if inv_Is err ErrInventoryNotFound then FailReply 404 40411 (InvMsg ''inventory not found'')
              else FailReply 500 50011 (InvMsg ''get inventory failed'')
          | Inr inventory \<Rightarrow> OkReply 200 (inventoryPayload inventory)))"

record change_request =
  cr_ProductID :: int
  cr_Quantity :: int
  cr_StockQuantity :: int

definition inv_handler_change ::
  "inv_site env \<Rightarrow> bool \<Rightarrow> change_request option \<Rightarrow> inventory_db
    \<Rightarrow> inventory_db \<times> (inv_msg, inventory_payload) reply" where
  "inv_handler_change env initialize body db =
    (case body of
       None \<Rightarrow> (db, FailReply 400 40012 (InvMsg ''invalid request''))
     | Some req \<Rightarrow>
         let quantity = (if cr_Quantity req = 0 then cr_StockQuantity req else cr_Quantity req);
             (db', r) = (if initialize then inventory_Init env (cr_ProductID req) quantity db
                         else inventory_Add env (cr_ProductID req) quantity db)
         in (case r of
               Inl err \<Rightarrow>
                 (db', FailReply (if inv_Is err ErrInventoryNotFound then 404 else 400) 40013 (InvErrText err))
             | Inr inventory \<Rightarrow> (db', OkReply 200 (inventoryPayload inventory))))"

definition inv_handler_init where "inv_handler_init env = inv_handler_change env True"
definition inv_handler_add where "inv_handler_add env = inv_handler_change env False"

text \<open>The data of a list reply: the rows, the total, the page and the page size.\<close>

definition inv_handler_listLogs ::
  "inv_site env \<Rightarrow> string \<Rightarrow> string \<Rightarrow> string \<Rightarrow> inventory_db
    \<Rightarrow> (inv_msg, StockLog list \<times> int \<times> int \<times> int) reply" where
  "inv_handler_listLogs env qpage qsize qproduct db =
    (let page = parsePositiveInt qpage 1;
         pageSize = parsePositiveInt qsize 20;
         raw = TrimSpace qproduct;
         productID = (if raw = [] then Inr None
                      else case ParseInt 64 raw of
                             None \<Rightarrow> Inl ()
                           | Some parsed \<Rightarrow> if parsed < 0 then Inl ()
                                            else Inr (if 0 < parsed then Some parsed else None))
     in case productID of
          Inl _ \<Rightarrow> FailReply 400 40014 (InvMsg ''invalid product_id'')
        | Inr pid \<Rightarrow>
            (case inventory_ListLogs env pid page pageSize db of
               Inl _ \<Rightarrow> FailReply 500 50012 (InvMsg ''list stock logs failed'')
             | Inr (logs, cnt) \<Rightarrow> OkReply 200 (logs, cnt, page, pageSize)))"

definition inv_handler_reserve ::
  "inv_site env \<Rightarrow> ReserveRequest option \<Rightarrow> inventory_db
    \<Rightarrow> inventory_db \<times> (inv_msg, Reservation \<times> ReservationItem list) reply" where
  "inv_handler_reserve env body db =
    (case body of
       None \<Rightarrow> (db, ErrorReply 400 (InvMsg ''invalid request''))
     | Some req \<Rightarrow>
         (case inventory_Reserve env req db of
            (db', Inl err) \<Rightarrow>
              (db', ErrorReply
                 (if \<not> inv_Is err ErrInsufficientInventory \<and> \<not> inv_Is err ErrInventoryNotFound
                    \<and> \<not> inv_Is err ErrInvalidInventoryAmount then 500 else 409) (InvErrText err))
          | (db', Inr reservation) \<Rightarrow> (db', PlainReply 200 reservation)))"

definition inv_handler_transition ::
  "inv_site env \<Rightarrow> bool \<Rightarrow> string \<Rightarrow> inventory_db
    \<Rightarrow> inventory_db \<times> (inv_msg, Reservation \<times> ReservationItem list) reply" where
  "inv_handler_transition env confirm param db =
    (case (if confirm then inventory_Confirm env param db else inventory_Release env param db) of
       (db', Inl err) \<Rightarrow>
         (db', ErrorReply
            (if inv_Is err ErrReservationNotFound then 404
             else if \<not> inv_Is err ErrReservationTransition then 500 else 409) (InvErrText err))
     | (db', Inr reservation) \<Rightarrow> (db', PlainReply 200 reservation))"

section \<open>gRPC server\<close>

datatype grpc_code =
    InvalidArgument | NotFound | FailedPrecondition | Canceled | DeadlineExceeded | Internal
  | Unauthenticated

type_synonym grpc_status = "grpc_code \<times> inv_msg"

definition reservationError :: "inv_error \<Rightarrow> grpc_status" where
  "reservationError err =
    (if inv_Is err ErrInvalidInventoryAmount then (InvalidArgument, InvErrText err)
     else if inv_Is err ErrInventoryNotFound \<or> inv_Is err ErrReservationNotFound
       then (NotFound, InvErrText err)
     else if inv_Is err ErrInsufficientInventory \<or> inv_Is err ErrReservationTransition
       then (FailedPrecondition, InvErrText err)
     else if inv_Is err (InvDB ContextCanceled) then (Canceled, InvErrText err)
     else if inv_Is err (InvDB ContextDeadlineExceeded) then (DeadlineExceeded, InvErrText err)
     else (Internal, InvMsg ''inventory reservation failed''))"

datatype proto_status = STATUS_PENDING | STATUS_CONFIRMED | STATUS_RELEASED

fun reservationStatusToProto :: "reservation_status \<Rightarrow> proto_status" where
  "reservationStatusToProto ReservationPending = STATUS_PENDING"
| "reservationStatusToProto ReservationConfirmed = STATUS_CONFIRMED"
| "reservationStatusToProto ReservationReleased = STATUS_RELEASED"

record proto_item =
  pi_id :: int
  pi_reservation_id :: string
  pi_product_id :: int
  pi_quantity :: int

record proto_reservation =
  pr_id :: string
  pr_order_id :: int
  pr_status :: proto_status
  pr_created_at :: time
  pr_updated_at :: time
  pr_items :: "proto_item list"

definition reservationToProto :: "Reservation \<times> ReservationItem list \<Rightarrow> proto_reservation" where
  "reservationToProto = (\<lambda>(r, items).
    \<lparr>pr_id = res_ID r, pr_order_id = res_OrderID r,
     pr_status = reservationStatusToProto (res_Status r),
     pr_created_at = res_CreatedAt r, pr_updated_at = res_UpdatedAt r,
     pr_items = map (\<lambda>i. \<lparr>pi_id = ri_ID i, pi_reservation_id = ri_ReservationID i,
       pi_product_id = ri_ProductID i, pi_quantity = ri_Quantity i\<rparr>) items\<rparr>)"

type_synonym grpc_result = "grpc_status + proto_reservation"

definition grpc_result_of :: "inv_error + Reservation \<times> ReservationItem list \<Rightarrow> grpc_result" where
  "grpc_result_of r = (case r of Inl err \<Rightarrow> Inl (reservationError err) | Inr x \<Rightarrow> Inr (reservationToProto x))"

definition grpc_Reserve ::
  "inv_site env \<Rightarrow> int \<Rightarrow> string \<Rightarrow> (int \<times> int) list \<Rightarrow> inventory_db \<Rightarrow> inventory_db \<times> grpc_result" where
  "grpc_Reserve env oid rid items db =
    apsnd grpc_result_of (inventory_Reserve env
      \<lparr>rr_OrderID = oid, rr_ReservationID = rid,
       rr_Items = map (\<lambda>(p, q). \<lparr>ir_ProductID = p, ir_Quantity = q\<rparr>) items\<rparr> db)"

definition grpc_Confirm :: "inv_site env \<Rightarrow> string \<Rightarrow> inventory_db \<Rightarrow> inventory_db \<times> grpc_result" where
  "grpc_Confirm env rid db = apsnd grpc_result_of (inventory_Confirm env rid db)"

definition grpc_Release :: "inv_site env \<Rightarrow> string \<Rightarrow> inventory_db \<Rightarrow> inventory_db \<times> grpc_result" where
  "grpc_Release env rid db = apsnd grpc_result_of (inventory_Release env rid db)"

section \<open>The internal service token\<close>

text \<open>\<^verbatim>\<open>internalapi.authorized\<close> on the values of the metadata key (\<open>None\<close> without metadata).\<close>

definition authorized :: "string list option \<Rightarrow> string \<Rightarrow> bool" where
  "authorized md expected =
    (if expected = [] then False
     else case md of
            None \<Rightarrow> False
          | Some values \<Rightarrow>
              (case values of
                 [actual] \<Rightarrow> length actual = length expected \<and> actual = expected
               | _ \<Rightarrow> False))"

definition UnaryServerInterceptor ::
  "string \<Rightarrow> string list option \<Rightarrow> ('s \<Rightarrow> 's \<times> (grpc_status + 'r)) \<Rightarrow> 's \<Rightarrow> 's \<times> (grpc_status + 'r)" where
  "UnaryServerInterceptor expected0 md handler s =
    (if \<not> authorized md (TrimSpace expected0)
     then (s, Inl (Unauthenticated, InvMsg ''invalid internal service token''))
     else handler s)"

section \<open>Facts\<close>

text \<open>The internal endpoints answer 200 exactly when the service call succeeded.\<close>

lemma inv_handler_transition_200:
  assumes "inv_handler_transition env confirm param db = (db', reply)"
  shows "r_status reply = 200 \<longleftrightarrow> (\<exists>x. (if confirm then inventory_Confirm env param db
    else inventory_Release env param db) = (db', Inr x) \<and> reply = PlainReply 200 x)"
  using assms by (auto simp: inv_handler_transition_def split: prod.splits sum.splits if_splits)

lemma inv_handler_reserve_200:
  assumes "inv_handler_reserve env body db = (db', reply)"
  shows "r_status reply = 200 \<longleftrightarrow>
    (\<exists>req x. body = Some req \<and> inventory_Reserve env req db = (db', Inr x) \<and> reply = PlainReply 200 x)"
  using assms by (auto simp: inv_handler_reserve_def split: prod.splits sum.splits if_splits option.splits)

end
