(* ===== verification/Inventory_Correct.thy ===== *)
theory Inventory_Correct
  imports Inventory
begin

text \<open>
  The invariant of the inventory database and the proofs that every operation keeps it.
  \<open>inv_core\<close> holds also in the middle of a transaction; \<open>inv_ok\<close> adds that the reserved
  quantity of every product is exactly what its pending reservations hold.
\<close>

section \<open>The invariant\<close>

definition avail :: "inventory_db \<Rightarrow> int \<Rightarrow> int" where
  "avail db p = (case lookup_inventory p db of None \<Rightarrow> 0 | Some r \<Rightarrow> inv_AvailableQuantity r)"

definition resv :: "inventory_db \<Rightarrow> int \<Rightarrow> int" where
  "resv db p = (case lookup_inventory p db of None \<Rightarrow> 0 | Some r \<Rightarrow> inv_ReservedQuantity r)"

text \<open>The status of the reservation stored under an id.\<close>

definition reservation_status_of :: "inventory_db \<Rightarrow> string \<Rightarrow> reservation_status option" where
  "reservation_status_of db rid =
    map_option res_Status (lookup_by res_ID rid (inventory_reservations db))"

definition is_held :: "inventory_db \<Rightarrow> int \<Rightarrow> ReservationItem \<Rightarrow> bool" where
  "is_held db p i \<longleftrightarrow>
    ri_ProductID i = p \<and> reservation_status_of db (ri_ReservationID i) = Some ReservationPending"

text \<open>What the pending reservations hold of a product.\<close>

definition held :: "inventory_db \<Rightarrow> int \<Rightarrow> int" where
  "held db p = sum_list (map ri_Quantity (filter (is_held db p) (inventory_reservation_items db)))"

text \<open>What the stock log says about a product: the sum of its movements of some types.\<close>

definition log_sum :: "change_type set \<Rightarrow> inventory_db \<Rightarrow> int \<Rightarrow> int" where
  "log_sum cts db p = sum_list (map sl_Quantity
    (filter (\<lambda>l. sl_ProductID l = p \<and> sl_ChangeType l \<in> cts) (inventory_stock_logs db)))"

definition log_available :: "inventory_db \<Rightarrow> int \<Rightarrow> int" where
  "log_available db p = log_sum {LogInitialize, LogAdd, LogReserve, LogRelease} db p"

definition log_reserved :: "inventory_db \<Rightarrow> int \<Rightarrow> int" where
  "log_reserved db p = log_sum {LogConfirm} db p - log_sum {LogReserve, LogRelease} db p"

definition inv_core :: "inventory_db \<Rightarrow> bool" where
  "inv_core db \<longleftrightarrow>
    distinct (map inv_ProductID (inventory_items db)) \<and>
    (\<forall>r\<in>set (inventory_items db). inv_check r = None) \<and>
    distinct (map (\<lambda>r. inv_collate db (res_ID r)) (inventory_reservations db)) \<and>
    distinct (map res_OrderID (inventory_reservations db)) \<and>
    (\<forall>i\<in>set (inventory_reservation_items db).
       0 < ri_Quantity i \<and> int64 (ri_Quantity i) \<and>
       ri_ReservationID i \<in> res_ID ` set (inventory_reservations db) \<and>
       ri_ProductID i \<in> inv_ProductID ` set (inventory_items db)) \<and>
    distinct (map (\<lambda>i. (inv_collate db (ri_ReservationID i), ri_ProductID i))
      (inventory_reservation_items db)) \<and>
    (\<forall>p. avail db p = log_available db p) \<and>
    (\<forall>p. resv db p = log_reserved db p)"

definition inv_ok :: "inventory_db \<Rightarrow> bool" where
  "inv_ok db \<longleftrightarrow> inv_core db \<and> (\<forall>p. resv db p = held db p)"

section \<open>Statements\<close>

lemma inv_check_None:
  "inv_check r = None \<longleftrightarrow>
    0 \<le> inv_AvailableQuantity r \<and> inv_AvailableQuantity r \<le> int64_max \<and>
    0 \<le> inv_ReservedQuantity r \<and> inv_ReservedQuantity r \<le> int64_max \<and> int64 (inv_Version r)"
  by (auto simp: inv_check_def int64_defs)

lemma lookup_inventory_mem:
  "lookup_inventory p db = Some r \<Longrightarrow> r \<in> set (inventory_items db) \<and> inv_ProductID r = p"
  unfolding lookup_inventory_def by (rule lookup_by_Some_D)

text \<open>An update that affects one row changes exactly the row of its product.\<close>

lemma update_inventory_one:
  assumes upd: "update_inventory env pid P f tx = Inr (tx', 1)"
    and dist: "distinct (map inv_ProductID (inventory_items tx))"
    and chk: "\<forall>x\<in>set (inventory_items tx). inv_check x = None"
    and key: "\<And>r. inv_ProductID (f r) = inv_ProductID r"
  shows "\<exists>r r' rows. lookup_inventory pid tx = Some r \<and> P r \<and>
    r' = (f r)\<lparr>inv_Version := inv_Version r + 1, inv_UpdatedAt := e_now env (InvUpdate pid)\<rparr> \<and>
    tx' = tx\<lparr>inventory_items := rows\<rparr> \<and>
    map inv_ProductID rows = map inv_ProductID (inventory_items tx) \<and>
    (\<forall>p. lookup_inventory p tx' = (if p = pid then Some r' else lookup_inventory p tx)) \<and>
    (\<forall>x\<in>set rows. inv_check x = None)"
proof -
  let ?p = "\<lambda>r. inv_ProductID r = pid \<and> P r"
  let ?g = "\<lambda>r. (f r)\<lparr>inv_Version := inv_Version r + 1, inv_UpdatedAt := e_now env (InvUpdate pid)\<rparr>"
  let ?rows = "map (\<lambda>r. if ?p r then ?g r else r) (inventory_items tx)"
  from upd have ok: "\<forall>r\<in>set (inventory_items tx). ?p r \<longrightarrow> inv_check (?g r) = None"
    and tx': "tx' = tx\<lparr>inventory_items := ?rows\<rparr>"
    and n: "length (filter ?p (inventory_items tx)) = 1"
    by (auto simp: update_inventory_def stmt_Inr sql_update_Inr split: sum.splits)
  from n obtain r where r: "lookup_inventory pid tx = Some r" "P r"
    unfolding length_filter_key [OF dist] lookup_inventory_def
    by (auto split: option.splits if_splits)
  have "lookup_inventory p tx' = map_option (\<lambda>r. if ?p r then ?g r else r) (lookup_inventory p tx)" for p
    unfolding lookup_inventory_def tx' by (simp add: lookup_by_update key)
  then have lk: "lookup_inventory p tx' = (if p = pid then Some (?g r) else lookup_inventory p tx)" for p
    using r by (cases "lookup_inventory p tx") (auto dest: lookup_inventory_mem)
  show ?thesis
    using r ok chk lk by (intro exI [of _ r] exI [of _ "?g r"] exI [of _ ?rows]) (auto simp: tx' key o_def)
qed

lemma create_stock_log_Inr:
  "create_stock_log env pid ct q ref tx = Inr tx' \<Longrightarrow>
    tx' = tx\<lparr>inventory_stock_logs := inventory_stock_logs tx @
        [\<lparr>sl_ID = inv_next_log tx, sl_ProductID = pid, sl_ChangeType = ct, sl_Quantity = q,
          sl_ReferenceID = ref, sl_CreatedAt = e_now env (InvLog pid)\<rparr>],
      inv_next_log := inv_next_log tx + 1\<rparr>"
  by (simp add: create_stock_log_def stmt_Inr)

lemma log_sum_append:
  "inventory_stock_logs db' = inventory_stock_logs db @ [l] \<Longrightarrow>
    log_sum cts db' p = log_sum cts db p +
      (if sl_ProductID l = p \<and> sl_ChangeType l \<in> cts then sl_Quantity l else 0)"
  by (simp add: log_sum_def)

lemma wrap64_neg: "0 < q \<Longrightarrow> q \<le> int64_max \<Longrightarrow> wrap64 (- q) = - q"
  by (rule wrap64_id) (simp add: int64_defs)

text \<open>The effect of a successful loop body of \<^verbatim>\<open>Reserve\<close>.\<close>

lemma reserve_item_Inr:
  assumes "reserve_item env rid item tx = Inr tx'"
  obtains tx1 rows where
    "update_inventory env (ir_ProductID item) (\<lambda>r. ir_Quantity item \<le> inv_AvailableQuantity r)
       (\<lambda>r. r\<lparr>inv_AvailableQuantity := inv_AvailableQuantity r - ir_Quantity item,
              inv_ReservedQuantity := inv_ReservedQuantity r + ir_Quantity item\<rparr>) tx = Inr (tx1, 1)"
    "sql_insert ritem_check
       (\<lambda>a b. inv_collate tx1 (ri_ReservationID a) = inv_collate tx1 (ri_ReservationID b)
            \<and> ri_ProductID a = ri_ProductID b)
       \<lparr>ri_ID = inv_next_item tx1, ri_ReservationID = rid, ri_ProductID = ir_ProductID item,
        ri_Quantity = ir_Quantity item\<rparr>
       (inventory_reservation_items tx1) = Inr rows"
    "create_stock_log env (ir_ProductID item) LogReserve (wrap64 (- ir_Quantity item)) rid
       (tx1\<lparr>inventory_reservation_items := rows, inv_next_item := inv_next_item tx1 + 1\<rparr>) = Inr tx'"
  using assms
  by (auto simp: reserve_item_def Let_def stmt_Inr split: sum.splits option.splits if_splits prod.splits)

lemma reserve_item_core:
  assumes core: "inv_core tx" and run: "reserve_item env rid item tx = Inr tx'"
    and rid: "rid \<in> res_ID ` set (inventory_reservations tx)"
  shows "inv_core tx'"
    and "inventory_reservations tx' = inventory_reservations tx"
    and "inv_collate tx' = inv_collate tx"
    and "\<exists>n. inventory_reservation_items tx' = inventory_reservation_items tx @
           [\<lparr>ri_ID = n, ri_ReservationID = rid, ri_ProductID = ir_ProductID item,
             ri_Quantity = ir_Quantity item\<rparr>]"
    and "0 < ir_Quantity item"
    and "\<And>p. resv tx' p = resv tx p + (if p = ir_ProductID item then ir_Quantity item else 0)"
    and "\<And>p. avail tx' p = avail tx p - (if p = ir_ProductID item then ir_Quantity item else 0)"
proof -
  let ?pid = "ir_ProductID item" and ?q = "ir_Quantity item"
  from run obtain tx1 rows where
    u: "update_inventory env ?pid (\<lambda>r. ?q \<le> inv_AvailableQuantity r)
       (\<lambda>r. r\<lparr>inv_AvailableQuantity := inv_AvailableQuantity r - ?q,
              inv_ReservedQuantity := inv_ReservedQuantity r + ?q\<rparr>) tx = Inr (tx1, 1)"
    and i: "sql_insert ritem_check
       (\<lambda>a b. inv_collate tx1 (ri_ReservationID a) = inv_collate tx1 (ri_ReservationID b)
            \<and> ri_ProductID a = ri_ProductID b)
       \<lparr>ri_ID = inv_next_item tx1, ri_ReservationID = rid, ri_ProductID = ?pid, ri_Quantity = ?q\<rparr>
       (inventory_reservation_items tx1) = Inr rows"
    and l: "create_stock_log env ?pid LogReserve (wrap64 (- ?q)) rid
       (tx1\<lparr>inventory_reservation_items := rows, inv_next_item := inv_next_item tx1 + 1\<rparr>) = Inr tx'"
    by (rule reserve_item_Inr)
  from core have dist: "distinct (map inv_ProductID (inventory_items tx))"
    and chk: "\<forall>x\<in>set (inventory_items tx). inv_check x = None"
    by (simp_all add: inv_core_def)
  have key: "inv_ProductID (x\<lparr>inv_AvailableQuantity := inv_AvailableQuantity x - ?q,
     inv_ReservedQuantity := inv_ReservedQuantity x + ?q\<rparr>) = inv_ProductID x" for x by simp
  obtain r r' irows where
    r: "lookup_inventory ?pid tx = Some r" "?q \<le> inv_AvailableQuantity r"
    and r': "r' = (r\<lparr>inv_AvailableQuantity := inv_AvailableQuantity r - ?q,
       inv_ReservedQuantity := inv_ReservedQuantity r + ?q\<rparr>)
       \<lparr>inv_Version := inv_Version r + 1, inv_UpdatedAt := e_now env (InvUpdate ?pid)\<rparr>"
    and tx1: "tx1 = tx\<lparr>inventory_items := irows\<rparr>"
    and ids: "map inv_ProductID irows = map inv_ProductID (inventory_items tx)"
    and lk: "\<forall>p. lookup_inventory p tx1 = (if p = ?pid then Some r' else lookup_inventory p tx)"
    and chk': "\<forall>x\<in>set irows. inv_check x = None"
    using update_inventory_one [OF u dist chk key] by (elim exE conjE) (rule that)
  have q: "0 < ?q"
    and rows: "rows = inventory_reservation_items tx @
      [\<lparr>ri_ID = inv_next_item tx, ri_ReservationID = rid, ri_ProductID = ?pid, ri_Quantity = ?q\<rparr>]"
    and fresh: "(inv_collate tx rid, ?pid) \<notin>
      (\<lambda>i. (inv_collate tx (ri_ReservationID i), ri_ProductID i)) ` set (inventory_reservation_items tx)"
    using i by (auto simp: sql_insert_Inr ritem_check_def tx1 split: if_splits)
  have rmem: "r \<in> set (inventory_items tx)" "inv_ProductID r = ?pid"
    using lookup_inventory_mem [OF r(1)] by simp_all
  with chk have "inv_AvailableQuantity r \<le> int64_max" by (simp add: inv_check_None)
  with q r(2) have q64: "int64 ?q" "wrap64 (- ?q) = - ?q"
    by (simp_all add: int64_small wrap64_neg)
  note tx' = create_stock_log_Inr [OF l, unfolded q64(2)]
  have same: "inventory_reservations tx' = inventory_reservations tx"
    "inv_collate tx' = inv_collate tx" "inventory_items tx' = irows"
    "inventory_reservation_items tx' = rows"
    "lookup_inventory p tx' = lookup_inventory p tx1" for p
    by (simp_all add: tx' tx1 lookup_inventory_def)
  have logs: "inventory_stock_logs tx' = inventory_stock_logs tx @
     [\<lparr>sl_ID = inv_next_log tx, sl_ProductID = ?pid, sl_ChangeType = LogReserve, sl_Quantity = - ?q,
       sl_ReferenceID = rid, sl_CreatedAt = e_now env (InvLog ?pid)\<rparr>]"
    by (simp add: tx' tx1)
  show av: "avail tx' p = avail tx p - (if p = ?pid then ?q else 0)" for p
    by (simp add: avail_def same lk r r')
  show rs: "resv tx' p = resv tx p + (if p = ?pid then ?q else 0)" for p
    by (simp add: resv_def same lk r r')
  show "inv_core tx'"
  proof -
    have "set (map inv_ProductID irows) = set (map inv_ProductID (inventory_items tx))" by (simp only: ids)
    then have img: "inv_ProductID ` set irows = inv_ProductID ` set (inventory_items tx)" by simp
    have "?pid \<in> inv_ProductID ` set (inventory_items tx)" using rmem by force
    with core show ?thesis
      unfolding inv_core_def same rows
      using ids chk' fresh rid q q64(1)
      by (simp add: img av rs log_available_def log_reserved_def log_sum_append [OF logs])
  qed
  show "inventory_reservations tx' = inventory_reservations tx"
    and "inv_collate tx' = inv_collate tx" and "0 < ?q"
    by (rule same, rule same, rule q)
  show "\<exists>n. inventory_reservation_items tx' = inventory_reservation_items tx @
      [\<lparr>ri_ID = n, ri_ReservationID = rid, ri_ProductID = ?pid, ri_Quantity = ?q\<rparr>]"
    by (simp add: same rows)
qed

lemma held_append:
  assumes "inventory_reservations tx' = inventory_reservations tx"
    and "inventory_reservation_items tx' = inventory_reservation_items tx @ [i]"
    and "reservation_status_of tx (ri_ReservationID i) = Some ReservationPending"
  shows "held tx' p = held tx p + (if p = ri_ProductID i then ri_Quantity i else 0)"
proof -
  have "is_held tx' p = is_held tx p"
    by (auto simp: is_held_def reservation_status_of_def assms(1))
  with assms(2,3) show ?thesis by (auto simp: held_def is_held_def)
qed

lemma reserve_item_ok:
  assumes "inv_ok tx" and "reserve_item env rid item tx = Inr tx'"
    and pend: "reservation_status_of tx rid = Some ReservationPending"
  shows "inv_ok tx'" and "reservation_status_of tx' = reservation_status_of tx"
proof -
  have rid: "rid \<in> res_ID ` set (inventory_reservations tx)"
    using pend by (force simp: reservation_status_of_def dest: lookup_by_Some_D)
  have core: "inv_core tx" using assms(1) by (simp add: inv_ok_def)
  note step = reserve_item_core [OF core assms(2) rid]
  from step(4) obtain n where items: "inventory_reservation_items tx' = inventory_reservation_items tx @
      [\<lparr>ri_ID = n, ri_ReservationID = rid, ri_ProductID = ir_ProductID item,
        ri_Quantity = ir_Quantity item\<rparr>]" ..
  have "held tx' p = held tx p + (if p = ir_ProductID item then ir_Quantity item else 0)" for p
    using held_append [OF step(2) items, of p] pend by simp
  with assms(1) step(1) show "inv_ok tx'" by (simp add: inv_ok_def step(6))
  show "reservation_status_of tx' = reservation_status_of tx"
    by (simp add: fun_eq_iff reservation_status_of_def step(2))
qed

lemma reserve_items_ok:
  assumes "inv_ok tx" and "reserve_items env rid items tx = Inr tx'"
    and "reservation_status_of tx rid = Some ReservationPending"
  shows "inv_ok tx' \<and> reservation_status_of tx' = reservation_status_of tx"
  using assms
proof (induction env rid items tx rule: reserve_items.induct)
  case (2 env rid item items tx)
  from "2.prems"(2) obtain tx1 where one: "reserve_item env rid item tx = Inr tx1"
    and rest: "reserve_items env rid items tx1 = Inr tx'"
    by (auto split: sum.splits)
  note ok = reserve_item_ok [OF "2.prems"(1) one "2.prems"(3)]
  from "2.IH" [OF one ok(1) rest] ok(2) "2.prems"(3) show ?case by simp
qed simp

lemma create_reservation_ok:
  assumes ok: "inv_ok tx" and run: "create_reservation env rid oid tx = Inr tx'"
  shows "inv_ok tx'" and "reservation_status_of tx' rid = Some ReservationPending"
    and "\<And>r. r \<noteq> rid \<Longrightarrow> reservation_status_of tx' r = reservation_status_of tx r"
    and "reservation_status_of tx rid = None"
proof -
  let ?new = "\<lparr>res_ID = rid, res_OrderID = oid, res_Status = ReservationPending,
      res_CreatedAt = e_now env ResInsert, res_UpdatedAt = e_now env ResInsert\<rparr>"
  from run have tx': "tx' = tx\<lparr>inventory_reservations := inventory_reservations tx @ [?new]\<rparr>"
    and fresh: "\<forall>r\<in>set (inventory_reservations tx).
      inv_collate tx rid \<noteq> inv_collate tx (res_ID r) \<and> oid \<noteq> res_OrderID r"
    by (auto simp: create_reservation_def stmt_Inr sql_insert_Inr split: sum.splits)
  from fresh have new: "rid \<notin> res_ID ` set (inventory_reservations tx)" by auto
  then have none: "lookup_by res_ID rid (inventory_reservations tx) = None"
    by (simp add: lookup_by_None_iff)
  then show "reservation_status_of tx rid = None" by (simp add: reservation_status_of_def)
  show "reservation_status_of tx' rid = Some ReservationPending"
    by (simp add: reservation_status_of_def tx' lookup_by_append none)
  show same: "reservation_status_of tx' r = reservation_status_of tx r" if "r \<noteq> rid" for r
    using that by (simp add: reservation_status_of_def tx' lookup_by_append split: option.splits)
  have "is_held tx' p i = is_held tx p i" if "i \<in> set (inventory_reservation_items tx)" for p i
  proof -
    have "ri_ReservationID i \<noteq> rid"
      using ok that new by (auto simp: inv_ok_def inv_core_def)
    then show ?thesis by (simp add: is_held_def same)
  qed
  then have "held tx' p = held tx p" for p
    unfolding held_def tx' by (simp cong: filter_cong)
  moreover have "avail tx' = avail tx" "resv tx' = resv tx"
    "log_available tx' = log_available tx" "log_reserved tx' = log_reserved tx"
    by (simp_all add: fun_eq_iff avail_def resv_def lookup_inventory_def log_available_def
        log_reserved_def log_sum_def tx')
  moreover have "distinct (map (\<lambda>r. inv_collate tx (res_ID r)) (inventory_reservations tx'))"
    "distinct (map res_OrderID (inventory_reservations tx'))"
    using ok fresh by (auto simp: inv_ok_def inv_core_def tx')
  moreover have "inventory_items tx' = inventory_items tx"
    "inventory_reservation_items tx' = inventory_reservation_items tx"
    "inv_collate tx' = inv_collate tx"
    "res_ID ` set (inventory_reservations tx) \<subseteq> res_ID ` set (inventory_reservations tx')"
    by (auto simp: tx')
  ultimately show "inv_ok tx'"
    using ok unfolding inv_ok_def inv_core_def by auto
qed

text \<open>The effect of a successful loop body of \<^verbatim>\<open>transition\<close>.\<close>

abbreviation transition_updates :: "reservation_status \<Rightarrow> int \<Rightarrow> Inventory \<Rightarrow> Inventory" where
  "transition_updates target q \<equiv> (\<lambda>r. if target = ReservationReleased
     then r\<lparr>inv_ReservedQuantity := inv_ReservedQuantity r - q,
            inv_AvailableQuantity := inv_AvailableQuantity r + q\<rparr>
     else r\<lparr>inv_ReservedQuantity := inv_ReservedQuantity r - q\<rparr>)"

lemma transition_item_Inr:
  assumes "transition_item env rid target item tx = Inr tx'"
  obtains tx1 where
    "update_inventory env (ri_ProductID item) (\<lambda>r. ri_Quantity item \<le> inv_ReservedQuantity r)
       (transition_updates target (ri_Quantity item)) tx = Inr (tx1, 1)"
    "create_stock_log env (ri_ProductID item)
       (if target = ReservationReleased then LogRelease else LogConfirm)
       (if target = ReservationReleased then ri_Quantity item else wrap64 (- ri_Quantity item)) rid tx1
      = Inr tx'"
  using assms
  by (auto simp: transition_item_def Let_def stmt_Inr split: sum.splits option.splits if_splits prod.splits)

lemma transition_item_core:
  assumes core: "inv_core tx" and run: "transition_item env rid target item tx = Inr tx'"
    and pos: "0 < ri_Quantity item"
  shows "inv_core tx'"
    and "inventory_reservations tx' = inventory_reservations tx"
    and "inventory_reservation_items tx' = inventory_reservation_items tx"
    and "inv_collate tx' = inv_collate tx"
    and "\<And>p. resv tx' p = resv tx p - (if p = ri_ProductID item then ri_Quantity item else 0)"
    and "\<And>p. avail tx' p = avail tx p +
           (if target = ReservationReleased \<and> p = ri_ProductID item then ri_Quantity item else 0)"
proof -
  let ?pid = "ri_ProductID item" and ?q = "ri_Quantity item"
  let ?ct = "if target = ReservationReleased then LogRelease else LogConfirm"
  from run obtain tx1 where
    u: "update_inventory env ?pid (\<lambda>r. ?q \<le> inv_ReservedQuantity r)
       (transition_updates target ?q) tx = Inr (tx1, 1)"
    and l: "create_stock_log env ?pid ?ct
       (if target = ReservationReleased then ?q else wrap64 (- ?q)) rid tx1 = Inr tx'"
    by (rule transition_item_Inr)
  from core have dist: "distinct (map inv_ProductID (inventory_items tx))"
    and chk: "\<forall>x\<in>set (inventory_items tx). inv_check x = None"
    by (simp_all add: inv_core_def)
  have key: "inv_ProductID (transition_updates target ?q x) = inv_ProductID x" for x by simp
  obtain r r' irows where
    r: "lookup_inventory ?pid tx = Some r" "?q \<le> inv_ReservedQuantity r"
    and r': "r' = (transition_updates target ?q r)
       \<lparr>inv_Version := inv_Version r + 1, inv_UpdatedAt := e_now env (InvUpdate ?pid)\<rparr>"
    and tx1: "tx1 = tx\<lparr>inventory_items := irows\<rparr>"
    and ids: "map inv_ProductID irows = map inv_ProductID (inventory_items tx)"
    and lk: "\<forall>p. lookup_inventory p tx1 = (if p = ?pid then Some r' else lookup_inventory p tx)"
    and chk': "\<forall>x\<in>set irows. inv_check x = None"
    using update_inventory_one [OF u dist chk key] by (elim exE conjE) (rule that)
  have "r \<in> set (inventory_items tx)"
    using lookup_inventory_mem [OF r(1)] by simp
  with chk have "inv_ReservedQuantity r \<le> int64_max" by (simp add: inv_check_None)
  with pos r(2) have q64: "wrap64 (- ?q) = - ?q" by (simp add: wrap64_neg)
  note tx' = create_stock_log_Inr [OF l, unfolded q64]
  show same: "inventory_reservations tx' = inventory_reservations tx"
    "inventory_reservation_items tx' = inventory_reservation_items tx"
    "inv_collate tx' = inv_collate tx"
    by (simp_all add: tx' tx1)
  have irows: "inventory_items tx' = irows" by (simp add: tx' tx1)
  have lk': "lookup_inventory p tx' = lookup_inventory p tx1" for p
    by (simp add: tx' lookup_inventory_def)
  have logs: "inventory_stock_logs tx' = inventory_stock_logs tx @
     [\<lparr>sl_ID = inv_next_log tx, sl_ProductID = ?pid, sl_ChangeType = ?ct,
       sl_Quantity = (if target = ReservationReleased then ?q else - ?q),
       sl_ReferenceID = rid, sl_CreatedAt = e_now env (InvLog ?pid)\<rparr>]"
    by (simp add: tx' tx1)
  show av: "avail tx' p = avail tx p +
      (if target = ReservationReleased \<and> p = ?pid then ?q else 0)" for p
    by (simp add: avail_def lk' lk r r')
  show rs: "resv tx' p = resv tx p - (if p = ?pid then ?q else 0)" for p
    by (simp add: resv_def lk' lk r r')
  show "inv_core tx'"
  proof -
    have "set (map inv_ProductID irows) = set (map inv_ProductID (inventory_items tx))" by (simp only: ids)
    then have img: "inv_ProductID ` set irows = inv_ProductID ` set (inventory_items tx)" by simp
    from core show ?thesis
      unfolding inv_core_def same irows
      using ids chk' by (simp add: img av rs log_available_def log_reserved_def log_sum_append [OF logs])
  qed
qed

text \<open>What a list of items asks for, per product.\<close>

definition items_qty :: "ReservationItem list \<Rightarrow> int \<Rightarrow> int" where
  "items_qty items p = sum_list (map ri_Quantity (filter (\<lambda>i. ri_ProductID i = p) items))"

lemma items_qty_simps [simp]:
  "items_qty [] p = 0"
  "items_qty (i # items) p = (if p = ri_ProductID i then ri_Quantity i else 0) + items_qty items p"
  by (auto simp: items_qty_def)

lemma items_qty_sort [simp]: "items_qty (sort_key k items) p = items_qty items p"
proof -
  have "mset (map ri_Quantity (filter (\<lambda>i. ri_ProductID i = p) (sort_key k items))) =
    mset (map ri_Quantity (filter (\<lambda>i. ri_ProductID i = p) items))" by simp
  then show ?thesis unfolding items_qty_def by (metis sum_mset_sum_list)
qed

lemma transition_items_core:
  assumes "inv_core tx" and "transition_items env rid target items tx = Inr tx'"
    and "\<forall>i\<in>set items. 0 < ri_Quantity i"
  shows "inv_core tx' \<and>
    inventory_reservations tx' = inventory_reservations tx \<and>
    inventory_reservation_items tx' = inventory_reservation_items tx \<and>
    inv_collate tx' = inv_collate tx \<and>
    (\<forall>p. resv tx' p = resv tx p - items_qty items p) \<and>
    (\<forall>p. avail tx' p = avail tx p + (if target = ReservationReleased then items_qty items p else 0))"
  using assms
proof (induction env rid target items tx rule: transition_items.induct)
  case (2 env rid target item items tx)
  from "2.prems"(2) obtain tx1 where one: "transition_item env rid target item tx = Inr tx1"
    and rest: "transition_items env rid target items tx1 = Inr tx'"
    by (auto split: sum.splits)
  have pos: "0 < ri_Quantity item" "\<forall>i\<in>set items. 0 < ri_Quantity i" using "2.prems"(3) by simp_all
  note c = transition_item_core [OF "2.prems"(1) one pos(1)]
  from "2.IH" [OF one c(1) rest pos(2)] show ?case by (simp add: c(2-6))
qed simp

section \<open>Transitions\<close>

lemma lookup_reservation_D:
  assumes "inv_core tx" and "lookup_reservation rid tx = Some r"
  shows "r \<in> set (inventory_reservations tx)" and "inv_collate tx (res_ID r) = inv_collate tx rid"
    and "lookup_by res_ID (res_ID r) (inventory_reservations tx) = Some r"
    and "reservation_status_of tx (res_ID r) = Some (res_Status r)"
proof -
  show mem: "r \<in> set (inventory_reservations tx)" and "inv_collate tx (res_ID r) = inv_collate tx rid"
    using lookup_by_Some_D [OF assms(2) [unfolded lookup_reservation_def]] by simp_all
  have "distinct (map (inv_collate tx) (map res_ID (inventory_reservations tx)))"
    using assms(1) by (simp add: inv_core_def o_def)
  then have "distinct (map res_ID (inventory_reservations tx))" by (rule distinct_map [THEN iffD1, THEN conjunct1])
  with mem show lk: "lookup_by res_ID (res_ID r) (inventory_reservations tx) = Some r"
    by (simp add: lookup_by_distinct)
  then show "reservation_status_of tx (res_ID r) = Some (res_Status r)"
    by (simp add: reservation_status_of_def)
qed

lemma set_reservation_status_Inr:
  assumes core: "inv_core tx" and lk: "lookup_reservation rid tx = Some r"
    and run: "set_reservation_status env rid target tx = Inr tx'"
  shows "inv_core tx'" and "resv tx' = resv tx" and "avail tx' = avail tx"
    and "inventory_reservation_items tx' = inventory_reservation_items tx"
    and "inv_collate tx' = inv_collate tx"
    and "\<And>x. reservation_status_of tx' x =
      (if x = res_ID r then Some target else reservation_status_of tx x)"
    and "\<And>x. lookup_reservation x tx' = map_option (\<lambda>y. if y = r
      then y\<lparr>res_Status := target, res_UpdatedAt := e_now env ResSetStatus\<rparr> else y) (lookup_reservation x tx)"
proof -
  let ?p = "\<lambda>r. inv_collate tx (res_ID r) = inv_collate tx rid"
  let ?f = "\<lambda>r. r\<lparr>res_Status := target, res_UpdatedAt := e_now env ResSetStatus\<rparr>"
  let ?g = "\<lambda>r. if ?p r then ?f r else r"
  note r = lookup_reservation_D [OF core lk]
  from run have tx': "tx' = tx\<lparr>inventory_reservations := map ?g (inventory_reservations tx)\<rparr>"
    by (auto simp: set_reservation_status_def stmt_Inr sql_update_Inr split: sum.splits)
  have eq: "avail tx' = avail tx" "resv tx' = resv tx"
    "log_available tx' = log_available tx" "log_reserved tx' = log_reserved tx"
    "inventory_items tx' = inventory_items tx"
    "inventory_reservation_items tx' = inventory_reservation_items tx" "inv_collate tx' = inv_collate tx"
    by (simp_all add: fun_eq_iff avail_def resv_def lookup_inventory_def log_available_def
        log_reserved_def log_sum_def tx')
  then show "resv tx' = resv tx" "avail tx' = avail tx" "inv_collate tx' = inv_collate tx"
    "inventory_reservation_items tx' = inventory_reservation_items tx" by simp_all
  have maps: "map res_ID (inventory_reservations tx') = map res_ID (inventory_reservations tx)"
    "map res_OrderID (inventory_reservations tx') = map res_OrderID (inventory_reservations tx)"
    "map (\<lambda>r. inv_collate tx (res_ID r)) (inventory_reservations tx') =
      map (\<lambda>r. inv_collate tx (res_ID r)) (inventory_reservations tx)"
    by (simp_all add: tx' o_def)
  have "res_ID ` set (inventory_reservations tx') = res_ID ` set (inventory_reservations tx)"
    using maps(1) by (metis set_map)
  with core show "inv_core tx'" unfolding inv_core_def eq maps by simp
  have dist: "distinct (map (\<lambda>r. inv_collate tx (res_ID r)) (inventory_reservations tx))"
    using core by (simp add: inv_core_def)
  have only: "?p y \<longleftrightarrow> y = r" if "y \<in> set (inventory_reservations tx)" for y
    using that r(1,2) dist by (auto simp: distinct_map inj_on_def)
  have "lookup_by res_ID x (inventory_reservations tx') =
    map_option ?g (lookup_by res_ID x (inventory_reservations tx))" for x
    by (simp add: tx' lookup_by_update)
  then show "reservation_status_of tx' x =
      (if x = res_ID r then Some target else reservation_status_of tx x)" for x
    using r(3) only by (auto simp: reservation_status_of_def option.map_comp o_def r(2)
        intro!: map_option_cong dest!: lookup_by_Some_D)
  have "lookup_reservation x tx' = map_option ?g (lookup_reservation x tx)" for x
    by (simp add: lookup_reservation_def tx' lookup_by_update)
  then show "lookup_reservation x tx' = map_option (\<lambda>y. if y = r then ?f y else y) (lookup_reservation x tx)"
    for x
    using only r(2)
    by (auto intro!: map_option_cong simp: lookup_reservation_def dest!: lookup_by_Some_D)
qed

lemma sum_list_filter_split:
  "sum_list (map f (filter P xs)) =
    sum_list (map f (filter (\<lambda>x. P x \<and> Q x) xs)) + sum_list (map f (filter (\<lambda>x. P x \<and> \<not> Q x) xs))"
  for f :: "'a \<Rightarrow> int"
  by (induction xs) auto

lemma held_close:
  assumes items: "inventory_reservation_items tx' = inventory_reservation_items tx"
    and st: "\<And>x. reservation_status_of tx' x = (if x = rid then Some target else reservation_status_of tx x)"
    and "target \<noteq> ReservationPending" and "reservation_status_of tx rid = Some ReservationPending"
  shows "held tx' p = held tx p -
    items_qty (filter (\<lambda>i. ri_ReservationID i = rid) (inventory_reservation_items tx)) p"
proof -
  let ?rows = "inventory_reservation_items tx"
  have "held tx p =
    sum_list (map ri_Quantity (filter (\<lambda>i. is_held tx p i \<and> ri_ReservationID i = rid) ?rows)) +
    sum_list (map ri_Quantity (filter (\<lambda>i. is_held tx p i \<and> ri_ReservationID i \<noteq> rid) ?rows))"
    unfolding held_def by (rule sum_list_filter_split)
  moreover have "filter (\<lambda>i. is_held tx p i \<and> ri_ReservationID i = rid) ?rows =
    filter (\<lambda>i. ri_ProductID i = p) (filter (\<lambda>i. ri_ReservationID i = rid) ?rows)"
    using assms(4) by (auto simp: is_held_def intro!: filter_cong)
  moreover have "filter (\<lambda>i. is_held tx p i \<and> ri_ReservationID i \<noteq> rid) ?rows = filter (is_held tx' p) ?rows"
    using assms(3) by (auto simp: is_held_def st split: if_splits intro!: filter_cong)
  ultimately show ?thesis by (simp add: held_def items items_qty_def)
qed

lemma transition_body_Inr:
  assumes ok: "inv_ok tx" and run: "transition_body env rid target tx = Inr (tx', res, items)"
    and target: "target \<noteq> ReservationPending"
  shows "\<exists>r. lookup_reservation rid tx = Some r \<and> res = r\<lparr>res_Status := target\<rparr> \<and>
    items = filter (\<lambda>i. ri_ReservationID i = res_ID r) (inventory_reservation_items tx) \<and>
    (res_Status r = target \<and> tx' = tx \<or>
     res_Status r = ReservationPending \<and> inv_ok tx' \<and> inv_collate tx' = inv_collate tx \<and>
     (\<forall>x. lookup_reservation x tx' = map_option (\<lambda>y. if y = r
        then y\<lparr>res_Status := target, res_UpdatedAt := e_now env ResSetStatus\<rparr> else y) (lookup_reservation x tx)) \<and>
     (\<forall>p. resv tx' p = resv tx p - items_qty items p) \<and>
     (\<forall>p. avail tx' p = avail tx p + (if target = ReservationReleased then items_qty items p else 0)))"
proof -
  have dn: "e_out env ResLock = Done"
    using run by (auto simp: transition_body_def stmt_def split: outcome.splits)
  with run obtain r where lk: "lookup_reservation rid tx = Some r"
    by (auto simp: transition_body_def split: option.splits)
  let ?items = "filter (\<lambda>i. ri_ReservationID i = res_ID r) (inventory_reservation_items tx)"
  from ok have core: "inv_core tx" by (simp add: inv_ok_def)
  note r = lookup_reservation_D [OF core lk]
  show ?thesis
  proof (cases "res_Status r = target")
    case True
    with run lk dn show ?thesis by (auto simp: transition_body_def Let_def preload_def)
  next
    case False
    with run lk dn obtain tx1 where pend: "res_Status r = ReservationPending"
      and loop: "transition_items env rid target (sort_key ri_ProductID ?items) tx = Inr tx1"
      and set: "set_reservation_status env rid target tx1 = Inr tx'"
      and out: "res = r\<lparr>res_Status := target\<rparr>" "items = ?items"
      by (auto simp: transition_body_def Let_def preload_def split: sum.splits if_splits)
    have "\<forall>i\<in>set (sort_key ri_ProductID ?items). 0 < ri_Quantity i"
      using core by (simp add: inv_core_def)
    note c = transition_items_core [OF core loop this]
    have lk1: "lookup_reservation x tx1 = lookup_reservation x tx" for x
      using c by (simp add: lookup_reservation_def)
    have st1: "reservation_status_of tx1 x = reservation_status_of tx x" for x
      using c by (simp add: reservation_status_of_def)
    have "inv_core tx1" using c by simp
    note s = set_reservation_status_Inr [OF this lk1 [of rid, unfolded lk] set, unfolded lk1 st1]
    have "held tx' p = held tx p - items_qty ?items p" for p
      using held_close [of tx' tx "res_ID r" target p] s c target r(4) pend by simp
    with c s ok have "inv_ok tx'" by (simp add: inv_ok_def)
    with pend lk out c s show ?thesis by simp
  qed
qed

lemma inventory_transition_Transaction:
  "TrimSpace rid0 \<noteq> [] \<Longrightarrow> inventory_transition env rid0 target db =
     Transaction (e_out env InvCommit) InvDB (transition_body env (TrimSpace rid0) target) db"
  "TrimSpace rid0 = [] \<Longrightarrow> inventory_transition env rid0 target db = (db, Inl ErrReservationNotFound)"
  by (simp_all add: inventory_transition_def)

lemma inventory_transition_ok:
  assumes "inv_ok db" and "target \<noteq> ReservationPending"
  shows "inv_ok (fst (inventory_transition env rid target db))"
proof (cases "TrimSpace rid = []")
  case False
  have "inv_ok s'" if "transition_body env (TrimSpace rid) target db = Inr (s', x)" for s' x
    using transition_body_Inr [OF assms(1) _ assms(2)] that assms(1) by (cases x) blast
  then show ?thesis
    unfolding inventory_transition_Transaction(1) [OF False] using assms(1) by (rule Transaction_preserves [rotated])
qed (simp add: inventory_transition_def assms)

section \<open>Reserve, Init and Add\<close>

lemma reserve_body_Inr:
  assumes "reserve_body env oid rid items tx = Inr (tx', x)"
  shows "(\<exists>r. lookup_by res_OrderID oid (inventory_reservations tx) = Some r \<and> tx' = tx \<and> x = preload tx r) \<or>
    (\<exists>tx1 r. lookup_by res_OrderID oid (inventory_reservations tx) = None \<and>
       create_reservation env rid oid tx = Inr tx1 \<and> reserve_items env rid items tx1 = Inr tx' \<and>
       lookup_reservation rid tx' = Some r \<and> x = preload tx' r)"
  using assms by (auto simp: reserve_body_def stmt_Inr split: sum.splits option.splits)

lemma inventory_Reserve_ok:
  assumes "inv_ok db"
  shows "inv_ok (fst (inventory_Reserve env req db))"
proof -
  have "inv_ok s'" if "reserve_body env oid rid items db = Inr (s', x)" for oid rid items s' x
    using reserve_body_Inr [OF that]
  proof (elim disjE exE conjE)
    fix tx1 r assume new: "create_reservation env rid oid db = Inr tx1"
      and loop: "reserve_items env rid items tx1 = Inr s'"
    note c = create_reservation_ok [OF assms new]
    show ?thesis using reserve_items_ok [OF c(1) loop c(2)] by simp
  qed (simp add: assms)
  then have "inv_ok (fst (Transaction c w (reserve_body env oid rid items) db))" for c w oid rid items
    using assms by (rule Transaction_preserves [rotated])
  with assms show ?thesis
    by (simp add: inventory_Reserve_def Let_def split: sum.split)
qed

lemma inventory_Init_effect:
  assumes run: "inventory_Init env pid q db = (db', Inr r)"
  shows "0 < pid" and "0 \<le> q" and "lookup_inventory pid db = None"
    and "inventory_items db' = inventory_items db @ [r]" and "inv_ProductID r = pid"
    and "inv_AvailableQuantity r = q" and "inv_ReservedQuantity r = 0" and "inv_check r = None"
    and "db' = db\<lparr>inventory_items := inventory_items db @ [r],
      inventory_stock_logs := inventory_stock_logs db @
        [\<lparr>sl_ID = inv_next_log db, sl_ProductID = pid, sl_ChangeType = LogInitialize, sl_Quantity = q,
          sl_ReferenceID = [], sl_CreatedAt = e_now env (InvLog pid)\<rparr>],
      inv_next_log := inv_next_log db + 1\<rparr>"
  using run
  by (auto simp: inventory_Init_def Let_def Transaction_Inr stmt_Inr sql_insert_Inr create_stock_log_def
      lookup_inventory_def lookup_by_None_iff split: if_splits sum.splits)

lemma lookup_inventory_append:
  "lookup_inventory p (tx\<lparr>inventory_items := inventory_items tx @ [r]\<rparr>) =
    (case lookup_inventory p tx of Some x \<Rightarrow> Some x | None \<Rightarrow> if inv_ProductID r = p then Some r else None)"
  by (simp add: lookup_inventory_def lookup_by_append split: option.split)

text \<open>Every write keeps the invariant when its transaction body does.\<close>

lemma inventory_Init_ok:
  assumes ok: "inv_ok db"
  shows "inv_ok (fst (inventory_Init env pid q db))"
proof -
  let ?r = "\<lparr>inv_ProductID = pid, inv_AvailableQuantity = q, inv_ReservedQuantity = 0, inv_Version = 0,
      inv_CreatedAt = e_now env InvInsert, inv_UpdatedAt = e_now env InvInsert\<rparr>"
  let ?db = "db\<lparr>inventory_items := inventory_items db @ [?r],
      inventory_stock_logs := inventory_stock_logs db @
        [\<lparr>sl_ID = inv_next_log db, sl_ProductID = pid, sl_ChangeType = LogInitialize, sl_Quantity = q,
          sl_ReferenceID = [], sl_CreatedAt = e_now env (InvLog pid)\<rparr>],
      inv_next_log := inv_next_log db + 1\<rparr>"
  have "inv_ok ?db" if fresh: "\<forall>x\<in>set (inventory_items db). pid \<noteq> inv_ProductID x"
    and chk: "inv_check ?r = None"
  proof -
    have none: "lookup_inventory pid db = None"
      using fresh by (auto simp: lookup_inventory_def lookup_by_None_iff)
    have lk: "lookup_inventory p ?db = (if p = pid then Some ?r else lookup_inventory p db)" for p
      using none by (auto simp: lookup_inventory_def lookup_by_append split: option.split)
    have av: "avail ?db p = avail db p + (if p = pid then q else 0)" "resv ?db p = resv db p" for p
      unfolding avail_def resv_def lk by (simp_all add: none)
    have held: "held ?db p = held db p" for p
      by (simp add: held_def is_held_def[abs_def] reservation_status_of_def)
    have logs: "inventory_stock_logs ?db = inventory_stock_logs db @
        [\<lparr>sl_ID = inv_next_log db, sl_ProductID = pid, sl_ChangeType = LogInitialize, sl_Quantity = q,
          sl_ReferenceID = [], sl_CreatedAt = e_now env (InvLog pid)\<rparr>]" by simp
    from ok fresh chk show ?thesis
      unfolding inv_ok_def inv_core_def av held log_available_def log_reserved_def log_sum_append [OF logs]
      by auto
  qed
  with ok show ?thesis
    by (auto simp: inventory_Init_def Let_def Transaction_def stmt_Inr sql_insert_Inr create_stock_log_def
        split: sum.splits outcome.splits)
qed

lemma inventory_Add_body:
  assumes ok: "inv_ok tx" and q: "0 < q"
    and u: "update_inventory env pid (\<lambda>r. True)
       (\<lambda>r. r\<lparr>inv_AvailableQuantity := inv_AvailableQuantity r + q\<rparr>) tx = Inr (tx1, n)"
    and known: "lookup_inventory pid tx = Some r0"
    and l: "create_stock_log env pid LogAdd q [] tx1 = Inr tx'"
  shows "inv_ok tx'" and "\<And>p. avail tx' p = avail tx p + (if p = pid then q else 0)"
    and "\<And>p. resv tx' p = resv tx p"
proof -
  from ok have dist: "distinct (map inv_ProductID (inventory_items tx))"
    and chk: "\<forall>x\<in>set (inventory_items tx). inv_check x = None"
    by (simp_all add: inv_ok_def inv_core_def)
  have "n = 1" using u known length_filter_key [OF dist, of pid "\<lambda>_. True"]
    by (auto simp: update_inventory_def stmt_Inr sql_update_Inr lookup_inventory_def split: sum.splits)
  note u1 = u [unfolded this]
  have key: "inv_ProductID (x\<lparr>inv_AvailableQuantity := inv_AvailableQuantity x + q\<rparr>) = inv_ProductID x" for x
    by simp
  obtain r r' irows where r: "lookup_inventory pid tx = Some r"
    and r': "r' = (r\<lparr>inv_AvailableQuantity := inv_AvailableQuantity r + q\<rparr>)
       \<lparr>inv_Version := inv_Version r + 1, inv_UpdatedAt := e_now env (InvUpdate pid)\<rparr>"
    and tx1: "tx1 = tx\<lparr>inventory_items := irows\<rparr>"
    and ids: "map inv_ProductID irows = map inv_ProductID (inventory_items tx)"
    and lk: "\<forall>p. lookup_inventory p tx1 = (if p = pid then Some r' else lookup_inventory p tx)"
    and chk': "\<forall>x\<in>set irows. inv_check x = None"
    using update_inventory_one [OF u1 dist chk key] by (elim exE conjE) (rule that)
  note tx' = create_stock_log_Inr [OF l]
  have irows: "inventory_items tx' = irows" by (simp add: tx' tx1)
  have same: "inventory_reservations tx' = inventory_reservations tx"
    "inventory_reservation_items tx' = inventory_reservation_items tx"
    "inv_collate tx' = inv_collate tx" "held tx' p = held tx p" for p
    by (simp_all add: tx' tx1 held_def is_held_def[abs_def] reservation_status_of_def)
  have lk': "lookup_inventory p tx' = lookup_inventory p tx1" for p
    by (simp add: tx' lookup_inventory_def)
  have logs: "inventory_stock_logs tx' = inventory_stock_logs tx @
     [\<lparr>sl_ID = inv_next_log tx, sl_ProductID = pid, sl_ChangeType = LogAdd, sl_Quantity = q,
       sl_ReferenceID = [], sl_CreatedAt = e_now env (InvLog pid)\<rparr>]"
    by (simp add: tx' tx1)
  show av: "avail tx' p = avail tx p + (if p = pid then q else 0)" for p
    by (simp add: avail_def lk' lk r r')
  show rs: "resv tx' p = resv tx p" for p
    by (simp add: resv_def lk' lk r r')
  have "set (map inv_ProductID irows) = set (map inv_ProductID (inventory_items tx))" by (simp only: ids)
  then have img: "inv_ProductID ` set irows = inv_ProductID ` set (inventory_items tx)" by simp
  from ok show "inv_ok tx'"
    unfolding inv_ok_def inv_core_def same irows img av rs log_available_def log_reserved_def
      log_sum_append [OF logs]
    using ids chk' by auto
qed

lemma inventory_Add_ok:
  assumes "inv_ok db"
  shows "inv_ok (fst (inventory_Add env pid q db))"
proof -
  have "inv_ok tx'" if "0 < q" "lookup_inventory pid db = Some r0"
    "update_inventory env pid (\<lambda>r. True)
       (\<lambda>r. r\<lparr>inv_AvailableQuantity := inv_AvailableQuantity r + q\<rparr>) db = Inr (tx1, n)"
    "create_stock_log env pid LogAdd q [] tx1 = Inr tx'" for tx1 n tx' r0
    using inventory_Add_body(1) [OF assms that(1,3,2,4)] .
  then show ?thesis
    using assms
    by (auto simp: inventory_Add_def Transaction_def stmt_def split: sum.split option.split outcome.split)
qed

section \<open>Sequences of calls\<close>

text \<open>A call of the service, with what its database connection does during it.\<close>

datatype inv_call =
    CallInit "inv_site env" int int
  | CallAdd "inv_site env" int int
  | CallReserve "inv_site env" ReserveRequest
  | CallConfirm "inv_site env" string
  | CallRelease "inv_site env" string

fun inv_exec :: "inv_call \<Rightarrow> inventory_db \<Rightarrow> inventory_db" where
  "inv_exec (CallInit env pid q) db = fst (inventory_Init env pid q db)"
| "inv_exec (CallAdd env pid q) db = fst (inventory_Add env pid q db)"
| "inv_exec (CallReserve env req) db = fst (inventory_Reserve env req db)"
| "inv_exec (CallConfirm env rid) db = fst (inventory_Confirm env rid db)"
| "inv_exec (CallRelease env rid) db = fst (inventory_Release env rid db)"

definition empty_inventory :: "(string \<Rightarrow> string) \<Rightarrow> inventory_db" where
  "empty_inventory collate =
    \<lparr>inventory_items = [], inventory_reservations = [], inventory_reservation_items = [],
     inventory_stock_logs = [], inv_next_item = 1, inv_next_log = 1, inv_collate = collate\<rparr>"

lemma inv_ok_empty: "inv_ok (empty_inventory collate)"
  by (simp add: inv_ok_def inv_core_def empty_inventory_def avail_def resv_def lookup_inventory_def
      log_available_def log_reserved_def log_sum_def held_def)

lemma inv_exec_ok: "inv_ok db \<Longrightarrow> inv_ok (inv_exec c db)"
  by (cases c) (simp_all add: inventory_Init_ok inventory_Add_ok inventory_Reserve_ok
      inventory_Confirm_def inventory_Release_def inventory_transition_ok)

lemma inv_exec_fold_ok: "inv_ok db \<Longrightarrow> inv_ok (fold inv_exec cs db)"
  by (induction cs arbitrary: db) (simp_all add: inv_exec_ok)

lemma inv_ok_nonneg:
  assumes "inv_ok db"
  shows "0 \<le> avail db p" and "0 \<le> resv db p" and "avail db p \<le> int64_max" and "resv db p \<le> int64_max"
proof -
  have "inv_check r = None" if "lookup_inventory p db = Some r" for r
    using lookup_inventory_mem [OF that] assms by (simp add: inv_ok_def inv_core_def)
  then show "0 \<le> avail db p" "0 \<le> resv db p" "avail db p \<le> int64_max" "resv db p \<le> int64_max"
    by (auto simp: avail_def resv_def inv_check_None int64_defs split: option.split)
qed

section \<open>What a reservation takes\<close>

text \<open>The pairs of product and quantity of a request and of stored items.\<close>

abbreviation req_pairs :: "ItemRequest list \<Rightarrow> (int \<times> int) list" where
  "req_pairs items \<equiv> map (\<lambda>i. (ir_ProductID i, ir_Quantity i)) items"

abbreviation item_pairs :: "ReservationItem list \<Rightarrow> (int \<times> int) list" where
  "item_pairs items \<equiv> map (\<lambda>i. (ri_ProductID i, ri_Quantity i)) items"

lemma items_qty_requested: "items_qty items p = requested p (item_pairs items)"
  by (induction items) auto

lemma normalizeItems_Inr:
  assumes "normalizeItems items = Inr its"
  shows "sorted (map ir_ProductID its)" and "distinct (map ir_ProductID its)"
    and "set (map ir_ProductID its) = set (map ir_ProductID items)"
    and "\<And>p. requested p (req_pairs its) = wrap64 (requested p (req_pairs items))"
    and "items \<noteq> []" and "length items \<le> 100"
    and "\<And>i. i \<in> set items \<Longrightarrow> 0 < ir_ProductID i \<and> 0 < ir_Quantity i"
proof -
  let ?f = "\<lambda>(p, q). \<lparr>ir_ProductID = p, ir_Quantity = q\<rparr>"
  from assms obtain m where m: "sum_quantities (req_pairs items) [] = Some m"
    and its: "its = map ?f (sort_key fst m)" and len: "items \<noteq> []" "length items \<le> 100"
    by (auto simp: normalizeItems_def split: if_splits option.splits)
  have d: "distinct (map fst m)" and k: "fst ` set m = fst ` set (req_pairs items)"
    using sum_quantities_Some_D(1,2) [OF m] by simp_all
  have ids: "map ir_ProductID its = map fst (sort_key fst m)"
    by (simp add: its o_def case_prod_beta)
  have prs: "req_pairs its = sort_key fst m"
    by (simp add: its o_def case_prod_beta)
  show "sorted (map ir_ProductID its)" unfolding ids by (rule sorted_sort_key)
  have "mset (map fst (sort_key fst m)) = mset (map fst m)" by simp
  with d show "distinct (map ir_ProductID its)"
    unfolding ids by (metis distinct_sort mset_eq_imp_distinct_iff)
  show "set (map ir_ProductID its) = set (map ir_ProductID items)"
    unfolding ids using k by (simp add: image_image)
  show "requested p (req_pairs its) = wrap64 (requested p (req_pairs items))" for p
    unfolding prs by (simp add: requested_distinct [OF d] sum_quantities_wrap [OF m])
  show "items \<noteq> []" "length items \<le> 100" by (rule len)+
  show "0 < ir_ProductID i \<and> 0 < ir_Quantity i" if "i \<in> set items" for i
    using sum_quantities_Some_D(3) [OF m, of "ir_ProductID i" "ir_Quantity i"] that by force
qed

lemma reserve_items_effect:
  assumes "inv_core tx" and "reserve_items env rid items tx = Inr tx'"
    and "rid \<in> res_ID ` set (inventory_reservations tx)"
  shows "\<exists>new. inventory_reservation_items tx' = inventory_reservation_items tx @ new \<and>
      item_pairs new = req_pairs items \<and> (\<forall>i\<in>set new. ri_ReservationID i = rid) \<and>
      inventory_reservations tx' = inventory_reservations tx \<and> inv_collate tx' = inv_collate tx \<and>
      (\<forall>p. avail tx' p = avail tx p - requested p (req_pairs items)) \<and>
      (\<forall>p. resv tx' p = resv tx p + requested p (req_pairs items))"
  using assms
proof (induction env rid items tx rule: reserve_items.induct)
  case (2 env rid item items tx)
  from "2.prems"(2) obtain tx1 where one: "reserve_item env rid item tx = Inr tx1"
    and rest: "reserve_items env rid items tx1 = Inr tx'"
    by (auto split: sum.splits)
  note c = reserve_item_core [OF "2.prems"(1) one "2.prems"(3)]
  from c(4) obtain n where n: "inventory_reservation_items tx1 = inventory_reservation_items tx @
      [\<lparr>ri_ID = n, ri_ReservationID = rid, ri_ProductID = ir_ProductID item,
        ri_Quantity = ir_Quantity item\<rparr>]" ..
  have "rid \<in> res_ID ` set (inventory_reservations tx1)" using "2.prems"(3) c(2) by simp
  from "2.IH" [OF one c(1) rest this] obtain new where
    ih: "inventory_reservation_items tx' = inventory_reservation_items tx1 @ new"
      "item_pairs new = req_pairs items" "\<forall>i\<in>set new. ri_ReservationID i = rid"
      "inventory_reservations tx' = inventory_reservations tx1" "inv_collate tx' = inv_collate tx1"
      "\<forall>p. avail tx' p = avail tx1 p - requested p (req_pairs items)"
      "\<forall>p. resv tx' p = resv tx1 p + requested p (req_pairs items)"
    by (elim exE conjE)
  show ?case
    by (rule exI [of _ "\<lparr>ri_ID = n, ri_ReservationID = rid, ri_ProductID = ir_ProductID item,
        ri_Quantity = ir_Quantity item\<rparr> # new"]) (simp add: ih n c(2,3,6,7))
qed simp

text \<open>A \<^verbatim>\<open>Reserve\<close> that commits for an order without reservation stores the normalised request as
  a pending reservation and moves exactly its quantities.\<close>

lemma reserve_body_new:
  assumes ok: "inv_ok tx" and run: "reserve_body env oid rid items tx = Inr (tx', r, its)"
    and new: "oid \<notin> res_OrderID ` set (inventory_reservations tx)"
  shows "res_ID r = rid \<and> res_OrderID r = oid \<and> res_Status r = ReservationPending \<and>
    item_pairs its = req_pairs items \<and> lookup_reservation rid tx' = Some r \<and>
    inv_collate tx' = inv_collate tx \<and>
    inventory_reservations tx' = inventory_reservations tx @ [r] \<and>
    (\<forall>p. avail tx' p = avail tx p - requested p (req_pairs items)) \<and>
    (\<forall>p. resv tx' p = resv tx p + requested p (req_pairs items))"
proof -
  have none: "lookup_by res_OrderID oid (inventory_reservations tx) = None"
    using new by (simp add: lookup_by_None_iff)
  with reserve_body_Inr [OF run] obtain tx1 where
    create: "create_reservation env rid oid tx = Inr tx1"
    and loop: "reserve_items env rid items tx1 = Inr tx'"
    and lk: "lookup_reservation rid tx' = Some r" and its: "(r, its) = preload tx' r"
    by (auto simp: preload_def)
  let ?new = "\<lparr>res_ID = rid, res_OrderID = oid, res_Status = ReservationPending,
      res_CreatedAt = e_now env ResInsert, res_UpdatedAt = e_now env ResInsert\<rparr>"
  from create have tx1: "tx1 = tx\<lparr>inventory_reservations := inventory_reservations tx @ [?new]\<rparr>"
    and fresh: "\<forall>x\<in>set (inventory_reservations tx). inv_collate tx rid \<noteq> inv_collate tx (res_ID x)"
    by (auto simp: create_reservation_def stmt_Inr sql_insert_Inr split: sum.splits)
  note c = create_reservation_ok [OF ok create]
  have core1: "inv_core tx1" using c(1) by (simp add: inv_ok_def)
  have "rid \<in> res_ID ` set (inventory_reservations tx1)" by (simp add: tx1)
  from reserve_items_effect [OF core1 loop this] obtain new where
    e: "inventory_reservation_items tx' = inventory_reservation_items tx1 @ new"
      "item_pairs new = req_pairs items" "\<forall>i\<in>set new. ri_ReservationID i = rid"
      "inventory_reservations tx' = inventory_reservations tx1" "inv_collate tx' = inv_collate tx1"
      "\<forall>p. avail tx' p = avail tx1 p - requested p (req_pairs items)"
      "\<forall>p. resv tx' p = resv tx1 p + requested p (req_pairs items)"
    by (elim exE conjE)
  have "lookup_by (\<lambda>x. inv_collate tx (res_ID x)) (inv_collate tx rid) (inventory_reservations tx) = None"
    using fresh by (auto simp: lookup_by_None_iff)
  then have r: "r = ?new"
    using lk e(4,5) by (simp add: lookup_reservation_def tx1 lookup_by_append)
  have "filter (\<lambda>i. ri_ReservationID i = rid) (inventory_reservation_items tx) = []"
    using ok fresh by (force simp: filter_empty_conv inv_ok_def inv_core_def)
  moreover have "filter (\<lambda>i. ri_ReservationID i = rid) new = new"
    using e(3) by (simp add: filter_id_conv)
  ultimately have "its = new"
    using its by (simp add: preload_def r e(1) tx1)
  moreover have "avail tx1 = avail tx" "resv tx1 = resv tx"
    by (simp_all add: fun_eq_iff avail_def resv_def lookup_inventory_def tx1)
  ultimately show ?thesis using lk e by (simp add: r tx1)
qed

section \<open>The life of a reservation\<close>

text \<open>The status a caller of \<^verbatim>\<open>Confirm\<close> or \<^verbatim>\<open>Release\<close> refers to with an id.\<close>

definition rstatus :: "inventory_db \<Rightarrow> string \<Rightarrow> reservation_status option" where
  "rstatus db rid = map_option res_Status (lookup_reservation (TrimSpace rid) db)"

text \<open>A final status is kept, and no reservation disappears.\<close>

definition res_evolves :: "inventory_db \<Rightarrow> inventory_db \<Rightarrow> bool" where
  "res_evolves db db' \<longleftrightarrow> (\<forall>rid s. rstatus db rid = Some s \<longrightarrow>
     rstatus db' rid = Some s \<or> s = ReservationPending \<and> rstatus db' rid \<noteq> None)"

lemma res_evolves_refl [simp]: "res_evolves db db"
  by (simp add: res_evolves_def)

lemma res_evolves_trans: "res_evolves a b \<Longrightarrow> res_evolves b c \<Longrightarrow> res_evolves a c"
  unfolding res_evolves_def by (metis not_None_eq)

lemma res_evolves_final:
  "res_evolves db db' \<Longrightarrow> rstatus db rid = Some s \<Longrightarrow> s \<noteq> ReservationPending \<Longrightarrow> rstatus db' rid = Some s"
  unfolding res_evolves_def by blast

lemma res_evolves_lookup:
  assumes "\<And>x. lookup_reservation x db' = map_option f (lookup_reservation x db)"
    and "\<And>y. res_Status y \<noteq> ReservationPending \<Longrightarrow> res_Status (f y) = res_Status y"
  shows "res_evolves db db'"
  using assms(2) by (auto simp: res_evolves_def rstatus_def assms(1) split: option.splits)

lemma res_evolves_append:
  assumes "inventory_reservations db' = inventory_reservations db @ rs" and "inv_collate db' = inv_collate db"
  shows "res_evolves db db'"
  unfolding res_evolves_def rstatus_def lookup_reservation_def assms
  by (auto simp: lookup_by_append split: option.splits)

lemma transition_body_evolves:
  assumes "inv_ok tx" and "transition_body env rid target tx = Inr (tx', x)" and "target \<noteq> ReservationPending"
  shows "res_evolves tx tx'" and "map_option res_Status (lookup_reservation rid tx') = Some target"
proof -
  obtain res items where x: "x = (res, items)" by (cases x)
  from transition_body_Inr [OF assms(1) assms(2) [unfolded x] assms(3)] obtain r where
    lk: "lookup_reservation rid tx = Some r"
    and alt: "res_Status r = target \<and> tx' = tx \<or> res_Status r = ReservationPending \<and>
     (\<forall>x. lookup_reservation x tx' = map_option (\<lambda>y. if y = r
        then y\<lparr>res_Status := target, res_UpdatedAt := e_now env ResSetStatus\<rparr> else y) (lookup_reservation x tx))"
    by blast
  from alt show "res_evolves tx tx'"
  proof
    assume "res_Status r = ReservationPending \<and> (\<forall>x. lookup_reservation x tx' = map_option (\<lambda>y. if y = r
        then y\<lparr>res_Status := target, res_UpdatedAt := e_now env ResSetStatus\<rparr> else y) (lookup_reservation x tx))"
    then show ?thesis
      by (intro res_evolves_lookup [where f = "\<lambda>y. if y = r
        then y\<lparr>res_Status := target, res_UpdatedAt := e_now env ResSetStatus\<rparr> else y"]) (blast, auto)
  qed simp
  from alt lk show "map_option res_Status (lookup_reservation rid tx') = Some target" by auto
qed

lemma inventory_transition_evolves:
  assumes "inv_ok db" and "target \<noteq> ReservationPending"
  shows "res_evolves db (fst (inventory_transition env rid target db))"
proof (cases "TrimSpace rid = []")
  case False
  show ?thesis
    unfolding inventory_transition_Transaction(1) [OF False]
    by (rule Transaction_preserves [of "res_evolves db"])
      (simp_all add: transition_body_evolves(1) [OF assms(1) _ assms(2)])
qed (simp add: inventory_transition_def)

lemma inventory_transition_Inr:
  assumes "inv_ok db" and "target \<noteq> ReservationPending"
    and "inventory_transition env rid target db = (db', Inr x)"
  shows "rstatus db' rid = Some target"
proof -
  have ne: "TrimSpace rid \<noteq> []"
    using assms(3) by (auto simp: inventory_transition_def)
  from assms(3) have "transition_body env (TrimSpace rid) target db = Inr (db', x)"
    unfolding inventory_transition_Transaction(1) [OF ne] by (simp add: Transaction_Inr)
  from transition_body_evolves(2) [OF assms(1) this assms(2)] show ?thesis
    by (simp add: rstatus_def)
qed

lemma reserve_body_rows:
  assumes "inv_ok tx" and "reserve_body env oid rid items tx = Inr (tx', x)"
  shows "\<exists>rs. inventory_reservations tx' = inventory_reservations tx @ rs \<and> inv_collate tx' = inv_collate tx"
proof (cases "oid \<in> res_OrderID ` set (inventory_reservations tx)")
  case True
  then have "lookup_by res_OrderID oid (inventory_reservations tx) \<noteq> None" by (simp add: lookup_by_None_iff)
  with reserve_body_Inr [OF assms(2)] show ?thesis by auto
next
  case False
  obtain r its where "x = (r, its)" by (cases x)
  with reserve_body_new [OF assms(1) _ False] assms(2) show ?thesis by blast
qed

lemma inv_exec_evolves:
  assumes ok: "inv_ok db"
  shows "res_evolves db (inv_exec c db)"
proof (cases c)
  case (CallReserve env req)
  have "res_evolves db (fst (Transaction cm w (reserve_body env oid rid items) db))" for cm w oid rid items
  proof (rule Transaction_preserves [of "res_evolves db"])
    fix tx' x assume "reserve_body env oid rid items db = Inr (tx', x)"
    from reserve_body_rows [OF ok this] show "res_evolves db tx'" by (auto intro: res_evolves_append)
  qed simp
  with CallReserve show ?thesis by (simp add: inventory_Reserve_def Let_def split: sum.split)
next
  case (CallInit env pid q)
  have "inventory_reservations (inv_exec c db) = inventory_reservations db @ []"
    "inv_collate (inv_exec c db) = inv_collate db"
    by (auto simp: CallInit inventory_Init_def Let_def Transaction_def stmt_def create_stock_log_def
        split: sum.splits outcome.splits)
  then show ?thesis by (rule res_evolves_append)
next
  case (CallAdd env pid q)
  have "inventory_reservations (inv_exec c db) = inventory_reservations db @ []"
    "inv_collate (inv_exec c db) = inv_collate db"
    by (auto simp: CallAdd inventory_Add_def Transaction_def stmt_def create_stock_log_def
        update_inventory_def split: sum.splits outcome.splits option.splits)
  then show ?thesis by (rule res_evolves_append)
qed (simp_all add: inventory_Confirm_def inventory_Release_def inventory_transition_evolves ok)

section \<open>Progress\<close>

lemma update_inventory_succeeds:
  assumes "e_out env (InvUpdate pid) = Done" and dist: "distinct (map inv_ProductID (inventory_items tx))"
    and lk: "lookup_inventory pid tx = Some r" and "P r"
    and "inv_check ((f r)\<lparr>inv_Version := inv_Version r + 1, inv_UpdatedAt := e_now env (InvUpdate pid)\<rparr>) = None"
  shows "\<exists>tx'. update_inventory env pid P f tx = Inr (tx', 1)"
proof -
  let ?g = "\<lambda>r. (f r)\<lparr>inv_Version := inv_Version r + 1, inv_UpdatedAt := e_now env (InvUpdate pid)\<rparr>"
  have only: "x = r" if "x \<in> set (inventory_items tx)" "inv_ProductID x = pid" for x
    using lookup_by_distinct [OF dist that(1)] that(2) lk by (simp add: lookup_inventory_def)
  have "inv_check (?g x) = None" if "x \<in> set (inventory_items tx)" "inv_ProductID x = pid" for x
    unfolding only [OF that] by (rule assms(5))
  then have "\<forall>x\<in>set (inventory_items tx). inv_ProductID x = pid \<and> P x \<longrightarrow> inv_check (?g x) = None"
    by (intro ballI impI, elim conjE)
  moreover have "length (filter (\<lambda>x. inv_ProductID x = pid \<and> P x) (inventory_items tx)) = 1"
    using length_filter_key [OF dist, of pid P] lk assms(4) by (simp add: lookup_inventory_def)
  ultimately have "sql_update inv_check (\<lambda>x. inv_ProductID x = pid \<and> P x) ?g (inventory_items tx) =
      Inr (map (\<lambda>x. if inv_ProductID x = pid \<and> P x then ?g x else x) (inventory_items tx), 1)"
    by (simp add: sql_update_Inr)
  then show ?thesis using assms(1) by (simp add: update_inventory_def)
qed

text \<open>No row is about to overflow its version counter, and releasing what is reserved fits.\<close>

definition headroom :: "int \<Rightarrow> inventory_db \<Rightarrow> bool" where
  "headroom n db \<longleftrightarrow> (\<forall>r\<in>set (inventory_items db).
     inv_Version r + n \<le> int64_max \<and> inv_AvailableQuantity r + inv_ReservedQuantity r \<le> int64_max)"

lemma headroom_le: "headroom n tx \<Longrightarrow> m \<le> n \<Longrightarrow> headroom m tx"
  by (auto simp: headroom_def dest!: bspec)

lemma transition_item_succeeds:
  assumes core: "inv_core tx" and ff: "fault_free env" and room: "headroom (n + 1) tx" "0 \<le> n"
    and q: "0 < ri_Quantity item" "ri_Quantity item \<le> resv tx (ri_ProductID item)"
  shows "\<exists>tx'. transition_item env rid target item tx = Inr tx' \<and> headroom n tx'"
proof -
  let ?pid = "ri_ProductID item" and ?q = "ri_Quantity item"
  from q obtain r where lk: "lookup_inventory ?pid tx = Some r" and le: "?q \<le> inv_ReservedQuantity r"
    by (auto simp: resv_def split: option.splits)
  have mem: "r \<in> set (inventory_items tx)" using lookup_inventory_mem [OF lk] by simp
  from core have dist: "distinct (map inv_ProductID (inventory_items tx))" and "inv_check r = None"
    and chk: "\<forall>x\<in>set (inventory_items tx). inv_check x = None"
    using mem by (simp_all add: inv_core_def)
  with room mem le q(1) have "inv_check ((transition_updates target ?q r)
      \<lparr>inv_Version := inv_Version r + 1, inv_UpdatedAt := e_now env (InvUpdate ?pid)\<rparr>) = None"
    by (auto simp: inv_check_None headroom_def int64_defs)
  from update_inventory_succeeds [where P = "\<lambda>r. ?q \<le> inv_ReservedQuantity r" and f = "transition_updates target ?q",
      OF fault_free_Done [OF ff] dist lk le this]
  obtain tx1 where u: "update_inventory env ?pid (\<lambda>r. ?q \<le> inv_ReservedQuantity r)
      (transition_updates target ?q) tx = Inr (tx1, 1)" ..
  have "headroom n tx1"
  proof -
    from u have rows: "inventory_items tx1 = map (\<lambda>x. if inv_ProductID x = ?pid \<and> ?q \<le> inv_ReservedQuantity x
        then (transition_updates target ?q x)
          \<lparr>inv_Version := inv_Version x + 1, inv_UpdatedAt := e_now env (InvUpdate ?pid)\<rparr> else x)
        (inventory_items tx)"
      by (auto simp: update_inventory_def stmt_Inr sql_update_Inr split: sum.splits)
    show ?thesis unfolding headroom_def rows using room q(1) by (auto simp: headroom_def)
  qed
  then have "headroom n (tx1\<lparr>inventory_stock_logs := l, inv_next_log := m\<rparr>)" for l m
    by (simp add: headroom_def)
  then show ?thesis
    using ff u lk by (simp add: transition_item_def Let_def create_stock_log_def)
qed

lemma transition_items_succeeds:
  assumes "inv_core tx" and "fault_free env" and "headroom (int (length items)) tx"
    and "\<forall>i\<in>set items. 0 < ri_Quantity i" and "\<And>p. items_qty items p \<le> resv tx p"
  shows "\<exists>tx'. transition_items env rid target items tx = Inr tx'"
  using assms
proof (induction items arbitrary: tx)
  case (Cons item items)
  let ?n = "int (length items)"
  have nonneg: "0 \<le> items_qty items p" for p
    using Cons.prems(4) by (induction items) auto
  have "ri_Quantity item \<le> resv tx (ri_ProductID item)"
    using Cons.prems(5) [of "ri_ProductID item"] nonneg [of "ri_ProductID item"] by simp
  moreover have "headroom (?n + 1) tx" using Cons.prems(3) by (simp add: add.commute)
  ultimately obtain tx1 where one: "transition_item env rid target item tx = Inr tx1" "headroom ?n tx1"
    using transition_item_succeeds [where rid = rid and target = target and n = ?n and item = item,
        OF Cons.prems(1,2)] Cons.prems(4) by auto
  have q: "0 < ri_Quantity item" using Cons.prems(4) by simp
  note c = transition_item_core [OF Cons.prems(1) one(1) q]
  have "items_qty items p \<le> resv tx1 p" for p
    using Cons.prems(5) [of p] by (simp add: c(5))
  with Cons.IH [OF c(1) Cons.prems(2) one(2)] Cons.prems(4) one(1) show ?case by simp
qed simp

lemma transition_body_succeeds:
  assumes ok: "inv_ok tx" and ff: "fault_free env"
    and lk: "lookup_reservation rid tx = Some r"
    and st: "res_Status r = ReservationPending \<or> res_Status r = target"
    and room: "headroom (int (length (inventory_reservation_items tx))) tx"
  shows "\<exists>tx' x. transition_body env rid target tx = Inr (tx', x)"
proof (cases "res_Status r = target")
  case False
  let ?items = "filter (\<lambda>i. ri_ReservationID i = res_ID r) (inventory_reservation_items tx)"
  let ?sorted = "sort_key ri_ProductID ?items"
  have core: "inv_core tx" using ok by (simp add: inv_ok_def)
  then have pos: "\<forall>i\<in>set ?sorted. 0 < ri_Quantity i" by (simp add: inv_core_def)
  have "reservation_status_of tx (res_ID r) = Some ReservationPending"
    using lookup_reservation_D(4) [OF core lk] st False by simp
  then have "filter (\<lambda>i. is_held tx p i \<and> ri_ReservationID i = res_ID r) (inventory_reservation_items tx) =
    filter (\<lambda>i. ri_ProductID i = p) ?items" for p
    by (auto simp: is_held_def intro!: filter_cong)
  moreover have "0 \<le> sum_list (map ri_Quantity (filter (\<lambda>i. is_held tx p i \<and> ri_ReservationID i \<noteq> res_ID r)
      (inventory_reservation_items tx)))" for p
    using core by (intro sum_list_nonneg) (auto simp: inv_core_def)
  ultimately have le: "items_qty ?sorted p \<le> resv tx p" for p
    using ok sum_list_filter_split [of ri_Quantity "is_held tx p" "inventory_reservation_items tx"
      "\<lambda>i. ri_ReservationID i = res_ID r"]
    by (simp add: inv_ok_def held_def items_qty_def [of ?items])
  have "headroom (int (length ?sorted)) tx"
    by (rule headroom_le [OF room]) simp
  from transition_items_succeeds [OF core ff this pos le] obtain tx1
    where "transition_items env rid target ?sorted tx = Inr tx1" ..
  moreover have "sql_update (\<lambda>_. None) p f rows = Inr (map (\<lambda>r. if p r then f r else r) rows, length (filter p rows))"
    for p :: "Reservation \<Rightarrow> bool" and f rows by (simp add: sql_update_Inr)
  ultimately show ?thesis
    using ff lk st False
    by (simp add: transition_body_def preload_def Let_def set_reservation_status_def)
qed (use ff lk in \<open>simp add: transition_body_def preload_def Let_def\<close>)

end
