(* ===== verification/Clients.thy ===== *)
theory Clients
  imports Executor Inventory_API Inventory_Correct
begin

text \<open>
  The service clients of \<^verbatim>\<open>internal/ordersvc/clients.go\<close>: \<open>doJSON\<close> over the retrying executor, and the
  inventory client. The locale \<open>json_client\<close> states once what a caller may conclude from a call, for any
  network that keeps an invariant. The network between a client and the inventory service is a script of
  attempts: each says whether the request reaches the service, what the service's database does
  meanwhile, whether the reply comes back, and which calls of other clients are served before
  and after. The context of the caller (deadline, clock, timer) is the record \<open>ctx_ops\<close>.
\<close>

section \<open>doJSON\<close>

datatype client_error =
    InvalidReservationIdentity
  | ClientNotConfigured string
  | CallFailed string exec_error
  | RemoteError string int string
  | DecodeFailed string

definition serviceRetryPolicy :: RetryPolicy where
  "serviceRetryPolicy = \<lparr>MaxAttempts = 3, BaseBackoff = 50000000, MaxBackoff = 300000000,
    MinimumAttemptGap = 100000000\<rparr>"

text \<open>\<^verbatim>\<open>doJSON\<close>: \<open>payload\<close> is the encoded request (\<open>None\<close> for nil), \<open>text\<close> the first 4096 bytes of a body,
  \<open>decode\<close> the JSON decoder of the output.\<close>

definition doJSON ::
  "('w, 'b) exec_ops \<Rightarrow> CircuitBreakerConfig \<Rightarrow> ('b \<Rightarrow> string) \<Rightarrow> ('b \<Rightarrow> 'o option) \<Rightarrow> string \<Rightarrow> string \<Rightarrow> string
    \<Rightarrow> string \<Rightarrow> string \<Rightarrow> string option \<Rightarrow> 'w exec_state \<Rightarrow> 'w exec_state \<times> (client_error + 'o option)" where
  "doJSON ops cfg text decode token service operation method endpoint payload st =
    (if TrimSpace endpoint = [] \<or> TrimSpace token = [] then (st, Inl (ClientNotConfigured service))
     else
       case executor_Do ops cfg service operation serviceRetryPolicy
           (\<lambda>_. Inr \<lparr>rq_method = method, rq_url = endpoint,
              rq_headers = (if payload \<noteq> None then [(''Content-Type'', ''application/json'')] else [])
                @ [(''X-Internal-Token'', token)],
              rq_body = (case payload of Some b \<Rightarrow> b | None \<Rightarrow> [])\<rparr>) st of
         (st', Inl err) \<Rightarrow> (st', Inl (CallFailed service err))
       | (st', Inr resp) \<Rightarrow>
           if hr_status resp < 200 \<or> 300 \<le> hr_status resp
           then (st', Inl (RemoteError service (hr_status resp) (TrimSpace (text (hr_body resp)))))
           else if hr_status resp = 204 then (st', Inr None)
           else (case decode (hr_body resp) of
                   None \<Rightarrow> (st', Inl (DecodeFailed service))
                 | Some output \<Rightarrow> (st', Inr (Some output))))"

record CatalogProduct =
  cp_ID :: int
  cp_Name :: string
  cp_Description :: string
  cp_PriceFen :: int
  cp_Status :: int

text \<open>The contract of a service behind \<open>doJSON\<close>: an attempt and a pause keep the invariant \<open>P\<close> of the
  world, and every response satisfies \<open>Q\<close>. Then so do the whole call and the response it decodes.\<close>

locale json_client =
  fixes ops :: "('w, 'b) exec_ops"
    and P :: "'w \<Rightarrow> bool"
    and Q :: "'b http_response \<Rightarrow> 'w \<Rightarrow> bool"
  assumes attempt_keeps: "P (xs_world s) \<Longrightarrow> x_do ops req s = (s', r) \<Longrightarrow>
      P (xs_world s') \<and> (\<forall>resp. r = Inr resp \<longrightarrow> Q resp (xs_world s'))"
    and pause_keeps: "P (xs_world s) \<Longrightarrow> x_sleep ops d s = (s', e) \<Longrightarrow> P (xs_world s')"
begin

lemma executor_keeps:
  assumes "P (xs_world st)" and "executor_Do ops cfg service operation policy factory st = (st', r)"
  shows "P (xs_world st')" and "r = Inr resp \<Longrightarrow> Q resp (xs_world st')"
proof -
  have "P (xs_world (fst (executor_Do ops cfg service operation policy factory st))) \<and>
    (\<forall>resp. snd (executor_Do ops cfg service operation policy factory st) = Inr resp \<longrightarrow>
      Q resp (xs_world (fst (executor_Do ops cfg service operation policy factory st))))"
    unfolding executor_Do_def Let_def
  proof (rule do_loop_rule)
    fix req s s' r assume "P (xs_world s)" "x_do ops req s = (s', r)"
    then show "P (xs_world s') \<and> (\<forall>resp. r = Inr resp \<longrightarrow> Q resp (xs_world s'))" by (rule attempt_keeps)
  next
    fix d s s' r assume "P (xs_world s)" "x_sleep ops d s = (s', r)"
    then show "P (xs_world s')" by (rule pause_keeps)
  qed (simp_all add: assms(1) put_breaker_def)
  with assms(2) show "P (xs_world st')" and "r = Inr resp \<Longrightarrow> Q resp (xs_world st')" by simp_all
qed

lemma doJSON_keeps:
  assumes "P (xs_world st)"
    and run: "doJSON ops cfg text decode token service operation meth endpoint payload st = (st', r)"
  shows "P (xs_world st')"
    and "r = Inr None \<Longrightarrow> \<exists>resp. hr_status resp = 204 \<and> Q resp (xs_world st')"
    and "r = Inr (Some x) \<Longrightarrow> \<exists>resp. 200 \<le> hr_status resp \<and> hr_status resp < 300 \<and>
      decode (hr_body resp) = Some x \<and> Q resp (xs_world st')"
proof -
  have "P (xs_world st') \<and> (r = Inr None \<longrightarrow> (\<exists>resp. hr_status resp = 204 \<and> Q resp (xs_world st'))) \<and>
    (r = Inr (Some x) \<longrightarrow> (\<exists>resp. 200 \<le> hr_status resp \<and> hr_status resp < 300 \<and>
      decode (hr_body resp) = Some x \<and> Q resp (xs_world st')))"
  proof (cases "TrimSpace endpoint = [] \<or> TrimSpace token = []")
    case True
    with run assms(1) show ?thesis by (auto simp: doJSON_def)
  next
    case False
    obtain st1 res where e: "executor_Do ops cfg service operation serviceRetryPolicy
           (\<lambda>_. Inr \<lparr>rq_method = meth, rq_url = endpoint,
              rq_headers = (if payload \<noteq> None then [(''Content-Type'', ''application/json'')] else [])
                @ [(''X-Internal-Token'', token)],
              rq_body = (case payload of Some b \<Rightarrow> b | None \<Rightarrow> [])\<rparr>) st = (st1, res)" by fastforce
    note k = executor_keeps [OF assms(1) e]
    have "st' = st1" using run unfolding doJSON_def if_not_P [OF False] e by (auto split: sum.splits if_splits option.splits)
    then show ?thesis
      using run k unfolding doJSON_def if_not_P [OF False] e by (cases res) (auto simp: not_less not_le split: if_splits option.splits)
  qed
  then show "P (xs_world st')"
    and "r = Inr None \<Longrightarrow> \<exists>resp. hr_status resp = 204 \<and> Q resp (xs_world st')"
    and "r = Inr (Some x) \<Longrightarrow> \<exists>resp. 200 \<le> hr_status resp \<and> hr_status resp < 300 \<and>
      decode (hr_body resp) = Some x \<and> Q resp (xs_world st')" by simp_all
qed

end

section \<open>The network to the inventory service\<close>

record 'c ctx_ops =
  cx_ctxErr :: "'c \<Rightarrow> ctx_error option"
  cx_deadline :: "'c \<Rightarrow> time option"
  cx_requestID :: "'c \<Rightarrow> string"
  cx_now :: "'c \<Rightarrow> time"
  cx_format :: "time \<Rightarrow> string"
  cx_do :: "'c \<Rightarrow> 'c" \<comment> \<open>time passes during an attempt\<close>
  cx_sleep :: "duration \<Rightarrow> 'c \<Rightarrow> 'c \<times> ctx_error option"
  cx_jitter :: "duration \<Rightarrow> 'c \<Rightarrow> duration"

record attempt =
  at_before :: "inv_call list"
  at_reach :: bool
  at_env :: "inv_site env"
  at_lost :: "call_error option"
  at_whole :: bool \<comment> \<open>the body arrives completely\<close>
  at_after :: "inv_call list"

record 'c inv_world =
  iw_db :: inventory_db
  iw_token :: string
  iw_net :: "attempt list"
  iw_ctx :: 'c

text \<open>A call of the internal API of the inventory service.\<close>

datatype inv_request = ReserveCall ReserveRequest | TransitionCall bool string

type_synonym inv_reply = "(inv_msg, Reservation \<times> ReservationItem list) reply"

text \<open>\<^verbatim>\<open>internalapi.Middleware\<close> in front of a handler.\<close>

definition internal_middleware ::
  "(string \<Rightarrow> 'm) \<Rightarrow> string \<Rightarrow> string \<Rightarrow> ('s \<Rightarrow> 's \<times> ('m, 'd) reply) \<Rightarrow> 's \<Rightarrow> 's \<times> ('m, 'd) reply" where
  "internal_middleware msg expected0 actual handler s =
    (let expected = TrimSpace expected0 in
     if expected = [] \<or> length actual \<noteq> length expected \<or> actual \<noteq> expected
     then (s, FailReply 401 40101 (msg ''invalid internal service token''))
     else handler s)"

definition inv_serve ::
  "string \<Rightarrow> inv_site env \<Rightarrow> http_request \<Rightarrow> inv_request \<Rightarrow> inventory_db \<Rightarrow> inventory_db \<times> inv_reply" where
  "inv_serve token env req call =
    internal_middleware InvMsg token
      (case map_of (rq_headers req) ''X-Internal-Token'' of Some t \<Rightarrow> t | None \<Rightarrow> [])
      (case call of
         ReserveCall r \<Rightarrow> inv_handler_reserve env (Some r)
       | TransitionCall confirm rid \<Rightarrow> inv_handler_transition env confirm rid)"

text \<open>One attempt of the HTTP client.\<close>

definition inv_attempt ::
  "'c ctx_ops \<Rightarrow> inv_request \<Rightarrow> http_request \<Rightarrow> 'c inv_world
    \<Rightarrow> 'c inv_world \<times> (call_error + (inv_reply \<times> bool) http_response)" where
  "inv_attempt cx call req w =
    (case iw_net w of
       [] \<Rightarrow> (w\<lparr>iw_ctx := cx_do cx (iw_ctx w)\<rparr>, Inl (NetError ''connection refused''))
     | a # rest \<Rightarrow>
         let db1 = fold inv_exec (at_before a) (iw_db w);
             (db2, reply) = (if at_reach a
                then (case inv_serve (iw_token w) (at_env a) req call db1 of (d, r) \<Rightarrow> (d, Some r))
                else (db1, None));
             w' = w\<lparr>iw_db := fold inv_exec (at_after a) db2, iw_net := rest, iw_ctx := cx_do cx (iw_ctx w)\<rparr>
         in (w', case at_lost a of
                   Some e \<Rightarrow> Inl e
                 | None \<Rightarrow>
                     (case reply of
                        None \<Rightarrow> Inl (NetError ''connection refused'')
                      | Some r \<Rightarrow> Inr \<lparr>hr_status = r_status r, hr_body = (r, at_whole a)\<rparr>)))"

definition inv_ops :: "'c ctx_ops \<Rightarrow> inv_request \<Rightarrow> ('c inv_world, inv_reply \<times> bool) exec_ops" where
  "inv_ops cx call =
    \<lparr>x_ctxErr = cx_ctxErr cx \<circ> iw_ctx, x_deadline = cx_deadline cx \<circ> iw_ctx,
     x_requestID = cx_requestID cx \<circ> iw_ctx, x_now = cx_now cx \<circ> iw_ctx, x_format = cx_format cx,
     x_do = (\<lambda>req st. case inv_attempt cx call req (xs_world st) of (w, r) \<Rightarrow> (st\<lparr>xs_world := w\<rparr>, r)),
     x_sleep = (\<lambda>d st. case cx_sleep cx d (iw_ctx (xs_world st)) of
        (c, e) \<Rightarrow> (st\<lparr>xs_world := (xs_world st)\<lparr>iw_ctx := c\<rparr>\<rparr>, e)),
     x_jitter = (\<lambda>d w. cx_jitter cx d (iw_ctx w))\<rparr>"

section \<open>Inventory client\<close>

record InventoryReservation =
  ivr_ID :: string
  ivr_OrderID :: int
  ivr_Status :: "reservation_status option" \<comment> \<open>\<open>None\<close> for the empty string\<close>
  ivr_Items :: "(int \<times> int) list"

definition decode_reservation :: "inv_reply \<times> bool \<Rightarrow> InventoryReservation option" where
  "decode_reservation b =
    (case b of
       (PlainReply _ (r, items), True) \<Rightarrow>
         Some \<lparr>ivr_ID = res_ID r, ivr_OrderID = res_OrderID r, ivr_Status = Some (res_Status r),
           ivr_Items = map (\<lambda>i. (ri_ProductID i, ri_Quantity i)) items\<rparr>
     | _ \<Rightarrow> None)"

text \<open>A client of the inventory service: its endpoint, its token, its breaker configuration, the text
  of an error body, and the encoding of a request.\<close>

record inv_client =
  ic_baseURL :: string
  ic_token :: string
  ic_breaker :: CircuitBreakerConfig
  ic_text :: "inv_reply \<times> bool \<Rightarrow> string"
  ic_encode :: "inv_request \<Rightarrow> string"
  ic_escape :: "string \<Rightarrow> string" \<comment> \<open>\<^verbatim>\<open>url.PathEscape\<close>\<close>

definition NewInventoryClient ::
  "string \<Rightarrow> string \<Rightarrow> CircuitBreakerConfig \<Rightarrow> (inv_reply \<times> bool \<Rightarrow> string) \<Rightarrow> (inv_request \<Rightarrow> string)
    \<Rightarrow> (string \<Rightarrow> string) \<Rightarrow> inv_client" where
  "NewInventoryClient baseURL token cfg text encode escape =
    \<lparr>ic_baseURL = rev (dropWhile (\<lambda>c. c = CHR ''/'') (rev (TrimSpace baseURL))),
     ic_token = TrimSpace token, ic_breaker = cfg, ic_text = text, ic_encode = encode, ic_escape = escape\<rparr>"

text \<open>The output variable: the decoded value, or its zero value when the reply has no body.\<close>

definition output_of :: "'o \<Rightarrow> client_error + 'o option \<Rightarrow> client_error + 'o" where
  "output_of zero r = (case r of Inl e \<Rightarrow> Inl e | Inr (Some x) \<Rightarrow> Inr x | Inr None \<Rightarrow> Inr zero)"

definition zero_reservation :: InventoryReservation where
  "zero_reservation = \<lparr>ivr_ID = [], ivr_OrderID = 0, ivr_Status = None, ivr_Items = []\<rparr>"

definition client_Reserve ::
  "'c ctx_ops \<Rightarrow> inv_client \<Rightarrow> int \<Rightarrow> string \<Rightarrow> (int \<times> int) list \<Rightarrow> 'c inv_world exec_state
    \<Rightarrow> 'c inv_world exec_state \<times> (client_error + InventoryReservation)" where
  "client_Reserve cx c orderID reservationID0 items st =
    (let reservationID = TrimSpace reservationID0 in
     if orderID \<le> 0 \<or> reservationID = [] then (st, Inl InvalidReservationIdentity)
     else
       let call = ReserveCall \<lparr>rr_OrderID = orderID, rr_ReservationID = reservationID,
             rr_Items = map (\<lambda>(p, q). \<lparr>ir_ProductID = p, ir_Quantity = q\<rparr>) items\<rparr>
       in apsnd (output_of zero_reservation) (doJSON (inv_ops cx call) (ic_breaker c) (ic_text c) decode_reservation (ic_token c)
            ''inventory-service'' ''reserve-inventory'' ''POST'' (ic_baseURL c @ ''/internal/v1/reservations'')
            (Some (ic_encode c call)) st))"

definition client_transition ::
  "'c ctx_ops \<Rightarrow> inv_client \<Rightarrow> bool \<Rightarrow> string \<Rightarrow> 'c inv_world exec_state
    \<Rightarrow> 'c inv_world exec_state \<times> (client_error + InventoryReservation)" where
  "client_transition cx c confirm reservationID0 st =
    (let reservationID = TrimSpace reservationID0;
         action = (if confirm then ''confirm'' else ''release'') in
     if reservationID = [] then (st, Inl InvalidReservationIdentity)
     else
       apsnd (output_of zero_reservation) (doJSON (inv_ops cx (TransitionCall confirm reservationID)) (ic_breaker c) (ic_text c)
         decode_reservation (ic_token c) ''inventory-service'' (action @ ''-inventory-reservation'') ''POST''
         (ic_baseURL c @ ''/internal/v1/reservations/'' @ ic_escape c reservationID @ ''/'' @ action)
         (Some ''{}'') st))"

definition client_Confirm where "client_Confirm cx c = client_transition cx c True"
definition client_Release where "client_Release cx c = client_transition cx c False"

section \<open>What a client learns from a reply\<close>

text \<open>Every attempt leaves the inventory in a state that calls of the service lead to.\<close>

definition inv_later :: "inventory_db \<Rightarrow> inventory_db \<Rightarrow> bool" where
  "inv_later db db' \<longleftrightarrow> (\<exists>cs. db' = fold inv_exec cs db)"

lemma inv_later_refl [simp]: "inv_later db db"
  unfolding inv_later_def by (rule exI [of _ "[]"]) simp

lemma inv_later_trans: "inv_later a b \<Longrightarrow> inv_later b c \<Longrightarrow> inv_later a c"
  unfolding inv_later_def by (metis fold_append comp_apply)

lemma inv_later_fold [simp]: "inv_later db (fold inv_exec cs db)"
  by (auto simp: inv_later_def)

lemma inv_later_exec: "inv_later db (inv_exec c db)"
  unfolding inv_later_def by (rule exI [of _ "[c]"]) simp

lemma inv_later_ok: "inv_later db db' \<Longrightarrow> inv_ok db \<Longrightarrow> inv_ok db'"
  by (auto simp: inv_later_def inv_exec_fold_ok)

lemma fold_inv_exec_evolves: "inv_ok db \<Longrightarrow> res_evolves db (fold inv_exec cs db)"
proof (induction cs arbitrary: db)
  case (Cons c cs)
  from Cons.IH [OF inv_exec_ok [OF Cons.prems]] inv_exec_evolves [OF Cons.prems]
  show ?case by (auto intro: res_evolves_trans)
qed simp

lemma inv_later_evolves: "inv_later db db' \<Longrightarrow> inv_ok db \<Longrightarrow> res_evolves db db'"
  by (auto simp: inv_later_def fold_inv_exec_evolves)

lemma inv_serve_later: "inv_later db (fst (inv_serve token env req call db))"
proof (cases call)
  case (ReserveCall r)
  then show ?thesis
    using inv_later_exec [of db "CallReserve env r"]
    by (auto simp: inv_serve_def internal_middleware_def Let_def inv_handler_reserve_def split: prod.splits sum.splits)
next
  case (TransitionCall confirm rid)
  then show ?thesis
    using inv_later_exec [of db "CallConfirm env rid"] inv_later_exec [of db "CallRelease env rid"]
    by (auto simp: inv_serve_def internal_middleware_def Let_def inv_handler_transition_def split: prod.splits sum.splits)
qed

text \<open>A reply that decodes reports a call that succeeded.\<close>

definition reply_true :: "inv_request \<Rightarrow> inv_reply \<times> bool \<Rightarrow> inventory_db \<Rightarrow> bool" where
  "reply_true call body db = (case call of
      ReserveCall r \<Rightarrow> True
    | TransitionCall confirm rid \<Rightarrow> decode_reservation body \<noteq> None \<longrightarrow>
        rstatus db rid = Some (if confirm then ReservationConfirmed else ReservationReleased))"

lemma inv_serve_true:
  assumes "inv_ok db" and "inv_serve token env req call db = (db', r)"
  shows "reply_true call (r, whole) db'"
proof (cases call)
  case (TransitionCall confirm rid)
  show ?thesis
  proof (cases "decode_reservation (r, whole)")
    case (Some x)
    then obtain st d where r: "r = PlainReply st d"
      by (auto simp: decode_reservation_def split: reply.splits bool.splits prod.splits)
    with assms(2) TransitionCall
    have "(if confirm then inventory_Confirm env rid db else inventory_Release env rid db) = (db', Inr d)"
      by (auto simp: inv_serve_def internal_middleware_def Let_def inv_handler_transition_def
          split: if_splits prod.splits sum.splits)
    then show ?thesis
      using TransitionCall assms(1)
      by (auto simp: reply_true_def inventory_Confirm_def inventory_Release_def
          dest: inventory_transition_Inr [rotated 2] split: if_splits)
  qed (simp add: reply_true_def TransitionCall)
qed (simp add: reply_true_def)

lemma inv_serve_status: "r_status (snd (inv_serve token env req call db)) \<noteq> 204"
  by (auto simp: inv_serve_def internal_middleware_def Let_def inv_handler_reserve_def inv_handler_transition_def
      split: inv_request.split prod.split sum.split)

lemma reply_true_later:
  assumes "reply_true call body db" and "inv_ok db" and "inv_later db db'"
  shows "reply_true call body db'"
  using assms res_evolves_final [OF inv_later_evolves [OF assms(3,2)]]
  by (auto simp: reply_true_def split: inv_request.splits)

lemma inv_attempt_later:
  assumes ok: "inv_ok (iw_db w)" and run: "inv_attempt cx call req w = (w', r)"
  shows "inv_later (iw_db w) (iw_db w')"
    and "r = Inr resp \<Longrightarrow> reply_true call (hr_body resp) (iw_db w') \<and> hr_status resp \<noteq> 204"
proof -
  have "inv_later (iw_db w) (iw_db w') \<and>
    (r = Inr resp \<longrightarrow> reply_true call (hr_body resp) (iw_db w') \<and> hr_status resp \<noteq> 204)"
  proof (cases "iw_net w")
    case Nil
    with run show ?thesis by (auto simp: inv_attempt_def)
  next
    case (Cons a rest)
    let ?db1 = "fold inv_exec (at_before a) (iw_db w)"
    obtain db2 rep where s: "inv_serve (iw_token w) (at_env a) req call ?db1 = (db2, rep)" by fastforce
    have l1: "inv_later (iw_db w) ?db1" by simp
    have l2: "inv_later ?db1 db2" using inv_serve_later [of ?db1 "iw_token w" "at_env a" req call] by (simp add: s)
    have l3: "inv_later (iw_db w) (fold inv_exec (at_after a) d)" if "d \<in> {?db1, db2}" for d
      using that l1 l2 inv_later_trans inv_later_fold by blast
    have ok2: "inv_ok db2" using l1 l2 ok inv_later_ok by blast
    have "reply_true call (rep, at_whole a) (fold inv_exec (at_after a) db2)"
      using inv_serve_true [OF inv_later_ok [OF l1 ok] s] ok2 by (rule reply_true_later) simp
    note body = this
    show ?thesis
    proof (cases "at_reach a")
      case True
      have "iw_db w' = fold inv_exec (at_after a) db2"
        and r: "r = (case at_lost a of Some e \<Rightarrow> Inl e | None \<Rightarrow> Inr \<lparr>hr_status = r_status rep, hr_body = (rep, at_whole a)\<rparr>)"
        using run by (auto simp: inv_attempt_def Let_def Cons s True split: option.splits)
      with body l3 [of db2] inv_serve_status [of "iw_token w" "at_env a" req call ?db1] s
      show ?thesis by (auto split: option.splits)
    next
      case False
      have "iw_db w' = fold inv_exec (at_after a) ?db1" and "isl r"
        using run by (auto simp: inv_attempt_def Let_def Cons False split: option.splits)
      with l3 [of ?db1] show ?thesis by auto
    qed
  qed
  then show "inv_later (iw_db w) (iw_db w')"
    "r = Inr resp \<Longrightarrow> reply_true call (hr_body resp) (iw_db w') \<and> hr_status resp \<noteq> 204"
    by simp_all
qed

interpretation inv_net: json_client "inv_ops cx call" "\<lambda>w. inv_ok db \<and> inv_later db (iw_db w)"
  "\<lambda>resp w. reply_true call (hr_body resp) (iw_db w) \<and> hr_status resp \<noteq> 204" for cx call db
proof unfold_locales
  fix s req s' r
  assume P: "inv_ok db \<and> inv_later db (iw_db (xs_world s))" and d: "x_do (inv_ops cx call) req s = (s', r)"
  obtain w' where w': "inv_attempt cx call req (xs_world s) = (w', r)" "s' = s\<lparr>xs_world := w'\<rparr>"
    using d by (auto simp: inv_ops_def split: prod.splits)
  have ok: "inv_ok (iw_db (xs_world s))" using P inv_later_ok by blast
  from inv_attempt_later [OF ok w'(1)] P inv_later_trans w'(2)
  show "(inv_ok db \<and> inv_later db (iw_db (xs_world s'))) \<and>
    (\<forall>resp. r = Inr resp \<longrightarrow> reply_true call (hr_body resp) (iw_db (xs_world s')) \<and> hr_status resp \<noteq> 204)"
    by auto
next
  fix s d s' e
  assume "inv_ok db \<and> inv_later db (iw_db (xs_world s))" "x_sleep (inv_ops cx call) d s = (s', e)"
  then show "inv_ok db \<and> inv_later db (iw_db (xs_world s'))" by (auto simp: inv_ops_def split: prod.splits)
qed

lemma doJSON_inv:
  assumes ok: "inv_ok (iw_db (xs_world st))"
    and run: "doJSON (inv_ops cx call) cfg text decode_reservation token service operation meth endpoint payload st = (st', r)"
  shows "inv_later (iw_db (xs_world st)) (iw_db (xs_world st'))"
    and "r = Inr (Some x) \<Longrightarrow> \<exists>body. decode_reservation body = Some x \<and> reply_true call body (iw_db (xs_world st'))"
    and "r \<noteq> Inr None"
proof -
  have "inv_ok (iw_db (xs_world st)) \<and> inv_later (iw_db (xs_world st)) (iw_db (xs_world st))" using ok by simp
  from inv_net.doJSON_keeps [OF this run]
  show "inv_later (iw_db (xs_world st)) (iw_db (xs_world st'))"
    and "r = Inr (Some x) \<Longrightarrow> \<exists>body. decode_reservation body = Some x \<and> reply_true call body (iw_db (xs_world st'))"
    and "r \<noteq> Inr None" by blast+
qed

lemma client_transition_result:
  assumes ok: "inv_ok (iw_db (xs_world st))" and run: "client_transition cx c confirm rid st = (st', r)"
  shows "inv_later (iw_db (xs_world st)) (iw_db (xs_world st'))"
    and "r = Inr x \<Longrightarrow> rstatus (iw_db (xs_world st')) rid =
      Some (if confirm then ReservationConfirmed else ReservationReleased)"
proof -
  have *: "inv_later (iw_db (xs_world st)) (iw_db (xs_world st')) \<and>
    (r = Inr x \<longrightarrow> rstatus (iw_db (xs_world st')) rid =
      Some (if confirm then ReservationConfirmed else ReservationReleased))"
  proof (cases "TrimSpace rid = []")
    case True
    with run show ?thesis by (auto simp: client_transition_def)
  next
    case False
    let ?action = "if confirm then ''confirm'' else ''release''"
    let ?call = "TransitionCall confirm (TrimSpace rid)"
    from False run obtain r1 where j: "doJSON (inv_ops cx ?call) (ic_breaker c) (ic_text c)
         decode_reservation (ic_token c) ''inventory-service'' (?action @ ''-inventory-reservation'') ''POST''
         (ic_baseURL c @ ''/internal/v1/reservations/'' @ ic_escape c (TrimSpace rid) @ ''/'' @ ?action)
         (Some ''{}'') st = (st', r1)" and r: "r = output_of zero_reservation r1"
      unfolding client_transition_def Let_def by (auto simp: apsnd_def map_prod_def split: prod.splits)
    note d = doJSON_inv [OF ok j]
    have "rstatus (iw_db (xs_world st')) rid = Some (if confirm then ReservationConfirmed else ReservationReleased)"
      if "r = Inr x"
    proof -
      from that r d(3) have "r1 = Inr (Some x)" by (auto simp: output_of_def split: sum.splits option.splits)
      from d(2) [OF this] show ?thesis by (auto simp: reply_true_def rstatus_def)
    qed
    with d(1) show ?thesis by simp
  qed
  from * show "inv_later (iw_db (xs_world st)) (iw_db (xs_world st'))" by simp
  from * show "r = Inr x \<Longrightarrow> rstatus (iw_db (xs_world st')) rid =
      Some (if confirm then ReservationConfirmed else ReservationReleased)" by simp
qed

end
