(* ===== verification/Ordering_DB.thy ===== *)
theory Ordering_DB
  imports Clients
begin

text \<open>
  The database of the order service (\<^verbatim>\<open>migrations/ordering\<close>, the structs of \<^verbatim>\<open>internal/ordersvc/order.go\<close> and
  \<^verbatim>\<open>reconciliation_worker.go\<close>): orders, order items, the timeout outbox and the reconciliation
  tasks, with the statements the service issues and the trigger that opens a reconciliation
  task when an order is marked \<^verbatim>\<open>reconciliation_required\<close>. A text column that stores a rendered
  error (\<^verbatim>\<open>failure_reason\<close>, \<^verbatim>\<open>last_error\<close>) keeps the error value itself.
\<close>

section \<open>Data\<close>

datatype order_status =
    OrderStatusReserving | OrderStatusPending | OrderStatusPaying | OrderStatusPaid
  | OrderStatusCancelling | OrderStatusCancelled | OrderStatusFinished | OrderStatusFailed
  | OrderStatusReconciliationRequired

datatype outbox_status = OutboxPending | OutboxPublished | OutboxCompleted | OutboxFailed

datatype order_error =
    ErrOrderNotFound
  | ErrInvalidOrderRequest
  | ErrInvalidOrderState
  | ErrProductUnavailable int
  | ErrReservationFailed client_error
  | ErrCompensationRequired
  | OrderClient client_error
  | OrderDB db_error
  | DivisionByZero \<comment> \<open>a run-time panic\<close>

text \<open>\<^verbatim>\<open>failure_reason\<close>: empty, a rendered error, or an error together with the failure of the release
  that should have compensated it.\<close>

datatype reason = NoReason | Reason order_error | ReleaseFailed order_error client_error

record Order =
  o_ID :: int
  o_UserID :: int
  o_Status :: order_status
  o_TotalFen :: int
  o_ReservationID :: string
  o_IdempotencyKey :: string
  o_FailureReason :: reason
  o_CreatedAt :: time
  o_UpdatedAt :: time

record OrderItem =
  oi_ID :: int
  oi_OrderID :: int
  oi_ProductID :: int
  oi_ProductName :: string
  oi_PriceFen :: int
  oi_Quantity :: int

text \<open>The errors of \<^verbatim>\<open>publisher_confirm.go\<close>, and what the timeout worker records in \<^verbatim>\<open>last_error\<close>.\<close>

datatype publish_error =
    PublishFailed string
  | PublisherNacked int
  | PublisherConfirmClosed
  | PublisherConfirmTimeout ctx_error

datatype worker_error =
    NoError | PublishError publish_error | DeliveryError client_error

record TimeoutOutbox =
  to_ID :: int
  to_OrderID :: int
  to_DueAt :: time
  to_Status :: outbox_status
  to_Attempts :: int
  to_LastError :: worker_error
  to_LeaseOwner :: string
  to_LeaseUntil :: "time option"
  to_NextAttemptAt :: time
  to_CreatedAt :: time
  to_UpdatedAt :: time

datatype rec_action =
    ReleaseInventoryAndFail | FinalizeCancel | FinalizePayment | UnsupportedFrom order_status

datatype task_status = TaskPending | TaskFailed | TaskCompleted | TaskUnresolved

datatype task_error =
    NoTaskError
  | TransitionUnsupported order_status
  | TaskOrderNotFound
  | UnsupportedAction rec_action
  | StateMismatch rec_action order_status
  | TargetMismatch order_status
  | InventoryCall client_error
  | TaskDB db_error
  | LeaseLost

record ReconciliationTask =
  rt_ID :: int
  rt_OrderID :: int
  rt_Action :: rec_action
  rt_Status :: task_status
  rt_Attempts :: int
  rt_NextAttemptAt :: time
  rt_LeaseOwner :: string
  rt_LeaseUntil :: "time option"
  rt_LastError :: task_error
  rt_CreatedAt :: time
  rt_UpdatedAt :: time

record ordering_db =
  orders_v2 :: "Order list"
  order_items_v2 :: "OrderItem list"
  order_timeout_outbox_v2 :: "TimeoutOutbox list"
  order_reconciliation_tasks :: "ReconciliationTask list"
  next_order :: int
  next_order_item :: int
  next_outbox :: int
  next_task :: int
  ord_collate :: "string \<Rightarrow> string"

section \<open>Statements\<close>

text \<open>\<^verbatim>\<open>trg_orders_v2_create_reconciliation_task\<close>, after the update of a row from \<open>old\<close> to \<open>new\<close>.\<close>

definition trigger_action :: "order_status \<Rightarrow> rec_action" where
  "trigger_action old = (case old of
      OrderStatusReserving \<Rightarrow> ReleaseInventoryAndFail
    | OrderStatusCancelling \<Rightarrow> FinalizeCancel
    | OrderStatusPaying \<Rightarrow> FinalizePayment
    | s \<Rightarrow> UnsupportedFrom s)"

definition supported :: "order_status \<Rightarrow> bool" where
  "supported old \<longleftrightarrow> old \<in> {OrderStatusReserving, OrderStatusCancelling, OrderStatusPaying}"

definition reconciliation_trigger :: "time \<Rightarrow> Order \<Rightarrow> Order \<Rightarrow> ordering_db \<Rightarrow> ordering_db" where
  "reconciliation_trigger now old new db =
    (if o_Status new = OrderStatusReconciliationRequired \<and> o_Status old \<noteq> o_Status new
     then
       let action = trigger_action (o_Status old);
           row = \<lparr>rt_ID = next_task db, rt_OrderID = o_ID new, rt_Action = action,
             rt_Status = (if supported (o_Status old) then TaskPending else TaskUnresolved),
             rt_Attempts = 0, rt_NextAttemptAt = now, rt_LeaseOwner = [], rt_LeaseUntil = None,
             rt_LastError = (if supported (o_Status old) then NoTaskError else TransitionUnsupported (o_Status old)),
             rt_CreatedAt = now, rt_UpdatedAt = now\<rparr>
       in if list_ex (\<lambda>t. rt_OrderID t = o_ID new \<and> rt_Action t = action) (order_reconciliation_tasks db)
          then db\<lparr>order_reconciliation_tasks := map (\<lambda>t.
                 if rt_OrderID t = o_ID new \<and> rt_Action t = action then t\<lparr>rt_UpdatedAt := now\<rparr> else t)
                 (order_reconciliation_tasks db)\<rparr>
          else db\<lparr>order_reconciliation_tasks := order_reconciliation_tasks db @ [row],
                  next_task := next_task db + 1\<rparr>
     else db)"

text \<open>\<^verbatim>\<open>UPDATE orders_v2 SET f, updated_at = now WHERE p\<close> with its trigger and \<^verbatim>\<open>RowsAffected\<close>.\<close>

definition update_orders ::
  "time \<Rightarrow> (Order \<Rightarrow> bool) \<Rightarrow> (Order \<Rightarrow> Order) \<Rightarrow> ordering_db \<Rightarrow> db_error + ordering_db \<times> nat" where
  "update_orders now p f db =
    (let g = (\<lambda>r. (f r)\<lparr>o_UpdatedAt := now\<rparr>);
         affected = filter p (orders_v2 db)
     in Inr (fold (\<lambda>r. reconciliation_trigger now r (g r)) affected
              (db\<lparr>orders_v2 := map (\<lambda>r. if p r then g r else r) (orders_v2 db)\<rparr>),
            length affected))"

text \<open>\<^verbatim>\<open>UPDATE order_timeout_outbox_v2\<close>; its \<^verbatim>\<open>updated_at\<close> follows every update.\<close>

definition update_outbox ::
  "time \<Rightarrow> (TimeoutOutbox \<Rightarrow> bool) \<Rightarrow> (TimeoutOutbox \<Rightarrow> TimeoutOutbox) \<Rightarrow> ordering_db
    \<Rightarrow> db_error + ordering_db \<times> nat" where
  "update_outbox now p f db =
    Inr (db\<lparr>order_timeout_outbox_v2 :=
        map (\<lambda>e. if p e then (f e)\<lparr>to_UpdatedAt := now\<rparr> else e) (order_timeout_outbox_v2 db)\<rparr>,
      length (filter p (order_timeout_outbox_v2 db)))"

definition update_tasks ::
  "(ReconciliationTask \<Rightarrow> bool) \<Rightarrow> (ReconciliationTask \<Rightarrow> ReconciliationTask) \<Rightarrow> ordering_db
    \<Rightarrow> db_error + ordering_db \<times> nat" where
  "update_tasks p f db =
    Inr (db\<lparr>order_reconciliation_tasks := map (\<lambda>t. if p t then f t else t) (order_reconciliation_tasks db)\<rparr>,
      length (filter p (order_reconciliation_tasks db)))"

definition items_of :: "ordering_db \<Rightarrow> int \<Rightarrow> OrderItem list" where
  "items_of db oid = filter (\<lambda>i. oi_OrderID i = oid) (order_items_v2 db)"

text \<open>The order stored under an id.\<close>

definition order_row :: "int \<Rightarrow> ordering_db \<Rightarrow> Order option" where
  "order_row oid db = lookup_by o_ID oid (orders_v2 db)"

end
