(* ===== verification/Ordering.thy ===== *)
theory Ordering
  imports Ordering_DB
begin

text \<open>
  The order service, \<^verbatim>\<open>internal/ordersvc/order.go\<close>: the creation saga, cancellation, payment and
  completion of orders. An operation is a sequence of database steps on the service's own
  database and calls of the inventory client, written as one function per step
  (\<open>create_insert\<close>, \<open>claim_order\<close>, \<open>finalize_order\<close>, ...) and composed in the order of the code by
  \<open>order_Create\<close>, \<open>order_cancel\<close> and \<open>order_Pay\<close>. \<open>Saga\<close> interleaves the same steps. The inventory
  client is an argument (\<open>inventory_api\<close>) over an abstract state; the catalog client is the
  function \<open>GetProduct\<close>.
\<close>

section \<open>Requests and clients\<close>

record CreateOrderItemRequest =
  coi_ProductID :: int
  coi_Quantity :: int

record CreateOrderRequest =
  co_IdempotencyKey :: string
  co_Items :: "CreateOrderItemRequest list"

record 'i inventory_api =
  ia_Reserve :: "int \<Rightarrow> string \<Rightarrow> (int \<times> int) list \<Rightarrow> 'i \<Rightarrow> 'i \<times> (client_error + InventoryReservation)"
  ia_Confirm :: "string \<Rightarrow> 'i \<Rightarrow> 'i \<times> (client_error + InventoryReservation)"
  ia_Release :: "string \<Rightarrow> 'i \<Rightarrow> 'i \<times> (client_error + InventoryReservation)"

datatype ord_site =
    IdemFind | OrderInsert | ItemsInsert | CreateCommit | IdemRefind | MarkFailed
  | PendUpdate | OutboxInsert | PendCommit | MarkCreate
  | OrderFind | OrderCount | OrderList | LoadFind | ClaimUpdate | RevertUpdate
  | FinalUpdate | OutboxUpdate | FinalCommit | MarkReconcile | FinishUpdate | ReloadFind

type_synonym order_view = "Order \<times> OrderItem list"

section \<open>Reading orders\<close>

definition view :: "ordering_db \<Rightarrow> Order \<Rightarrow> order_view" where
  "view db r = (r, items_of db (o_ID r))"

text \<open>\<^verbatim>\<open>Preload("Items").First(&order, ...)\<close>.\<close>

definition first_order ::
  "ord_site env \<Rightarrow> ord_site \<Rightarrow> (Order \<Rightarrow> bool) \<Rightarrow> ordering_db \<Rightarrow> order_error + order_view" where
  "first_order env site p db =
    (case stmt env site (Inr (List.find p (orders_v2 db))) of
       Inl d \<Rightarrow> Inl (OrderDB d)
     | Inr None \<Rightarrow> Inl ErrOrderNotFound
     | Inr (Some r) \<Rightarrow> Inr (view db r))"

definition findByIdempotency ::
  "ord_site env \<Rightarrow> ord_site \<Rightarrow> int \<Rightarrow> string \<Rightarrow> ordering_db \<Rightarrow> order_error + order_view" where
  "findByIdempotency env site userID key db =
    first_order env site (\<lambda>r. o_UserID r = userID \<and>
      ord_collate db (o_IdempotencyKey r) = ord_collate db key) db"

definition order_Get :: "ord_site env \<Rightarrow> int \<Rightarrow> int \<Rightarrow> ordering_db \<Rightarrow> order_error + order_view" where
  "order_Get env userID orderID db =
    first_order env OrderFind (\<lambda>r. o_ID r = orderID \<and> o_UserID r = userID) db"

definition loadForTransition ::
  "ord_site env \<Rightarrow> ord_site \<Rightarrow> int \<Rightarrow> int \<Rightarrow> bool \<Rightarrow> ordering_db \<Rightarrow> order_error + order_view" where
  "loadForTransition env site userID orderID system db =
    first_order env site (\<lambda>r. o_ID r = orderID \<and> (system \<or> o_UserID r = userID)) db"

definition order_List ::
  "ord_site env \<Rightarrow> int \<Rightarrow> int \<Rightarrow> int \<Rightarrow> ordering_db \<Rightarrow> order_error + order_view list \<times> int" where
  "order_List env userID page0 pageSize0 db =
    (let page = (if page0 \<le> 0 then 1 else page0);
         pageSize = (if pageSize0 \<le> 0 \<or> 100 < pageSize0 then 20 else pageSize0);
         mine = filter (\<lambda>r. o_UserID r = userID) (orders_v2 db)
     in case stmt env OrderCount (Inr (int (length mine))) of
          Inl d \<Rightarrow> Inl (OrderDB d)
        | Inr cnt \<Rightarrow>
            (case stmt env OrderList (Inr (sql_page (wrap64 ((page - 1) * pageSize)) pageSize (rev mine))) of
               Inl d \<Rightarrow> Inl (OrderDB d)
             | Inr rows \<Rightarrow> Inr (map (view db) rows, cnt)))"

section \<open>Create\<close>

text \<open>The loop of \<^verbatim>\<open>resolveItems\<close> over the sorted product ids. The test against overflow divides by the
  accumulated quantity; Go panics when that is zero.\<close>

fun resolve_loop ::
  "(int \<Rightarrow> client_error + CatalogProduct) \<Rightarrow> (int \<times> int) list \<Rightarrow> OrderItem list \<Rightarrow> (int \<times> int) list \<Rightarrow> int
    \<Rightarrow> order_error + OrderItem list \<times> (int \<times> int) list \<times> int" where
  "resolve_loop GetProduct [] items reserveItems totalFen = Inr (items, reserveItems, totalFen)"
| "resolve_loop GetProduct ((productID, quantity) # rest) items reserveItems totalFen =
    (case GetProduct productID of
       Inl e \<Rightarrow> Inl (OrderClient e)
     | Inr product \<Rightarrow>
         if cp_Status product \<noteq> 1 \<or> cp_PriceFen product \<le> 0 then Inl (ErrProductUnavailable productID)
         else if quantity = 0 then Inl DivisionByZero
         else if go_div int64_max quantity < cp_PriceFen product \<or>
             wrap64 (int64_max - wrap64 (cp_PriceFen product * quantity)) < totalFen
           then Inl ErrInvalidOrderRequest
         else
           resolve_loop GetProduct rest
             (items @ [\<lparr>oi_ID = 0, oi_OrderID = 0, oi_ProductID = cp_ID product, oi_ProductName = cp_Name product,
                oi_PriceFen = cp_PriceFen product, oi_Quantity = quantity\<rparr>])
             (reserveItems @ [(cp_ID product, quantity)])
             (wrap64 (totalFen + wrap64 (cp_PriceFen product * quantity))))"

definition resolveItems ::
  "(int \<Rightarrow> client_error + CatalogProduct) \<Rightarrow> CreateOrderItemRequest list
    \<Rightarrow> order_error + OrderItem list \<times> (int \<times> int) list \<times> int" where
  "resolveItems GetProduct items =
    (if items = [] \<or> 100 < length items then Inl ErrInvalidOrderRequest
     else
       case sum_quantities (map (\<lambda>i. (coi_ProductID i, coi_Quantity i)) items) [] of
         None \<Rightarrow> Inl ErrInvalidOrderRequest
       | Some quantities \<Rightarrow> resolve_loop GetProduct (sort_key fst quantities) [] [] 0)"

text \<open>\<^verbatim>\<open>chk_orders_v2_total\<close>, \<^verbatim>\<open>chk_order_items_v2_price\<close> and \<^verbatim>\<open>chk_order_items_v2_quantity\<close>.\<close>

definition order_check :: "Order \<Rightarrow> db_error option" where
  "order_check r = (if o_TotalFen r < 0 then Some CheckViolated else None)"

definition order_item_check :: "OrderItem \<Rightarrow> db_error option" where
  "order_item_check i = (if oi_PriceFen i \<le> 0 \<or> oi_Quantity i \<le> 0 then Some CheckViolated else None)"

fun number_items :: "int \<Rightarrow> int \<Rightarrow> OrderItem list \<Rightarrow> OrderItem list" where
  "number_items oid n [] = []"
| "number_items oid n (i # is) = i\<lparr>oi_ID := n, oi_OrderID := oid\<rparr> # number_items oid (n + 1) is"

text \<open>The first transaction of \<^verbatim>\<open>Create\<close>: the order in \<^verbatim>\<open>reserving\<close> with its items.\<close>

definition create_body ::
  "ord_site env \<Rightarrow> int \<Rightarrow> string \<Rightarrow> string \<Rightarrow> OrderItem list \<Rightarrow> int \<Rightarrow> ordering_db
    \<Rightarrow> order_error + ordering_db \<times> Order" where
  "create_body env userID key reservationID items totalFen tx =
    (let r = \<lparr>o_ID = next_order tx, o_UserID = userID, o_Status = OrderStatusReserving, o_TotalFen = totalFen,
           o_ReservationID = reservationID, o_IdempotencyKey = key, o_FailureReason = NoReason,
           o_CreatedAt = e_now env OrderInsert, o_UpdatedAt = e_now env OrderInsert\<rparr>
     in case stmt env OrderInsert (sql_insert order_check (\<lambda>a b. o_UserID a = o_UserID b \<and>
              ord_collate tx (o_IdempotencyKey a) = ord_collate tx (o_IdempotencyKey b)) r (orders_v2 tx)) of
          Inl d \<Rightarrow> Inl (OrderDB d)
        | Inr rows \<Rightarrow>
            let rows_i = number_items (o_ID r) (next_order_item tx) items
            in (case stmt env ItemsInsert
                   (case List.find (\<lambda>i. order_item_check i \<noteq> None) rows_i of
                      Some _ \<Rightarrow> Inl CheckViolated
                    | None \<Rightarrow> Inr (order_items_v2 tx @ rows_i)) of
                  Inl d \<Rightarrow> Inl (OrderDB d)
                | Inr irows \<Rightarrow>
                    Inr (tx\<lparr>orders_v2 := rows, order_items_v2 := irows, next_order := next_order tx + 1,
                           next_order_item := next_order_item tx + int (length items)\<rparr>, r)))"

definition create_insert ::
  "ord_site env \<Rightarrow> int \<Rightarrow> string \<Rightarrow> string \<Rightarrow> OrderItem list \<Rightarrow> int \<Rightarrow> ordering_db
    \<Rightarrow> ordering_db \<times> (order_error + Order)" where
  "create_insert env userID key reservationID items totalFen =
    Transaction (e_out env CreateCommit) OrderDB (create_body env userID key reservationID items totalFen)"

text \<open>An unconditional status write whose error is ignored (\<^verbatim>\<open>_ = ...Error\<close>).\<close>

definition mark_order ::
  "ord_site env \<Rightarrow> ord_site \<Rightarrow> int \<Rightarrow> order_status \<Rightarrow> reason \<Rightarrow> ordering_db \<Rightarrow> ordering_db" where
  "mark_order env site oid status rsn db =
    fst (autocommit env site (update_orders (e_now env site) (\<lambda>r. o_ID r = oid)
      (\<lambda>r. r\<lparr>o_Status := status, o_FailureReason := rsn\<rparr>)) db)"

text \<open>The second transaction of \<^verbatim>\<open>Create\<close>: \<^verbatim>\<open>reserving\<close> to \<^verbatim>\<open>pending\<close> and the timeout event.\<close>

definition create_pend_body ::
  "ord_site env \<Rightarrow> duration \<Rightarrow> int \<Rightarrow> string \<Rightarrow> ordering_db \<Rightarrow> order_error + ordering_db \<times> unit" where
  "create_pend_body env timeoutDelay oid reservationID tx =
    (case stmt env PendUpdate (update_orders (e_now env PendUpdate)
        (\<lambda>r. o_ID r = oid \<and> o_Status r = OrderStatusReserving)
        (\<lambda>r. r\<lparr>o_Status := OrderStatusPending, o_ReservationID := reservationID, o_FailureReason := NoReason\<rparr>) tx) of
       Inl d \<Rightarrow> Inl (OrderDB d)
     | Inr (tx1, n) \<Rightarrow>
         if n \<noteq> 1 then Inl ErrInvalidOrderState
         else
           let now = e_now env OutboxInsert;
               row = \<lparr>to_ID = next_outbox tx1, to_OrderID = oid, to_DueAt = now + timeoutDelay, to_Status = OutboxPending,
                 to_Attempts = 0, to_LastError = NoError, to_LeaseOwner = [], to_LeaseUntil = None,
                 to_NextAttemptAt = now, to_CreatedAt = now, to_UpdatedAt = now\<rparr>
           in (case stmt env OutboxInsert (sql_insert (\<lambda>_. None) (\<lambda>a b. to_OrderID a = to_OrderID b) row
                     (order_timeout_outbox_v2 tx1)) of
                 Inl d \<Rightarrow> Inl (OrderDB d)
               | Inr rows \<Rightarrow>
                   Inr (tx1\<lparr>order_timeout_outbox_v2 := rows, next_outbox := next_outbox tx1 + 1\<rparr>, ())))"

definition create_pend ::
  "ord_site env \<Rightarrow> duration \<Rightarrow> int \<Rightarrow> string \<Rightarrow> ordering_db \<Rightarrow> ordering_db \<times> (order_error + unit)" where
  "create_pend env timeoutDelay oid reservationID =
    Transaction (e_out env PendCommit) OrderDB (create_pend_body env timeoutDelay oid reservationID)"

definition order_Create ::
  "ord_site env \<Rightarrow> 'i inventory_api \<Rightarrow> (int \<Rightarrow> client_error + CatalogProduct) \<Rightarrow> duration \<Rightarrow> int \<Rightarrow> CreateOrderRequest
    \<Rightarrow> ordering_db \<Rightarrow> 'i \<Rightarrow> ordering_db \<times> 'i \<times> (order_error + order_view)" where
  "order_Create env api GetProduct timeoutDelay userID req db i =
    (if userID \<le> 0 then (db, i, Inl ErrInvalidOrderRequest)
     else let key = TrimSpace (co_IdempotencyKey req) in
     if key = [] \<or> 64 < length key then (db, i, Inl ErrInvalidOrderRequest)
     else case findByIdempotency env IdemFind userID key db of
       Inr existing \<Rightarrow> (db, i, Inr existing)
     | Inl err \<Rightarrow>
         if err \<noteq> ErrOrderNotFound then (db, i, Inl err)
         else case resolveItems GetProduct (co_Items req) of
           Inl e \<Rightarrow> (db, i, Inl e)
         | Inr (items, reserveItems, totalFen) \<Rightarrow>
             let reservationID = e_uuid env in
             (case create_insert env userID key reservationID items totalFen db of
                (db1, Inl e) \<Rightarrow>
                  (case findByIdempotency env IdemRefind userID key db1 of
                     Inr existing \<Rightarrow> (db1, i, Inr existing)
                   | Inl _ \<Rightarrow> (db1, i, Inl e))
              | (db1, Inr r) \<Rightarrow>
                  (case ia_Reserve api (o_ID r) reservationID reserveItems i of
                     (i1, Inl e) \<Rightarrow>
                       (mark_order env MarkFailed (o_ID r) OrderStatusFailed (Reason (OrderClient e)) db1, i1,
                        Inl (ErrReservationFailed e))
                   | (i1, Inr reservation) \<Rightarrow>
                       (case create_pend env timeoutDelay (o_ID r) (ivr_ID reservation) db1 of
                          (db2, Inl e) \<Rightarrow>
                            (case ia_Release api (ivr_ID reservation) i1 of
                               (i2, Inl rel) \<Rightarrow>
                                 (mark_order env MarkCreate (o_ID r) OrderStatusReconciliationRequired
                                    (ReleaseFailed e rel) db2, i2, Inl ErrCompensationRequired)
                             | (i2, Inr _) \<Rightarrow>
                                 (mark_order env MarkCreate (o_ID r) OrderStatusFailed (Reason e) db2, i2, Inl e))
                        | (db2, Inr _) \<Rightarrow> (db2, i1, order_Get env userID (o_ID r) db2)))))"

section \<open>Cancel, Pay, Finish\<close>

text \<open>\<^verbatim>\<open>pending\<close> to \<^verbatim>\<open>cancelling\<close> or \<^verbatim>\<open>paying\<close>: the conditional update that claims the order.\<close>

definition claim_order ::
  "ord_site env \<Rightarrow> int \<Rightarrow> int \<Rightarrow> bool \<Rightarrow> order_status \<Rightarrow> ordering_db \<Rightarrow> ordering_db \<times> (order_error + unit)" where
  "claim_order env userID orderID system target db =
    (case autocommit env ClaimUpdate (update_orders (e_now env ClaimUpdate)
        (\<lambda>r. o_ID r = orderID \<and> o_Status r = OrderStatusPending \<and> (system \<or> o_UserID r = userID))
        (\<lambda>r. r\<lparr>o_Status := target\<rparr>)) db of
       (db', Inl d) \<Rightarrow> (db', Inl (OrderDB d))
     | (db', Inr n) \<Rightarrow> (db', if n \<noteq> 1 then Inl ErrInvalidOrderState else Inr ()))"

text \<open>Back to \<^verbatim>\<open>pending\<close> when the inventory call failed; the error of this write is ignored.\<close>

definition revert_order :: "ord_site env \<Rightarrow> int \<Rightarrow> order_status \<Rightarrow> client_error \<Rightarrow> ordering_db \<Rightarrow> ordering_db" where
  "revert_order env orderID claimed err db =
    fst (autocommit env RevertUpdate (update_orders (e_now env RevertUpdate)
      (\<lambda>r. o_ID r = orderID \<and> o_Status r = claimed)
      (\<lambda>r. r\<lparr>o_Status := OrderStatusPending, o_FailureReason := Reason (OrderClient err)\<rparr>)) db)"

definition open_outbox :: "int \<Rightarrow> TimeoutOutbox \<Rightarrow> bool" where
  "open_outbox orderID e \<longleftrightarrow>
    to_OrderID e = orderID \<and> to_Status e \<in> {OutboxPending, OutboxPublished, OutboxFailed}"

text \<open>The closing transaction: \<^verbatim>\<open>cancelling\<close> to \<^verbatim>\<open>cancelled\<close> (\<^verbatim>\<open>paying\<close> to \<^verbatim>\<open>paid\<close>) and the timeout event done.\<close>

definition finalize_body ::
  "ord_site env \<Rightarrow> int \<Rightarrow> order_status \<Rightarrow> order_status \<Rightarrow> ordering_db \<Rightarrow> order_error + ordering_db \<times> unit" where
  "finalize_body env orderID claimed target tx =
    (case stmt env FinalUpdate (update_orders (e_now env FinalUpdate)
        (\<lambda>r. o_ID r = orderID \<and> o_Status r = claimed)
        (\<lambda>r. r\<lparr>o_Status := target, o_FailureReason := NoReason\<rparr>) tx) of
       Inl d \<Rightarrow> Inl (OrderDB d)
     | Inr (tx1, n) \<Rightarrow>
         if n \<noteq> 1 then Inl ErrCompensationRequired
         else
           (case stmt env OutboxUpdate (update_outbox (e_now env OutboxUpdate) (open_outbox orderID)
               (\<lambda>e. e\<lparr>to_Status := OutboxCompleted\<rparr>) tx1) of
              Inl d \<Rightarrow> Inl (OrderDB d)
            | Inr (tx2, _) \<Rightarrow> Inr (tx2, ())))"

definition finalize_order ::
  "ord_site env \<Rightarrow> int \<Rightarrow> order_status \<Rightarrow> order_status \<Rightarrow> ordering_db \<Rightarrow> ordering_db \<times> (order_error + unit)" where
  "finalize_order env orderID claimed target =
    Transaction (e_out env FinalCommit) OrderDB (finalize_body env orderID claimed target)"

definition order_cancel ::
  "ord_site env \<Rightarrow> 'i inventory_api \<Rightarrow> int \<Rightarrow> int \<Rightarrow> bool \<Rightarrow> ordering_db \<Rightarrow> 'i
    \<Rightarrow> ordering_db \<times> 'i \<times> (order_error + order_view)" where
  "order_cancel env api userID orderID system db i =
    (case loadForTransition env LoadFind userID orderID system db of
       Inl e \<Rightarrow> (db, i, Inl e)
     | Inr (r, items) \<Rightarrow>
         if o_Status r = OrderStatusCancelled then (db, i, Inr (r, items))
         else if o_Status r \<noteq> OrderStatusPending then (db, i, Inl ErrInvalidOrderState)
         else
           (case claim_order env userID orderID system OrderStatusCancelling db of
              (db1, Inl e) \<Rightarrow> (db1, i, Inl e)
            | (db1, Inr _) \<Rightarrow>
                (case ia_Release api (o_ReservationID r) i of
                   (i1, Inl e) \<Rightarrow>
                     (revert_order env orderID OrderStatusCancelling e db1, i1, Inl (OrderClient e))
                 | (i1, Inr _) \<Rightarrow>
                     (case finalize_order env orderID OrderStatusCancelling OrderStatusCancelled db1 of
                        (db2, Inl e) \<Rightarrow>
                          (mark_order env MarkReconcile orderID OrderStatusReconciliationRequired (Reason e) db2, i1,
                           Inl ErrCompensationRequired)
                      | (db2, Inr _) \<Rightarrow>
                          (db2, i1, loadForTransition env ReloadFind userID orderID system db2)))))"

definition order_Cancel ::
  "ord_site env \<Rightarrow> 'i inventory_api \<Rightarrow> int \<Rightarrow> int \<Rightarrow> ordering_db \<Rightarrow> 'i
    \<Rightarrow> ordering_db \<times> 'i \<times> (order_error + order_view)" where
  "order_Cancel env api userID orderID = order_cancel env api userID orderID False"

definition order_TimeoutCancel ::
  "ord_site env \<Rightarrow> 'i inventory_api \<Rightarrow> int \<Rightarrow> ordering_db \<Rightarrow> 'i \<Rightarrow> ordering_db \<times> 'i \<times> order_error option" where
  "order_TimeoutCancel env api orderID db i =
    (case order_cancel env api 0 orderID True db i of
       (db', i', Inl e) \<Rightarrow>
         (db', i', if e = ErrInvalidOrderState \<or> e = ErrOrderNotFound then None else Some e)
     | (db', i', Inr _) \<Rightarrow> (db', i', None))"

definition order_Pay ::
  "ord_site env \<Rightarrow> 'i inventory_api \<Rightarrow> int \<Rightarrow> int \<Rightarrow> ordering_db \<Rightarrow> 'i
    \<Rightarrow> ordering_db \<times> 'i \<times> (order_error + order_view)" where
  "order_Pay env api userID orderID db i =
    (case loadForTransition env LoadFind userID orderID False db of
       Inl e \<Rightarrow> (db, i, Inl e)
     | Inr (r, items) \<Rightarrow>
         if o_Status r = OrderStatusPaid then (db, i, Inr (r, items))
         else if o_Status r \<noteq> OrderStatusPending then (db, i, Inl ErrInvalidOrderState)
         else
           (case claim_order env userID orderID False OrderStatusPaying db of
              (db1, Inl e) \<Rightarrow> (db1, i, Inl e)
            | (db1, Inr _) \<Rightarrow>
                (case ia_Confirm api (o_ReservationID r) i of
                   (i1, Inl e) \<Rightarrow>
                     (revert_order env orderID OrderStatusPaying e db1, i1, Inl (OrderClient e))
                 | (i1, Inr _) \<Rightarrow>
                     (case finalize_order env orderID OrderStatusPaying OrderStatusPaid db1 of
                        (db2, Inl e) \<Rightarrow>
                          (mark_order env MarkReconcile orderID OrderStatusReconciliationRequired (Reason e) db2, i1,
                           Inl ErrCompensationRequired)
                      | (db2, Inr _) \<Rightarrow> (db2, i1, order_Get env userID orderID db2)))))"

definition order_Finish ::
  "ord_site env \<Rightarrow> int \<Rightarrow> int \<Rightarrow> ordering_db \<Rightarrow> ordering_db \<times> (order_error + order_view)" where
  "order_Finish env userID orderID db =
    (case autocommit env FinishUpdate (update_orders (e_now env FinishUpdate)
        (\<lambda>r. o_ID r = orderID \<and> o_UserID r = userID \<and> o_Status r = OrderStatusPaid)
        (\<lambda>r. r\<lparr>o_Status := OrderStatusFinished\<rparr>)) db of
       (db', Inl d) \<Rightarrow> (db', Inl (OrderDB d))
     | (db', Inr n) \<Rightarrow>
         (db', if n \<noteq> 1 then Inl ErrInvalidOrderState else order_Get env userID orderID db'))"

section \<open>Handlers\<close>

datatype ord_msg = OrdMsg string | OrdErrText order_error | RemoteText client_error

text \<open>\<^verbatim>\<open>errors.As(err, &remote)\<close> and the order of the cases of \<^verbatim>\<open>writeOrderError\<close>; a panic is answered by gin's
  recovery with a bare 500.\<close>

definition writeOrderError :: "order_error \<Rightarrow> (ord_msg, 'd) reply" where
  "writeOrderError err = (case err of
      ErrOrderNotFound \<Rightarrow> FailReply 404 40421 (OrdMsg ''order not found'')
    | ErrInvalidOrderRequest \<Rightarrow> FailReply 400 40021 (OrdMsg ''invalid order request'')
    | ErrInvalidOrderState \<Rightarrow> FailReply 409 40921 (OrdMsg ''invalid order state'')
    | ErrProductUnavailable p \<Rightarrow> FailReply 409 40922 (OrdErrText err)
    | ErrReservationFailed e \<Rightarrow> FailReply 409 40922 (OrdErrText err)
    | ErrCompensationRequired \<Rightarrow> FailReply 503 50321 (OrdMsg ''order requires reconciliation'')
    | OrderClient (RemoteError s st b) \<Rightarrow> FailReply 502 50221 (RemoteText (RemoteError s st b))
    | OrderClient e \<Rightarrow> FailReply 500 50021 (OrdMsg ''order operation failed'')
    | OrderDB d \<Rightarrow> FailReply 500 50021 (OrdMsg ''order operation failed'')
    | DivisionByZero \<Rightarrow> ErrorReply 500 (OrdMsg []))"

text \<open>The value that the authentication middleware stored under \<^verbatim>\<open>UserIDKey\<close>, when it is an \<^verbatim>\<open>int64\<close>.\<close>

definition currentUserID :: "int option \<Rightarrow> int option" where
  "currentUserID ctx = (case ctx of Some u \<Rightarrow> if 0 < u then Some u else None | None \<Rightarrow> None)"

definition requestOrderIDs :: "int option \<Rightarrow> string \<Rightarrow> (int \<times> int) option" where
  "requestOrderIDs ctx param =
    (case (currentUserID ctx, ParseInt 64 param) of
       (Some userID, Some orderID) \<Rightarrow> if 0 < orderID then Some (userID, orderID) else None
     | _ \<Rightarrow> None)"

definition handler_create ::
  "ord_site env \<Rightarrow> 'i inventory_api \<Rightarrow> (int \<Rightarrow> client_error + CatalogProduct) \<Rightarrow> duration \<Rightarrow> int option
    \<Rightarrow> CreateOrderRequest option \<Rightarrow> ordering_db \<Rightarrow> 'i \<Rightarrow> ordering_db \<times> 'i \<times> (ord_msg, order_view) reply" where
  "handler_create env api GetProduct timeoutDelay ctx body db i =
    (case currentUserID ctx of
       None \<Rightarrow> (db, i, FailReply 401 40121 (OrdMsg ''invalid authenticated user''))
     | Some userID \<Rightarrow>
         (case body of
            None \<Rightarrow> (db, i, FailReply 400 40021 (OrdMsg ''invalid order request''))
          | Some req \<Rightarrow>
              (case order_Create env api GetProduct timeoutDelay userID req db i of
                 (db', i', Inl err) \<Rightarrow> (db', i', writeOrderError err)
               | (db', i', Inr r) \<Rightarrow> (db', i', OkReply 201 r))))"

definition handler_get :: "ord_site env \<Rightarrow> int option \<Rightarrow> string \<Rightarrow> ordering_db \<Rightarrow> (ord_msg, order_view) reply" where
  "handler_get env ctx param db =
    (case requestOrderIDs ctx param of
       None \<Rightarrow> FailReply 400 40022 (OrdMsg ''invalid order id'')
     | Some (userID, orderID) \<Rightarrow>
         (case order_Get env userID orderID db of
            Inl err \<Rightarrow> writeOrderError err
          | Inr r \<Rightarrow> OkReply 200 r))"

definition handler_list ::
  "ord_site env \<Rightarrow> int option \<Rightarrow> string \<Rightarrow> string \<Rightarrow> ordering_db
    \<Rightarrow> (ord_msg, order_view list \<times> int \<times> int \<times> int) reply" where
  "handler_list env ctx qpage qsize db =
    (case currentUserID ctx of
       None \<Rightarrow> FailReply 401 40121 (OrdMsg ''invalid authenticated user'')
     | Some userID \<Rightarrow>
         let page = parsePositiveInt qpage 1; pageSize = parsePositiveInt qsize 20
         in (case order_List env userID page pageSize db of
               Inl err \<Rightarrow> writeOrderError err
             | Inr (orders, cnt) \<Rightarrow> OkReply 200 (orders, cnt, page, pageSize)))"

text \<open>\<^verbatim>\<open>Handler.transition\<close> with the service method as its argument.\<close>

definition handler_transition ::
  "(int \<Rightarrow> int \<Rightarrow> 's \<Rightarrow> 's \<times> (order_error + order_view)) \<Rightarrow> int option \<Rightarrow> string \<Rightarrow> 's
    \<Rightarrow> 's \<times> (ord_msg, order_view) reply" where
  "handler_transition action ctx param s =
    (case requestOrderIDs ctx param of
       None \<Rightarrow> (s, FailReply 400 40022 (OrdMsg ''invalid order id''))
     | Some (userID, orderID) \<Rightarrow>
         (case action userID orderID s of
            (s', Inl err) \<Rightarrow> (s', writeOrderError err)
          | (s', Inr r) \<Rightarrow> (s', OkReply 200 r)))"

definition handler_timeoutCancel ::
  "ord_site env \<Rightarrow> 'i inventory_api \<Rightarrow> string \<Rightarrow> ordering_db \<Rightarrow> 'i \<Rightarrow> ordering_db \<times> 'i \<times> (ord_msg, string) reply" where
  "handler_timeoutCancel env api param db i =
    (case ParseInt 64 param of
       None \<Rightarrow> (db, i, ErrorReply 400 (OrdMsg ''invalid order id''))
     | Some orderID \<Rightarrow>
         if orderID \<le> 0 then (db, i, ErrorReply 400 (OrdMsg ''invalid order id''))
         else
           (case order_TimeoutCancel env api orderID db i of
              (db', i', Some err) \<Rightarrow> (db', i', ErrorReply 500 (OrdErrText err))
            | (db', i', None) \<Rightarrow> (db', i', PlainReply 200 ''processed'')))"

end
