(* ===== verification/Reconciliation.thy ===== *)
theory Reconciliation
  imports Ordering
begin

text \<open>
  The reconciliation worker, \<^verbatim>\<open>internal/ordersvc/reconciliation_worker.go\<close>: it claims due tasks under a
  lease, repeats the inventory call that the task stands for, and completes order and task in
  one transaction; and the read-only plan of \<^verbatim>\<open>reconciliation_dry_run.go\<close>.
\<close>

section \<open>Configuration\<close>

record ReconciliationWorkerConfig =
  rw_WorkerID :: string
  rw_PollInterval :: duration
  rw_RetryDelay :: duration
  rw_MaxRetryDelay :: duration
  rw_LeaseDuration :: duration
  rw_CallTimeout :: duration
  rw_BatchSize :: int

definition rw_normalized :: "time \<Rightarrow> ReconciliationWorkerConfig \<Rightarrow> ReconciliationWorkerConfig" where
  "rw_normalized now cfg =
    (let wid = TrimSpace (rw_WorkerID cfg);
         retry = (if rw_RetryDelay cfg \<le> 0 then 5000000000 else rw_RetryDelay cfg);
         mx = (if rw_MaxRetryDelay cfg \<le> 0 then 300000000000 else rw_MaxRetryDelay cfg);
         batch = (if rw_BatchSize cfg \<le> 0 then 10 else rw_BatchSize cfg)
     in \<lparr>rw_WorkerID = (if wid = [] then ''reconciliation-worker-'' @ FormatInt now else wid),
         rw_PollInterval = (if rw_PollInterval cfg \<le> 0 then 2000000000 else rw_PollInterval cfg),
         rw_RetryDelay = retry,
         rw_MaxRetryDelay = (if mx < retry then retry else mx),
         rw_LeaseDuration = (if rw_LeaseDuration cfg \<le> 0 then 30000000000 else rw_LeaseDuration cfg),
         rw_CallTimeout = (if rw_CallTimeout cfg \<le> 0 then 10000000000 else rw_CallTimeout cfg),
         rw_BatchSize = (if 100 < batch then 100 else batch)\<rparr>)"

definition retryDelay :: "ReconciliationWorkerConfig \<Rightarrow> int \<Rightarrow> duration" where
  "retryDelay cfg attempt0 =
    (let attempt = (if attempt0 < 1 then 1 else attempt0)
     in double_delay (rw_MaxRetryDelay cfg) (nat (attempt - 1)) (rw_RetryDelay cfg))"

section \<open>Claiming tasks\<close>

datatype rec_site =
    TasksFind | TaskClaim int | TasksCommit | TaskOrder | RecUpdate | RecCount | RecOutbox | RecTask | RecCommit
  | TaskFail | TaskUnresolve | DryRunQuery

definition claimable :: "time \<Rightarrow> ReconciliationTask \<Rightarrow> bool" where
  "claimable now t \<longleftrightarrow> rt_Status t \<in> {TaskPending, TaskFailed} \<and> rt_NextAttemptAt t \<le> now \<and>
    (case rt_LeaseUntil t of None \<Rightarrow> True | Some until \<Rightarrow> until < now)"

definition claim_row :: "ReconciliationWorkerConfig \<Rightarrow> time \<Rightarrow> ReconciliationTask \<Rightarrow> ReconciliationTask" where
  "claim_row cfg now t = t\<lparr>rt_Attempts := rt_Attempts t + 1, rt_LeaseOwner := rw_WorkerID cfg,
     rt_LeaseUntil := Some (now + rw_LeaseDuration cfg), rt_UpdatedAt := now\<rparr>"

text \<open>The loop of \<^verbatim>\<open>claim\<close> over the selected tasks; the returned copies keep their old \<^verbatim>\<open>updated_at\<close>.\<close>

fun claim_loop ::
  "rec_site env \<Rightarrow> ReconciliationWorkerConfig \<Rightarrow> time \<Rightarrow> ReconciliationTask list \<Rightarrow> ordering_db
    \<Rightarrow> task_error + ordering_db \<times> ReconciliationTask list" where
  "claim_loop env cfg now [] tx = Inr (tx, [])"
| "claim_loop env cfg now (t # ts) tx =
    (case stmt env (TaskClaim (rt_ID t)) (update_tasks (\<lambda>x. rt_ID x = rt_ID t) (claim_row cfg now) tx) of
       Inl d \<Rightarrow> Inl (TaskDB d)
     | Inr (tx1, n) \<Rightarrow>
         if n \<noteq> 1 then Inl LeaseLost
         else
           (case claim_loop env cfg now ts tx1 of
              Inl e \<Rightarrow> Inl e
            | Inr (tx2, rest) \<Rightarrow> Inr (tx2, (claim_row cfg now t)\<lparr>rt_UpdatedAt := rt_UpdatedAt t\<rparr> # rest)))"

definition claim ::
  "rec_site env \<Rightarrow> ReconciliationWorkerConfig \<Rightarrow> time \<Rightarrow> ordering_db
    \<Rightarrow> ordering_db \<times> (task_error + ReconciliationTask list)" where
  "claim env cfg now =
    Transaction (e_out env TasksCommit) TaskDB (\<lambda>tx.
      case stmt env TasksFind (Inr (take (nat (rw_BatchSize cfg))
          (filter (claimable now) (order_reconciliation_tasks tx)))) of
        Inl d \<Rightarrow> Inl (TaskDB d)
      | Inr tasks \<Rightarrow> claim_loop env cfg now tasks tx)"

section \<open>Processing a task\<close>

text \<open>Whether this worker still holds the task.\<close>

definition holds :: "ReconciliationWorkerConfig \<Rightarrow> ordering_db \<Rightarrow> ReconciliationTask \<Rightarrow> ReconciliationTask \<Rightarrow> bool" where
  "holds cfg db task t \<longleftrightarrow>
    rt_ID t = rt_ID task \<and> ord_collate db (rt_LeaseOwner t) = ord_collate db (rw_WorkerID cfg)"

definition close_row :: "task_status \<Rightarrow> task_error \<Rightarrow> time \<Rightarrow> time \<Rightarrow> ReconciliationTask \<Rightarrow> ReconciliationTask" where
  "close_row status err next now t = t\<lparr>rt_Status := status, rt_LeaseOwner := [], rt_LeaseUntil := None,
     rt_LastError := err, rt_NextAttemptAt := next, rt_UpdatedAt := now\<rparr>"

definition complete_body ::
  "rec_site env \<Rightarrow> ReconciliationWorkerConfig \<Rightarrow> time \<Rightarrow> ReconciliationTask \<Rightarrow> order_status \<Rightarrow> bool \<Rightarrow> ordering_db
    \<Rightarrow> task_error + ordering_db \<times> unit" where
  "complete_body env cfg now task target completeOutbox tx =
    (case stmt env RecUpdate (update_orders now
        (\<lambda>r. o_ID r = rt_OrderID task \<and> o_Status r = OrderStatusReconciliationRequired)
        (\<lambda>r. r\<lparr>o_Status := target\<rparr>) tx) of
       Inl d \<Rightarrow> Inl (TaskDB d)
     | Inr (tx1, n) \<Rightarrow>
         (case (if n = 0
                then (case stmt env RecCount (Inr (length (filter (\<lambda>r. o_ID r = rt_OrderID task \<and> o_Status r = target)
                          (orders_v2 tx1)))) of
                        Inl d \<Rightarrow> Some (TaskDB d)
                      | Inr c \<Rightarrow> if c \<noteq> 1 then Some (TargetMismatch target) else None)
                else None) of
            Some e \<Rightarrow> Inl e
          | None \<Rightarrow>
              (case (if completeOutbox
                     then stmt env RecOutbox (update_outbox now (open_outbox (rt_OrderID task))
                            (\<lambda>e. e\<lparr>to_Status := OutboxCompleted\<rparr>) tx1)
                     else Inr (tx1, 0)) of
                 Inl d \<Rightarrow> Inl (TaskDB d)
               | Inr (tx2, _) \<Rightarrow>
                   (case stmt env RecTask (update_tasks (holds cfg tx2 task)
                       (close_row TaskCompleted NoTaskError now now) tx2) of
                      Inl d \<Rightarrow> Inl (TaskDB d)
                    | Inr (tx3, m) \<Rightarrow> if m \<noteq> 1 then Inl LeaseLost else Inr (tx3, ())))))"

definition completeTask ::
  "rec_site env \<Rightarrow> ReconciliationWorkerConfig \<Rightarrow> time \<Rightarrow> ReconciliationTask \<Rightarrow> order_status \<Rightarrow> bool \<Rightarrow> ordering_db
    \<Rightarrow> ordering_db \<times> (task_error + unit)" where
  "completeTask env cfg now task target completeOutbox =
    Transaction (e_out env RecCommit) TaskDB (complete_body env cfg now task target completeOutbox)"

text \<open>What a task stands for: the inventory call and the final status of the order.\<close>

definition rec_target :: "rec_action \<Rightarrow> order_status option" where
  "rec_target a = (case a of
      ReleaseInventoryAndFail \<Rightarrow> Some OrderStatusFailed
    | FinalizeCancel \<Rightarrow> Some OrderStatusCancelled
    | FinalizePayment \<Rightarrow> Some OrderStatusPaid
    | UnsupportedFrom _ \<Rightarrow> None)"

definition rec_outbox :: "rec_action \<Rightarrow> bool" where
  "rec_outbox a = (a \<noteq> ReleaseInventoryAndFail)"

definition rec_call :: "'i inventory_api \<Rightarrow> rec_action \<Rightarrow> string \<Rightarrow> 'i \<Rightarrow> 'i \<times> (client_error + InventoryReservation)" where
  "rec_call api a = (if a = FinalizePayment then ia_Confirm api else ia_Release api)"

text \<open>\<^verbatim>\<open>releaseInventoryAndFail\<close>, \<^verbatim>\<open>finalizeCancel\<close> and \<^verbatim>\<open>finalizePayment\<close>, which differ in \<open>rec_target\<close>, \<open>rec_outbox\<close> and
  \<open>rec_call\<close> only.\<close>

definition run_action ::
  "rec_site env \<Rightarrow> ReconciliationWorkerConfig \<Rightarrow> 'i inventory_api \<Rightarrow> time \<Rightarrow> ReconciliationTask \<Rightarrow> order_status \<Rightarrow> Order
    \<Rightarrow> ordering_db \<Rightarrow> 'i \<Rightarrow> ordering_db \<times> 'i \<times> task_error option" where
  "run_action env cfg api now task target r db i =
    (let finish = (\<lambda>i'. case completeTask env cfg now task target (rec_outbox (rt_Action task)) db of
           (db', Inl e) \<Rightarrow> (db', i', Some e)
         | (db', Inr _) \<Rightarrow> (db', i', None))
     in if o_Status r = target then finish i
        else if o_Status r \<noteq> OrderStatusReconciliationRequired
          then (db, i, Some (StateMismatch (rt_Action task) (o_Status r)))
        else (case rec_call api (rt_Action task) (o_ReservationID r) i of
                (i', Inl e) \<Rightarrow> (db, i', Some (InventoryCall e))
              | (i', Inr _) \<Rightarrow> finish i'))"

definition markFailed ::
  "rec_site env \<Rightarrow> ReconciliationWorkerConfig \<Rightarrow> time \<Rightarrow> ReconciliationTask \<Rightarrow> task_error \<Rightarrow> ordering_db
    \<Rightarrow> ordering_db \<times> task_error list" where
  "markFailed env cfg now task cause db =
    (case autocommit env TaskFail (update_tasks (holds cfg db task)
        (close_row TaskFailed cause (now + retryDelay cfg (rt_Attempts task)) now)) db of
       (db', Inl d) \<Rightarrow> (db', [cause, TaskDB d])
     | (db', Inr n) \<Rightarrow> (db', if n \<noteq> 1 then [cause, LeaseLost] else [cause]))"

definition markUnresolved ::
  "rec_site env \<Rightarrow> ReconciliationWorkerConfig \<Rightarrow> time \<Rightarrow> ReconciliationTask \<Rightarrow> task_error \<Rightarrow> ordering_db
    \<Rightarrow> ordering_db \<times> task_error list" where
  "markUnresolved env cfg now task rsn db =
    (case autocommit env TaskUnresolve (update_tasks (holds cfg db task)
        (close_row TaskUnresolved rsn now now)) db of
       (db', Inl d) \<Rightarrow> (db', [TaskDB d])
     | (db', Inr n) \<Rightarrow> (db', if n \<noteq> 1 then [LeaseLost] else []))"

definition is_mismatch :: "task_error \<Rightarrow> bool" where
  "is_mismatch e = (case e of StateMismatch _ _ \<Rightarrow> True | TargetMismatch _ \<Rightarrow> True | UnsupportedAction _ \<Rightarrow> True
    | _ \<Rightarrow> False)"

text \<open>\<^verbatim>\<open>processTask\<close>; its error is the list of the errors it joins, empty for nil.\<close>

definition processTask ::
  "rec_site env \<Rightarrow> ReconciliationWorkerConfig \<Rightarrow> 'i inventory_api \<Rightarrow> time \<Rightarrow> ReconciliationTask \<Rightarrow> ordering_db \<Rightarrow> 'i
    \<Rightarrow> ordering_db \<times> 'i \<times> task_error list" where
  "processTask env cfg api now task db i =
    (case stmt env TaskOrder (Inr (order_row (rt_OrderID task) db)) of
       Inl d \<Rightarrow> (case markFailed env cfg now task (TaskDB d) db of (db', e) \<Rightarrow> (db', i, e))
     | Inr None \<Rightarrow> (case markUnresolved env cfg now task TaskOrderNotFound db of (db', e) \<Rightarrow> (db', i, e))
     | Inr (Some r) \<Rightarrow>
         (case rec_target (rt_Action task) of
            None \<Rightarrow>
              (case markUnresolved env cfg now task (UnsupportedAction (rt_Action task)) db of
                 (db', e) \<Rightarrow> (db', i, e))
          | Some target \<Rightarrow>
              (case run_action env cfg api now task target r db i of
                 (db1, i1, None) \<Rightarrow> (db1, i1, [])
               | (db1, i1, Some err) \<Rightarrow>
                   (case (if is_mismatch err then markUnresolved env cfg now task err db1
                          else markFailed env cfg now task err db1) of
                      (db2, e) \<Rightarrow> (db2, i1, e)))))"

text \<open>\<^verbatim>\<open>processBatch\<close>: every claimed task in turn, each with its own environment and clock reading.\<close>

fun process_all ::
  "(int \<Rightarrow> rec_site env) \<Rightarrow> ReconciliationWorkerConfig \<Rightarrow> 'i inventory_api \<Rightarrow> (int \<Rightarrow> time) \<Rightarrow> ReconciliationTask list
    \<Rightarrow> ordering_db \<Rightarrow> 'i \<Rightarrow> ordering_db \<times> 'i" where
  "process_all envs cfg api clock [] db i = (db, i)"
| "process_all envs cfg api clock (t # ts) db i =
    (case processTask (envs (rt_ID t)) cfg api (clock (rt_ID t)) t db i of
       (db', i', _) \<Rightarrow> process_all envs cfg api clock ts db' i')"

definition processBatch ::
  "rec_site env \<Rightarrow> (int \<Rightarrow> rec_site env) \<Rightarrow> ReconciliationWorkerConfig \<Rightarrow> 'i inventory_api \<Rightarrow> time \<Rightarrow> (int \<Rightarrow> time)
    \<Rightarrow> ordering_db \<Rightarrow> 'i \<Rightarrow> ordering_db \<times> 'i \<times> task_error option" where
  "processBatch env envs cfg api now clock db i =
    (case claim env cfg now db of
       (db', Inl e) \<Rightarrow> (db', i, Some e)
     | (db', Inr tasks) \<Rightarrow> (case process_all envs cfg api clock tasks db' i of (db2, i2) \<Rightarrow> (db2, i2, None)))"

section \<open>Dry run\<close>

datatype plan = PlanReady | PlanAlreadyFinal | PlanUnsupported | PlanStateMismatch | PlanOrderMissing

record ReconciliationDryRunItem =
  di_TaskID :: int
  di_OrderID :: int
  di_Action :: rec_action
  di_TaskStatus :: task_status
  di_CurrentOrderStatus :: "order_status option"
  di_IntendedTargetState :: "order_status option"
  di_Classification :: plan
  di_Reason :: string

record ReconciliationDryRunReport =
  dr_GeneratedAt :: time
  dr_EligibleCount :: nat
  dr_Items :: "ReconciliationDryRunItem list"

text \<open>A row of the query: the columns of the task, and the status of its order unless that is NULL.\<close>

record reconciliationDryRunRow =
  drr_TaskID :: int
  drr_OrderID :: int
  drr_Action :: rec_action
  drr_TaskStatus :: task_status
  drr_OrderStatus :: "order_status option"

definition reconciliationTargetState :: "rec_action \<Rightarrow> order_status option" where
  "reconciliationTargetState a = (case a of
      ReleaseInventoryAndFail \<Rightarrow> Some OrderStatusFailed
    | FinalizeCancel \<Rightarrow> Some OrderStatusCancelled
    | FinalizePayment \<Rightarrow> Some OrderStatusPaid
    | _ \<Rightarrow> None)"

definition planReconciliation :: "reconciliationDryRunRow \<Rightarrow> ReconciliationDryRunItem" where
  "planReconciliation row =
    (let item = \<lparr>di_TaskID = drr_TaskID row, di_OrderID = drr_OrderID row, di_Action = drr_Action row,
           di_TaskStatus = drr_TaskStatus row, di_CurrentOrderStatus = None, di_IntendedTargetState = None,
           di_Classification = PlanReady, di_Reason = []\<rparr>
     in case reconciliationTargetState (drr_Action row) of
          None \<Rightarrow> item\<lparr>di_Classification := PlanUnsupported,
                    di_Reason := ''unsupported reconciliation action'',
                    di_CurrentOrderStatus := drr_OrderStatus row\<rparr>
        | Some target \<Rightarrow>
            let item1 = item\<lparr>di_IntendedTargetState := Some target\<rparr>
            in (case drr_OrderStatus row of
                  None \<Rightarrow> item1\<lparr>di_Classification := PlanOrderMissing, di_Reason := ''order not found''\<rparr>
                | Some st \<Rightarrow>
                    let item2 = item1\<lparr>di_CurrentOrderStatus := Some st\<rparr>
                    in if st = OrderStatusReconciliationRequired then item2
                       else if st = target
                         then item2\<lparr>di_Classification := PlanAlreadyFinal,
                                di_Reason := ''order already has the intended target state''\<rparr>
                       else item2\<lparr>di_Classification := PlanStateMismatch,
                              di_Reason := ''order state does not match reconciliation action''\<rparr>))"

text \<open>The query: due, free tasks joined with their orders, at most a batch.\<close>

definition dry_run_rows :: "ReconciliationWorkerConfig \<Rightarrow> time \<Rightarrow> ordering_db \<Rightarrow> reconciliationDryRunRow list" where
  "dry_run_rows cfg now db =
    map (\<lambda>t. \<lparr>drr_TaskID = rt_ID t, drr_OrderID = rt_OrderID t, drr_Action = rt_Action t, drr_TaskStatus = rt_Status t,
        drr_OrderStatus = map_option o_Status (order_row (rt_OrderID t) db)\<rparr>)
      (take (nat (rw_BatchSize cfg)) (filter (claimable now) (order_reconciliation_tasks db)))"

definition DryRun ::
  "rec_site env \<Rightarrow> ReconciliationWorkerConfig \<Rightarrow> ctx_error option \<Rightarrow> time \<Rightarrow> ordering_db
    \<Rightarrow> (ctx_error + db_error) + ReconciliationDryRunReport" where
  "DryRun env cfg ctxErr now db =
    (case ctxErr of
       Some e \<Rightarrow> Inl (Inl e)
     | None \<Rightarrow>
         (case stmt env DryRunQuery (Inr (dry_run_rows cfg now db)) of
            Inl d \<Rightarrow> Inl (Inr d)
          | Inr rows \<Rightarrow>
              let items = map planReconciliation rows
              in Inr \<lparr>dr_GeneratedAt = now, dr_EligibleCount = length items, dr_Items = items\<rparr>))"

end
