(* ===== verification/Saga.thy ===== *)
theory Saga
  imports Reconciliation
begin

text \<open>
  The order saga under concurrency. \<open>saga_step\<close> interleaves the database steps and inventory calls of
  any number of create, cancel and pay requests and reconciliation workers, one step at a time,
  with any failure or lost acknowledgement at each; a request may stop anywhere (a crash), and
  the inventory may move on at any time (other clients, delayed messages). The inventory is
  used through the contract \<open>inventory_contract\<close>, which the client of \<open>Clients\<close> satisfies.
\<close>

section \<open>The contract of the inventory client\<close>

locale inventory_contract =
  fixes api :: "'i inventory_api"
    and ok :: "'i \<Rightarrow> bool"
    and status :: "'i \<Rightarrow> string \<Rightarrow> reservation_status option"
    and later :: "'i \<Rightarrow> 'i \<Rightarrow> bool"
  assumes later_ok: "ok i \<Longrightarrow> later i i' \<Longrightarrow> ok i'"
    and later_final: "ok i \<Longrightarrow> later i i' \<Longrightarrow> status i rid = Some s \<Longrightarrow> s \<noteq> ReservationPending \<Longrightarrow>
      status i' rid = Some s"
    and reserve_later: "ok i \<Longrightarrow> ia_Reserve api oid rid its i = (i', x) \<Longrightarrow> later i i'"
    and confirm_later: "ok i \<Longrightarrow> ia_Confirm api rid i = (i', x) \<Longrightarrow> later i i'"
    and release_later: "ok i \<Longrightarrow> ia_Release api rid i = (i', x) \<Longrightarrow> later i i'"
    and confirm_done: "ok i \<Longrightarrow> ia_Confirm api rid i = (i', Inr v) \<Longrightarrow> status i' rid = Some ReservationConfirmed"
    and release_done: "ok i \<Longrightarrow> ia_Release api rid i = (i', Inr v) \<Longrightarrow> status i' rid = Some ReservationReleased"

text \<open>The client of \<^verbatim>\<open>clients.go\<close> over a network and the inventory service.\<close>

definition net_api :: "'c ctx_ops \<Rightarrow> inv_client \<Rightarrow> 'c inv_world exec_state inventory_api" where
  "net_api cx c = \<lparr>ia_Reserve = client_Reserve cx c, ia_Confirm = client_Confirm cx c, ia_Release = client_Release cx c\<rparr>"

abbreviation net_db :: "'c inv_world exec_state \<Rightarrow> inventory_db" where
  "net_db st \<equiv> iw_db (xs_world st)"

definition net_ok :: "'c inv_world exec_state \<Rightarrow> bool" where
  "net_ok st \<longleftrightarrow> inv_ok (net_db st)"

definition net_status :: "'c inv_world exec_state \<Rightarrow> string \<Rightarrow> reservation_status option" where
  "net_status st = rstatus (net_db st)"

text \<open>Between two steps of a request the inventory may have served any calls; network, context and
  breakers may be in any state.\<close>

definition net_later :: "'c inv_world exec_state \<Rightarrow> 'c inv_world exec_state \<Rightarrow> bool" where
  "net_later st st' \<longleftrightarrow> inv_later (net_db st) (net_db st')"

lemma client_Reserve_later:
  assumes "net_ok st" and "client_Reserve cx c oid rid items st = (st', r)"
  shows "net_later st st'"
proof (cases "oid \<le> 0 \<or> TrimSpace rid = []")
  case True
  with assms(2) show ?thesis by (auto simp: client_Reserve_def net_later_def)
next
  case False
  let ?call = "ReserveCall \<lparr>rr_OrderID = oid, rr_ReservationID = TrimSpace rid,
    rr_Items = map (\<lambda>(p, q). \<lparr>ir_ProductID = p, ir_Quantity = q\<rparr>) items\<rparr>"
  obtain st1 r1 where j: "doJSON (inv_ops cx ?call) (ic_breaker c) (ic_text c) decode_reservation (ic_token c)
      ''inventory-service'' ''reserve-inventory'' ''POST'' (ic_baseURL c @ ''/internal/v1/reservations'')
      (Some (ic_encode c ?call)) st = (st1, r1)" by fastforce
  have "st1 = st'" using assms(2) False unfolding client_Reserve_def Let_def by (simp add: j)
  with doJSON_inv(1) [OF _ j] assms(1) show ?thesis by (simp add: net_later_def net_ok_def)
qed

interpretation net: inventory_contract "net_api cx c" net_ok net_status net_later
  for cx :: "'c ctx_ops" and c
proof
  fix i i' :: "'c inv_world exec_state" and rid s oid its x v
  show "net_ok i \<Longrightarrow> net_later i i' \<Longrightarrow> net_ok i'"
    by (auto simp: net_ok_def net_later_def intro: inv_later_ok)
  show "net_ok i \<Longrightarrow> net_later i i' \<Longrightarrow> net_status i rid = Some s \<Longrightarrow> s \<noteq> ReservationPending \<Longrightarrow>
      net_status i' rid = Some s"
    by (auto simp: net_ok_def net_later_def net_status_def intro: res_evolves_final inv_later_evolves)
  show "net_ok i \<Longrightarrow> ia_Reserve (net_api cx c) oid rid its i = (i', x) \<Longrightarrow> net_later i i'"
    by (simp add: net_api_def client_Reserve_later)
  show "net_ok i \<Longrightarrow> ia_Confirm (net_api cx c) rid i = (i', x) \<Longrightarrow> net_later i i'"
    by (simp add: net_api_def net_ok_def net_later_def client_Confirm_def client_transition_result(1))
  show "net_ok i \<Longrightarrow> ia_Release (net_api cx c) rid i = (i', x) \<Longrightarrow> net_later i i'"
    by (simp add: net_api_def net_ok_def net_later_def client_Release_def client_transition_result(1))
  show "net_ok i \<Longrightarrow> ia_Confirm (net_api cx c) rid i = (i', Inr v) \<Longrightarrow>
      net_status i' rid = Some ReservationConfirmed"
    using client_transition_result(2) [of i cx c True rid i' "Inr v" v]
    by (simp add: net_api_def net_ok_def net_status_def client_Confirm_def)
  show "net_ok i \<Longrightarrow> ia_Release (net_api cx c) rid i = (i', Inr v) \<Longrightarrow>
      net_status i' rid = Some ReservationReleased"
    using client_transition_result(2) [of i cx c False rid i' "Inr v" v]
    by (simp add: net_api_def net_ok_def net_status_def client_Release_def)
qed

section \<open>Requests in progress\<close>

datatype transition = ToCancel | ToPay

fun claimed :: "transition \<Rightarrow> order_status" where
  "claimed ToCancel = OrderStatusCancelling"
| "claimed ToPay = OrderStatusPaying"

fun final :: "transition \<Rightarrow> order_status" where
  "final ToCancel = OrderStatusCancelled"
| "final ToPay = OrderStatusPaid"

fun moved :: "transition \<Rightarrow> reservation_status" where
  "moved ToCancel = ReservationReleased"
| "moved ToPay = ReservationConfirmed"

fun inventory_call ::
  "'i inventory_api \<Rightarrow> transition \<Rightarrow> string \<Rightarrow> 'i \<Rightarrow> 'i \<times> (client_error + InventoryReservation)" where
  "inventory_call api ToCancel = ia_Release api"
| "inventory_call api ToPay = ia_Confirm api"

text \<open>Where a request is: what it does next.\<close>

datatype thread =
    ReserveT int string "(int \<times> int) list"
  | PendT int string
  | CompensateT int string order_error
  | MarkT int order_status reason
  | LoadedT transition int int bool string
  | CallT transition int string
  | RevertT transition int client_error
  | FinalT transition int
  | TaskT ReconciliationTask
  | TaskCallT ReconciliationTask order_status string
  | TaskDoneT ReconciliationTask order_status
  | TaskMarkT ReconciliationTask task_error

type_synonym 'i saga = "ordering_db \<times> 'i \<times> thread multiset"

text \<open>A step that leaves orders and tasks alone, such as those of the outbox worker.\<close>

definition same_orders :: "ordering_db \<Rightarrow> ordering_db \<Rightarrow> bool" where
  "same_orders db db' \<longleftrightarrow> orders_v2 db' = orders_v2 db \<and> next_order db' = next_order db \<and>
     order_reconciliation_tasks db' = order_reconciliation_tasks db \<and> next_task db' = next_task db"

inductive saga_step :: "'i inventory_api \<Rightarrow> ('i \<Rightarrow> 'i \<Rightarrow> bool) \<Rightarrow> 'i saga \<Rightarrow> 'i saga \<Rightarrow> bool"
  for api later where
  create: "create_insert env uid key rid items totalFen db = (db', res) \<Longrightarrow>
    saga_step api later (db, i, ts)
      (db', i, (case res of Inr r \<Rightarrow> {#ReserveT (o_ID r) rid its#} | Inl _ \<Rightarrow> {#}) + ts)"
| reserve: "ia_Reserve api oid rid its i = (i', res) \<Longrightarrow>
    saga_step api later (db, i, add_mset (ReserveT oid rid its) ts)
      (db, i', add_mset (case res of Inr v \<Rightarrow> PendT oid (ivr_ID v)
         | Inl e \<Rightarrow> MarkT oid OrderStatusFailed (Reason (OrderClient e))) ts)"
| pend: "create_pend env delay oid rid db = (db', res) \<Longrightarrow>
    saga_step api later (db, i, add_mset (PendT oid rid) ts)
      (db', i, (case res of Inr _ \<Rightarrow> {#} | Inl e \<Rightarrow> {#CompensateT oid rid e#}) + ts)"
| compensate: "ia_Release api rid i = (i', res) \<Longrightarrow>
    saga_step api later (db, i, add_mset (CompensateT oid rid e) ts)
      (db, i', add_mset (case res of Inr _ \<Rightarrow> MarkT oid OrderStatusFailed (Reason e)
         | Inl rel \<Rightarrow> MarkT oid OrderStatusReconciliationRequired (ReleaseFailed e rel)) ts)"
| mark: "saga_step api later (db, i, add_mset (MarkT oid st rsn) ts) (mark_order env site oid st rsn db, i, ts)"
| load: "loadForTransition env LoadFind uid oid system db = Inr (r, items) \<Longrightarrow> o_Status r = OrderStatusPending \<Longrightarrow>
    saga_step api later (db, i, ts) (db, i, add_mset (LoadedT k uid oid system (o_ReservationID r)) ts)"
| claim: "claim_order env uid oid system (claimed k) db = (db', res) \<Longrightarrow>
    saga_step api later (db, i, add_mset (LoadedT k uid oid system rid) ts)
      (db', i, (case res of Inr _ \<Rightarrow> {#CallT k oid rid#} | Inl _ \<Rightarrow> {#}) + ts)"
| call: "inventory_call api k rid i = (i', res) \<Longrightarrow>
    saga_step api later (db, i, add_mset (CallT k oid rid) ts)
      (db, i', add_mset (case res of Inr _ \<Rightarrow> FinalT k oid | Inl e \<Rightarrow> RevertT k oid e) ts)"
| revert: "saga_step api later (db, i, add_mset (RevertT k oid e) ts) (revert_order env oid (claimed k) e db, i, ts)"
| finalize: "finalize_order env oid (claimed k) (final k) db = (db', res) \<Longrightarrow>
    saga_step api later (db, i, add_mset (FinalT k oid) ts)
      (db', i, (case res of Inr _ \<Rightarrow> {#} | Inl e \<Rightarrow> {#MarkT oid OrderStatusReconciliationRequired (Reason e)#}) + ts)"
| finish: "saga_step api later (db, i, ts) (fst (order_Finish env uid oid db), i, ts)"
| task_claim: "Reconciliation.claim renv cfg now db = (db', res) \<Longrightarrow>
    saga_step api later (db, i, ts)
      (db', i, (case res of Inr tasks \<Rightarrow> mset (map TaskT tasks) | Inl _ \<Rightarrow> {#}) + ts)"
| task_load: "order_row (rt_OrderID task) db = Some r \<Longrightarrow> rec_target (rt_Action task) = Some target \<Longrightarrow>
    saga_step api later (db, i, add_mset (TaskT task) ts)
      (db, i, add_mset (if o_Status r = target then TaskDoneT task target
         else if o_Status r \<noteq> OrderStatusReconciliationRequired
           then TaskMarkT task (StateMismatch (rt_Action task) (o_Status r))
         else TaskCallT task target (o_ReservationID r)) ts)"
| task_skip: "saga_step api later (db, i, add_mset (TaskT task) ts) (db, i, add_mset (TaskMarkT task e) ts)"
| task_call: "rec_call api (rt_Action task) rid i = (i', res) \<Longrightarrow>
    saga_step api later (db, i, add_mset (TaskCallT task target rid) ts)
      (db, i', add_mset (case res of Inr _ \<Rightarrow> TaskDoneT task target | Inl e \<Rightarrow> TaskMarkT task (InventoryCall e)) ts)"
| task_done: "completeTask renv cfg now task target (rec_outbox (rt_Action task)) db = (db', res) \<Longrightarrow>
    saga_step api later (db, i, add_mset (TaskDoneT task target) ts)
      (db', i, (case res of Inr _ \<Rightarrow> {#} | Inl e \<Rightarrow> {#TaskMarkT task e#}) + ts)"
| task_mark: "db' \<in> {fst (markFailed renv cfg now task e db), fst (markUnresolved renv cfg now task e db)} \<Longrightarrow>
    saga_step api later (db, i, add_mset (TaskMarkT task e) ts) (db', i, ts)"
| others: "same_orders db db' \<Longrightarrow> saga_step api later (db, i, ts) (db', i, ts)"
| environment: "later i i' \<Longrightarrow> saga_step api later (db, i, ts) (db, i', ts)"
| crash: "saga_step api later (db, i, add_mset t ts) (db, i, ts)"

definition empty_orders :: "(string \<Rightarrow> string) \<Rightarrow> ordering_db" where
  "empty_orders collate =
    \<lparr>orders_v2 = [], order_items_v2 = [], order_timeout_outbox_v2 = [], order_reconciliation_tasks = [],
     next_order = 1, next_order_item = 1, next_outbox = 1, next_task = 1, ord_collate = collate\<rparr>"

inductive saga_reachable ::
  "'i inventory_api \<Rightarrow> ('i \<Rightarrow> 'i \<Rightarrow> bool) \<Rightarrow> (string \<Rightarrow> string) \<Rightarrow> 'i \<Rightarrow> 'i saga \<Rightarrow> bool"
  for api later collate i0 where
  saga_init: "saga_reachable api later collate i0 (empty_orders collate, i0, {#})"
| saga_next: "saga_reachable api later collate i0 s \<Longrightarrow> saga_step api later s s' \<Longrightarrow>
    saga_reachable api later collate i0 s'"

end
