(* ===== verification/Saga_Correct.thy ===== *)
theory Saga_Correct
  imports Saga
begin

text \<open>
  The invariant of the order saga, by rule induction over \<open>saga_step\<close>, once for every inventory client
  that satisfies the contract.
\<close>

section \<open>What the statements do to the orders\<close>

lemma trigger_same [simp]:
  "orders_v2 (reconciliation_trigger now a b db) = orders_v2 db"
  "next_order (reconciliation_trigger now a b db) = next_order db"
  "order_timeout_outbox_v2 (reconciliation_trigger now a b db) = order_timeout_outbox_v2 db"
  "order_items_v2 (reconciliation_trigger now a b db) = order_items_v2 db"
  "ord_collate (reconciliation_trigger now a b db) = ord_collate db"
  by (simp_all add: reconciliation_trigger_def Let_def)

lemma fold_trigger_same [simp]:
  "orders_v2 (fold (\<lambda>r. reconciliation_trigger now r (g r)) rs db) = orders_v2 db"
  "next_order (fold (\<lambda>r. reconciliation_trigger now r (g r)) rs db) = next_order db"
  "order_timeout_outbox_v2 (fold (\<lambda>r. reconciliation_trigger now r (g r)) rs db) = order_timeout_outbox_v2 db"
  "order_items_v2 (fold (\<lambda>r. reconciliation_trigger now r (g r)) rs db) = order_items_v2 db"
  "ord_collate (fold (\<lambda>r. reconciliation_trigger now r (g r)) rs db) = ord_collate db"
  by (induction rs arbitrary: db) simp_all

lemma update_orders_Inr:
  assumes "update_orders now p f db = Inr (db', n)"
  shows "orders_v2 db' = map (\<lambda>r. if p r then (f r)\<lparr>o_UpdatedAt := now\<rparr> else r) (orders_v2 db)"
    and "next_order db' = next_order db" and "n = length (filter p (orders_v2 db))"
  using assms by (auto simp: update_orders_def Let_def)

lemma autocommit_cases:
  assumes "autocommit env site body s = (s', r)"
  shows "s' = s \<or> (\<exists>x. body s = Inr (s', x))"
  using assms unfolding autocommit_def by (rule Transaction_cases)

lemma update_outbox_Inr:
  assumes "update_outbox now p f db = Inr (db', n)"
  shows "orders_v2 db' = orders_v2 db" "next_order db' = next_order db"
    "order_reconciliation_tasks db' = order_reconciliation_tasks db" "next_task db' = next_task db"
  using assms by (auto simp: update_outbox_def)

lemma update_tasks_Inr:
  assumes "update_tasks p f db = Inr (db', n)"
  shows "orders_v2 db' = orders_v2 db" "next_order db' = next_order db" "next_task db' = next_task db"
    "order_reconciliation_tasks db' = map (\<lambda>t. if p t then f t else t) (order_reconciliation_tasks db)"
    "n = length (filter p (order_reconciliation_tasks db))"
  using assms by (auto simp: update_tasks_def)

text \<open>The orders that satisfy \<open>p\<close> may have moved to status \<open>st\<close>; nothing else about the orders changed.\<close>

definition order_moves :: "ordering_db \<Rightarrow> ordering_db \<Rightarrow> (Order \<Rightarrow> bool) \<Rightarrow> order_status \<Rightarrow> bool" where
  "order_moves db db' p st \<longleftrightarrow> next_order db' = next_order db \<and>
    (\<exists>h. orders_v2 db' = map h (orders_v2 db) \<and> (\<forall>r. h r = r \<or> p r \<and> o_ID (h r) = o_ID r \<and>
       o_ReservationID (h r) = o_ReservationID r \<and> o_Status (h r) = st))"

lemma order_moves_same:
  "orders_v2 db' = orders_v2 db \<Longrightarrow> next_order db' = next_order db \<Longrightarrow> order_moves db db' p st"
  unfolding order_moves_def by (intro conjI exI [of _ id]) simp_all

lemma order_moves_update:
  assumes "update_orders now p f db = Inr (db', n)"
    and "\<And>r. o_ID (f r) = o_ID r \<and> o_ReservationID (f r) = o_ReservationID r \<and> o_Status (f r) = st"
  shows "order_moves db db' p st"
  unfolding order_moves_def using update_orders_Inr [OF assms(1)] assms(2)
  by (intro conjI exI [of _ "\<lambda>r. if p r then (f r)\<lparr>o_UpdatedAt := now\<rparr> else r"]) simp_all

lemma order_moves_outbox:
  assumes "order_moves db db1 p st" and "orders_v2 db2 = orders_v2 db1" and "next_order db2 = next_order db1"
  shows "order_moves db db2 p st"
  using assms unfolding order_moves_def by simp

lemma order_moves_autocommit:
  assumes "autocommit env site (update_orders now p f) db = (db', x)"
    and "\<And>r. o_ID (f r) = o_ID r \<and> o_ReservationID (f r) = o_ReservationID r \<and> o_Status (f r) = st"
  shows "order_moves db db' p st"
  using autocommit_cases [OF assms(1)] order_moves_update [OF _ assms(2)] order_moves_same by blast

lemma mark_order_moves: "order_moves db (mark_order env site oid st rsn db) (\<lambda>r. o_ID r = oid) st"
  unfolding mark_order_def by (rule order_moves_autocommit [OF prod.collapse [symmetric]]) simp

lemma claim_order_moves:
  assumes "claim_order env uid oid system target db = (db', res)"
  shows "order_moves db db' (\<lambda>r. o_ID r = oid \<and> o_Status r = OrderStatusPending \<and> (system \<or> o_UserID r = uid)) target"
  using assms unfolding claim_order_def
  by (auto split: prod.splits sum.splits intro!: order_moves_autocommit)

lemma revert_order_moves:
  "order_moves db (revert_order env oid st e db) (\<lambda>r. o_ID r = oid \<and> o_Status r = st) OrderStatusPending"
  unfolding revert_order_def by (rule order_moves_autocommit [OF prod.collapse [symmetric]]) simp

lemma finish_moves:
  "order_moves db (fst (order_Finish env uid oid db))
    (\<lambda>r. o_ID r = oid \<and> o_UserID r = uid \<and> o_Status r = OrderStatusPaid) OrderStatusFinished"
  unfolding order_Finish_def
  by (auto split: prod.splits sum.splits intro!: order_moves_autocommit)

lemma finalize_body_moves:
  assumes "finalize_body env oid st target db = Inr (db', x)"
  shows "order_moves db db' (\<lambda>r. o_ID r = oid \<and> o_Status r = st) target"
proof -
  from assms obtain tx1 n tx2 m where
    u: "update_orders (e_now env FinalUpdate) (\<lambda>r. o_ID r = oid \<and> o_Status r = st)
      (\<lambda>r. r\<lparr>o_Status := target, o_FailureReason := NoReason\<rparr>) db = Inr (tx1, n)"
    and o: "update_outbox (e_now env OutboxUpdate) (open_outbox oid) (\<lambda>e. e\<lparr>to_Status := OutboxCompleted\<rparr>) tx1 = Inr (tx2, m)"
    and db': "db' = tx2"
    by (auto simp: finalize_body_def stmt_Inr split: sum.splits prod.splits if_splits)
  have "order_moves db tx1 (\<lambda>r. o_ID r = oid \<and> o_Status r = st) target"
    by (rule order_moves_update [OF u]) simp
  then show ?thesis unfolding db' using update_outbox_Inr(1,2) [OF o] by (rule order_moves_outbox)
qed

lemma finalize_order_moves:
  assumes "finalize_order env oid st target db = (db', res)"
  shows "order_moves db db' (\<lambda>r. o_ID r = oid \<and> o_Status r = st) target"
  using Transaction_cases [OF assms [unfolded finalize_order_def]] finalize_body_moves order_moves_same by blast

lemma complete_body_moves:
  assumes "complete_body env cfg now task target outbox db = Inr (db', x)"
  shows "order_moves db db' (\<lambda>r. o_ID r = rt_OrderID task \<and> o_Status r = OrderStatusReconciliationRequired) target"
proof -
  from assms obtain tx1 n tx2 m tx3 k where
    u: "update_orders now (\<lambda>r. o_ID r = rt_OrderID task \<and> o_Status r = OrderStatusReconciliationRequired)
      (\<lambda>r. r\<lparr>o_Status := target\<rparr>) db = Inr (tx1, n)"
    and o: "(if outbox then stmt env RecOutbox (update_outbox now (open_outbox (rt_OrderID task))
         (\<lambda>e. e\<lparr>to_Status := OutboxCompleted\<rparr>) tx1) else Inr (tx1, 0)) = Inr (tx2, m)"
    and t: "update_tasks (holds cfg tx2 task) (close_row TaskCompleted NoTaskError now now) tx2 = Inr (tx3, k)"
    and db': "db' = tx3"
    unfolding complete_body_def stmt_Inr by (auto simp: stmt_Inr split: sum.splits prod.splits option.splits if_splits)
  have "order_moves db tx1 (\<lambda>r. o_ID r = rt_OrderID task \<and> o_Status r = OrderStatusReconciliationRequired) target"
    by (rule order_moves_update [OF u]) simp
  moreover have "orders_v2 tx2 = orders_v2 tx1" "next_order tx2 = next_order tx1"
    using o update_outbox_Inr [of now "open_outbox (rt_OrderID task)" "\<lambda>e. e\<lparr>to_Status := OutboxCompleted\<rparr>" tx1 tx2 m]
    by (auto simp: stmt_Inr split: if_splits)
  ultimately show ?thesis unfolding db'
    using update_tasks_Inr(1,2) [OF t] by (auto intro: order_moves_outbox)
qed

lemma completeTask_moves:
  assumes "completeTask env cfg now task target outbox db = (db', res)"
  shows "order_moves db db' (\<lambda>r. o_ID r = rt_OrderID task \<and> o_Status r = OrderStatusReconciliationRequired) target"
  using Transaction_cases [OF assms [unfolded completeTask_def]] complete_body_moves order_moves_same by blast

lemma claim_loop_orders:
  "claim_loop env cfg now ts tx = Inr (tx', out) \<Longrightarrow> orders_v2 tx' = orders_v2 tx \<and> next_order tx' = next_order tx"
proof (induction ts arbitrary: tx tx' out)
  case (Cons t ts)
  from Cons.prems obtain tx1 n out1 where
    "update_tasks (\<lambda>x. rt_ID x = rt_ID t) (claim_row cfg now) tx = Inr (tx1, n)"
    "claim_loop env cfg now ts tx1 = Inr (tx', out1)"
    by (auto simp: stmt_Inr split: sum.splits prod.splits if_splits)
  with Cons.IH update_tasks_Inr(1,2) show ?case by metis
qed simp

lemma task_claim_orders:
  assumes "Reconciliation.claim env cfg now db = (db', res)"
  shows "orders_v2 db' = orders_v2 db" and "next_order db' = next_order db"
  using Transaction_cases [OF assms [unfolded claim_def]] claim_loop_orders
  by (auto simp: stmt_Inr split: sum.splits)

lemma task_mark_orders:
  assumes "db' \<in> {fst (markFailed env cfg now task e db), fst (markUnresolved env cfg now task e db)}"
  shows "orders_v2 db' = orders_v2 db" and "next_order db' = next_order db"
proof -
  have "orders_v2 s = orders_v2 db \<and> next_order s = next_order db"
    if "autocommit env site (update_tasks p f) db = (s, x)" for site p f s x
    using autocommit_cases [OF that] update_tasks_Inr(1,2) by blast
  with assms show "orders_v2 db' = orders_v2 db" "next_order db' = next_order db"
    by (auto simp: markFailed_def markUnresolved_def split: prod.splits sum.splits)
qed

lemma create_body_Inr:
  assumes "create_body env uid key rid items totalFen db = Inr (db', r)"
  shows "orders_v2 db' = orders_v2 db @ [r]" and "next_order db' = next_order db + 1"
    and "o_ID r = next_order db" and "o_Status r = OrderStatusReserving" and "o_ReservationID r = rid"
    and "o_UserID r = uid" and "o_IdempotencyKey r = key" and "o_TotalFen r = totalFen"
    and "order_reconciliation_tasks db' = order_reconciliation_tasks db" and "next_task db' = next_task db"
    and "order_items_v2 db' = order_items_v2 db @ number_items (o_ID r) (next_order_item db) items"
    and "order_timeout_outbox_v2 db' = order_timeout_outbox_v2 db" and "ord_collate db' = ord_collate db"
    and "\<forall>x\<in>set (orders_v2 db). o_UserID x = uid \<longrightarrow> ord_collate db key \<noteq> ord_collate db (o_IdempotencyKey x)"
  using assms
  by (auto simp: create_body_def Let_def stmt_Inr sql_insert_Inr split: sum.splits option.splits)

lemma create_insert_rows:
  assumes "create_insert env uid key rid items totalFen db = (db', res)"
  shows "db' = db \<and> isl res \<or> (\<exists>r. orders_v2 db' = orders_v2 db @ [r] \<and> next_order db' = next_order db + 1 \<and>
     o_ID r = next_order db \<and> o_Status r = OrderStatusReserving \<and> o_ReservationID r = rid \<and>
     order_reconciliation_tasks db' = order_reconciliation_tasks db \<and> next_task db' = next_task db \<and>
     (\<forall>x. res = Inr x \<longrightarrow> x = r))"
proof (cases "create_body env uid key rid items totalFen db")
  case (Inl e)
  with assms show ?thesis by (auto simp: create_insert_def Transaction_def)
next
  case (Inr x)
  then obtain s r where body: "create_body env uid key rid items totalFen db = Inr (s, r)" by (cases x) simp
  note b = create_body_Inr [OF body]
  from assms body have "db' = db \<and> isl res \<or> db' = s \<and> (\<forall>x. res = Inr x \<longrightarrow> x = r)"
    by (auto simp: create_insert_def Transaction_def split: outcome.splits)
  with b show ?thesis by blast
qed

lemma create_pend_rows:
  assumes "create_pend env delay oid rid db = (db', res)"
  shows "next_order db' = next_order db \<and> (\<exists>h. orders_v2 db' = map h (orders_v2 db) \<and>
    (\<forall>r. h r = r \<or> o_ID r = oid \<and> o_Status r = OrderStatusReserving \<and>
       o_ID (h r) = oid \<and> o_Status (h r) = OrderStatusPending \<and> o_ReservationID (h r) = rid))"
proof -
  have "next_order s = next_order db \<and> (\<exists>h. orders_v2 s = map h (orders_v2 db) \<and>
    (\<forall>r. h r = r \<or> o_ID r = oid \<and> o_Status r = OrderStatusReserving \<and>
       o_ID (h r) = oid \<and> o_Status (h r) = OrderStatusPending \<and> o_ReservationID (h r) = rid))"
    if body: "create_pend_body env delay oid rid db = Inr (s, x)" for s x
  proof -
    let ?f = "\<lambda>r. r\<lparr>o_Status := OrderStatusPending, o_ReservationID := rid, o_FailureReason := NoReason\<rparr>"
    from body obtain tx1 n rows where
      u: "update_orders (e_now env PendUpdate) (\<lambda>r. o_ID r = oid \<and> o_Status r = OrderStatusReserving) ?f db = Inr (tx1, n)"
      and s: "s = tx1\<lparr>order_timeout_outbox_v2 := rows, next_outbox := next_outbox tx1 + 1\<rparr>"
      by (auto simp: create_pend_body_def Let_def stmt_Inr split: sum.splits prod.splits if_splits)
    show ?thesis using update_orders_Inr [OF u] unfolding s
      by (intro conjI exI [of _ "\<lambda>r. if o_ID r = oid \<and> o_Status r = OrderStatusReserving
        then (?f r)\<lparr>o_UpdatedAt := e_now env PendUpdate\<rparr> else r"]) simp_all
  qed
  with Transaction_cases [OF assms [unfolded create_pend_def]] show ?thesis
    by (elim disjE exE) (rule conjI, simp, rule exI [of _ id], simp, blast)
qed

section \<open>Orders and reservations\<close>

text \<open>What the status of an order says about its reservation.\<close>

definition row_ok :: "('i \<Rightarrow> string \<Rightarrow> reservation_status option) \<Rightarrow> 'i \<Rightarrow> order_status \<Rightarrow> string \<Rightarrow> bool" where
  "row_ok status i st rid \<longleftrightarrow>
    (st \<in> {OrderStatusPaid, OrderStatusFinished} \<longrightarrow> status i rid = Some ReservationConfirmed) \<and>
    (st = OrderStatusCancelled \<longrightarrow> status i rid = Some ReservationReleased)"

text \<open>The reservation id of an order that has left \<^verbatim>\<open>reserving\<close>.\<close>

definition settled :: "ordering_db \<Rightarrow> int \<Rightarrow> string \<Rightarrow> bool" where
  "settled db oid rid \<longleftrightarrow> (\<exists>r\<in>set (orders_v2 db).
     o_ID r = oid \<and> o_Status r \<noteq> OrderStatusReserving \<and> o_ReservationID r = rid)"

fun thread_ok :: "('i \<Rightarrow> string \<Rightarrow> reservation_status option) \<Rightarrow> ordering_db \<Rightarrow> 'i \<Rightarrow> thread \<Rightarrow> bool" where
  "thread_ok status db i (MarkT oid st rsn) \<longleftrightarrow> st \<in> {OrderStatusFailed, OrderStatusReconciliationRequired}"
| "thread_ok status db i (LoadedT k uid oid system rid) \<longleftrightarrow> settled db oid rid"
| "thread_ok status db i (CallT k oid rid) \<longleftrightarrow> settled db oid rid"
| "thread_ok status db i (FinalT k oid) \<longleftrightarrow> (\<exists>rid. settled db oid rid \<and> status i rid = Some (moved k))"
| "thread_ok status db i (TaskCallT task target rid) \<longleftrightarrow>
     settled db (rt_OrderID task) rid \<and> rec_target (rt_Action task) = Some target"
| "thread_ok status db i (TaskDoneT task target) \<longleftrightarrow> rec_target (rt_Action task) = Some target \<and>
     (\<exists>rid. settled db (rt_OrderID task) rid \<and> row_ok status i target rid)"
| "thread_ok status db i _ \<longleftrightarrow> True"

definition saga_ok :: "('i \<Rightarrow> bool) \<Rightarrow> ('i \<Rightarrow> string \<Rightarrow> reservation_status option) \<Rightarrow> 'i saga \<Rightarrow> bool" where
  "saga_ok ok status s = (case s of (db, i, ts) \<Rightarrow>
    ok i \<and> distinct (map o_ID (orders_v2 db)) \<and>
    (\<forall>r\<in>set (orders_v2 db). o_ID r < next_order db \<and> row_ok status i (o_Status r) (o_ReservationID r)) \<and>
    (\<forall>t\<in>#ts. thread_ok status db i t))"

lemma settled_unique:
  assumes "distinct (map o_ID (orders_v2 db))" and "settled db oid rid"
    and "r \<in> set (orders_v2 db)" and "o_ID r = oid"
  shows "o_ReservationID r = rid"
  using assms by (auto simp: settled_def distinct_map inj_on_def)

lemma settled_moves:
  assumes "order_moves db db' p st" and "st \<noteq> OrderStatusReserving" and "settled db oid rid"
  shows "settled db' oid rid"
proof -
  from assms(1) obtain h where h: "orders_v2 db' = map h (orders_v2 db)"
    "\<forall>r. h r = r \<or> p r \<and> o_ID (h r) = o_ID r \<and> o_ReservationID (h r) = o_ReservationID r \<and> o_Status (h r) = st"
    unfolding order_moves_def by blast
  from assms(3) obtain r where "r \<in> set (orders_v2 db)" "o_ID r = oid" "o_Status r \<noteq> OrderStatusReserving"
    "o_ReservationID r = rid" unfolding settled_def by blast
  with h(2) assms(2) have "h r \<in> set (map h (orders_v2 db))" "o_ID (h r) = oid"
    "o_Status (h r) \<noteq> OrderStatusReserving" "o_ReservationID (h r) = rid" by (metis image_eqI set_map)+
  then show ?thesis unfolding settled_def h(1) by blast
qed

lemma thread_ok_mono:
  assumes "thread_ok status db i t"
    and "\<And>oid rid. settled db oid rid \<Longrightarrow> settled db' oid rid"
    and "\<And>rid s. status i rid = Some s \<Longrightarrow> s \<noteq> ReservationPending \<Longrightarrow> status i' rid = Some s"
  shows "thread_ok status db' i' t"
proof -
  have "row_ok status i' st rid" if "row_ok status i st rid" for st rid
    using that assms(3) by (auto simp: row_ok_def)
  moreover have "moved k \<noteq> ReservationPending" for k by (cases k) simp_all
  ultimately show ?thesis using assms by (cases t) fastforce+
qed

lemma saga_ok_threads:
  "saga_ok ok status (db, i, ts) \<Longrightarrow> (\<And>t. t \<in># ts' \<Longrightarrow> t \<in># ts \<or> thread_ok status db i t) \<Longrightarrow>
    saga_ok ok status (db, i, ts')"
  unfolding saga_ok_def by auto

lemma saga_ok_moves:
  assumes inv: "saga_ok ok status (db, i, ts)" and mv: "order_moves db db' p st"
    and st: "st \<noteq> OrderStatusReserving"
    and row: "\<And>r. r \<in> set (orders_v2 db) \<Longrightarrow> p r \<Longrightarrow> row_ok status i st (o_ReservationID r)"
  shows "saga_ok ok status (db', i, ts)"
proof -
  from mv obtain h where h: "orders_v2 db' = map h (orders_v2 db)" and n: "next_order db' = next_order db"
    and hr: "\<And>r. h r = r \<or> p r \<and> o_ID (h r) = o_ID r \<and> o_ReservationID (h r) = o_ReservationID r \<and> o_Status (h r) = st"
    unfolding order_moves_def by blast
  have ids: "o_ID (h r) = o_ID r" for r using hr [of r] by auto
  then have "map o_ID (orders_v2 db') = map o_ID (orders_v2 db)" by (simp add: h)
  moreover have "o_ID x < next_order db' \<and> row_ok status i (o_Status x) (o_ReservationID x)"
    if "x \<in> set (orders_v2 db')" for x
  proof -
    from that obtain r where r: "r \<in> set (orders_v2 db)" "x = h r" by (auto simp: h)
    with inv have old: "o_ID r < next_order db" "row_ok status i (o_Status r) (o_ReservationID r)"
      by (auto simp: saga_ok_def)
    show ?thesis
    proof (cases "h r = r")
      case True
      with old r n show ?thesis by simp
    next
      case False
      with hr [of r] have "p r" "o_ReservationID (h r) = o_ReservationID r" "o_Status (h r) = st" by simp_all
      with old r n row [of r] ids [of r] show ?thesis by simp
    qed
  qed
  moreover have "thread_ok status db' i t" if "t \<in># ts" for t
  proof (rule thread_ok_mono [of status db i t])
    show "thread_ok status db i t" using inv that by (simp add: saga_ok_def)
  qed (rule settled_moves [OF mv st])
  ultimately show ?thesis using inv unfolding saga_ok_def by auto
qed

context inventory_contract
begin

lemma saga_ok_later:
  assumes inv: "saga_ok ok status (db, i, ts)" and "later i i'"
  shows "saga_ok ok status (db, i', ts)"
proof -
  have oki: "ok i" using inv by (simp add: saga_ok_def)
  note fin = later_final [OF oki assms(2)]
  have "row_ok status i' st rid" if "row_ok status i st rid" for st rid
    using that by (auto simp: row_ok_def dest: fin)
  moreover have "thread_ok status db i' t" if "t \<in># ts" for t
  proof (rule thread_ok_mono [of status db i t])
    show "thread_ok status db i t" using inv that by (simp add: saga_ok_def)
  qed (simp, rule fin)
  ultimately show ?thesis
    using inv later_ok [OF oki assms(2)] by (auto simp: saga_ok_def)
qed

lemma inventory_call_done:
  assumes "ok i" and "inventory_call api k rid i = (i', res)"
  shows "later i i'" and "res = Inr v \<Longrightarrow> status i' rid = Some (moved k)"
  using assms confirm_later release_later confirm_done release_done by (cases k; simp; blast)+

lemma rec_call_done:
  assumes "ok i" and "rec_call api a rid i = (i', res)"
  shows "later i i'" and "res = Inr v \<Longrightarrow> rec_target a = Some target \<Longrightarrow> row_ok status i' target rid"
proof -
  show "later i i'"
    using assms confirm_later release_later by (auto simp: rec_call_def split: if_splits)
  show "row_ok status i' target rid" if "res = Inr v" "rec_target a = Some target"
    using that assms confirm_done [OF assms(1)] release_done [OF assms(1)]
    by (auto simp: rec_call_def rec_target_def row_ok_def split: if_splits rec_action.splits)
qed

end

text \<open>Creating an order and moving it to \<^verbatim>\<open>pending\<close> under its reservation.\<close>

lemma saga_ok_create:
  assumes inv: "saga_ok ok status (db, i, ts)"
    and rows: "orders_v2 db' = orders_v2 db @ [r]" "next_order db' = next_order db + 1"
      "o_ID r = next_order db" "o_Status r = OrderStatusReserving"
  shows "saga_ok ok status (db', i, ts)"
proof -
  have set: "settled db' oid rid" if "settled db oid rid" for oid rid
    using that rows(1) by (auto simp: settled_def)
  have "thread_ok status db' i t" if "t \<in># ts" for t
  proof (rule thread_ok_mono [of status db i t])
    show "thread_ok status db i t" using inv that by (simp add: saga_ok_def)
  qed (rule set)
  moreover have "row_ok status i (o_Status r) (o_ReservationID r)" by (simp add: row_ok_def rows(4))
  moreover have "o_ID r \<notin> o_ID ` set (orders_v2 db)"
    using inv rows(3) by (auto simp: saga_ok_def)
  moreover have "o_ID x < next_order db + 1" if "x \<in> set (orders_v2 db)" for x
    using inv that by (auto simp: saga_ok_def intro: less_trans)
  ultimately show ?thesis using inv rows unfolding saga_ok_def by auto
qed

lemma saga_ok_pend:
  assumes inv: "saga_ok ok status (db, i, ts)" and n: "next_order db' = next_order db"
    and h: "orders_v2 db' = map h (orders_v2 db)"
      "\<And>r. h r = r \<or> o_ID r = oid \<and> o_Status r = OrderStatusReserving \<and>
         o_ID (h r) = oid \<and> o_Status (h r) = OrderStatusPending"
  shows "saga_ok ok status (db', i, ts)"
proof -
  have ids: "o_ID (h r) = o_ID r" for r using h(2) [of r] by auto
  have set: "settled db' o' rid" if "settled db o' rid" for o' rid
  proof -
    from that obtain r where r: "r \<in> set (orders_v2 db)" "o_ID r = o'" "o_Status r \<noteq> OrderStatusReserving"
      "o_ReservationID r = rid" unfolding settled_def by blast
    with h(2) [of r] have "h r = r" by auto
    with r show ?thesis unfolding settled_def h(1) by (metis image_eqI set_map)
  qed
  have "thread_ok status db' i t" if "t \<in># ts" for t
  proof (rule thread_ok_mono [of status db i t])
    show "thread_ok status db i t" using inv that by (simp add: saga_ok_def)
  qed (rule set)
  moreover have "o_ID (h r) < next_order db \<and> row_ok status i (o_Status (h r)) (o_ReservationID (h r))"
    if "r \<in> set (orders_v2 db)" for r
    using inv that h(2) [of r] ids [of r] by (auto simp: saga_ok_def row_ok_def)
  then have "o_ID x < next_order db \<and> row_ok status i (o_Status x) (o_ReservationID x)"
    if "x \<in> set (orders_v2 db')" for x using that by (auto simp: h(1))
  moreover have "map o_ID (orders_v2 db') = map o_ID (orders_v2 db)" by (simp add: h(1) ids)
  ultimately show ?thesis using inv n unfolding saga_ok_def by auto
qed

lemma saga_ok_same_orders:
  assumes "saga_ok ok status (db, i, ts)" and "orders_v2 db' = orders_v2 db" and "next_order db' = next_order db"
  shows "saga_ok ok status (db', i, ts)"
  by (rule saga_ok_moves [OF assms(1) order_moves_same [OF assms(2,3), of "\<lambda>_. False" OrderStatusPending]]) simp_all

lemma row_ok_other:
  "st \<notin> {OrderStatusPaid, OrderStatusFinished, OrderStatusCancelled} \<Longrightarrow> row_ok status i st rid"
  by (simp add: row_ok_def)

lemma row_ok_final [simp]: "row_ok status i (final k) rid \<longleftrightarrow> status i rid = Some (moved k)"
  by (cases k) (simp_all add: row_ok_def)

lemma final_claimed [simp]:
  "final k \<noteq> OrderStatusReserving" "claimed k \<noteq> OrderStatusReserving"
  "claimed k \<notin> {OrderStatusPaid, OrderStatusFinished, OrderStatusCancelled}"
  by (cases k; simp)+

text \<open>Removing a thread and adding others.\<close>

lemma saga_ok_replace:
  assumes "saga_ok ok status (db, i, add_mset t ts)" and "\<And>x. x \<in># new \<Longrightarrow> thread_ok status db i x"
  shows "saga_ok ok status (db, i, new + ts)"
  using assms unfolding saga_ok_def by auto

lemma saga_ok_add:
  assumes "saga_ok ok status (db, i, ts)" and "\<And>x. x \<in># new \<Longrightarrow> thread_ok status db i x"
  shows "saga_ok ok status (db, i, new + ts)"
  using assms unfolding saga_ok_def by auto

lemma saga_ok_drop: "saga_ok ok status (db, i, add_mset t ts) \<Longrightarrow> saga_ok ok status (db, i, ts)"
  unfolding saga_ok_def by auto

lemma first_order_Inr:
  assumes "first_order env site p db = Inr (r, items)"
  shows "r \<in> set (orders_v2 db)" and "p r" and "items = items_of db (o_ID r)"
  using assms by (auto simp: first_order_def stmt_Inr view_def find_Some_iff split: sum.splits option.splits)

lemma order_row_D: "order_row oid db = Some r \<Longrightarrow> r \<in> set (orders_v2 db) \<and> o_ID r = oid"
  unfolding order_row_def by (rule lookup_by_Some_D)

context inventory_contract
begin

lemma saga_ok_call:
  assumes "saga_ok ok status (db, i, add_mset t ts)" and "later i i'"
    and "\<And>x. x \<in># new \<Longrightarrow> thread_ok status db i' x"
  shows "saga_ok ok status (db, i', new + ts)"
  using saga_ok_later [OF assms(1,2)] assms(3) by (rule saga_ok_replace)

text \<open>The steps that need more than one line, each on its own.\<close>

lemma step_pend:
  assumes hyps: "create_pend env delay oid rid db = (db', res)" and prems: "saga_ok ok status (db, i, add_mset (PendT oid rid) ts)"
  shows "saga_ok ok status (db', i, (case res of Inr _ \<Rightarrow> {#} | Inl e \<Rightarrow> {#CompensateT oid rid e#}) + ts)"
proof -
  from create_pend_rows [OF hyps] obtain h where "next_order db' = next_order db"
    "orders_v2 db' = map h (orders_v2 db)" "\<forall>r. h r = r \<or> o_ID r = oid \<and> o_Status r = OrderStatusReserving \<and>
       o_ID (h r) = oid \<and> o_Status (h r) = OrderStatusPending" by blast
  then have "saga_ok ok status (db', i, add_mset (PendT oid rid) ts)"
    using prems by (auto intro!: saga_ok_pend [of ok status db i _ db' h oid])
  then show ?thesis by (rule saga_ok_replace) (auto split: sum.splits)
qed

lemma step_claim:
  assumes hyps: "claim_order env uid oid system (claimed k) db = (db', res)" and prems: "saga_ok ok status (db, i, add_mset (LoadedT k uid oid system rid) ts)"
  shows "saga_ok ok status (db', i, (case res of Inr _ \<Rightarrow> {#CallT k oid rid#} | Inl _ \<Rightarrow> {#}) + ts)"
proof -
  have "saga_ok ok status (db', i, add_mset (LoadedT k uid oid system rid) ts)"
    using prems claim_order_moves [OF hyps]
    by (rule saga_ok_moves) (simp, rule row_ok_other, rule final_claimed(3))
  moreover from this have "settled db' oid rid" by (simp add: saga_ok_def)
  ultimately show ?thesis by (intro saga_ok_replace) (auto split: sum.splits)
qed

lemma step_call:
  assumes hyps: "inventory_call api k rid i = (i', res)" and prems: "saga_ok ok status (db, i, add_mset (CallT k oid rid) ts)"
  shows "saga_ok ok status (db, i', add_mset (case res of Inr _ \<Rightarrow> FinalT k oid | Inl e \<Rightarrow> RevertT k oid e) ts)"
proof -
  from hyps prems have "ok i" and set: "settled db oid rid" by (simp_all add: saga_ok_def)
  note c = inventory_call_done [OF this(1) hyps]
  have "thread_ok status db i' (case res of Inr _ \<Rightarrow> FinalT k oid | Inl e \<Rightarrow> RevertT k oid e)"
    using set c(2) by (auto split: sum.splits)
  with saga_ok_call [OF prems c(1), of "{#case res of Inr _ \<Rightarrow> FinalT k oid | Inl e \<Rightarrow> RevertT k oid e#}"]
  show ?thesis by simp
qed

lemma step_finalize:
  assumes hyps: "finalize_order env oid (claimed k) (final k) db = (db', res)" and prems: "saga_ok ok status (db, i, add_mset (FinalT k oid) ts)"
  shows "saga_ok ok status (db', i, (case res of Inr _ \<Rightarrow> {#} | Inl e \<Rightarrow> {#MarkT oid OrderStatusReconciliationRequired (Reason e)#}) + ts)"
proof -
  from hyps prems obtain rid where rid: "settled db oid rid" "status i rid = Some (moved k)" by (auto simp: saga_ok_def)
  have dist: "distinct (map o_ID (orders_v2 db))" using prems by (simp add: saga_ok_def)
  have "saga_ok ok status (db', i, add_mset (FinalT k oid) ts)"
    using prems finalize_order_moves [OF hyps]
    by (rule saga_ok_moves) (use settled_unique [OF dist rid(1)] rid(2) in auto)
  then show ?thesis by (rule saga_ok_replace) (auto split: sum.splits)
qed

lemma step_task_load:
  assumes hyps: "order_row (rt_OrderID task) db = Some r" "rec_target (rt_Action task) = Some target" and prems: "saga_ok ok status (db, i, add_mset (TaskT task) ts)"
  shows "saga_ok ok status (db, i, add_mset (if o_Status r = target then TaskDoneT task target
      else if o_Status r \<noteq> OrderStatusReconciliationRequired then TaskMarkT task (StateMismatch (rt_Action task) (o_Status r))
      else TaskCallT task target (o_ReservationID r)) ts)"
proof -
  from order_row_D [OF hyps(1)] have r: "r \<in> set (orders_v2 db)" "o_ID r = rt_OrderID task" by simp_all
  with prems have row: "row_ok status i (o_Status r) (o_ReservationID r)" by (auto simp: saga_ok_def)
  have set: "o_Status r \<noteq> OrderStatusReserving \<Longrightarrow> settled db (rt_OrderID task) (o_ReservationID r)"
    using r by (auto simp: settled_def)
  have target: "target \<in> {OrderStatusFailed, OrderStatusCancelled, OrderStatusPaid}"
    using hyps(2) by (auto simp: rec_target_def split: rec_action.splits)
  have "thread_ok status db i (if o_Status r = target then TaskDoneT task target
      else if o_Status r \<noteq> OrderStatusReconciliationRequired then TaskMarkT task (StateMismatch (rt_Action task) (o_Status r))
      else TaskCallT task target (o_ReservationID r))"
    using set row hyps(2) target by (auto intro!: exI [of _ "o_ReservationID r"])
  with saga_ok_replace [OF prems, of "{#if o_Status r = target then TaskDoneT task target
      else if o_Status r \<noteq> OrderStatusReconciliationRequired then TaskMarkT task (StateMismatch (rt_Action task) (o_Status r))
      else TaskCallT task target (o_ReservationID r)#}"]
  show ?thesis by simp
qed

lemma step_task_call:
  assumes hyps: "rec_call api (rt_Action task) rid i = (i', res)" and prems: "saga_ok ok status (db, i, add_mset (TaskCallT task target rid) ts)"
  shows "saga_ok ok status (db, i', add_mset (case res of Inr _ \<Rightarrow> TaskDoneT task target | Inl e \<Rightarrow> TaskMarkT task (InventoryCall e)) ts)"
proof -
  from hyps prems have "ok i" and t: "settled db (rt_OrderID task) rid" "rec_target (rt_Action task) = Some target"
    by (simp_all add: saga_ok_def)
  note c = rec_call_done [OF this(1) hyps]
  have "thread_ok status db i' (case res of Inr _ \<Rightarrow> TaskDoneT task target | Inl e \<Rightarrow> TaskMarkT task (InventoryCall e))"
    using t c(2) by (auto split: sum.splits)
  with saga_ok_call [OF prems c(1), of "{#case res of Inr _ \<Rightarrow> TaskDoneT task target
    | Inl e \<Rightarrow> TaskMarkT task (InventoryCall e)#}"]
  show ?thesis by simp
qed

lemma step_task_done:
  assumes hyps: "completeTask renv cfg now task target (rec_outbox (rt_Action task)) db = (db', res)" and prems: "saga_ok ok status (db, i, add_mset (TaskDoneT task target) ts)"
  shows "saga_ok ok status (db', i, (case res of Inr _ \<Rightarrow> {#} | Inl e \<Rightarrow> {#TaskMarkT task e#}) + ts)"
proof -
  from hyps prems obtain rid where rid: "settled db (rt_OrderID task) rid" "row_ok status i target rid"
    and target: "rec_target (rt_Action task) = Some target" by (auto simp: saga_ok_def)
  have dist: "distinct (map o_ID (orders_v2 db))" using prems by (simp add: saga_ok_def)
  have "saga_ok ok status (db', i, add_mset (TaskDoneT task target) ts)"
    using prems completeTask_moves [OF hyps]
    by (rule saga_ok_moves)
      (use settled_unique [OF dist rid(1)] rid(2) target in \<open>auto simp: rec_target_def split: rec_action.splits\<close>)
  then show ?thesis by (rule saga_ok_replace) (auto split: sum.splits)
qed

lemma saga_step_ok:
  assumes "saga_step api later s s'" and "saga_ok ok status s"
  shows "saga_ok ok status s'"
  using assms
proof (induction rule: saga_step.induct)
  case (create env uid key rid items totalFen db db' res i ts its)
  from create_insert_rows [OF create.hyps] have "saga_ok ok status (db', i, ts)"
    using create.prems by (auto intro: saga_ok_create)
  then show ?case by (rule saga_ok_add) (auto split: sum.splits)
next
  case (reserve oid rid its i i' res db ts)
  then have "ok i" by (simp add: saga_ok_def)
  from saga_ok_call [OF reserve.prems reserve_later [OF this reserve.hyps],
      of "{#case res of Inr v \<Rightarrow> PendT oid (ivr_ID v) | Inl e \<Rightarrow> MarkT oid OrderStatusFailed (Reason (OrderClient e))#}"]
  show ?case by (simp split: sum.splits)
next
  case (pend env delay oid rid db db' res i ts)
  from step_pend [OF pend.hyps pend.prems] show ?case .
next
  case (compensate rid i i' res db oid e ts)
  then have "ok i" by (simp add: saga_ok_def)
  from saga_ok_call [OF compensate.prems release_later [OF this compensate.hyps],
      of "{#case res of Inr _ \<Rightarrow> MarkT oid OrderStatusFailed (Reason e)
        | Inl rel \<Rightarrow> MarkT oid OrderStatusReconciliationRequired (ReleaseFailed e rel)#}"]
  show ?case by (simp split: sum.splits)
next
  case (mark db i oid st rsn ts env site)
  then have st: "st \<in> {OrderStatusFailed, OrderStatusReconciliationRequired}" by (simp add: saga_ok_def)
  show ?case
    by (rule saga_ok_moves [OF saga_ok_drop [OF mark.prems] mark_order_moves]) (use st in \<open>auto simp: row_ok_def\<close>)
next
  case (load env uid oid system db r items i ts k)
  from first_order_Inr [OF load.hyps(1) [unfolded loadForTransition_def]] load.hyps(2)
  have "settled db oid (o_ReservationID r)" by (auto simp: settled_def)
  with saga_ok_add [OF load.prems, of "{#LoadedT k uid oid system (o_ReservationID r)#}"] show ?case by simp
next
  case (claim env uid oid system k db db' res i rid ts)
  from step_claim [OF claim.hyps claim.prems] show ?case .
next
  case (call k rid i i' res db oid ts)
  from step_call [OF call.hyps call.prems] show ?case .
next
  case (revert db i k oid e ts env)
  show ?case
    by (rule saga_ok_moves [OF saga_ok_drop [OF revert.prems] revert_order_moves]) (simp_all add: row_ok_def)
next
  case (finalize env oid k db db' res i ts)
  from step_finalize [OF finalize.hyps finalize.prems] show ?case .
next
  case (finish db i ts env uid oid)
  show ?case
    using finish.prems finish_moves by (rule saga_ok_moves) (use finish.prems in \<open>auto simp: saga_ok_def row_ok_def\<close>)
next
  case (task_claim renv cfg now db db' res i ts)
  from saga_ok_same_orders [OF task_claim.prems task_claim_orders [OF task_claim.hyps]]
  show ?case by (rule saga_ok_add) (auto split: sum.splits)
next
  case (task_load task db r target i ts)
  from step_task_load [OF task_load.hyps task_load.prems] show ?case .
next
  case (task_skip db i task ts e)
  from saga_ok_replace [OF task_skip.prems, of "{#TaskMarkT task e#}"] show ?case by simp
next
  case (task_call task rid i i' res db target ts)
  from step_task_call [OF task_call.hyps task_call.prems] show ?case .
next
  case (task_done renv cfg now task target db db' res i ts)
  from step_task_done [OF task_done.hyps task_done.prems] show ?case .
next
  case (task_mark db' renv cfg now task e db i ts)
  show ?case by (rule saga_ok_same_orders [OF saga_ok_drop [OF task_mark.prems] task_mark_orders [OF task_mark.hyps]])
next
  case (others db db' i ts)
  then show ?case by (auto simp: same_orders_def intro: saga_ok_same_orders)
next
  case (environment i i' db ts)
  then show ?case by (blast intro: saga_ok_later)
next
  case (crash db i t ts)
  then show ?case by (rule saga_ok_drop)
qed

lemma saga_reachable_ok:
  assumes "ok i0" and "saga_reachable api later collate i0 s"
  shows "saga_ok ok status s"
  using assms(2)
proof (induction rule: saga_reachable.induct)
  case saga_init
  with assms(1) show ?case by (simp add: saga_ok_def empty_orders_def)
next
  case (saga_next s s')
  then show ?case by (blast intro: saga_step_ok)
qed

end

end
