(* ===== verification/Inventory_Properties.thy ===== *)
theory Inventory_Properties
  imports Inventory_Correct
begin

text \<open>
  The properties of the inventory service, each a consequence of the invariant and of the effect
  lemmas of \<open>Inventory_Correct\<close>, and a small stock on which their hypotheses hold.
\<close>

section \<open>A small stock\<close>

definition demo_stock :: inventory_db where
  "demo_stock = fst (inventory_Init calm_env 7 10 (empty_inventory id))"

definition demo_request :: ReserveRequest where
  "demo_request = \<lparr>rr_OrderID = 1, rr_ReservationID = '' r1 '',
     rr_Items = [\<lparr>ir_ProductID = 7, ir_Quantity = 2\<rparr>, \<lparr>ir_ProductID = 7, ir_Quantity = 1\<rparr>]\<rparr>"

definition demo_reserved :: inventory_db where
  "demo_reserved = fst (inventory_Reserve calm_env demo_request demo_stock)"

lemma demo_stock_ok: "inv_ok demo_stock"
  unfolding demo_stock_def by (rule inventory_Init_ok [OF inv_ok_empty])

lemma demo_reserved_ok: "inv_ok demo_reserved"
  unfolding demo_reserved_def by (rule inventory_Reserve_ok [OF demo_stock_ok])

lemma demo_reserve:
  "inventory_Reserve calm_env demo_request demo_stock = (demo_reserved,
    Inr (\<lparr>res_ID = ''r1'', res_OrderID = 1, res_Status = ReservationPending, res_CreatedAt = 0, res_UpdatedAt = 0\<rparr>,
      [\<lparr>ri_ID = 1, ri_ReservationID = ''r1'', ri_ProductID = 7, ri_Quantity = 3\<rparr>]))"
proof -
  have "snd (inventory_Reserve calm_env demo_request demo_stock) =
    Inr (\<lparr>res_ID = ''r1'', res_OrderID = 1, res_Status = ReservationPending, res_CreatedAt = 0, res_UpdatedAt = 0\<rparr>,
      [\<lparr>ri_ID = 1, ri_ReservationID = ''r1'', ri_ProductID = 7, ri_Quantity = 3\<rparr>])"
    by code_simp
  then show ?thesis by (metis demo_reserved_def prod.collapse)
qed

lemma demo_reserved_status: "rstatus demo_reserved ''r1'' = Some ReservationPending"
  by code_simp

section \<open>Properties\<close>

text \<open>C2. In every state of the inventory service that calls of \<^verbatim>\<open>Init\<close>, \<^verbatim>\<open>Add\<close>, \<^verbatim>\<open>Reserve\<close>, \<^verbatim>\<open>Confirm\<close> and
  \<^verbatim>\<open>Release\<close> reach from an empty database, in any order and with any database failure or lost
  commit acknowledgement, no quantity of a product is negative or out of range, the reserved
  quantity is exactly what the pending reservations hold, and the stock log accounts for both
  quantities.\<close>

theorem inventory_reachable:
  "let db = fold inv_exec cs (empty_inventory collate) in
    0 \<le> avail db p \<and> avail db p \<le> int64_max \<and> 0 \<le> resv db p \<and> resv db p \<le> int64_max \<and>
    resv db p = held db p \<and> avail db p = log_available db p \<and> resv db p = log_reserved db p"
proof -
  let ?db = "fold inv_exec cs (empty_inventory collate)"
  have ok: "inv_ok ?db" by (rule inv_exec_fold_ok [OF inv_ok_empty])
  have "resv ?db p = held ?db p" "avail ?db p = log_available ?db p" "resv ?db p = log_reserved ?db p"
    using ok unfolding inv_ok_def inv_core_def by blast+
  with inv_ok_nonneg [OF ok, of p] show ?thesis unfolding Let_def by (intro conjI)
qed



text \<open>A \<^verbatim>\<open>Reserve\<close> that succeeds for an order without reservation creates one pending reservation
  for it, whose items are the request summed per product (in 64-bit arithmetic) and sorted, and
  moves exactly these quantities from available to reserved.\<close>

theorem inventory_Reserve_new:
  assumes "inv_ok db" and "rr_OrderID req \<notin> res_OrderID ` set (inventory_reservations db)"
    and "inventory_Reserve env req db = (db', Inr (r, its))"
  shows "res_OrderID r = rr_OrderID req \<and> res_Status r = ReservationPending \<and>
    inventory_reservations db' = inventory_reservations db @ [r] \<and>
    sorted (map ri_ProductID its) \<and> distinct (map ri_ProductID its) \<and>
    (\<forall>p. items_qty its p = wrap64 (requested p (req_pairs (rr_Items req)))) \<and>
    (\<forall>p. avail db' p = avail db p - items_qty its p) \<and>
    (\<forall>p. resv db' p = resv db p + items_qty its p)"
proof -
  from assms(3) obtain items rid where norm: "normalizeItems (rr_Items req) = Inr items"
    and body: "reserve_body env (rr_OrderID req) rid items db = Inr (db', r, its)"
    by (auto simp: inventory_Reserve_def Let_def Transaction_Inr split: sum.splits if_splits)
  note new = reserve_body_new [OF assms(1) body assms(2)]
  then have pairs: "item_pairs its = req_pairs items" by simp
  have ids: "map ri_ProductID its = map ir_ProductID items"
    using arg_cong [OF pairs, of "map fst"] by (simp add: o_def)
  note n = normalizeItems_Inr [OF norm]
  have "items_qty its p = wrap64 (requested p (req_pairs (rr_Items req)))"
    "requested p (req_pairs items) = items_qty its p" for p
    using n(4) [of p] by (simp_all add: items_qty_requested pairs)
  with new n(1,2) ids show ?thesis by simp
qed

theorem inventory_Reserve_new_witness:
  "avail demo_reserved 7 = avail demo_stock 7 - 3 \<and> resv demo_reserved 7 = resv demo_stock 7 + 3"
proof -
  have "rr_OrderID demo_request \<notin> res_OrderID ` set (inventory_reservations demo_stock)" by code_simp
  from inventory_Reserve_new [OF demo_stock_ok this demo_reserve] show ?thesis
    by (simp add: items_qty_def)
qed

text \<open>C6. \<^verbatim>\<open>Reserve\<close> is idempotent per order: after a successful \<^verbatim>\<open>Reserve\<close>, another one for the same
  order, with any valid items, returns the same reservation and changes nothing.\<close>

theorem inventory_Reserve_idempotent:
  assumes "inv_ok db" and "inventory_Reserve env req db = (db', Inr x)"
    and "rr_OrderID req' = rr_OrderID req" and "\<not> isl (normalizeItems (rr_Items req'))"
    and "e_out env' ResFind = Done" and "e_out env' InvCommit = Done"
  shows "inventory_Reserve env' req' db' = (db', Inr x)"
proof -
  let ?oid = "rr_OrderID req"
  from assms(2) obtain items rid where oid: "0 < ?oid"
    and body: "reserve_body env ?oid rid items db = Inr (db', x)"
    by (auto simp: inventory_Reserve_def Let_def Transaction_Inr split: sum.splits if_splits)
  have "\<exists>r. lookup_by res_OrderID ?oid (inventory_reservations db') = Some r \<and> x = preload db' r"
  proof (cases "?oid \<in> res_OrderID ` set (inventory_reservations db)")
    case True
    then have "lookup_by res_OrderID ?oid (inventory_reservations db) \<noteq> None"
      by (simp add: lookup_by_None_iff)
    with reserve_body_Inr [OF body] show ?thesis by auto
  next
    case False
    obtain r its where x: "x = (r, its)" by (cases x)
    note new = reserve_body_new [OF assms(1) body [unfolded x] False]
    have none: "lookup_by res_OrderID ?oid (inventory_reservations db) = None"
      using False by (simp add: lookup_by_None_iff)
    with reserve_body_Inr [OF body] obtain r' where "lookup_reservation rid db' = Some r'" "x = preload db' r'"
      by auto
    with new none show ?thesis by (auto simp: lookup_by_append)
  qed
  then obtain r where "lookup_by res_OrderID ?oid (inventory_reservations db') = Some r" "x = preload db' r"
    by blast
  with assms(3-6) oid show ?thesis
    by (auto simp: inventory_Reserve_def reserve_body_def Let_def Transaction_Inr split: sum.split)
qed

theorem inventory_Reserve_idempotent_witness:
  "\<exists>x. inventory_Reserve calm_env demo_request demo_stock = (demo_reserved, Inr x) \<and>
     inventory_Reserve calm_env demo_request demo_reserved = (demo_reserved, Inr x)"
proof -
  have "\<not> isl (normalizeItems (rr_Items demo_request))" by code_simp
  from inventory_Reserve_idempotent [OF demo_stock_ok demo_reserve refl this] demo_reserve
  show ?thesis by auto
qed

text \<open>C16. A reservation moves only from pending to confirmed or from pending to released: once a
  reservation is confirmed or released it stays so under every later sequence of calls, and
  the opposite transition fails and changes nothing.\<close>

theorem reservation_final:
  assumes "inv_ok db" and "rstatus db rid = Some s" and "s \<noteq> ReservationPending"
  shows "rstatus (fold inv_exec cs db) rid = Some s \<and>
    (\<forall>env target. target \<noteq> s \<longrightarrow> (\<exists>e. inventory_transition env rid target db = (db, Inl e)))"
proof
  show "rstatus (fold inv_exec cs db) rid = Some s"
    using assms(1,2)
  proof (induction cs arbitrary: db)
    case (Cons c cs)
    show ?case
      using Cons.IH [OF inv_exec_ok [OF Cons.prems(1)]
          res_evolves_final [OF inv_exec_evolves [OF Cons.prems(1)] Cons.prems(2) assms(3)]] by simp
  qed simp
  from assms(2) obtain r where r: "lookup_reservation (TrimSpace rid) db = Some r" "res_Status r = s"
    by (auto simp: rstatus_def)
  have "\<exists>e. inventory_transition env rid target db = (db, Inl e)" if "target \<noteq> s" for env target
    using r assms(3) that
    by (auto simp: inventory_transition_def transition_body_def Transaction_def stmt_def Let_def split: outcome.split)
  then show "\<forall>env target. target \<noteq> s \<longrightarrow> (\<exists>e. inventory_transition env rid target db = (db, Inl e))" by blast
qed

theorem reservation_final_witness:
  "rstatus (fold inv_exec [CallConfirm calm_env ''r1'', CallRelease calm_env ''r1'']
      (inv_exec (CallConfirm calm_env ''r1'') demo_reserved)) ''r1'' = Some ReservationConfirmed"
proof -
  have "rstatus (inv_exec (CallConfirm calm_env ''r1'') demo_reserved) ''r1'' = Some ReservationConfirmed"
    by code_simp
  from reservation_final [OF inv_exec_ok [OF demo_reserved_ok] this] show ?thesis by blast
qed



text \<open>C18. \<^verbatim>\<open>Confirm\<close> and \<^verbatim>\<open>Release\<close> of a pending reservation succeed when the database does not fail, and so
  does repeating them: the invariant rules out every error path, as long as no version counter
  is about to overflow and the stock being returned fits into its column.\<close>

theorem inventory_transition_succeeds:
  assumes "inv_ok db" and "fault_free env"
    and "rstatus db rid = Some ReservationPending \<or> rstatus db rid = Some target" and "TrimSpace rid \<noteq> []"
    and "headroom (int (length (inventory_reservation_items db))) db"
  shows "\<exists>db' x. inventory_transition env rid target db = (db', Inr x)"
proof -
  from assms(3) obtain r where "lookup_reservation (TrimSpace rid) db = Some r"
    "res_Status r = ReservationPending \<or> res_Status r = target"
    by (auto simp: rstatus_def)
  from transition_body_succeeds [OF assms(1,2) this assms(5)] assms(2) show ?thesis
    by (auto simp: inventory_transition_Transaction(1) [OF assms(4)] Transaction_Inr)
qed

theorem inventory_transition_succeeds_witness:
  "\<exists>db' x. inventory_transition calm_env ''r1'' ReservationConfirmed demo_reserved = (db', Inr x)"
proof -
  have "TrimSpace ''r1'' \<noteq> []" "headroom (int (length (inventory_reservation_items demo_reserved))) demo_reserved"
    by code_simp+
  then show ?thesis
    by (intro inventory_transition_succeeds demo_reserved_ok fault_free_calm) (simp_all add: demo_reserved_status)
qed

text \<open>\<^verbatim>\<open>normalizeItems\<close> rejects exactly the empty requests, those with more than 100 entries and those
  with a product id or quantity that is not positive; otherwise it returns one entry per
  requested product, sorted by product id, with the requested quantities summed in 64-bit
  arithmetic.\<close>

theorem normalizeItems_spec:
  "case normalizeItems items of
     Inl e \<Rightarrow> e = ErrInvalidInventoryAmount \<and>
       (items = [] \<or> 100 < length items \<or> (\<exists>i\<in>set items. ir_ProductID i \<le> 0 \<or> ir_Quantity i \<le> 0))
   | Inr its \<Rightarrow> items \<noteq> [] \<and> length items \<le> 100 \<and> list_all (\<lambda>i. 0 < ir_ProductID i \<and> 0 < ir_Quantity i) items \<and>
       sorted (map ir_ProductID its) \<and> distinct (map ir_ProductID its) \<and>
       set (map ir_ProductID its) = set (map ir_ProductID items) \<and>
       (\<forall>p. requested p (req_pairs its) = wrap64 (requested p (req_pairs items)))"
proof (cases "normalizeItems items")
  case (Inl e)
  then show ?thesis
    by (auto simp: normalizeItems_def sum_quantities_None_iff split: if_splits option.splits)
next
  case (Inr its)
  from normalizeItems_Inr [OF Inr] show ?thesis by (simp add: Inr list_all_iff)
qed

end
