(* ===== verification/Saga_Properties.thy ===== *)
theory Saga_Properties
  imports Saga_Correct Inventory_Properties
begin

text \<open>
  The order operations as runs of \<open>saga_step\<close>, and what the invariant of the saga says about orders
  and reservations. The demonstration pays an order over a working network.
\<close>

section \<open>Whole operations are runs of the saga\<close>

abbreviation saga_steps :: "'i inventory_api \<Rightarrow> ('i \<Rightarrow> 'i \<Rightarrow> bool) \<Rightarrow> 'i saga \<Rightarrow> 'i saga \<Rightarrow> bool" where
  "saga_steps api later \<equiv> (saga_step api later)\<^sup>*\<^sup>*"

lemma steps_trans [trans]: "saga_steps api later s s1 \<Longrightarrow> saga_steps api later s1 s2 \<Longrightarrow> saga_steps api later s s2"
  by (rule rtranclp_trans)

lemma saga_reachable_steps:
  "saga_steps api later s s' \<Longrightarrow> saga_reachable api later collate i0 s \<Longrightarrow> saga_reachable api later collate i0 s'"
  by (induction rule: rtranclp_induct) (auto intro: saga_next)

lemma mark_steps:
  "saga_steps api later (db, i, add_mset (MarkT oid st rsn) ts) (mark_order env site oid st rsn db, i, ts)"
  by (rule r_into_rtranclp, rule saga_step.mark)

lemma revert_steps:
  "saga_steps api later (db, i, add_mset (RevertT k oid e) ts) (revert_order env oid (claimed k) e db, i, ts)"
  by (rule r_into_rtranclp, rule saga_step.revert)

text \<open>\<open>cancel\<close> and \<open>Pay\<close> after the order was found pending.\<close>

lemma transition_steps:
  assumes load: "loadForTransition env LoadFind uid oid system db = Inr (r, items)" "o_Status r = OrderStatusPending"
    and claim: "claim_order env uid oid system (claimed k) db = (db1, res1)"
    and call: "inventory_call api k (o_ReservationID r) i = (i1, res2)"
    and fin: "finalize_order env oid (claimed k) (final k) db1 = (db2, res3)"
  shows "isl res1 \<Longrightarrow> saga_steps api later (db, i, ts) (db1, i, ts)"
    and "res1 = Inr u \<Longrightarrow> res2 = Inl e \<Longrightarrow>
      saga_steps api later (db, i, ts) (revert_order env oid (claimed k) e db1, i1, ts)"
    and "res1 = Inr u \<Longrightarrow> res2 = Inr v \<Longrightarrow> res3 = Inl e3 \<Longrightarrow>
      saga_steps api later (db, i, ts) (mark_order env MarkReconcile oid OrderStatusReconciliationRequired (Reason e3) db2, i1, ts)"
    and "res1 = Inr u \<Longrightarrow> res2 = Inr v \<Longrightarrow> res3 = Inr w \<Longrightarrow> saga_steps api later (db, i, ts) (db2, i1, ts)"
proof -
  let ?S = "saga_step api later"
  have 1: "?S\<^sup>*\<^sup>* (db, i, ts) (db1, i, (case res1 of Inr _ \<Rightarrow> {#CallT k oid (o_ReservationID r)#} | Inl _ \<Rightarrow> {#}) + ts)"
    using saga_step.load [OF load, of api later i ts k] saga_step.claim [OF claim, of api later i "o_ReservationID r" ts]
    by (rule converse_rtranclp_into_rtranclp [OF _ r_into_rtranclp])
  then show "isl res1 \<Longrightarrow> saga_steps api later (db, i, ts) (db1, i, ts)" by (cases res1) simp_all
  have 2: "?S\<^sup>*\<^sup>* (db, i, ts) (db1, i1, add_mset (case res2 of Inr _ \<Rightarrow> FinalT k oid | Inl e \<Rightarrow> RevertT k oid e) ts)"
    if "res1 = Inr u" using 1 saga_step.call [OF call] that by (simp add: rtranclp.rtrancl_into_rtrancl)
  then show "res1 = Inr u \<Longrightarrow> res2 = Inl e \<Longrightarrow>
      saga_steps api later (db, i, ts) (revert_order env oid (claimed k) e db1, i1, ts)"
    using revert_steps [of api later db1 i1 k oid e ts env] by (simp add: rtranclp_trans)
  have 3: "?S\<^sup>*\<^sup>* (db, i, ts) (db2, i1, (case res3 of Inr _ \<Rightarrow> {#}
      | Inl e \<Rightarrow> {#MarkT oid OrderStatusReconciliationRequired (Reason e)#}) + ts)" if "res1 = Inr u" "res2 = Inr v"
    using 2 [OF that(1)] saga_step.finalize [OF fin, of api later i1 ts] that(2)
    by (simp add: rtranclp.rtrancl_into_rtrancl)
  then show "res1 = Inr u \<Longrightarrow> res2 = Inr v \<Longrightarrow> res3 = Inl e3 \<Longrightarrow>
      saga_steps api later (db, i, ts) (mark_order env MarkReconcile oid OrderStatusReconciliationRequired (Reason e3) db2, i1, ts)"
    using mark_steps [of api later db2 i1 oid OrderStatusReconciliationRequired "Reason e3" ts env MarkReconcile]
    by (simp add: rtranclp_trans)
  from 3 show "res1 = Inr u \<Longrightarrow> res2 = Inr v \<Longrightarrow> res3 = Inr w \<Longrightarrow> saga_steps api later (db, i, ts) (db2, i1, ts)"
    by simp
qed

lemma order_cancel_steps:
  assumes "order_cancel env api uid oid system db i = (db', i', res)"
  shows "saga_steps api later (db, i, ts) (db', i', ts)"
proof (cases "loadForTransition env LoadFind uid oid system db")
  case (Inl e)
  with assms show ?thesis by (simp add: order_cancel_def)
next
  case (Inr x)
  obtain r items where x: "x = (r, items)" by fastforce
  obtain db1 res1 where c: "claim_order env uid oid system OrderStatusCancelling db = (db1, res1)" by fastforce
  obtain i1 res2 where call: "ia_Release api (o_ReservationID r) i = (i1, res2)" by fastforce
  obtain db2 res3 where f: "finalize_order env oid OrderStatusCancelling OrderStatusCancelled db1 = (db2, res3)" by fastforce
  show ?thesis
  proof (cases "o_Status r = OrderStatusPending")
    case True
    note st = transition_steps [where k = ToCancel and api = api and later = later and ts = ts, simplified,
        OF Inr [unfolded x] True c call f]
    from assms Inr x c call f True st show ?thesis
      by (cases res1; cases res2; cases res3) (auto simp: order_cancel_def)
  next
    case False
    with assms Inr x show ?thesis by (auto simp: order_cancel_def split: if_splits)
  qed
qed

lemma order_Pay_steps:
  assumes "order_Pay env api uid oid db i = (db', i', res)"
  shows "saga_steps api later (db, i, ts) (db', i', ts)"
proof (cases "loadForTransition env LoadFind uid oid False db")
  case (Inl e)
  with assms show ?thesis by (simp add: order_Pay_def)
next
  case (Inr x)
  obtain r items where x: "x = (r, items)" by fastforce
  obtain db1 res1 where c: "claim_order env uid oid False OrderStatusPaying db = (db1, res1)" by fastforce
  obtain i1 res2 where call: "ia_Confirm api (o_ReservationID r) i = (i1, res2)" by fastforce
  obtain db2 res3 where f: "finalize_order env oid OrderStatusPaying OrderStatusPaid db1 = (db2, res3)" by fastforce
  show ?thesis
  proof (cases "o_Status r = OrderStatusPending")
    case True
    note st = transition_steps [where k = ToPay and api = api and later = later and ts = ts, simplified,
        OF Inr [unfolded x] True c call f]
    from assms Inr x c call f True st show ?thesis
      by (cases res1; cases res2; cases res3) (auto simp: order_Pay_def)
  next
    case False
    with assms Inr x show ?thesis by (auto simp: order_Pay_def split: if_splits)
  qed
qed

lemma order_Finish_steps: "saga_steps api later (db, i, ts) (fst (order_Finish env uid oid db), i, ts)"
  by (rule r_into_rtranclp, rule saga_step.finish)

text \<open>\<open>Create\<close> from its first transaction on.\<close>

lemma create_steps:
  assumes ins: "create_insert env uid key rid items totalFen db = (db1, Inr r)"
    and reserve: "ia_Reserve api (o_ID r) rid its i = (i1, res1)"
  shows "res1 = Inl e \<Longrightarrow> saga_steps api later (db, i, ts)
      (mark_order env MarkFailed (o_ID r) OrderStatusFailed (Reason (OrderClient e)) db1, i1, ts)"
    and "res1 = Inr v \<Longrightarrow> create_pend env delay (o_ID r) (ivr_ID v) db1 = (db2, Inr w) \<Longrightarrow>
      saga_steps api later (db, i, ts) (db2, i1, ts)"
    and "res1 = Inr v \<Longrightarrow> create_pend env delay (o_ID r) (ivr_ID v) db1 = (db2, Inl e2) \<Longrightarrow>
      ia_Release api (ivr_ID v) i1 = (i2, Inl rel) \<Longrightarrow>
      saga_steps api later (db, i, ts) (mark_order env MarkCreate (o_ID r) OrderStatusReconciliationRequired
        (ReleaseFailed e2 rel) db2, i2, ts)"
    and "res1 = Inr v \<Longrightarrow> create_pend env delay (o_ID r) (ivr_ID v) db1 = (db2, Inl e2) \<Longrightarrow>
      ia_Release api (ivr_ID v) i1 = (i2, Inr rv) \<Longrightarrow>
      saga_steps api later (db, i, ts) (mark_order env MarkCreate (o_ID r) OrderStatusFailed (Reason e2) db2, i2, ts)"
proof -
  have 1: "saga_steps api later (db, i, ts) (db1, i1, add_mset (case res1 of Inr v \<Rightarrow> PendT (o_ID r) (ivr_ID v)
      | Inl e \<Rightarrow> MarkT (o_ID r) OrderStatusFailed (Reason (OrderClient e))) ts)"
    using saga_step.create [OF ins, where its = its and api = api and later = later and i = i and ts = ts]
      saga_step.reserve [OF reserve, where later = later and db = db1 and ts = ts]
    by (auto intro: converse_rtranclp_into_rtranclp)
  then show "res1 = Inl e \<Longrightarrow> saga_steps api later (db, i, ts)
      (mark_order env MarkFailed (o_ID r) OrderStatusFailed (Reason (OrderClient e)) db1, i1, ts)"
    by (simp add: rtranclp_trans [OF _ mark_steps])
  have 2: "saga_steps api later (db, i, ts) (db2, i1, (case res2 of Inr _ \<Rightarrow> {#} | Inl e \<Rightarrow> {#CompensateT (o_ID r) (ivr_ID v) e#}) + ts)"
    if "res1 = Inr v" "create_pend env delay (o_ID r) (ivr_ID v) db1 = (db2, res2)" for res2
    using 1 saga_step.pend [OF that(2), where api = api and later = later and i = i1 and ts = ts] that(1)
    by (simp add: rtranclp.rtrancl_into_rtrancl)
  from 2 [of "Inr w"] show "res1 = Inr v \<Longrightarrow> create_pend env delay (o_ID r) (ivr_ID v) db1 = (db2, Inr w) \<Longrightarrow>
      saga_steps api later (db, i, ts) (db2, i1, ts)" by simp
  have 3: "saga_steps api later (db, i, ts) (db2, i2, add_mset (case res3 of Inr _ \<Rightarrow> MarkT (o_ID r) OrderStatusFailed (Reason e2)
         | Inl rel \<Rightarrow> MarkT (o_ID r) OrderStatusReconciliationRequired (ReleaseFailed e2 rel)) ts)"
    if "res1 = Inr v" "create_pend env delay (o_ID r) (ivr_ID v) db1 = (db2, Inl e2)"
      "ia_Release api (ivr_ID v) i1 = (i2, res3)" for res3
    using 2 [OF that(1,2)] saga_step.compensate [OF that(3), where later = later and db = db2 and oid = "o_ID r" and e = e2 and ts = ts]
    by (simp add: rtranclp.rtrancl_into_rtrancl)
  from 3 [of "Inl rel"] show "res1 = Inr v \<Longrightarrow> create_pend env delay (o_ID r) (ivr_ID v) db1 = (db2, Inl e2) \<Longrightarrow>
      ia_Release api (ivr_ID v) i1 = (i2, Inl rel) \<Longrightarrow>
      saga_steps api later (db, i, ts) (mark_order env MarkCreate (o_ID r) OrderStatusReconciliationRequired
        (ReleaseFailed e2 rel) db2, i2, ts)" by (simp add: rtranclp_trans [OF _ mark_steps])
  from 3 [of "Inr rv"] show "res1 = Inr v \<Longrightarrow> create_pend env delay (o_ID r) (ivr_ID v) db1 = (db2, Inl e2) \<Longrightarrow>
      ia_Release api (ivr_ID v) i1 = (i2, Inr rv) \<Longrightarrow>
      saga_steps api later (db, i, ts) (mark_order env MarkCreate (o_ID r) OrderStatusFailed (Reason e2) db2, i2, ts)"
    by (simp add: rtranclp_trans [OF _ mark_steps])
qed

lemma create_insert_steps:
  "create_insert env uid key rid items totalFen db = (db1, Inl e) \<Longrightarrow> saga_steps api later (db, i, ts) (db1, i, ts)"
  using saga_step.create [of env uid key rid items totalFen db db1 "Inl e" api later i ts] by auto

lemma order_Create_steps:
  assumes "order_Create env api GetProduct delay uid req db i = (db', i', res)"
  shows "saga_steps api later (db, i, ts) (db', i', ts)"
proof (cases "\<exists>items its totalFen. resolveItems GetProduct (co_Items req) = Inr (items, its, totalFen)")
  case False
  then obtain e where "resolveItems GetProduct (co_Items req) = Inl e" by (metis prod_cases3 sum.exhaust)
  with assms show ?thesis by (auto simp: order_Create_def Let_def split: if_splits sum.splits)
next
  case True
  then obtain items its totalFen where r: "resolveItems GetProduct (co_Items req) = Inr (items, its, totalFen)" by blast
  let ?key = "TrimSpace (co_IdempotencyKey req)"
  obtain db1 res1 where ins: "create_insert env uid ?key (e_uuid env) items totalFen db = (db1, res1)" by fastforce
  show ?thesis
  proof (cases res1)
    case (Inl e)
    with assms r ins create_insert_steps [OF ins [unfolded Inl]] show ?thesis
      by (auto simp: order_Create_def Let_def split: if_splits sum.splits)
  next
    case (Inr o1)
    obtain i1 res2 where reserve: "ia_Reserve api (o_ID o1) (e_uuid env) its i = (i1, res2)" by fastforce
    note steps = create_steps [OF ins [unfolded Inr] reserve, where later = later and ts = ts]
    show ?thesis
    proof (cases res2)
      case (Inl e)
      with assms r ins Inr reserve steps(1) [OF Inl] show ?thesis
        by (auto simp: order_Create_def Let_def split: if_splits sum.splits)
    next
      case (Inr v)
      obtain db2 res3 where pend: "create_pend env delay (o_ID o1) (ivr_ID v) db1 = (db2, res3)" by fastforce
      obtain i2 res4 where rel: "ia_Release api (ivr_ID v) i1 = (i2, res4)" by fastforce
      from assms r ins \<open>res1 = Inr o1\<close> reserve Inr pend rel steps(2-4) [OF Inr] show ?thesis
        by (auto simp: order_Create_def Let_def split: if_splits sum.splits)
    qed
  qed
qed

lemma task_mark_steps:
  "saga_steps api later (db, i, add_mset (TaskMarkT task e) ts) (fst (markFailed env cfg now task e db), i, ts)"
  "saga_steps api later (db, i, add_mset (TaskMarkT task e) ts) (fst (markUnresolved env cfg now task e db), i, ts)"
  by (rule r_into_rtranclp, rule saga_step.task_mark [where renv = env and cfg = cfg and now = now], simp)+

lemma task_skip_steps:
  "saga_steps api later (db, i, add_mset (TaskT task) ts) (fst (markFailed env cfg now task e db), i, ts)"
  "saga_steps api later (db, i, add_mset (TaskT task) ts) (fst (markUnresolved env cfg now task e db), i, ts)"
  using converse_rtranclp_into_rtranclp [OF saga_step.task_skip task_mark_steps(1)]
    converse_rtranclp_into_rtranclp [OF saga_step.task_skip task_mark_steps(2)] .

text \<open>An action leaves the task completed, or with an error still to be recorded.\<close>

lemma complete_steps:
  assumes "completeTask env cfg now task target (rec_outbox (rt_Action task)) db = (db', res)"
  shows "saga_steps api later (db, i, add_mset (TaskDoneT task target) ts)
    (db', i, (case res of Inr _ \<Rightarrow> {#} | Inl e \<Rightarrow> {#TaskMarkT task e#}) + ts)"
  by (rule r_into_rtranclp, rule saga_step.task_done [OF assms])

lemma run_action_steps:
  assumes row: "order_row (rt_OrderID task) db = Some r" "rec_target (rt_Action task) = Some target"
    and run: "run_action env cfg api now task target r db i = (db', i', res)"
  shows "saga_steps api later (db, i, add_mset (TaskT task) ts)
    (db', i', (case res of None \<Rightarrow> {#} | Some e \<Rightarrow> {#TaskMarkT task e#}) + ts)"
proof -
  obtain db1 c where c: "completeTask env cfg now task target (rec_outbox (rt_Action task)) db = (db1, c)" by fastforce
  obtain i1 v where v: "rec_call api (rt_Action task) (o_ReservationID r) i = (i1, v)" by fastforce
  note compl = complete_steps [OF c, of api later _ ts]
  have load: "saga_steps api later (db, i, add_mset (TaskT task) ts) (db, i, add_mset (if o_Status r = target then TaskDoneT task target
         else if o_Status r \<noteq> OrderStatusReconciliationRequired
           then TaskMarkT task (StateMismatch (rt_Action task) (o_Status r))
         else TaskCallT task target (o_ReservationID r)) ts)"
    by (rule r_into_rtranclp, rule saga_step.task_load [OF row])
  have call: "saga_steps api later (db, i, add_mset (TaskCallT task target (o_ReservationID r)) ts)
      (db, i1, add_mset (case v of Inr _ \<Rightarrow> TaskDoneT task target | Inl e \<Rightarrow> TaskMarkT task (InventoryCall e)) ts)"
    by (rule r_into_rtranclp, rule saga_step.task_call [OF v])
  consider "o_Status r = target" | "o_Status r \<noteq> target" "o_Status r \<noteq> OrderStatusReconciliationRequired"
    | "o_Status r \<noteq> target" "o_Status r = OrderStatusReconciliationRequired" by blast
  then show ?thesis
  proof cases
    case 1
    with run c load rtranclp_trans [OF _ compl [of i]] show ?thesis
      by (cases c) (auto simp: run_action_def Let_def)
  next
    case 2
    with run load show ?thesis by (auto simp: run_action_def Let_def)
  next
    case 3
    with load have "saga_steps api later (db, i, add_mset (TaskT task) ts)
      (db, i1, add_mset (case v of Inr _ \<Rightarrow> TaskDoneT task target | Inl e \<Rightarrow> TaskMarkT task (InventoryCall e)) ts)"
      using rtranclp_trans [OF _ call] by simp
    with run c v 3 rtranclp_trans [OF _ compl [of i1]] show ?thesis
      by (cases v; cases c) (auto simp: run_action_def Let_def)
  qed
qed

lemma processTask_steps:
  assumes "processTask env cfg api now task db i = (db', i', errs)"
  shows "saga_steps api later (db, i, add_mset (TaskT task) ts) (db', i', ts)"
proof (cases "stmt env TaskOrder (Inr (order_row (rt_OrderID task) db))")
  case (Inl d)
  with assms task_skip_steps(1) [of api later db i task ts env cfg now "TaskDB d"] show ?thesis
    by (simp add: processTask_def split: prod.splits)
next
  case (Inr row)
  note skip = task_skip_steps(2) [of api later db i task ts env cfg now]
  show ?thesis
  proof (cases row)
    case None
    with assms Inr skip [of TaskOrderNotFound] show ?thesis by (simp add: processTask_def split: prod.splits)
  next
    case (Some r)
    with Inr have row: "order_row (rt_OrderID task) db = Some r" by (simp add: stmt_Inr)
    show ?thesis
    proof (cases "rec_target (rt_Action task)")
      case None
      with assms Inr Some skip [of "UnsupportedAction (rt_Action task)"] show ?thesis
        by (simp add: processTask_def split: prod.splits)
    next
      case t: (Some target)
      obtain db1 i1 res where run: "run_action env cfg api now task target r db i = (db1, i1, res)" by (metis prod_cases3)
      note st = run_action_steps [OF row t run, of later ts]
      show ?thesis
      proof (cases res)
        case None
        with assms Inr Some t run st show ?thesis by (simp add: processTask_def)
      next
        case e: (Some e)
        from rtranclp_trans [OF st [unfolded e, simplified] task_mark_steps(1) [of _ _ _ _ _ _ _ env cfg now]]
          rtranclp_trans [OF st [unfolded e, simplified] task_mark_steps(2) [of _ _ _ _ _ _ _ env cfg now]]
          assms Inr Some t run e
        show ?thesis by (simp add: processTask_def split: prod.splits if_splits)
      qed
    qed
  qed
qed

lemma process_all_steps:
  "process_all envs cfg api clock tasks db i = (db', i') \<Longrightarrow>
    saga_steps api later (db, i, mset (map TaskT tasks) + ts) (db', i', ts)"
proof (induction tasks arbitrary: db i)
  case (Cons t tasks)
  obtain db1 i1 e where p: "processTask (envs (rt_ID t)) cfg api (clock (rt_ID t)) t db i = (db1, i1, e)"
    by (metis prod_cases3)
  with Cons.prems have "process_all envs cfg api clock tasks db1 i1 = (db', i')" by simp
  from rtranclp_trans [OF processTask_steps [OF p] Cons.IH [OF this]] show ?case by simp
qed simp

lemma processBatch_steps:
  assumes "processBatch env envs cfg api now clock db i = (db', i', e)"
  shows "saga_steps api later (db, i, ts) (db', i', ts)"
proof -
  obtain db1 res where c: "Reconciliation.claim env cfg now db = (db1, res)" by fastforce
  have 1: "saga_steps api later (db, i, ts) (db1, i, (case res of Inr tasks \<Rightarrow> mset (map TaskT tasks) | Inl _ \<Rightarrow> {#}) + ts)"
    by (rule r_into_rtranclp, rule saga_step.task_claim [OF c])
  show ?thesis
  proof (cases res)
    case (Inl e)
    with assms c 1 show ?thesis by (simp add: processBatch_def)
  next
    case (Inr tasks)
    with assms c have "process_all envs cfg api clock tasks db1 i = (db', i')"
      by (auto simp: processBatch_def split: prod.splits)
    from rtranclp_trans [OF 1 [unfolded Inr, simplified] process_all_steps [OF this, simplified]] show ?thesis .
  qed
qed

text \<open>The state a request leaves behind.\<close>

abbreviation left_by :: "ordering_db \<times> 'i \<times> 'r \<Rightarrow> thread multiset \<Rightarrow> 'i saga" where
  "left_by x ts \<equiv> (fst x, fst (snd x), ts)"

lemma left_by_eq: "x = (fst x, fst (snd x), snd (snd x))" by simp

lemma reachable_operation:
  assumes "saga_reachable api later collate i0 (db, i, ts)"
  shows "saga_reachable api later collate i0 (left_by (order_Create env api GetProduct delay uid req db i) ts)"
    and "saga_reachable api later collate i0 (left_by (order_cancel env api uid oid system db i) ts)"
    and "saga_reachable api later collate i0 (left_by (order_Pay env api uid oid db i) ts)"
    and "saga_reachable api later collate i0 (fst (order_Finish env uid oid db), i, ts)"
    and "saga_reachable api later collate i0 (left_by (processBatch renv renvs cfg api now clock db i) ts)"
  by (rule saga_reachable_steps [OF order_Create_steps [OF left_by_eq] assms],
      rule saga_reachable_steps [OF order_cancel_steps [OF left_by_eq] assms],
      rule saga_reachable_steps [OF order_Pay_steps [OF left_by_eq] assms],
      rule saga_reachable_steps [OF order_Finish_steps assms],
      rule saga_reachable_steps [OF processBatch_steps [OF left_by_eq] assms])

section \<open>A working network\<close>

definition demo_cx :: "unit ctx_ops" where
  "demo_cx = \<lparr>cx_ctxErr = (\<lambda>_. None), cx_deadline = (\<lambda>_. None), cx_requestID = (\<lambda>_. []), cx_now = (\<lambda>_. 0),
     cx_format = (\<lambda>_. []), cx_do = id, cx_sleep = (\<lambda>_ c. (c, None)), cx_jitter = (\<lambda>d _. d)\<rparr>"

definition demo_client :: inv_client where
  "demo_client = NewInventoryClient ''http://inventory/'' ''secret''
     \<lparr>FailureThreshold = 5, OpenInterval = 5, HalfOpenMaxProbes = 1\<rparr> (\<lambda>_. []) (\<lambda>_. ''body'') id"

definition demo_net :: "unit inv_world exec_state" where
  "demo_net = \<lparr>xs_world = \<lparr>iw_db = demo_stock, iw_token = ''secret'',
       iw_net = replicate 4 \<lparr>at_before = [], at_reach = True, at_env = calm_env, at_lost = None, at_whole = True, at_after = []\<rparr>,
       iw_ctx = ()\<rparr>, xs_breakers = []\<rparr>"

definition demo_order :: CreateOrderRequest where
  "demo_order = \<lparr>co_IdempotencyKey = ''key'', co_Items = [\<lparr>coi_ProductID = 7, coi_Quantity = 2\<rparr>]\<rparr>"

definition demo_catalog :: "int \<Rightarrow> client_error + CatalogProduct" where
  "demo_catalog p = Inr \<lparr>cp_ID = p, cp_Name = ''pen'', cp_Description = [], cp_PriceFen = 150, cp_Status = 1\<rparr>"

abbreviation demo_api :: "unit inv_world exec_state inventory_api" where
  "demo_api \<equiv> net_api demo_cx demo_client"

definition demo_created :: "ordering_db \<times> unit inv_world exec_state \<times> (order_error + order_view)" where
  "demo_created = order_Create calm_env demo_api demo_catalog 60 5 demo_order (empty_orders id) demo_net"

definition demo_paid :: "ordering_db \<times> unit inv_world exec_state \<times> (order_error + order_view)" where
  "demo_paid = order_Pay calm_env demo_api 5 1 (fst demo_created) (fst (snd demo_created))"

lemma demo_paid_reachable:
  "saga_reachable demo_api net_later id demo_net (fst demo_paid, fst (snd demo_paid), {#})"
  unfolding demo_paid_def demo_created_def
  by (rule reachable_operation(3), rule reachable_operation(1), rule saga_init)

lemma demo_paid_status:
  "map (\<lambda>r. (o_Status r, o_ReservationID r)) (orders_v2 (fst demo_paid)) = [(OrderStatusPaid, ''uuid'')]"
  by code_simp

section \<open>Properties\<close>

text \<open>C1. However the steps of create, cancel, pay, finish and reconciliation requests interleave, fail,
  lose acknowledgements or stop halfway, and whatever the network and other clients do
  meanwhile: order ids are unique, the stock reserved for a paid or finished order is confirmed
  in the inventory service, and that of a cancelled order is released.\<close>

theorem saga_orders_reservations:
  assumes "inv_ok (iw_db (xs_world st0))"
    and "saga_reachable (net_api cx c) net_later collate st0 (db, st, ts)"
  shows "distinct (map o_ID (orders_v2 db)) \<and>
    (\<forall>r\<in>set (orders_v2 db).
      (o_Status r \<in> {OrderStatusPaid, OrderStatusFinished} \<longrightarrow>
        rstatus (iw_db (xs_world st)) (o_ReservationID r) = Some ReservationConfirmed) \<and>
      (o_Status r = OrderStatusCancelled \<longrightarrow>
        rstatus (iw_db (xs_world st)) (o_ReservationID r) = Some ReservationReleased))"
  using net.saga_reachable_ok [OF _ assms(2)] assms(1)
  by (auto simp: saga_ok_def row_ok_def net_ok_def net_status_def)

theorem saga_orders_reservations_witness:
  "map o_Status (orders_v2 (fst demo_paid)) = [OrderStatusPaid] \<and>
   rstatus (iw_db (xs_world (fst (snd demo_paid)))) ''uuid'' = Some ReservationConfirmed"
proof -
  have "inv_ok (iw_db (xs_world demo_net))" by (simp add: demo_net_def demo_stock_ok)
  from saga_orders_reservations [OF this demo_paid_reachable] demo_paid_status show ?thesis
    by (auto simp: map_eq_Cons_conv)
qed

text \<open>C5. The interleaved steps are those of the service: \<^verbatim>\<open>Create\<close>, \<^verbatim>\<open>Cancel\<close>, \<^verbatim>\<open>TimeoutCancel\<close>, \<^verbatim>\<open>Pay\<close>, \<^verbatim>\<open>Finish\<close> and a
  batch of the reconciliation worker, run from a reachable state as the code writes them, each
  end in a reachable state again, with every other request where it was.\<close>

theorem operations_are_saga_runs:
  assumes "saga_reachable api later collate i0 (db, i, ts)"
  shows "saga_reachable api later collate i0 (left_by (order_Create env api GetProduct delay uid req db i) ts) \<and>
    saga_reachable api later collate i0 (left_by (order_Cancel env api uid oid db i) ts) \<and>
    saga_reachable api later collate i0 (left_by (order_TimeoutCancel env api oid db i) ts) \<and>
    saga_reachable api later collate i0 (left_by (order_Pay env api uid oid db i) ts) \<and>
    saga_reachable api later collate i0 (fst (order_Finish env uid oid db), i, ts) \<and>
    saga_reachable api later collate i0 (left_by (processBatch renv renvs cfg api now clock db i) ts)"
proof -
  have "left_by (order_TimeoutCancel env api oid db i) ts = left_by (order_cancel env api 0 oid True db i) ts"
    by (simp add: order_TimeoutCancel_def split: prod.splits sum.splits)
  with reachable_operation [OF assms] show ?thesis by (simp add: order_Cancel_def)
qed

theorem operations_are_saga_runs_witness:
  "saga_reachable demo_api net_later id demo_net
     (left_by (order_Pay calm_env demo_api 5 1 (empty_orders id) demo_net) {#})"
  using operations_are_saga_runs [OF saga_init, of demo_api net_later id demo_net] by blast

end
