(* ===== verification/Timeout_Worker.thy ===== *)
theory Timeout_Worker
  imports Ordering
begin

text \<open>
  The timeout worker, \<^verbatim>\<open>internal/ordersvc/worker.go\<close>, with the confirmed publisher of
  \<^verbatim>\<open>publisher_confirm.go\<close>: it leases due events of the timeout outbox, publishes each to RabbitMQ and
  waits for the broker's confirmation, and on delivery asks the order service to cancel the
  order. What RabbitMQ answers is an argument (\<open>broker\<close>), and so is the call of the order service.
\<close>

section \<open>Configuration\<close>

record WorkerConfig =
  wc_URL :: string
  wc_ReconnectDelay :: duration
  wc_PollInterval :: duration
  wc_RetryDelay :: duration
  wc_BatchSize :: int
  wc_Prefetch :: int
  wc_OrderServiceURL :: string
  wc_InternalToken :: string
  wc_CallTimeout :: duration
  wc_WorkerID :: string
  wc_LeaseDuration :: duration
  wc_PublishConfirmTimeout :: duration

text \<open>\<^verbatim>\<open>NewWorker\<close>: the configuration it keeps, or the error of an incomplete one.\<close>

definition NewWorker :: "string \<Rightarrow> WorkerConfig \<Rightarrow> WorkerConfig option" where
  "NewWorker uuid cfg =
    (let url = TrimSpace (wc_URL cfg);
         orderURL = rev (dropWhile (\<lambda>c. c = CHR ''/'') (rev (TrimSpace (wc_OrderServiceURL cfg))));
         token = TrimSpace (wc_InternalToken cfg);
         wid = TrimSpace (wc_WorkerID cfg);
         positive = (\<lambda>x d. if x \<le> 0 then d else x)
     in if url = [] \<or> orderURL = [] \<or> token = [] then None
        else Some \<lparr>wc_URL = url,
          wc_ReconnectDelay = positive (wc_ReconnectDelay cfg) 5000000000,
          wc_PollInterval = positive (wc_PollInterval cfg) 1000000000,
          wc_RetryDelay = positive (wc_RetryDelay cfg) 5000000000,
          wc_BatchSize = positive (wc_BatchSize cfg) 100,
          wc_Prefetch = positive (wc_Prefetch cfg) 10,
          wc_OrderServiceURL = orderURL,
          wc_InternalToken = token,
          wc_CallTimeout = positive (wc_CallTimeout cfg) 10000000000,
          wc_WorkerID = (if wid = [] then uuid else wid),
          wc_LeaseDuration = positive (wc_LeaseDuration cfg) 30000000000,
          wc_PublishConfirmTimeout = positive (wc_PublishConfirmTimeout cfg) 5000000000\<rparr>)"

section \<open>Publishing with confirmation\<close>

record message =
  msg_Persistent :: bool
  msg_ContentType :: string
  msg_MessageId :: string
  msg_Expiration :: string
  msg_OrderID :: int \<comment> \<open>the body, a JSON object with \<^verbatim>\<open>order_id\<close>\<close>

text \<open>What the select of \<^verbatim>\<open>waitForPublisherConfirmation\<close> receives.\<close>

datatype confirmation =
    ConfirmChannelClosed
  | Confirmation bool int \<comment> \<open>\<^verbatim>\<open>Ack\<close> and \<^verbatim>\<open>DeliveryTag\<close>\<close>
  | ConfirmContextDone ctx_error

text \<open>The broker, per event: the error of \<^verbatim>\<open>PublishWithContext\<close> if any, and the confirmation.\<close>

record broker =
  br_publish :: "int \<Rightarrow> string option"
  br_confirm :: "int \<Rightarrow> confirmation"

definition waitForPublisherConfirmation :: "confirmation \<Rightarrow> publish_error option" where
  "waitForPublisherConfirmation c = (case c of
      ConfirmChannelClosed \<Rightarrow> Some PublisherConfirmClosed
    | Confirmation ack tag \<Rightarrow> if \<not> ack then Some (PublisherNacked tag) else None
    | ConfirmContextDone e \<Rightarrow> Some (PublisherConfirmTimeout e))"

definition publisherOutcome :: "publish_error \<Rightarrow> string" where
  "publisherOutcome e = (case e of
      PublisherNacked _ \<Rightarrow> ''nack''
    | PublisherConfirmClosed \<Rightarrow> ''channel_closed''
    | PublisherConfirmTimeout _ \<Rightarrow> ''timeout''
    | PublishFailed _ \<Rightarrow> ''other_error'')"

text \<open>\<^verbatim>\<open>Publish\<close>: the message it hands to the channel, the outcome it counts, and its error.\<close>

definition publish_message :: "TimeoutOutbox \<Rightarrow> duration \<Rightarrow> message" where
  "publish_message event delay0 =
    (let delay = (if delay0 < 1000000000 then 1000000000 else delay0)
     in \<lparr>msg_Persistent = True, msg_ContentType = ''application/json'', msg_MessageId = FormatInt (to_ID event),
         msg_Expiration = FormatInt (go_div delay 1000000), msg_OrderID = to_OrderID event\<rparr>)"

definition Publish :: "broker \<Rightarrow> TimeoutOutbox \<Rightarrow> duration \<Rightarrow> message \<times> string \<times> publish_error option" where
  "Publish b event delay =
    (publish_message event delay,
     (case br_publish b (to_ID event) of
        Some e \<Rightarrow> (''publish_error'', Some (PublishFailed e))
      | None \<Rightarrow>
          (case waitForPublisherConfirmation (br_confirm b (to_ID event)) of
             Some e \<Rightarrow> (publisherOutcome e, Some e)
           | None \<Rightarrow> (''ack'', None))))"

section \<open>Leasing events\<close>

datatype outbox_site =
    EventsFind | EventsLease | EventsCommit | EventPublished int | EventFailed int | LeasesRelease
  | DeliveryFailed | DeliveryDone

datatype outbox_error =
    OutboxDB db_error
  | ClaimCount nat nat
  | LeaseLostBeforePublish
  | LeaseLostBeforeFailure
  | RecordFailure outbox_error
  | ReleaseLeases db_error
  | PublishEvent int publish_error

definition event_free :: "time \<Rightarrow> TimeoutOutbox \<Rightarrow> bool" where
  "event_free now e \<longleftrightarrow> to_Status e \<in> {OutboxPending, OutboxFailed} \<and>
    (case to_LeaseUntil e of None \<Rightarrow> True | Some until \<Rightarrow> until < now)"

definition event_claimable :: "time \<Rightarrow> TimeoutOutbox \<Rightarrow> bool" where
  "event_claimable now e \<longleftrightarrow> event_free now e \<and> to_NextAttemptAt e \<le> now"

definition claim_pending_body ::
  "outbox_site env \<Rightarrow> WorkerConfig \<Rightarrow> time \<Rightarrow> ordering_db \<Rightarrow> outbox_error + ordering_db \<times> TimeoutOutbox list" where
  "claim_pending_body env cfg now tx =
    (case stmt env EventsFind (Inr (take (nat (wc_BatchSize cfg))
        (filter (event_claimable now) (order_timeout_outbox_v2 tx)))) of
       Inl d \<Rightarrow> Inl (OutboxDB d)
     | Inr events \<Rightarrow>
         if events = [] then Inr (tx, [])
         else
           (case stmt env EventsLease (update_outbox (e_now env EventsLease)
               (\<lambda>e. to_ID e \<in> set (map to_ID events) \<and> event_free now e)
               (\<lambda>e. e\<lparr>to_LeaseOwner := wc_WorkerID cfg, to_LeaseUntil := Some (now + wc_LeaseDuration cfg)\<rparr>) tx) of
              Inl d \<Rightarrow> Inl (OutboxDB d)
            | Inr (tx1, n) \<Rightarrow>
                if n \<noteq> length events then Inl (ClaimCount (length events) n) else Inr (tx1, events)))"

definition claimPending ::
  "outbox_site env \<Rightarrow> WorkerConfig \<Rightarrow> time \<Rightarrow> ordering_db \<Rightarrow> ordering_db \<times> (outbox_error + TimeoutOutbox list)" where
  "claimPending env cfg now = Transaction (e_out env EventsCommit) OutboxDB (claim_pending_body env cfg now)"

text \<open>\<^verbatim>\<open>WHERE id = ? AND lease_owner = ?\<close>.\<close>

definition event_held :: "WorkerConfig \<Rightarrow> ordering_db \<Rightarrow> int \<Rightarrow> TimeoutOutbox \<Rightarrow> bool" where
  "event_held cfg db eid e \<longleftrightarrow> to_ID e = eid \<and> ord_collate db (to_LeaseOwner e) = ord_collate db (wc_WorkerID cfg)"

definition releaseClaimedLeases ::
  "outbox_site env \<Rightarrow> WorkerConfig \<Rightarrow> TimeoutOutbox list \<Rightarrow> ordering_db \<Rightarrow> ordering_db \<times> db_error option" where
  "releaseClaimedLeases env cfg events db =
    (if events = [] then (db, None)
     else
       case autocommit env LeasesRelease (update_outbox (e_now env LeasesRelease)
           (\<lambda>e. \<exists>x\<in>set events. event_held cfg db (to_ID x) e)
           (\<lambda>e. e\<lparr>to_LeaseOwner := [], to_LeaseUntil := None\<rparr>)) db of
         (db', Inl d) \<Rightarrow> (db', Some d)
       | (db', Inr _) \<Rightarrow> (db', None))"

definition published_row :: "time \<Rightarrow> TimeoutOutbox \<Rightarrow> TimeoutOutbox" where
  "published_row now e = e\<lparr>to_Status := OutboxPublished, to_Attempts := to_Attempts e + 1, to_LastError := NoError,
     to_LeaseOwner := [], to_LeaseUntil := None, to_NextAttemptAt := now\<rparr>"

definition markOutboxPublished ::
  "outbox_site env \<Rightarrow> WorkerConfig \<Rightarrow> int \<Rightarrow> ordering_db \<Rightarrow> ordering_db \<times> outbox_error option" where
  "markOutboxPublished env cfg eid db =
    (let now = e_now env (EventPublished eid) in
     case autocommit env (EventPublished eid) (update_outbox now (event_held cfg db eid) (published_row now)) db of
       (db', Inl d) \<Rightarrow> (db', Some (OutboxDB d))
     | (db', Inr n) \<Rightarrow> (db', if n \<noteq> 1 then Some LeaseLostBeforePublish else None))"

definition failed_row :: "time \<Rightarrow> WorkerConfig \<Rightarrow> publish_error \<Rightarrow> TimeoutOutbox \<Rightarrow> TimeoutOutbox" where
  "failed_row now cfg cause e = e\<lparr>to_Status := OutboxFailed, to_Attempts := to_Attempts e + 1,
     to_LastError := PublishError cause, to_LeaseOwner := [], to_LeaseUntil := None,
     to_NextAttemptAt := now + wc_RetryDelay cfg\<rparr>"

definition markOutboxFailure ::
  "outbox_site env \<Rightarrow> WorkerConfig \<Rightarrow> int \<Rightarrow> publish_error \<Rightarrow> ordering_db \<Rightarrow> ordering_db \<times> outbox_error option" where
  "markOutboxFailure env cfg eid cause db =
    (let now = e_now env (EventFailed eid) in
     case autocommit env (EventFailed eid) (update_outbox now (event_held cfg db eid) (failed_row now cfg cause)) db of
       (db', Inl d) \<Rightarrow> (db', Some (OutboxDB d))
     | (db', Inr n) \<Rightarrow> (db', if n \<noteq> 1 then Some LeaseLostBeforeFailure else None))"

section \<open>Publishing a batch\<close>

text \<open>The loop of \<^verbatim>\<open>publishPending\<close>. It returns the messages handed to the broker, each with whether the
  broker acknowledged it. Encoding an integer as JSON does not fail; \<open>clock\<close> gives the reading of
  \<^verbatim>\<open>time.Until\<close> for each event.\<close>

fun publish_loop ::
  "outbox_site env \<Rightarrow> WorkerConfig \<Rightarrow> broker \<Rightarrow> (int \<Rightarrow> time) \<Rightarrow> TimeoutOutbox list \<Rightarrow> ordering_db
    \<Rightarrow> ordering_db \<times> (message \<times> bool) list \<times> outbox_error option" where
  "publish_loop env cfg b clock [] db = (db, [], None)"
| "publish_loop env cfg b clock (event # events) db =
    (case Publish b event (to_DueAt event - clock (to_ID event)) of
       (m, _, Some err) \<Rightarrow>
         (case markOutboxFailure env cfg (to_ID event) err db of
            (db1, Some e) \<Rightarrow> (db1, [(m, False)], Some (RecordFailure e))
          | (db1, None) \<Rightarrow>
              (case releaseClaimedLeases env cfg events db1 of
                 (db2, Some d) \<Rightarrow> (db2, [(m, False)], Some (ReleaseLeases d))
               | (db2, None) \<Rightarrow> (db2, [(m, False)], Some (PublishEvent (to_ID event) err))))
     | (m, _, None) \<Rightarrow>
         (case markOutboxPublished env cfg (to_ID event) db of
            (db1, Some e) \<Rightarrow> (db1, [(m, True)], Some e)
          | (db1, None) \<Rightarrow>
              (case publish_loop env cfg b clock events db1 of
                 (db2, sent, r) \<Rightarrow> (db2, (m, True) # sent, r))))"

definition publishPending ::
  "outbox_site env \<Rightarrow> WorkerConfig \<Rightarrow> broker \<Rightarrow> time \<Rightarrow> (int \<Rightarrow> time) \<Rightarrow> ordering_db
    \<Rightarrow> ordering_db \<times> (message \<times> bool) list \<times> outbox_error option" where
  "publishPending env cfg b now clock db =
    (case claimPending env cfg now db of
       (db1, Inl e) \<Rightarrow> (db1, [], Some e)
     | (db1, Inr events) \<Rightarrow> publish_loop env cfg b clock events db1)"

section \<open>Handling a delivery\<close>

text \<open>How a delivery is settled with the broker, and what \<^verbatim>\<open>recordRabbitMQDelivery\<close> counts. \<open>accepted\<close> says
  whether the settlement itself succeeds.\<close>

datatype settlement = Acked | RejectedDropped | Requeued

definition settle :: "(settlement \<Rightarrow> bool) \<Rightarrow> settlement \<Rightarrow> string" where
  "settle accepted s =
    (if \<not> accepted s then ''settlement_error''
     else case s of Acked \<Rightarrow> ''acknowledged'' | RejectedDropped \<Rightarrow> ''rejected'' | Requeued \<Rightarrow> ''requeued'')"

text \<open>\<^verbatim>\<open>handleDelivery\<close> of a body that decodes to \<open>payload\<close> (\<open>None\<close> when it is not JSON of the right shape);
  \<open>TimeoutCancel\<close> is the client of the order service over the state \<open>'i\<close> of the rest of the system.\<close>

definition handleDelivery ::
  "outbox_site env \<Rightarrow> (int \<Rightarrow> ordering_db \<times> 'i \<Rightarrow> (ordering_db \<times> 'i) \<times> client_error option) \<Rightarrow> (settlement \<Rightarrow> bool)
    \<Rightarrow> int option \<Rightarrow> ordering_db \<times> 'i \<Rightarrow> (ordering_db \<times> 'i) \<times> settlement \<times> string list" where
  "handleDelivery env TimeoutCancel accepted payload s =
    (case payload of
       None \<Rightarrow> (s, RejectedDropped, [''received'', ''processing_failure'', settle accepted RejectedDropped])
     | Some oid \<Rightarrow>
         if oid \<le> 0 then (s, RejectedDropped, [''received'', ''processing_failure'', settle accepted RejectedDropped])
         else
           (case TimeoutCancel oid s of
              ((db, i), Some err) \<Rightarrow>
                ((fst (autocommit env DeliveryFailed (update_outbox (e_now env DeliveryFailed) (\<lambda>e. to_OrderID e = oid)
                    (\<lambda>e. e\<lparr>to_Attempts := to_Attempts e + 1, to_LastError := DeliveryError err\<rparr>)) db), i),
                 Requeued, [''received'', ''processing_failure'', settle accepted Requeued])
            | ((db, i), None) \<Rightarrow>
                (case autocommit env DeliveryDone (update_outbox (e_now env DeliveryDone) (\<lambda>e. to_OrderID e = oid)
                    (\<lambda>e. e\<lparr>to_Status := OutboxCompleted, to_LastError := NoError, to_LeaseOwner := [],
                           to_LeaseUntil := None\<rparr>)) db of
                   (db1, Inl d) \<Rightarrow> ((db1, i), Requeued, [''received'', ''processing_failure'', settle accepted Requeued])
                 | (db1, Inr _) \<Rightarrow> ((db1, i), Acked, [''received'', settle accepted Acked]))))"

end
