(* ===== verification/Timeout_Correct.thy ===== *)
theory Timeout_Correct
  imports Timeout_Worker
begin

text \<open>
  The properties of the timeout worker: leases exclude each other, an event counts as published
  only when the broker acknowledged it, a batch leaves no lease behind, and how deliveries are
  settled.
\<close>

section \<open>The outbox under its statements\<close>

definition set_outbox :: "time \<Rightarrow> (TimeoutOutbox \<Rightarrow> bool) \<Rightarrow> (TimeoutOutbox \<Rightarrow> TimeoutOutbox) \<Rightarrow> TimeoutOutbox \<Rightarrow> TimeoutOutbox" where
  "set_outbox now p f e = (if p e then (f e)\<lparr>to_UpdatedAt := now\<rparr> else e)"

lemma update_outbox_eq:
  "update_outbox now p f db = Inr (db\<lparr>order_timeout_outbox_v2 := map (set_outbox now p f) (order_timeout_outbox_v2 db)\<rparr>,
    length (filter p (order_timeout_outbox_v2 db)))"
  by (simp add: update_outbox_def set_outbox_def [abs_def])

lemma autocommit_outbox:
  assumes "autocommit env site (update_outbox now p f) db = (db', r)"
  shows "db' = db \<and> isl r \<or>
    db' = db\<lparr>order_timeout_outbox_v2 := map (set_outbox now p f) (order_timeout_outbox_v2 db)\<rparr> \<and>
      (\<forall>n. r = Inr n \<longrightarrow> n = length (filter p (order_timeout_outbox_v2 db)))"
  using assms by (auto simp: autocommit_def Transaction_def update_outbox_eq split: outcome.splits)

lemma autocommit_outbox_Inr:
  "autocommit env site (update_outbox now p f) db = (db', Inr n) \<Longrightarrow>
    order_timeout_outbox_v2 db' = map (set_outbox now p f) (order_timeout_outbox_v2 db)"
  by (auto simp: autocommit_def Transaction_Inr update_outbox_eq)

lemma autocommit_calm:
  "fault_free env \<Longrightarrow> autocommit env site (update_outbox now p f) db =
    (db\<lparr>order_timeout_outbox_v2 := map (set_outbox now p f) (order_timeout_outbox_v2 db)\<rparr>,
     Inr (length (filter p (order_timeout_outbox_v2 db))))"
  by (simp add: autocommit_def Transaction_def update_outbox_eq)

section \<open>Leases\<close>

lemma claim_pending_body_Inr:
  assumes "claim_pending_body env cfg now db = Inr (db', events)"
  defines "batch \<equiv> take (nat (wc_BatchSize cfg)) (filter (event_claimable now) (order_timeout_outbox_v2 db))"
  shows "events = batch"
    and "db' = (if batch = [] then db else db\<lparr>order_timeout_outbox_v2 :=
      map (set_outbox (e_now env EventsLease) (\<lambda>e. to_ID e \<in> to_ID ` set batch \<and> event_free now e)
        (\<lambda>e. e\<lparr>to_LeaseOwner := wc_WorkerID cfg, to_LeaseUntil := Some (now + wc_LeaseDuration cfg)\<rparr>))
      (order_timeout_outbox_v2 db)\<rparr>)"
proof -
  have "events = batch \<and> db' = (if batch = [] then db else db\<lparr>order_timeout_outbox_v2 :=
      map (set_outbox (e_now env EventsLease) (\<lambda>e. to_ID e \<in> to_ID ` set batch \<and> event_free now e)
        (\<lambda>e. e\<lparr>to_LeaseOwner := wc_WorkerID cfg, to_LeaseUntil := Some (now + wc_LeaseDuration cfg)\<rparr>))
      (order_timeout_outbox_v2 db)\<rparr>)"
    using assms(1) unfolding claim_pending_body_def batch_def [symmetric] update_outbox_eq set_map
    by (cases "batch = []"; cases "e_out env EventsFind"; cases "e_out env EventsLease")
      (auto simp: stmt_def split: if_splits)
  then show "events = batch" and "db' = (if batch = [] then db else db\<lparr>order_timeout_outbox_v2 :=
      map (set_outbox (e_now env EventsLease) (\<lambda>e. to_ID e \<in> to_ID ` set batch \<and> event_free now e)
        (\<lambda>e. e\<lparr>to_LeaseOwner := wc_WorkerID cfg, to_LeaseUntil := Some (now + wc_LeaseDuration cfg)\<rparr>))
      (order_timeout_outbox_v2 db)\<rparr>)" by (rule conjunct1, rule conjunct2)
qed

lemma claimPending_body:
  "claimPending env cfg now db = (db', Inr events) \<Longrightarrow> claim_pending_body env cfg now db = Inr (db', events)"
  by (simp add: claimPending_def Transaction_Inr)

lemmas claimPending_Inr = claim_pending_body_Inr [OF claimPending_body]

lemma batch_claimable:
  "e \<in> set (take n (filter (event_claimable now) rows)) \<Longrightarrow> e \<in> set rows \<and> event_claimable now e"
  by (auto dest: in_set_takeD)

text \<open>A claimed event is leased until the lease ends.\<close>

lemma claimed_leased:
  assumes "claimPending env cfg now db = (db', Inr events)"
    and "distinct (map to_ID (order_timeout_outbox_v2 db))"
    and "e \<in> set (order_timeout_outbox_v2 db')" and "to_ID e \<in> to_ID ` set events"
  shows "to_LeaseUntil e = Some (now + wc_LeaseDuration cfg)" and "to_LeaseOwner e = wc_WorkerID cfg"
proof -
  note c = claimPending_Inr [OF assms(1)]
  from assms(4) c(1) obtain x where x: "x \<in> set events" "to_ID x = to_ID e" by auto
  with c(1) have "x \<in> set (order_timeout_outbox_v2 db)" and free: "event_free now x"
    by (auto dest: batch_claimable simp: event_claimable_def)
  let ?g = "set_outbox (e_now env EventsLease) (\<lambda>e. to_ID e \<in> to_ID ` set events \<and> event_free now e)
        (\<lambda>e. e\<lparr>to_LeaseOwner := wc_WorkerID cfg, to_LeaseUntil := Some (now + wc_LeaseDuration cfg)\<rparr>)"
  from x(1) have "events \<noteq> []" by auto
  with c(2) [folded c(1)] have "order_timeout_outbox_v2 db' = map ?g (order_timeout_outbox_v2 db)" by simp
  with assms(3) obtain y where y: "y \<in> set (order_timeout_outbox_v2 db)" "e = ?g y" by auto
  then have "to_ID y = to_ID e" by (simp add: set_outbox_def)
  with x(2) have "to_ID y = to_ID x" by simp
  with y(1) \<open>x \<in> set (order_timeout_outbox_v2 db)\<close> assms(2) have "y = x"
    by (auto simp: distinct_map dest: inj_onD)
  with y(2) have e: "e = ?g x" by simp
  from x(1) have "to_ID x \<in> to_ID ` set events" by simp
  with free show "to_LeaseUntil e = Some (now + wc_LeaseDuration cfg)" "to_LeaseOwner e = wc_WorkerID cfg"
    unfolding e by (simp_all add: set_outbox_def)
qed


section \<open>Confirmed publishing\<close>

text \<open>Every row of \<open>db'\<close> comes from a row of \<open>db\<close>; one that became published has its message among the
  acknowledged ones.\<close>

definition published_by :: "ordering_db \<Rightarrow> ordering_db \<Rightarrow> (message \<times> bool) list \<Rightarrow> bool" where
  "published_by db db' sent \<longleftrightarrow> (\<forall>e'\<in>set (order_timeout_outbox_v2 db'). \<exists>e\<in>set (order_timeout_outbox_v2 db).
     to_ID e = to_ID e' \<and> to_OrderID e = to_OrderID e' \<and>
     (to_Status e' = OutboxPublished \<longrightarrow> to_Status e = OutboxPublished \<or>
        (\<exists>m. (m, True) \<in> set sent \<and> msg_OrderID m = to_OrderID e')))"

lemma published_by_refl: "published_by db db sent"
  unfolding published_by_def by blast

lemma published_by_trans:
  assumes "published_by db db1 s1" and "published_by db1 db2 s2"
  shows "published_by db db2 (s1 @ s2)"
  unfolding published_by_def
proof
  fix e2 assume "e2 \<in> set (order_timeout_outbox_v2 db2)"
  with assms(2) obtain e1 where e1: "e1 \<in> set (order_timeout_outbox_v2 db1)" "to_ID e1 = to_ID e2" "to_OrderID e1 = to_OrderID e2"
    "to_Status e2 = OutboxPublished \<longrightarrow> to_Status e1 = OutboxPublished \<or> (\<exists>m. (m, True) \<in> set s2 \<and> msg_OrderID m = to_OrderID e2)"
    unfolding published_by_def by blast
  from assms(1) e1(1) obtain e where e: "e \<in> set (order_timeout_outbox_v2 db)" "to_ID e = to_ID e1" "to_OrderID e = to_OrderID e1"
    "to_Status e1 = OutboxPublished \<longrightarrow> to_Status e = OutboxPublished \<or> (\<exists>m. (m, True) \<in> set s1 \<and> msg_OrderID m = to_OrderID e1)"
    unfolding published_by_def by blast
  from e1 e show "\<exists>e\<in>set (order_timeout_outbox_v2 db). to_ID e = to_ID e2 \<and> to_OrderID e = to_OrderID e2 \<and>
     (to_Status e2 = OutboxPublished \<longrightarrow> to_Status e = OutboxPublished \<or>
        (\<exists>m. (m, True) \<in> set (s1 @ s2) \<and> msg_OrderID m = to_OrderID e2))"
    by (intro bexI [of _ e]) auto
qed

lemma published_by_update:
  assumes "autocommit env site (update_outbox now p f) db = (db', r)"
    and "\<And>e. to_ID (f e) = to_ID e \<and> to_OrderID (f e) = to_OrderID e"
    and "\<And>e. e \<in> set (order_timeout_outbox_v2 db) \<Longrightarrow> p e \<Longrightarrow> to_Status (f e) = OutboxPublished \<Longrightarrow>
      to_Status e = OutboxPublished \<or> (\<exists>m. (m, True) \<in> set sent \<and> msg_OrderID m = to_OrderID e)"
  shows "published_by db db' sent"
proof -
  from autocommit_outbox [OF assms(1)] consider "db' = db"
    | "order_timeout_outbox_v2 db' = map (set_outbox now p f) (order_timeout_outbox_v2 db)" by fastforce
  then show ?thesis
  proof cases
    case 2
    show ?thesis unfolding published_by_def 2 set_map
    proof (rule ballI, elim imageE)
      fix e' e assume "e' = set_outbox now p f e" "e \<in> set (order_timeout_outbox_v2 db)"
      with assms(2) [of e] assms(3) [of e] show "\<exists>e\<in>set (order_timeout_outbox_v2 db). to_ID e = to_ID e' \<and>
          to_OrderID e = to_OrderID e' \<and> (to_Status e' = OutboxPublished \<longrightarrow> to_Status e = OutboxPublished \<or>
            (\<exists>m. (m, True) \<in> set sent \<and> msg_OrderID m = to_OrderID e'))"
        by (intro bexI [of _ e]) (auto simp: set_outbox_def)
    qed
  qed (simp add: published_by_refl)
qed

lemma markOutboxPublished_by:
  assumes "markOutboxPublished env cfg eid db = (db', r)"
    and "\<And>e. e \<in> set (order_timeout_outbox_v2 db) \<Longrightarrow> to_ID e = eid \<Longrightarrow> to_OrderID e = msg_OrderID m"
  shows "published_by db db' [(m, True)]"
proof -
  let ?n = "e_now env (EventPublished eid)"
  obtain x where "autocommit env (EventPublished eid) (update_outbox ?n (event_held cfg db eid) (published_row ?n)) db = (db', x)"
    using assms(1) by (auto simp: markOutboxPublished_def Let_def split: prod.splits sum.splits)
  then show ?thesis
    by (rule published_by_update) (use assms(2) in \<open>auto simp: published_row_def event_held_def\<close>)
qed

lemma markOutboxFailure_by:
  assumes "markOutboxFailure env cfg eid cause db = (db', r)"
  shows "published_by db db' []"
proof -
  let ?n = "e_now env (EventFailed eid)"
  obtain x where "autocommit env (EventFailed eid) (update_outbox ?n (event_held cfg db eid) (failed_row ?n cfg cause)) db = (db', x)"
    using assms by (auto simp: markOutboxFailure_def Let_def split: prod.splits sum.splits)
  then show ?thesis by (rule published_by_update) (auto simp: failed_row_def)
qed

lemma releaseClaimedLeases_by:
  assumes "releaseClaimedLeases env cfg events db = (db', r)"
  shows "published_by db db' []"
proof (cases "events = []")
  case True
  with assms show ?thesis by (simp add: releaseClaimedLeases_def published_by_refl)
next
  case False
  with assms obtain x where "autocommit env LeasesRelease (update_outbox (e_now env LeasesRelease)
           (\<lambda>e. \<exists>x\<in>set events. event_held cfg db (to_ID x) e) (\<lambda>e. e\<lparr>to_LeaseOwner := [], to_LeaseUntil := None\<rparr>)) db = (db', x)"
    by (auto simp: releaseClaimedLeases_def split: prod.splits sum.splits)
  then show ?thesis by (rule published_by_update) auto
qed

lemma Publish_simps:
  "fst (Publish b event delay) = publish_message event delay"
  "msg_OrderID (publish_message event delay) = to_OrderID event"
  by (simp_all add: Publish_def publish_message_def Let_def)

lemma publish_loop_by:
  assumes "publish_loop env cfg b clock events db = (db', sent, r)"
    and "\<And>ev e. ev \<in> set events \<Longrightarrow> e \<in> set (order_timeout_outbox_v2 db) \<Longrightarrow> to_ID e = to_ID ev \<Longrightarrow> to_OrderID e = to_OrderID ev"
  shows "published_by db db' sent"
  using assms
proof (induction events arbitrary: db sent)
  case (Cons ev events)
  obtain m l er where P: "Publish b ev (to_DueAt ev - clock (to_ID ev)) = (m, l, er)" by (metis prod_cases3)
  have m: "msg_OrderID m = to_OrderID ev" using Publish_simps P by (metis fst_conv)
  show ?case
  proof (cases er)
    case None
    obtain db1 r1 where mk: "markOutboxPublished env cfg (to_ID ev) db = (db1, r1)" by fastforce
    have 1: "published_by db db1 [(m, True)]"
      by (rule markOutboxPublished_by [OF mk]) (use Cons.prems(2) [of ev] m in auto)
    show ?thesis
    proof (cases r1)
      case None
      obtain sent1 where l: "publish_loop env cfg b clock events db1 = (db', sent1, r)" and s: "sent = (m, True) # sent1"
        using Cons.prems(1) P \<open>er = None\<close> mk None by (auto split: prod.splits)
      have "to_OrderID e = to_OrderID x" if "x \<in> set events" "e \<in> set (order_timeout_outbox_v2 db1)" "to_ID e = to_ID x" for x e
      proof -
        from 1 that(2) obtain e0 where "e0 \<in> set (order_timeout_outbox_v2 db)" "to_ID e0 = to_ID e" "to_OrderID e0 = to_OrderID e"
          unfolding published_by_def by blast
        with Cons.prems(2) [of x e0] that show ?thesis by simp
      qed
      then have "published_by db1 db' sent1" by (rule Cons.IH [OF l])
      from published_by_trans [OF 1 this] show ?thesis unfolding s by simp
    next
      case (Some e)
      with Cons.prems(1) P \<open>er = None\<close> mk 1 show ?thesis by simp
    qed
  next
    case (Some err)
    obtain db1 r1 where mk: "markOutboxFailure env cfg (to_ID ev) err db = (db1, r1)" by fastforce
    obtain db2 r2 where rl: "releaseClaimedLeases env cfg events db1 = (db2, r2)" by fastforce
    note 1 = markOutboxFailure_by [OF mk] and 2 = releaseClaimedLeases_by [OF rl]
    have mono: "published_by db d [] \<Longrightarrow> published_by db d [(m, False)]" for d
      using published_by_trans [OF _ published_by_refl, of db d "[]" "[(m, False)]"] by simp
    from Cons.prems(1) P Some mk rl mono [OF 1] mono [OF published_by_trans [OF 1 2, simplified]]
    show ?thesis by (cases r1; cases r2) auto
  qed
qed (simp add: published_by_refl)

lemma claimPending_by:
  assumes "claimPending env cfg now db = (db1, r)"
  shows "published_by db db1 []"
proof -
  have "published_by db s []" if "claim_pending_body env cfg now db = Inr (s, x)" for s x
    unfolding claim_pending_body_Inr(2) [OF that] published_by_def by (auto simp: set_outbox_def)
  with Transaction_cases [OF assms [unfolded claimPending_def]] published_by_refl show ?thesis by blast
qed


section \<open>A batch without database faults\<close>

definition acked :: "broker \<Rightarrow> TimeoutOutbox \<Rightarrow> bool" where
  "acked b e \<longleftrightarrow> br_publish b (to_ID e) = None \<and>
    (case br_confirm b (to_ID e) of Confirmation ack _ \<Rightarrow> ack | _ \<Rightarrow> False)"

lemma Publish_acked: "snd (snd (Publish b e d)) = None \<longleftrightarrow> acked b e"
  by (auto simp: Publish_def acked_def waitForPublisherConfirmation_def split: option.splits confirmation.splits)

text \<open>What is left of a claimed event: published up to the first event the broker does not acknowledge,
  which is marked failed and due again after the retry delay; the rest are free again.\<close>

fun batch_effect :: "outbox_site env \<Rightarrow> WorkerConfig \<Rightarrow> broker \<Rightarrow> TimeoutOutbox list \<Rightarrow> TimeoutOutbox \<Rightarrow> TimeoutOutbox" where
  "batch_effect env cfg b [] e = e"
| "batch_effect env cfg b (ev # events) e =
    (if acked b ev
     then if to_ID e = to_ID ev
          then (published_row (e_now env (EventPublished (to_ID ev))) e)\<lparr>to_UpdatedAt := e_now env (EventPublished (to_ID ev))\<rparr>
          else batch_effect env cfg b events e
     else if to_ID e = to_ID ev
          then (failed_row (e_now env (EventFailed (to_ID ev))) cfg (the (snd (snd (Publish b ev 0)))) e)
                 \<lparr>to_UpdatedAt := e_now env (EventFailed (to_ID ev))\<rparr>
     else if to_ID e \<in> to_ID ` set events
          then e\<lparr>to_LeaseOwner := [], to_LeaseUntil := None, to_UpdatedAt := e_now env LeasesRelease\<rparr>
     else e)"

lemma held_single:
  assumes "distinct (map to_ID rows)" and "e \<in> set rows" and "to_LeaseOwner e = wc_WorkerID cfg"
  shows "filter (event_held cfg db (to_ID e)) rows = [e]"
proof -
  have "filter (event_held cfg db (to_ID e)) rows =
      filter (\<lambda>x. ord_collate db (to_LeaseOwner x) = ord_collate db (wc_WorkerID cfg)) (filter (\<lambda>x. to_ID x = to_ID e) rows)"
    by (simp add: event_held_def [abs_def] conj_commute)
  with distinct_filter_single [OF assms(1,2)] assms(3) show ?thesis by simp
qed

lemma Publish_error_delay: "snd (snd (Publish b e d)) = snd (snd (Publish b e 0))"
  by (simp add: Publish_def split: option.splits)

lemma Publish_cases:
  obtains l where "acked b e" "Publish b e d = (publish_message e d, l, None)"
  | l err where "\<not> acked b e" "Publish b e d = (publish_message e d, l, Some err)" "err = the (snd (snd (Publish b e 0)))"
proof (cases "Publish b e d")
  case (fields m l r)
  have m: "m = publish_message e d" using Publish_simps(1) [of b e d] fields by simp
  show ?thesis
  proof (cases r)
    case None
    with fields m that(1) Publish_acked [of b e d] show ?thesis by simp
  next
    case (Some err)
    with fields Publish_acked [of b e d] have "\<not> acked b e" by simp
    moreover have "snd (snd (Publish b e d)) = Some err" using fields Some by simp
    then have "err = the (snd (snd (Publish b e 0)))" unfolding Publish_error_delay [of b e d] by simp
    ultimately show ?thesis using that(2) [of l err] fields Some m by simp
  qed
qed

lemma batch_effect_other: "to_ID e \<notin> to_ID ` set events \<Longrightarrow> batch_effect env cfg b events e = e"
  by (induction events) auto

text \<open>The worker holds every event of its batch.\<close>

definition holds_batch :: "WorkerConfig \<Rightarrow> TimeoutOutbox list \<Rightarrow> TimeoutOutbox list \<Rightarrow> bool" where
  "holds_batch cfg events rows \<longleftrightarrow> distinct (map to_ID rows) \<and> distinct (map to_ID events) \<and>
     (\<forall>ev\<in>set events. \<exists>e\<in>set rows. to_ID e = to_ID ev \<and> to_LeaseOwner e = wc_WorkerID cfg)"

lemma holds_batch_owner:
  assumes "holds_batch cfg events rows" and "ev \<in> set events" and "e \<in> set rows" and "to_ID e = to_ID ev"
  shows "to_LeaseOwner e = wc_WorkerID cfg"
proof -
  from assms(1,2) obtain x where "x \<in> set rows" "to_ID x = to_ID ev" "to_LeaseOwner x = wc_WorkerID cfg"
    unfolding holds_batch_def by blast
  moreover from this(1,2) assms(1,3,4) have "x = e"
    unfolding holds_batch_def by (auto intro: distinct_key_eq [of to_ID rows])
  ultimately show ?thesis by simp
qed

lemma holds_batch_first:
  assumes "holds_batch cfg (ev # events) rows"
  shows "length (filter (event_held cfg db (to_ID ev)) rows) = 1"
    and "map (set_outbox now (event_held cfg db (to_ID ev)) f) rows =
      map (\<lambda>e. if to_ID e = to_ID ev then (f e)\<lparr>to_UpdatedAt := now\<rparr> else e) rows"
proof -
  from assms obtain x where x: "x \<in> set rows" "to_ID x = to_ID ev" "to_LeaseOwner x = wc_WorkerID cfg"
    and d: "distinct (map to_ID rows)" unfolding holds_batch_def by auto
  from held_single [OF d x(1,3)] x(2) show "length (filter (event_held cfg db (to_ID ev)) rows) = 1" by simp
  have "event_held cfg db (to_ID ev) e \<longleftrightarrow> to_ID e = to_ID ev" if "e \<in> set rows" for e
    using holds_batch_owner [OF assms _ that, of ev] by (auto simp: event_held_def)
  then show "map (set_outbox now (event_held cfg db (to_ID ev)) f) rows =
      map (\<lambda>e. if to_ID e = to_ID ev then (f e)\<lparr>to_UpdatedAt := now\<rparr> else e) rows"
    by (simp add: set_outbox_def)
qed

lemma holds_batch_rest:
  assumes "holds_batch cfg (ev # events) rows" and "\<And>e. to_ID (f e) = to_ID e"
  shows "holds_batch cfg events (map (\<lambda>e. if to_ID e = to_ID ev then f e else e) rows)"
  unfolding holds_batch_def
proof (intro conjI ballI)
  have "map to_ID (map (\<lambda>e. if to_ID e = to_ID ev then f e else e) rows) = map to_ID rows"
    by (simp add: assms(2))
  with assms(1) show "distinct (map to_ID (map (\<lambda>e. if to_ID e = to_ID ev then f e else e) rows))"
    unfolding holds_batch_def by metis
  from assms(1) show "distinct (map to_ID events)" by (simp add: holds_batch_def)
next
  fix x assume x: "x \<in> set events"
  with assms(1) obtain e where e: "e \<in> set rows" "to_ID e = to_ID x" "to_LeaseOwner e = wc_WorkerID cfg"
    unfolding holds_batch_def by auto
  from x have "to_ID x \<in> to_ID ` set events" by simp
  then have "to_ID e \<noteq> to_ID ev" using assms(1) e(2) by (auto simp: holds_batch_def simp del: image_eqI)
  with e show "\<exists>e\<in>set (map (\<lambda>e. if to_ID e = to_ID ev then f e else e) rows). to_ID e = to_ID x \<and> to_LeaseOwner e = wc_WorkerID cfg"
    by (intro bexI [of _ e]) (auto simp: image_iff)
qed

lemma mark_calm:
  assumes "fault_free env" and "holds_batch cfg (ev # events) (order_timeout_outbox_v2 db)"
  shows "markOutboxPublished env cfg (to_ID ev) db =
      (let t = e_now env (EventPublished (to_ID ev)) in (db\<lparr>order_timeout_outbox_v2 := map (\<lambda>e. if to_ID e = to_ID ev
         then (published_row t e)\<lparr>to_UpdatedAt := t\<rparr> else e) (order_timeout_outbox_v2 db)\<rparr>, None))"
    and "markOutboxFailure env cfg (to_ID ev) err db =
      (let t = e_now env (EventFailed (to_ID ev)) in (db\<lparr>order_timeout_outbox_v2 := map (\<lambda>e. if to_ID e = to_ID ev
         then (failed_row t cfg err e)\<lparr>to_UpdatedAt := t\<rparr> else e) (order_timeout_outbox_v2 db)\<rparr>, None))"
  using holds_batch_first [OF assms(2)]
  by (simp_all add: markOutboxPublished_def markOutboxFailure_def Let_def autocommit_calm [OF assms(1)])

lemma release_calm:
  assumes "fault_free env" and "holds_batch cfg events (order_timeout_outbox_v2 db)"
  shows "releaseClaimedLeases env cfg events db = (db\<lparr>order_timeout_outbox_v2 := map (\<lambda>e. if to_ID e \<in> to_ID ` set events
     then e\<lparr>to_LeaseOwner := [], to_LeaseUntil := None, to_UpdatedAt := e_now env LeasesRelease\<rparr> else e)
     (order_timeout_outbox_v2 db)\<rparr>, None)"
proof (cases "events = []")
  case False
  have "(\<exists>x\<in>set events. event_held cfg db (to_ID x) e) \<longleftrightarrow> to_ID e \<in> to_ID ` set events"
    if "e \<in> set (order_timeout_outbox_v2 db)" for e
    using holds_batch_owner [OF assms(2) _ that] by (auto simp: event_held_def)
  then have "map (set_outbox t (\<lambda>e. \<exists>x\<in>set events. event_held cfg db (to_ID x) e) f) (order_timeout_outbox_v2 db) =
    map (\<lambda>e. if to_ID e \<in> to_ID ` set events then (f e)\<lparr>to_UpdatedAt := t\<rparr> else e) (order_timeout_outbox_v2 db)" for t f
    by (simp add: set_outbox_def)
  with False show ?thesis by (simp add: releaseClaimedLeases_def autocommit_calm [OF assms(1)])
qed (simp add: releaseClaimedLeases_def)

abbreviation sent_message :: "broker \<Rightarrow> (int \<Rightarrow> time) \<Rightarrow> TimeoutOutbox \<Rightarrow> message \<times> bool" where
  "sent_message b clock e \<equiv> (publish_message e (to_DueAt e - clock (to_ID e)), acked b e)"

lemma publish_loop_calm:
  assumes "fault_free env" and "holds_batch cfg events (order_timeout_outbox_v2 db)"
  shows "\<exists>r. publish_loop env cfg b clock events db =
      (db\<lparr>order_timeout_outbox_v2 := map (batch_effect env cfg b events) (order_timeout_outbox_v2 db)\<rparr>,
       map (sent_message b clock) (takeWhile (acked b) events @ take 1 (dropWhile (acked b) events)), r) \<and>
    (r = None \<longleftrightarrow> list_all (acked b) events)"
  using assms(2)
proof (induction events arbitrary: db)
  case (Cons ev events)
  show ?case
  proof (cases rule: Publish_cases [of b ev "to_DueAt ev - clock (to_ID ev)"])
    case (1 l)
    let ?t = "e_now env (EventPublished (to_ID ev))"
    let ?f = "\<lambda>e. (published_row ?t e)\<lparr>to_UpdatedAt := ?t\<rparr>"
    let ?db1 = "db\<lparr>order_timeout_outbox_v2 := map (\<lambda>e. if to_ID e = to_ID ev then ?f e else e) (order_timeout_outbox_v2 db)\<rparr>"
    have f: "to_ID (?f e) = to_ID e" for e by (simp add: published_row_def)
    have "holds_batch cfg events (order_timeout_outbox_v2 ?db1)"
      using holds_batch_rest [OF Cons.prems f] by simp
    then obtain r where l: "publish_loop env cfg b clock events ?db1 =
      (?db1\<lparr>order_timeout_outbox_v2 := map (batch_effect env cfg b events) (order_timeout_outbox_v2 ?db1)\<rparr>,
       map (sent_message b clock) (takeWhile (acked b) events @ take 1 (dropWhile (acked b) events)), r)"
      and r: "r = None \<longleftrightarrow> list_all (acked b) events" using Cons.IH by blast
    have "to_ID ev \<notin> to_ID ` set events" using Cons.prems by (simp add: holds_batch_def)
    then have "batch_effect env cfg b events (if to_ID e = to_ID ev then ?f e else e) = batch_effect env cfg b (ev # events) e" for e
      using 1(1) batch_effect_other [of "?f e" events env cfg b] f [of e] by simp
    then have "map (batch_effect env cfg b events) (order_timeout_outbox_v2 ?db1) =
        map (batch_effect env cfg b (ev # events)) (order_timeout_outbox_v2 db)" by simp
    with l r 1 mark_calm(1) [OF assms(1) Cons.prems] show ?thesis by (intro exI [of _ r]) (simp add: Let_def)
  next
    case (2 l err)
    let ?t = "e_now env (EventFailed (to_ID ev))"
    let ?f = "\<lambda>e. (failed_row ?t cfg err e)\<lparr>to_UpdatedAt := ?t\<rparr>"
    let ?db1 = "db\<lparr>order_timeout_outbox_v2 := map (\<lambda>e. if to_ID e = to_ID ev then ?f e else e) (order_timeout_outbox_v2 db)\<rparr>"
    have f: "to_ID (?f e) = to_ID e" for e by (simp add: failed_row_def)
    have h: "holds_batch cfg events (order_timeout_outbox_v2 ?db1)"
      using holds_batch_rest [OF Cons.prems f] by simp
    have "to_ID ev \<notin> to_ID ` set events" using Cons.prems by (simp add: holds_batch_def)
    then have "map (\<lambda>e. if to_ID e \<in> to_ID ` set events
        then e\<lparr>to_LeaseOwner := [], to_LeaseUntil := None, to_UpdatedAt := e_now env LeasesRelease\<rparr> else e)
        (order_timeout_outbox_v2 ?db1) = map (batch_effect env cfg b (ev # events)) (order_timeout_outbox_v2 db)"
      using 2(1,3) f by simp
    with 2 mark_calm(2) [OF assms(1) Cons.prems, of err] release_calm [OF assms(1) h] show ?thesis by (simp add: Let_def)
  qed
qed (simp add: map_idI)

lemma claimed_held:
  assumes "claimPending env cfg now db = (db1, Inr events)" and "distinct (map to_ID (order_timeout_outbox_v2 db))"
  shows "holds_batch cfg events (order_timeout_outbox_v2 db1)"
proof -
  note c = claimPending_Inr [OF assms(1)]
  have ids: "map to_ID (order_timeout_outbox_v2 db1) = map to_ID (order_timeout_outbox_v2 db)"
    unfolding c(2) by (simp add: set_outbox_def)
  have "distinct (map to_ID events)" unfolding c(1) take_map [symmetric]
    using assms(2) by (intro distinct_take) (simp add: distinct_map_filter)
  moreover have "\<exists>e\<in>set (order_timeout_outbox_v2 db1). to_ID e = to_ID ev \<and> to_LeaseOwner e = wc_WorkerID cfg"
    if ev: "ev \<in> set events" for ev
  proof -
    from ev c(1) have "ev \<in> set (order_timeout_outbox_v2 db)" by (auto dest: batch_claimable)
    then have "to_ID ev \<in> set (map to_ID (order_timeout_outbox_v2 db1))" unfolding ids by simp
    then obtain e where "e \<in> set (order_timeout_outbox_v2 db1)" "to_ID e = to_ID ev" by auto
    with claimed_leased(2) [OF assms, of e] ev show ?thesis by auto
  qed
  ultimately show ?thesis unfolding holds_batch_def using ids assms(2) by metis
qed

text \<open>Claiming and then acting leaves the same row as acting on it directly.\<close>

lemma batch_effect_leased:
  assumes "to_ID e \<in> to_ID ` set events"
  shows "batch_effect env cfg b events (e\<lparr>to_LeaseOwner := w, to_LeaseUntil := u, to_UpdatedAt := t\<rparr>) = batch_effect env cfg b events e"
  using assms by (induction events) (auto simp: published_row_def failed_row_def)

lemma claimPending_calm:
  assumes "fault_free env" and "distinct (map to_ID (order_timeout_outbox_v2 db))"
  shows "\<exists>db1. claimPending env cfg now db =
    (db1, Inr (take (nat (wc_BatchSize cfg)) (filter (event_claimable now) (order_timeout_outbox_v2 db))))"
proof -
  let ?batch = "take (nat (wc_BatchSize cfg)) (filter (event_claimable now) (order_timeout_outbox_v2 db))"
  let ?p = "\<lambda>e. to_ID e \<in> to_ID ` set ?batch \<and> event_free now e"
  have "filter ?p (order_timeout_outbox_v2 db) = filter (\<lambda>e. e \<in> set ?batch) (order_timeout_outbox_v2 db)"
  proof (rule filter_cong)
    fix e assume e: "e \<in> set (order_timeout_outbox_v2 db)"
    show "?p e \<longleftrightarrow> e \<in> set ?batch"
    proof
      assume "?p e"
      then obtain x where x: "x \<in> set ?batch" "to_ID e = to_ID x" by (auto simp only: image_iff)
      then have "x \<in> set (order_timeout_outbox_v2 db)" by (blast dest: batch_claimable)
      with distinct_key_eq [OF assms(2) e this x(2)] x(1) show "e \<in> set ?batch" by simp
    next
      assume "e \<in> set ?batch"
      with batch_claimable [OF this] show "?p e" by (simp only: event_claimable_def image_eqI simp_thms)
    qed
  qed simp
  moreover have "length (filter (\<lambda>e. e \<in> set ?batch) (order_timeout_outbox_v2 db)) = length ?batch"
  proof -
    have "distinct (order_timeout_outbox_v2 db)" using assms(2) by (simp add: distinct_map)
    then have "length (filter (\<lambda>e. e \<in> set ?batch) (order_timeout_outbox_v2 db)) =
        card (set ?batch \<inter> set (order_timeout_outbox_v2 db))"
      by (simp add: distinct_card [symmetric] Int_commute Collect_conj_eq [symmetric]) (metis Int_def)
    also have "set ?batch \<inter> set (order_timeout_outbox_v2 db) = set ?batch" by (auto dest: batch_claimable)
    also have "card (set ?batch) = length ?batch"
      using \<open>distinct (order_timeout_outbox_v2 db)\<close> by (intro distinct_card) simp
    finally show ?thesis .
  qed
  ultimately have n: "length (filter ?p (order_timeout_outbox_v2 db)) = length ?batch" by simp
  show ?thesis
    unfolding claimPending_def Transaction_def claim_pending_body_def update_outbox_eq set_map
    using assms(1) n by (cases "?batch = []") simp_all
qed

lemma publishPending_calm:
  assumes "fault_free env" and "distinct (map to_ID (order_timeout_outbox_v2 db))"
    and batch_def: "batch = take (nat (wc_BatchSize cfg)) (filter (event_claimable now) (order_timeout_outbox_v2 db))"
  shows "\<exists>r. publishPending env cfg b now clock db =
      (db\<lparr>order_timeout_outbox_v2 := map (batch_effect env cfg b batch) (order_timeout_outbox_v2 db)\<rparr>,
       map (sent_message b clock) (takeWhile (acked b) batch @ take 1 (dropWhile (acked b) batch)), r) \<and>
    (r = None \<longleftrightarrow> list_all (acked b) batch)"
proof -
  obtain db1 where c: "claimPending env cfg now db = (db1, Inr batch)"
    using claimPending_calm [OF assms(1,2)] unfolding batch_def by blast
  from publish_loop_calm [OF assms(1) claimed_held [OF c assms(2)]] obtain r where
    l: "publish_loop env cfg b clock batch db1 =
      (db1\<lparr>order_timeout_outbox_v2 := map (batch_effect env cfg b batch) (order_timeout_outbox_v2 db1)\<rparr>,
       map (sent_message b clock) (takeWhile (acked b) batch @ take 1 (dropWhile (acked b) batch)), r)"
    and r: "r = None \<longleftrightarrow> list_all (acked b) batch" by blast
  have "batch_effect env cfg b batch (set_outbox t (\<lambda>e. to_ID e \<in> to_ID ` set batch \<and> q e)
      (\<lambda>e. e\<lparr>to_LeaseOwner := w, to_LeaseUntil := u\<rparr>) e) = batch_effect env cfg b batch e" for t q w u e
    by (simp add: set_outbox_def batch_effect_leased)
  then have "db1\<lparr>order_timeout_outbox_v2 := map (batch_effect env cfg b batch) (order_timeout_outbox_v2 db1)\<rparr> =
      db\<lparr>order_timeout_outbox_v2 := map (batch_effect env cfg b batch) (order_timeout_outbox_v2 db)\<rparr>"
    unfolding claimPending_Inr(2) [OF c, folded batch_def] by simp
  with c l r show ?thesis by (simp add: publishPending_def)
qed

lemma batch_effect_free:
  "to_ID (batch_effect env cfg b events e) = to_ID e"
  "to_ID e \<in> to_ID ` set events \<Longrightarrow> to_LeaseUntil (batch_effect env cfg b events e) = None"
  by (induction events) (auto simp: published_row_def failed_row_def)

text \<open>C24. When the database does not fail, a batch of the timeout worker publishes the first due and free
  events in order up to the first one the broker does not acknowledge, and leaves no lease
  behind: the acknowledged events are published, the one that failed is marked failed and due
  again after the retry delay, the others are free to be claimed again with their status
  unchanged, and no other row changes. It reports no error exactly if all were acknowledged.\<close>

theorem publish_batch:
  assumes "fault_free env" and "distinct (map to_ID (order_timeout_outbox_v2 db))"
    and "publishPending env cfg b now clock db = (db', sent, r)"
    and "batch = take (nat (wc_BatchSize cfg)) (filter (event_claimable now) (order_timeout_outbox_v2 db))"
  shows "sent = map (\<lambda>e. (publish_message e (to_DueAt e - clock (to_ID e)), acked b e))
      (takeWhile (acked b) batch @ take 1 (dropWhile (acked b) batch)) \<and>
    (r = None \<longleftrightarrow> list_all (acked b) batch) \<and>
    db' = db\<lparr>order_timeout_outbox_v2 := map (batch_effect env cfg b batch) (order_timeout_outbox_v2 db)\<rparr> \<and>
    (\<forall>e\<in>set (order_timeout_outbox_v2 db'). to_ID e \<in> to_ID ` set batch \<longrightarrow> to_LeaseUntil e = None)"
  using publishPending_calm [OF assms(1,2,4), of b clock] assms(3)
  by (auto simp: batch_effect_free)

section \<open>Deliveries\<close>

text \<open>A delivery is settled once. It is dropped, without any effect, exactly if its body is not a
  valid order id. It is acknowledged only if the order service answered the cancellation with
  success and the event of the order was marked completed; in every other case the message
  goes back to the queue.\<close>

theorem delivery_settlement:
  assumes "handleDelivery env TimeoutCancel accepted payload s = (s', st, counted)"
  shows "(st = RejectedDropped \<longleftrightarrow> (\<forall>oid. payload = Some oid \<longrightarrow> oid \<le> 0)) \<and>
    (st = RejectedDropped \<longrightarrow> s' = s) \<and>
    (st = Acked \<longrightarrow> (\<exists>oid>0. payload = Some oid \<and> snd (TimeoutCancel oid s) = None \<and>
       (\<forall>e\<in>set (order_timeout_outbox_v2 (fst s')). to_OrderID e = oid \<longrightarrow> to_Status e = OutboxCompleted)))"
proof (cases "\<forall>oid. payload = Some oid \<longrightarrow> oid \<le> 0")
  case True
  with assms show ?thesis by (auto simp: handleDelivery_def split: option.splits)
next
  case False
  then obtain oid where oid: "payload = Some oid" "0 < oid" by auto
  obtain db i r where t: "TimeoutCancel oid s = ((db, i), r)" by (cases "TimeoutCancel oid s") auto
  let ?u = "autocommit env DeliveryDone (update_outbox (e_now env DeliveryDone) (\<lambda>e. to_OrderID e = oid)
    (\<lambda>e. e\<lparr>to_Status := OutboxCompleted, to_LastError := NoError, to_LeaseOwner := [], to_LeaseUntil := None\<rparr>)) db"
  obtain db1 x where u: "?u = (db1, x)" by (rule prod.exhaust)
  show ?thesis
  proof (cases "r = None \<and> \<not> isl x")
    case True
    then obtain n where n: "x = Inr n" by (cases x) auto
    from True have r: "r = None" by simp
    have st: "st = Acked" "fst s' = db1"
      using assms unfolding handleDelivery_def oid(1) using oid(2) by (auto simp: t u r n)
    have "\<forall>e\<in>set (order_timeout_outbox_v2 db1). to_OrderID e = oid \<longrightarrow> to_Status e = OutboxCompleted"
      unfolding autocommit_outbox_Inr [OF u [unfolded n]] set_map ball_simps
      by (intro ballI) (simp add: set_outbox_def)
    with st oid t r False show ?thesis by simp
  next
    case other: False
    have "st = Requeued"
      using assms other unfolding handleDelivery_def oid(1) using oid(2)
      by (cases r; cases x) (simp_all add: t u)
    with False show ?thesis by simp
  qed
qed

section \<open>A small outbox\<close>

definition demo_event :: "int \<Rightarrow> TimeoutOutbox" where
  "demo_event n = \<lparr>to_ID = n, to_OrderID = n + 100, to_DueAt = 5000000000, to_Status = OutboxPending, to_Attempts = 0,
     to_LastError = NoError, to_LeaseOwner = [], to_LeaseUntil = None, to_NextAttemptAt = 0, to_CreatedAt = 0, to_UpdatedAt = 0\<rparr>"

definition demo_outbox :: ordering_db where
  "demo_outbox = \<lparr>orders_v2 = [], order_items_v2 = [], order_timeout_outbox_v2 = map demo_event [1, 2, 3],
     order_reconciliation_tasks = [], next_order = 1, next_order_item = 1, next_outbox = 4, next_task = 1, ord_collate = id\<rparr>"

definition demo_worker :: "string \<Rightarrow> WorkerConfig" where
  "demo_worker wid = the (NewWorker ''uuid'' \<lparr>wc_URL = ''amqp'', wc_ReconnectDelay = 0, wc_PollInterval = 0, wc_RetryDelay = 0,
     wc_BatchSize = 2, wc_Prefetch = 0, wc_OrderServiceURL = ''http://order'', wc_InternalToken = ''t'', wc_CallTimeout = 0,
     wc_WorkerID = wid, wc_LeaseDuration = 30, wc_PublishConfirmTimeout = 0\<rparr>)"

text \<open>A broker that acknowledges the first event only.\<close>

definition demo_broker :: broker where
  "demo_broker = \<lparr>br_publish = (\<lambda>_. None), br_confirm = (\<lambda>n. Confirmation (n = 1) n)\<rparr>"

lemma demo_outbox_distinct: "distinct (map to_ID (order_timeout_outbox_v2 demo_outbox))"
  by code_simp


lemma demo_publish_rows:
  "map (\<lambda>e. (to_OrderID e, to_Status e)) (order_timeout_outbox_v2 (fst (publishPending calm_env (demo_worker ''a'') demo_broker 0 (\<lambda>_. 0) demo_outbox))) =
     [(101, OutboxPublished), (102, OutboxFailed), (103, OutboxPending)]"
proof -
  let ?batch = "take (nat (wc_BatchSize (demo_worker ''a''))) (filter (event_claimable 0) (order_timeout_outbox_v2 demo_outbox))"
  have "map (\<lambda>e. (to_OrderID e, to_Status e)) (map (batch_effect calm_env (demo_worker ''a'') demo_broker ?batch)
      (order_timeout_outbox_v2 demo_outbox)) = [(101, OutboxPublished), (102, OutboxFailed), (103, OutboxPending)]" by code_simp
  with publishPending_calm [OF fault_free_calm demo_outbox_distinct refl, where cfg = "demo_worker ''a''" and b = demo_broker and clock = "\<lambda>_. 0" and now = 0]
  show ?thesis by auto
qed


theorem publish_batch_witness:
  "map to_Status (order_timeout_outbox_v2 (fst (publishPending calm_env (demo_worker ''a'') demo_broker 0 (\<lambda>_. 0) demo_outbox))) =
     [OutboxPublished, OutboxFailed, OutboxPending]"
proof -
  let ?p = "publishPending calm_env (demo_worker ''a'') demo_broker 0 (\<lambda>_. 0) demo_outbox"
  let ?batch = "take (nat (wc_BatchSize (demo_worker ''a''))) (filter (event_claimable 0) (order_timeout_outbox_v2 demo_outbox))"
  from publish_batch [of calm_env demo_outbox "demo_worker ''a''" demo_broker 0 "\<lambda>_. 0" "fst ?p" "fst (snd ?p)" "snd (snd ?p)" ?batch]
  have "order_timeout_outbox_v2 (fst ?p) =
      map (batch_effect calm_env (demo_worker ''a'') demo_broker ?batch) (order_timeout_outbox_v2 demo_outbox)"
    using demo_outbox_distinct by simp
  moreover have "map to_Status (map (batch_effect calm_env (demo_worker ''a'') demo_broker ?batch) (order_timeout_outbox_v2 demo_outbox)) =
    [OutboxPublished, OutboxFailed, OutboxPending]" by code_simp
  ultimately show ?thesis by simp
qed

theorem delivery_settlement_witness:
  "snd (handleDelivery calm_env (\<lambda>oid s. (s, None)) (\<lambda>_. True) (Some 101) (demo_outbox, ())) =
     (Acked, [''received'', ''acknowledged'']) \<and>
   filter (\<lambda>e. to_OrderID e = 101 \<and> to_Status e \<noteq> OutboxCompleted) (order_timeout_outbox_v2
     (fst (fst (handleDelivery calm_env (\<lambda>oid s. (s, None)) (\<lambda>_. True) (Some 101) (demo_outbox, ()))))) = []"
proof
  let ?d = "handleDelivery calm_env (\<lambda>oid s. (s, None)) (\<lambda>_. True) (Some 101) (demo_outbox, ())"
  show s: "snd ?d = (Acked, [''received'', ''acknowledged''])" by code_simp
  have "?d = (fst ?d, Acked, [''received'', ''acknowledged''])" unfolding s [symmetric] by (rule prod.collapse [symmetric])
  from delivery_settlement [OF this]
  show "filter (\<lambda>e. to_OrderID e = 101 \<and> to_Status e \<noteq> OutboxCompleted) (order_timeout_outbox_v2 (fst (fst ?d))) = []"
    by (auto simp: filter_empty_conv)
qed

end
