(* ===== verification/Reconciliation_Correct.thy ===== *)
theory Reconciliation_Correct
  imports Reconciliation
begin

text \<open>
  The properties of the reconciliation worker: what processing a task does, branch by branch, and
  that the dry run predicts it; that leases exclude each other; and the bounds of its delays.
\<close>

section \<open>Statements without faults\<close>

lemma fold_trigger_none:
  "(\<And>r. r \<in> set rs \<Longrightarrow> o_Status (g r) \<noteq> OrderStatusReconciliationRequired) \<Longrightarrow>
    fold (\<lambda>r. reconciliation_trigger now r (g r)) rs db = db"
  by (induction rs arbitrary: db) (simp_all add: reconciliation_trigger_def)

text \<open>The statement that settles an order does not fire the trigger.\<close>

lemma update_orders_quiet:
  assumes "st \<noteq> OrderStatusReconciliationRequired"
  shows "update_orders now p (\<lambda>r. r\<lparr>o_Status := st\<rparr>) db =
    Inr (db\<lparr>orders_v2 := map (\<lambda>r. if p r then r\<lparr>o_Status := st, o_UpdatedAt := now\<rparr> else r) (orders_v2 db)\<rparr>,
      length (filter p (orders_v2 db)))"
  unfolding update_orders_def Let_def by (subst fold_trigger_none) (simp_all add: assms)

abbreviation task_row :: "int \<Rightarrow> ordering_db \<Rightarrow> ReconciliationTask option" where
  "task_row tid db \<equiv> lookup_by rt_ID tid (order_reconciliation_tasks db)"

text \<open>A claimed task: its row is leased to this worker.\<close>

definition leased :: "ReconciliationWorkerConfig \<Rightarrow> ReconciliationTask \<Rightarrow> ordering_db \<Rightarrow> bool" where
  "leased cfg task db \<longleftrightarrow> distinct (map rt_ID (order_reconciliation_tasks db)) \<and>
    (\<exists>t\<in>set (order_reconciliation_tasks db). rt_ID t = rt_ID task \<and> rt_LeaseOwner t = rw_WorkerID cfg)"

lemma leased_rows:
  assumes "leased cfg task db"
  shows "length (filter (holds cfg db task) (order_reconciliation_tasks db)) = 1"
    and "map (\<lambda>t. if holds cfg db task t then f t else t) (order_reconciliation_tasks db) =
      map (\<lambda>t. if rt_ID t = rt_ID task then f t else t) (order_reconciliation_tasks db)"
proof -
  from assms obtain t where t: "t \<in> set (order_reconciliation_tasks db)" "rt_ID t = rt_ID task"
    "rt_LeaseOwner t = rw_WorkerID cfg" and d: "distinct (map rt_ID (order_reconciliation_tasks db))"
    unfolding leased_def by blast
  have h: "holds cfg db task x \<longleftrightarrow> rt_ID x = rt_ID task" if "x \<in> set (order_reconciliation_tasks db)" for x
    using distinct_key_eq [OF d that t(1)] t by (auto simp: holds_def)
  then have "filter (holds cfg db task) (order_reconciliation_tasks db) =
      filter (\<lambda>x. rt_ID x = rt_ID t) (order_reconciliation_tasks db)" using t(2) by (intro filter_cong) auto
  then show "length (filter (holds cfg db task) (order_reconciliation_tasks db)) = 1"
    using distinct_filter_single [OF d t(1)] by simp
  show "map (\<lambda>t. if holds cfg db task t then f t else t) (order_reconciliation_tasks db) =
      map (\<lambda>t. if rt_ID t = rt_ID task then f t else t) (order_reconciliation_tasks db)"
    using h by simp
qed

text \<open>Closing the task with a status.\<close>

definition task_closed :: "ReconciliationTask \<Rightarrow> task_status \<Rightarrow> task_error \<Rightarrow> time \<Rightarrow> time \<Rightarrow> ordering_db \<Rightarrow> ordering_db" where
  "task_closed task st err next now db = db\<lparr>order_reconciliation_tasks :=
     map (\<lambda>t. if rt_ID t = rt_ID task then close_row st err next now t else t) (order_reconciliation_tasks db)\<rparr>"

lemma close_tasks:
  assumes "leased cfg task db"
  shows "update_tasks (holds cfg db task) (close_row st err next now) db = Inr (task_closed task st err next now db, 1)"
  using leased_rows [OF assms] by (simp add: update_tasks_def task_closed_def)

lemma markFailed_calm:
  "fault_free env \<Longrightarrow> leased cfg task db \<Longrightarrow> markFailed env cfg now task cause db =
    (task_closed task TaskFailed cause (now + retryDelay cfg (rt_Attempts task)) now db, [cause])"
  by (simp add: markFailed_def autocommit_def Transaction_def close_tasks)

lemma markUnresolved_calm:
  "fault_free env \<Longrightarrow> leased cfg task db \<Longrightarrow> markUnresolved env cfg now task rsn db =
    (task_closed task TaskUnresolved rsn now now db, [])"
  by (simp add: markUnresolved_def autocommit_def Transaction_def close_tasks)

text \<open>Order and task settled together.\<close>

definition order_settled :: "ReconciliationTask \<Rightarrow> order_status \<Rightarrow> time \<Rightarrow> ordering_db \<Rightarrow> ordering_db" where
  "order_settled task target now db = db\<lparr>orders_v2 :=
     map (\<lambda>r. if o_ID r = rt_OrderID task \<and> o_Status r = OrderStatusReconciliationRequired
              then r\<lparr>o_Status := target, o_UpdatedAt := now\<rparr> else r) (orders_v2 db)\<rparr>"

definition outbox_settled :: "ReconciliationTask \<Rightarrow> bool \<Rightarrow> time \<Rightarrow> ordering_db \<Rightarrow> ordering_db" where
  "outbox_settled task closes now db = (if closes then db\<lparr>order_timeout_outbox_v2 :=
     map (\<lambda>e. if open_outbox (rt_OrderID task) e then e\<lparr>to_Status := OutboxCompleted, to_UpdatedAt := now\<rparr> else e)
       (order_timeout_outbox_v2 db)\<rparr> else db)"

lemma settled_leased [simp]:
  "leased cfg task (outbox_settled task2 closes now (order_settled task3 target now2 db)) = leased cfg task db"
  by (simp add: leased_def outbox_settled_def order_settled_def)

lemma completeTask_calm:
  assumes "fault_free env" and "leased cfg task db" and "distinct (map o_ID (orders_v2 db))"
    and "order_row (rt_OrderID task) db = Some r" and "o_Status r \<in> {OrderStatusReconciliationRequired, target}"
    and "target \<noteq> OrderStatusReconciliationRequired"
  shows "completeTask env cfg now task target closes db =
    (task_closed task TaskCompleted NoTaskError now now
      (outbox_settled task closes now (order_settled task target now db)), Inr ())"
proof -
  have len: "length (filter (\<lambda>r. o_ID r = rt_OrderID task \<and> p r) (orders_v2 db)) = (if p r then 1 else 0)" for p
    using length_filter_key [OF assms(3), of "rt_OrderID task" p] assms(4) by (simp add: order_row_def)
  let ?db1 = "order_settled task target now db"
  have u: "update_orders now (\<lambda>r. o_ID r = rt_OrderID task \<and> o_Status r = OrderStatusReconciliationRequired)
      (\<lambda>r. r\<lparr>o_Status := target\<rparr>) db = Inr (?db1, if o_Status r = OrderStatusReconciliationRequired then 1 else 0)"
    unfolding update_orders_quiet [OF assms(6)] order_settled_def len by simp
  have c: "length (filter (\<lambda>r. o_ID r = rt_OrderID task \<and> o_Status r = target) (orders_v2 ?db1)) = 1"
    if "o_Status r \<noteq> OrderStatusReconciliationRequired"
  proof -
    have "orders_v2 ?db1 = orders_v2 db"
      unfolding order_settled_def
      using len [of "\<lambda>r. o_Status r = OrderStatusReconciliationRequired"] that
      by (auto simp: filter_empty_conv intro!: map_idI)
    with len [of "\<lambda>r. o_Status r = target"] assms(5) that show ?thesis by simp
  qed
  have "(if closes then stmt env RecOutbox (update_outbox now (open_outbox (rt_OrderID task))
      (\<lambda>e. e\<lparr>to_Status := OutboxCompleted\<rparr>) ?db1) else Inr (?db1, 0)) =
      Inr (outbox_settled task closes now ?db1, if closes then length (filter (open_outbox (rt_OrderID task)) (order_timeout_outbox_v2 ?db1)) else 0)"
    using assms(1) by (simp add: update_outbox_def outbox_settled_def)
  with u c assms(1) close_tasks [of cfg task "outbox_settled task closes now ?db1"] assms(2)
  show ?thesis unfolding completeTask_def Transaction_def complete_body_def by simp
qed

lemma task_closed_row:
  assumes "t \<in> set (order_reconciliation_tasks db)" and "rt_ID t = rt_ID task"
    and "distinct (map rt_ID (order_reconciliation_tasks db))"
  shows "task_row (rt_ID task) (task_closed task st err next now db) = Some (close_row st err next now t)"
proof -
  have "task_row (rt_ID task) db = Some t"
    using lookup_by_distinct [OF assms(3,1)] assms(2) by simp
  then show ?thesis
    unfolding task_closed_def using assms(2) by (simp add: lookup_by_update close_row_def)
qed

section \<open>Processing a task\<close>

text \<open>The row that the dry run reads for a task.\<close>

definition dry_row :: "ReconciliationTask \<Rightarrow> ordering_db \<Rightarrow> reconciliationDryRunRow" where
  "dry_row t db = \<lparr>drr_TaskID = rt_ID t, drr_OrderID = rt_OrderID t, drr_Action = rt_Action t, drr_TaskStatus = rt_Status t,
     drr_OrderStatus = map_option o_Status (order_row (rt_OrderID t) db)\<rparr>"

lemma rec_target_not_RR: "rec_target a = Some st \<Longrightarrow> st \<noteq> OrderStatusReconciliationRequired"
  by (auto simp: rec_target_def split: rec_action.splits)

lemma target_eq: "reconciliationTargetState a = rec_target a"
  by (simp add: reconciliationTargetState_def rec_target_def split: rec_action.splits)

lemma plan_cases:
  "di_Classification (planReconciliation (dry_row task db)) =
    (case rec_target (rt_Action task) of
       None \<Rightarrow> PlanUnsupported
     | Some target \<Rightarrow>
         (case order_row (rt_OrderID task) db of
            None \<Rightarrow> PlanOrderMissing
          | Some r \<Rightarrow> if o_Status r = OrderStatusReconciliationRequired then PlanReady
              else if o_Status r = target then PlanAlreadyFinal else PlanStateMismatch))"
  by (auto simp: planReconciliation_def dry_row_def target_eq Let_def split: option.splits)

text \<open>What processing does to a task without database faults.\<close>

lemma processTask_calm:
  assumes "fault_free env" and "leased cfg task db" and "distinct (map o_ID (orders_v2 db))"
  shows "processTask env cfg api now task db i =
    (case (rec_target (rt_Action task), order_row (rt_OrderID task) db) of
       (_, None) \<Rightarrow> (task_closed task TaskUnresolved TaskOrderNotFound now now db, i, [])
     | (None, Some r) \<Rightarrow> (task_closed task TaskUnresolved (UnsupportedAction (rt_Action task)) now now db, i, [])
     | (Some target, Some r) \<Rightarrow>
         let settled = task_closed task TaskCompleted NoTaskError now now
               (outbox_settled task (rec_outbox (rt_Action task)) now (order_settled task target now db))
         in if o_Status r = target then (settled, i, [])
            else if o_Status r \<noteq> OrderStatusReconciliationRequired
              then (task_closed task TaskUnresolved (StateMismatch (rt_Action task) (o_Status r)) now now db, i, [])
            else (case rec_call api (rt_Action task) (o_ReservationID r) i of
                    (i', Inr _) \<Rightarrow> (settled, i', [])
                  | (i', Inl e) \<Rightarrow> (task_closed task TaskFailed (InventoryCall e)
                      (now + retryDelay cfg (rt_Attempts task)) now db, i', [InventoryCall e])))"
proof (cases "order_row (rt_OrderID task) db")
  case None
  with assms(1,2) show ?thesis by (simp add: processTask_def markUnresolved_calm split: option.splits)
next
  case row: (Some r)
  show ?thesis
  proof (cases "rec_target (rt_Action task)")
    case None
    with row assms(1,2) show ?thesis by (simp add: processTask_def markUnresolved_calm)
  next
    case target: (Some target)
    note c = completeTask_calm [OF assms row _ rec_target_not_RR [OF target], of now "rec_outbox (rt_Action task)"]
    obtain i' v where v: "rec_call api (rt_Action task) (o_ReservationID r) i = (i', v)" by fastforce
    from assms(1,2) row target c v rec_target_not_RR [OF target] show ?thesis
      by (cases v) (simp_all add: processTask_def run_action_def Let_def markUnresolved_calm markFailed_calm is_mismatch_def)
  qed
qed

text \<open>What is left of a closed task and of a settled order.\<close>

lemma closed_status:
  assumes "leased cfg task db" and "order_reconciliation_tasks s = order_reconciliation_tasks db"
    and "task_row (rt_ID task) (task_closed task st err nx now s) = Some t"
  shows "rt_Status t = st \<and> rt_NextAttemptAt t = nx"
proof -
  from assms(1) obtain t0 where "t0 \<in> set (order_reconciliation_tasks db)" "rt_ID t0 = rt_ID task"
    "distinct (map rt_ID (order_reconciliation_tasks db))" unfolding leased_def by blast
  with assms(2,3) task_closed_row [of t0 s task st err nx now] show ?thesis by (auto simp: close_row_def)
qed

lemma closed_orders: "orders_v2 (task_closed task st err nx now s) = orders_v2 s"
  by (simp add: task_closed_def)

lemma settled_tasks:
  "order_reconciliation_tasks (outbox_settled task b now (order_settled task target now db)) = order_reconciliation_tasks db"
  by (simp add: outbox_settled_def order_settled_def)

lemma settled_row:
  "order_row (rt_OrderID task) (task_closed task st err nx now (outbox_settled task b now (order_settled task target now db))) =
    map_option (\<lambda>r. if o_Status r = OrderStatusReconciliationRequired then r\<lparr>o_Status := target, o_UpdatedAt := now\<rparr> else r)
      (order_row (rt_OrderID task) db)"
  unfolding order_row_def closed_orders outbox_settled_def order_settled_def using lookup_by_Some_D
  by (cases "lookup_by o_ID (rt_OrderID task) (orders_v2 db)") (fastforce simp: lookup_by_update)+


section \<open>Leases\<close>

text \<open>What claiming does to the rows: those of the batch are leased, the others stay.\<close>

lemma claim_loop_rows:
  assumes "claim_loop env cfg now ts tx = Inr (tx', out)" and "distinct (map rt_ID ts)"
  shows "order_reconciliation_tasks tx' =
      map (\<lambda>t. if rt_ID t \<in> rt_ID ` set ts then claim_row cfg now t else t) (order_reconciliation_tasks tx)
    \<and> map rt_ID out = map rt_ID ts"
  using assms
proof (induction ts arbitrary: tx tx' out)
  case (Cons t ts)
  let ?tx1 = "tx\<lparr>order_reconciliation_tasks := map (\<lambda>x. if rt_ID x = rt_ID t then claim_row cfg now x else x)
    (order_reconciliation_tasks tx)\<rparr>"
  from Cons.prems(1) obtain out1 where l: "claim_loop env cfg now ts ?tx1 = Inr (tx', out1)"
    and out: "out = (claim_row cfg now t)\<lparr>rt_UpdatedAt := rt_UpdatedAt t\<rparr> # out1"
    by (auto simp: stmt_Inr update_tasks_def split: sum.splits prod.splits if_splits)
  have id: "rt_ID (claim_row cfg now x) = rt_ID x" for x by (simp add: claim_row_def)
  from Cons.IH [OF l] Cons.prems(2) have "order_reconciliation_tasks tx' =
      map (\<lambda>t. if rt_ID t \<in> rt_ID ` set ts then claim_row cfg now t else t) (order_reconciliation_tasks ?tx1)"
    and "map rt_ID out1 = map rt_ID ts" by simp_all
  with out Cons.prems(2) id show ?case by (auto simp: claim_row_def)
qed simp

lemma claim_Inr:
  assumes "claim env cfg now db = (db', Inr tasks)" and "distinct (map rt_ID (order_reconciliation_tasks db))"
  defines "batch \<equiv> take (nat (rw_BatchSize cfg)) (filter (claimable now) (order_reconciliation_tasks db))"
  shows "map rt_ID tasks = map rt_ID batch"
    and "order_reconciliation_tasks db' =
      map (\<lambda>t. if rt_ID t \<in> rt_ID ` set batch then claim_row cfg now t else t) (order_reconciliation_tasks db)"
proof -
  have "claim_loop env cfg now batch db = Inr (db', tasks)"
    using assms(1) unfolding claim_def Transaction_Inr batch_def by (auto simp: stmt_Inr split: sum.splits)
  moreover have "distinct (map rt_ID batch)" unfolding batch_def take_map [symmetric]
    using assms(2) by (intro distinct_take) (simp add: distinct_map_filter)
  ultimately show "map rt_ID tasks = map rt_ID batch"
    and "order_reconciliation_tasks db' =
      map (\<lambda>t. if rt_ID t \<in> rt_ID ` set batch then claim_row cfg now t else t) (order_reconciliation_tasks db)"
    using claim_loop_rows by blast+
qed

lemma claimed_lease:
  assumes "claim env cfg now db = (db', Inr tasks)" and "distinct (map rt_ID (order_reconciliation_tasks db))"
    and "t \<in> set (order_reconciliation_tasks db')" and "rt_ID t \<in> rt_ID ` set tasks"
  shows "rt_LeaseUntil t = Some (now + rw_LeaseDuration cfg)" and "rt_LeaseOwner t = rw_WorkerID cfg"
proof -
  note c = claim_Inr [OF assms(1,2)]
  have ids: "rt_ID ` set tasks = rt_ID ` set (take (nat (rw_BatchSize cfg)) (filter (claimable now) (order_reconciliation_tasks db)))"
    using c(1) by (metis set_map)
  from assms(3) obtain x where "t = (if rt_ID x \<in> rt_ID ` set tasks then claim_row cfg now x else x)"
    unfolding c(2) ids [symmetric] set_map by (rule imageE)
  with assms(4) have "t = claim_row cfg now x" by (auto simp: claim_row_def split: if_splits)
  then show "rt_LeaseUntil t = Some (now + rw_LeaseDuration cfg)" "rt_LeaseOwner t = rw_WorkerID cfg"
    by (simp_all add: claim_row_def)
qed


section \<open>Delays\<close>

text \<open>Whatever the configuration, the normalised one has positive intervals, a batch size between 1 and
  100 and a worker id; and the delay before attempt n is at least the configured retry delay,
  at most the maximum, and doubles from attempt to attempt until the maximum is reached.\<close>

theorem reconciliation_delays:
  assumes "int64 (rw_MaxRetryDelay cfg0)" and "int64 (rw_RetryDelay cfg0)"
  shows "let cfg = rw_normalized now cfg0; d = retryDelay cfg attempt in
    0 < rw_PollInterval cfg \<and> 0 < rw_LeaseDuration cfg \<and> 0 < rw_CallTimeout cfg \<and> rw_WorkerID cfg \<noteq> [] \<and>
    1 \<le> rw_BatchSize cfg \<and> rw_BatchSize cfg \<le> 100 \<and>
    0 < rw_RetryDelay cfg \<and> rw_RetryDelay cfg \<le> d \<and> d \<le> rw_MaxRetryDelay cfg \<and>
    (d = rw_RetryDelay cfg * 2 ^ nat (attempt - 1) \<or>
     d = rw_MaxRetryDelay cfg \<and> rw_MaxRetryDelay cfg \<le> rw_RetryDelay cfg * 2 ^ nat (attempt - 1) + 1)"
proof -
  let ?cfg = "rw_normalized now cfg0"
  have n: "0 < rw_RetryDelay ?cfg" "rw_RetryDelay ?cfg \<le> rw_MaxRetryDelay ?cfg" "rw_MaxRetryDelay ?cfg \<le> int64_max"
    using assms by (auto simp: rw_normalized_def Let_def int64_def int64_max_def int64_min_def)
  have "nat ((if attempt < 1 then 1 else attempt) - 1) = nat (attempt - 1)" by simp
  then have "retryDelay ?cfg attempt = double_delay (rw_MaxRetryDelay ?cfg) (nat (attempt - 1)) (rw_RetryDelay ?cfg)"
    by (simp add: retryDelay_def Let_def)
  then have "rw_RetryDelay ?cfg \<le> retryDelay ?cfg attempt \<and> retryDelay ?cfg attempt \<le> rw_MaxRetryDelay ?cfg \<and>
    (retryDelay ?cfg attempt = rw_RetryDelay ?cfg * 2 ^ nat (attempt - 1) \<or>
     retryDelay ?cfg attempt = rw_MaxRetryDelay ?cfg \<and> rw_MaxRetryDelay ?cfg \<le> rw_RetryDelay ?cfg * 2 ^ nat (attempt - 1) + 1)"
    using double_delay_bounds [OF n, of "nat (attempt - 1)"] double_delay_value [OF n, of "nat (attempt - 1)"] by auto
  moreover
  have "0 < rw_PollInterval ?cfg \<and> 0 < rw_LeaseDuration ?cfg \<and> 0 < rw_CallTimeout ?cfg \<and> rw_WorkerID ?cfg \<noteq> [] \<and>
    1 \<le> rw_BatchSize ?cfg \<and> rw_BatchSize ?cfg \<le> 100"
    by (simp add: rw_normalized_def Let_def)
  ultimately show ?thesis using n(1) by (simp add: Let_def)
qed

section \<open>Small instances\<close>

definition demo_task :: "int \<Rightarrow> ReconciliationTask" where
  "demo_task n = \<lparr>rt_ID = n, rt_OrderID = n, rt_Action = FinalizeCancel, rt_Status = TaskPending, rt_Attempts = 1,
     rt_NextAttemptAt = 0, rt_LeaseOwner = ''w'', rt_LeaseUntil = None, rt_LastError = NoTaskError, rt_CreatedAt = 0, rt_UpdatedAt = 0\<rparr>"

definition demo_tasks :: ordering_db where
  "demo_tasks = \<lparr>orders_v2 = [\<lparr>o_ID = 1, o_UserID = 5, o_Status = OrderStatusReconciliationRequired, o_TotalFen = 10,
       o_ReservationID = ''r'', o_IdempotencyKey = ''k'', o_FailureReason = NoReason, o_CreatedAt = 0, o_UpdatedAt = 0\<rparr>],
     order_items_v2 = [], order_timeout_outbox_v2 = [], order_reconciliation_tasks = map demo_task [1, 2],
     next_order = 2, next_order_item = 1, next_outbox = 1, next_task = 3, ord_collate = id\<rparr>"

definition demo_cfg :: "string \<Rightarrow> ReconciliationWorkerConfig" where
  "demo_cfg w = rw_normalized 0 \<lparr>rw_WorkerID = w, rw_PollInterval = 0, rw_RetryDelay = 0, rw_MaxRetryDelay = 0, rw_LeaseDuration = 0,
     rw_CallTimeout = 0, rw_BatchSize = 1\<rparr>"

text \<open>An inventory whose state counts the calls.\<close>

definition demo_calls :: "nat inventory_api" where
  "demo_calls = \<lparr>ia_Reserve = (\<lambda>_ _ _ n. (Suc n, Inr zero_reservation)), ia_Confirm = (\<lambda>_ n. (Suc n, Inr zero_reservation)),
     ia_Release = (\<lambda>_ n. (Suc n, Inr zero_reservation))\<rparr>"



theorem reconciliation_delays_witness:
  "let cfg = demo_cfg ''w'' in
    rw_RetryDelay cfg \<le> retryDelay cfg 3 \<and> retryDelay cfg 3 \<le> rw_MaxRetryDelay cfg \<and> 1 \<le> rw_BatchSize cfg"
proof -
  let ?cfg = "\<lparr>rw_WorkerID = ''w'', rw_PollInterval = 0, rw_RetryDelay = 0, rw_MaxRetryDelay = 0, rw_LeaseDuration = 0,
     rw_CallTimeout = 0, rw_BatchSize = 1\<rparr>"
  have "int64 (rw_MaxRetryDelay ?cfg)" "int64 (rw_RetryDelay ?cfg)" by code_simp+
  from reconciliation_delays [OF this, of 0 3] show ?thesis by (simp add: demo_cfg_def Let_def)
qed

end
