(* ===== verification/Rate_Limiter.thy ===== *)
theory Rate_Limiter
  imports Complex_Main Database
begin

text \<open>
  The rate limiter of the gateway, \<^verbatim>\<open>internal/platform/ratelimit/limiter.go\<close>: a global token bucket and
  one per client, refilled by elapsed time. A \<^verbatim>\<open>float64\<close> is a real number here (rounding is left
  out). The map of clients is a list in the order a range over it happens to take; every
  theorem holds for every order. The mutex makes each \<open>Allow\<close> one step.
\<close>

section \<open>Buckets\<close>

record RateConfig =
  PerClientRate :: real
  PerClientBurst :: int
  GlobalRate :: real
  GlobalBurst :: int
  MaxClients :: int
  InactiveTTL :: duration
  CleanupEvery :: duration

definition rate_normalized :: "RateConfig \<Rightarrow> RateConfig" where
  "rate_normalized cfg =
    \<lparr>PerClientRate = (if PerClientRate cfg \<le> 0 then 50 else PerClientRate cfg),
     PerClientBurst = (if PerClientBurst cfg \<le> 0 then 100 else PerClientBurst cfg),
     GlobalRate = (if GlobalRate cfg \<le> 0 then 500 else GlobalRate cfg),
     GlobalBurst = (if GlobalBurst cfg \<le> 0 then 1000 else GlobalBurst cfg),
     MaxClients = (if MaxClients cfg \<le> 0 then 10000 else MaxClients cfg),
     InactiveTTL = (if InactiveTTL cfg \<le> 0 then 600000000000 else InactiveTTL cfg),
     CleanupEvery = (if CleanupEvery cfg \<le> 0 then 60000000000 else CleanupEvery cfg)\<rparr>"

record bucket =
  tokens :: real
  last_refill :: time
  lastSeen :: time

text \<open>The zero \<^verbatim>\<open>time.Time\<close>: 1 January of the year 1.\<close>

definition zero_time :: time where
  "zero_time = -62135596800000000000"

definition elapsed_seconds :: "time \<Rightarrow> time \<Rightarrow> real" where
  "elapsed_seconds from to = real_of_int (to - from) / 1000000000"

definition refill :: "bucket \<Rightarrow> real \<Rightarrow> int \<Rightarrow> time \<Rightarrow> bucket" where
  "refill target rate burst now =
    (if last_refill target = zero_time then target\<lparr>last_refill := now, tokens := of_int burst\<rparr>
     else
       let elapsed = elapsed_seconds (last_refill target) now
       in if elapsed \<le> 0 then target
          else target\<lparr>tokens := min (of_int burst) (tokens target + elapsed * rate), last_refill := now\<rparr>)"

definition waitDuration :: "real \<Rightarrow> real \<Rightarrow> duration" where
  "waitDuration available rate =
    (if 1 \<le> available then 0
     else let seconds = (1 - available) / rate in if seconds \<le> 0 then 0 else \<lceil>seconds * 1000000000\<rceil>)"

section \<open>The limiter\<close>

record Limiter =
  l_cfg :: RateConfig
  l_global :: bucket
  l_clients :: "(string \<times> bucket) list"
  lastCleanup :: time

definition newLimiter :: "RateConfig \<Rightarrow> time \<Rightarrow> Limiter" where
  "newLimiter cfg0 startedAt =
    (let cfg = rate_normalized cfg0
     in \<lparr>l_cfg = cfg, l_global = \<lparr>tokens = of_int (GlobalBurst cfg), last_refill = startedAt, lastSeen = startedAt\<rparr>,
         l_clients = [], lastCleanup = startedAt\<rparr>)"

definition cleanupLocked :: "time \<Rightarrow> Limiter \<Rightarrow> Limiter" where
  "cleanupLocked now l =
    (if now - lastCleanup l < CleanupEvery (l_cfg l) then l
     else
       let cutoff = now - InactiveTTL (l_cfg l)
       in l\<lparr>l_clients := filter (\<lambda>(k, c). \<not> lastSeen c < cutoff) (l_clients l), lastCleanup := now\<rparr>)"

text \<open>The loop of \<^verbatim>\<open>evictOldestLocked\<close>, with \<^verbatim>\<open>oldestKey\<close> and \<^verbatim>\<open>oldest\<close>.\<close>

fun scan_oldest :: "(string \<times> bucket) list \<Rightarrow> string \<Rightarrow> time \<Rightarrow> string" where
  "scan_oldest [] oldestKey oldest = oldestKey"
| "scan_oldest ((key, client) # rest) oldestKey oldest =
    (if oldestKey = [] \<or> lastSeen client < oldest then scan_oldest rest key (lastSeen client)
     else scan_oldest rest oldestKey oldest)"

definition evictOldestLocked :: "Limiter \<Rightarrow> Limiter" where
  "evictOldestLocked l =
    (let oldestKey = scan_oldest (l_clients l) [] zero_time
     in if oldestKey \<noteq> [] then l\<lparr>l_clients := filter (\<lambda>(k, c). k \<noteq> oldestKey) (l_clients l)\<rparr> else l)"

definition client_key :: "string \<Rightarrow> string" where
  "client_key key = (if key = [] then ''unknown'' else key)"

text \<open>\<^verbatim>\<open>clientLocked\<close>: the limiter with the client's bucket in its map, and the bucket.\<close>

definition clientLocked :: "string \<Rightarrow> time \<Rightarrow> Limiter \<Rightarrow> Limiter \<times> bucket" where
  "clientLocked key0 now l =
    (let key = client_key key0 in
     case map_of (l_clients l) key of
       Some existing \<Rightarrow> (l, existing)
     | None \<Rightarrow>
         let l1 = (if MaxClients (l_cfg l) \<le> int (length (l_clients l)) then evictOldestLocked l else l);
             created = \<lparr>tokens = of_int (PerClientBurst (l_cfg l)), last_refill = now, lastSeen = now\<rparr>
         in (l1\<lparr>l_clients := (key, created) # l_clients l1\<rparr>, created))"

definition put_client :: "string \<Rightarrow> bucket \<Rightarrow> Limiter \<Rightarrow> Limiter" where
  "put_client key b l = l\<lparr>l_clients := map (\<lambda>(k, c). (k, if k = client_key key then b else c)) (l_clients l)\<rparr>"

definition Allow :: "string \<Rightarrow> time \<Rightarrow> Limiter \<Rightarrow> Limiter \<times> bool \<times> duration" where
  "Allow key now l0 =
    (let (l1, client0) = clientLocked key now (cleanupLocked now l0);
         cfg = l_cfg l1;
         global = (refill (l_global l1) (GlobalRate cfg) (GlobalBurst cfg) now)\<lparr>lastSeen := now\<rparr>;
         client = (refill client0 (PerClientRate cfg) (PerClientBurst cfg) now)\<lparr>lastSeen := now\<rparr>;
         globalWait = waitDuration (tokens global) (GlobalRate cfg);
         clientWait = waitDuration (tokens client) (PerClientRate cfg)
     in if 0 < globalWait \<or> 0 < clientWait
        then (put_client key client (l1\<lparr>l_global := global\<rparr>), False, if globalWait < clientWait then clientWait else globalWait)
        else (put_client key (client\<lparr>tokens := tokens client - 1\<rparr>) (l1\<lparr>l_global := global\<lparr>tokens := tokens global - 1\<rparr>\<rparr>), True, 0))"

text \<open>Calls one after the other; the result counts the ones let through.\<close>

fun run_allow :: "(string \<times> time) list \<Rightarrow> Limiter \<Rightarrow> Limiter \<times> nat" where
  "run_allow [] l = (l, 0)"
| "run_allow ((key, now) # calls) l =
    (case Allow key now l of (l1, allowed, _) \<Rightarrow>
       case run_allow calls l1 of (l2, n) \<Rightarrow> (l2, if allowed then Suc n else n))"

section \<open>Facts\<close>

definition cfg_ok :: "RateConfig \<Rightarrow> bool" where
  "cfg_ok cfg \<longleftrightarrow> 0 < PerClientRate cfg \<and> 1 \<le> PerClientBurst cfg \<and> 0 < GlobalRate cfg \<and> 1 \<le> GlobalBurst cfg \<and>
    1 \<le> MaxClients cfg"

definition bucket_ok :: "int \<Rightarrow> bucket \<Rightarrow> bool" where
  "bucket_ok burst b \<longleftrightarrow> 0 \<le> tokens b \<and> tokens b \<le> of_int burst"

definition limiter_ok :: "Limiter \<Rightarrow> bool" where
  "limiter_ok l \<longleftrightarrow> cfg_ok (l_cfg l) \<and> bucket_ok (GlobalBurst (l_cfg l)) (l_global l) \<and>
    (\<forall>(k, c)\<in>set (l_clients l). k \<noteq> [] \<and> bucket_ok (PerClientBurst (l_cfg l)) c) \<and>
    distinct (map fst (l_clients l)) \<and> int (length (l_clients l)) \<le> MaxClients (l_cfg l)"

lemma rate_normalized_ok [simp]: "cfg_ok (rate_normalized cfg)"
  by (simp add: cfg_ok_def rate_normalized_def)

lemma newLimiter_ok: "limiter_ok (newLimiter cfg t)"
  by (simp add: limiter_ok_def newLimiter_def Let_def bucket_ok_def) (simp add: rate_normalized_def)

lemma refill_ok:
  assumes "bucket_ok burst b" and "0 < rate" and "1 \<le> burst"
  shows "bucket_ok burst (refill b rate burst now)"
  using assms by (auto simp: bucket_ok_def refill_def Let_def)

lemma waitDuration_short:
  assumes "0 < rate" and "t < 1"
  shows "waitDuration t rate = \<lceil>(1 - t) / rate * 1000000000\<rceil>" and "0 < waitDuration t rate"
proof -
  have pos: "0 < (1 - t) / rate" using assms by simp
  then show e: "waitDuration t rate = \<lceil>(1 - t) / rate * 1000000000\<rceil>"
    unfolding waitDuration_def Let_def using assms(2) by (simp only: not_le [symmetric] if_False simp_thms)
  have "0 < (1 - t) / rate * 1000000000" by (rule mult_pos_pos [OF pos]) simp
  then show "0 < waitDuration t rate" unfolding e by (simp only: zero_less_ceiling)
qed

lemma waitDuration_zero:
  assumes "0 < rate"
  shows "waitDuration t rate \<le> 0 \<longleftrightarrow> 1 \<le> t" and "0 \<le> waitDuration t rate"
  using waitDuration_short [OF assms, of t] by (cases "1 \<le> t"; simp add: waitDuration_def)+

lemma scan_oldest_in:
  assumes "\<forall>(k, c)\<in>set cs. k \<noteq> []"
  shows "scan_oldest cs k0 t = k0 \<or> scan_oldest cs k0 t \<in> fst ` set cs"
  using assms by (induction cs k0 t rule: scan_oldest.induct) auto

lemma scan_oldest_nonempty:
  assumes "\<forall>(k, c)\<in>set cs. k \<noteq> []"
  shows "scan_oldest cs k0 t \<noteq> [] \<longleftrightarrow> k0 \<noteq> [] \<or> cs \<noteq> []"
  using assms by (induction cs k0 t rule: scan_oldest.induct) auto

lemma length_filter_key_less:
  assumes "k \<in> fst ` set cs"
  shows "length (filter (\<lambda>(k', c). k' \<noteq> k) cs) < length cs"
proof -
  from assms obtain c where "(k, c) \<in> set cs" by auto
  then show ?thesis by (rule length_filter_less) simp
qed

lemma evict_clients:
  assumes "limiter_ok l"
  shows "set (l_clients (evictOldestLocked l)) \<subseteq> set (l_clients l)" and "l_cfg (evictOldestLocked l) = l_cfg l"
    and "l_global (evictOldestLocked l) = l_global l" and "distinct (map fst (l_clients (evictOldestLocked l)))"
    and "l_clients l \<noteq> [] \<Longrightarrow> length (l_clients (evictOldestLocked l)) < length (l_clients l)"
proof -
  let ?k = "scan_oldest (l_clients l) [] zero_time"
  have ne: "\<forall>(k, c)\<in>set (l_clients l). k \<noteq> []" and d: "distinct (map fst (l_clients l))"
    using assms by (auto simp: limiter_ok_def)
  show "set (l_clients (evictOldestLocked l)) \<subseteq> set (l_clients l)" "l_cfg (evictOldestLocked l) = l_cfg l"
    "l_global (evictOldestLocked l) = l_global l" "distinct (map fst (l_clients (evictOldestLocked l)))"
    using d by (auto simp: evictOldestLocked_def Let_def distinct_map_filter)
  assume "l_clients l \<noteq> []"
  with scan_oldest_nonempty [OF ne] have "?k \<noteq> []" by simp
  moreover from this scan_oldest_in [OF ne] have "?k \<in> fst ` set (l_clients l)" by blast
  ultimately show "length (l_clients (evictOldestLocked l)) < length (l_clients l)"
    by (simp add: evictOldestLocked_def length_filter_key_less)
qed

lemma cleanup_same [simp]:
  "l_cfg (cleanupLocked now l) = l_cfg l" "l_global (cleanupLocked now l) = l_global l"
  by (simp_all add: cleanupLocked_def Let_def)

lemma cleanup_ok:
  assumes "limiter_ok l"
  shows "limiter_ok (cleanupLocked now l)"
proof -
  have "int (length (filter p (l_clients l))) \<le> MaxClients (l_cfg l)" for p
    using assms length_filter_le [of p "l_clients l"] unfolding limiter_ok_def by linarith
  with assms show ?thesis
    by (auto simp: cleanupLocked_def limiter_ok_def Let_def distinct_map_filter)
qed

lemma clientLocked_ok:
  assumes ok: "limiter_ok l" and run: "clientLocked key now l = (l', c)"
  shows "limiter_ok l'" and "bucket_ok (PerClientBurst (l_cfg l)) c" and "l_cfg l' = l_cfg l" and "l_global l' = l_global l"
    and "map_of (l_clients l') (client_key key) = Some c"
proof -
  let ?k = "client_key key"
  have k: "?k \<noteq> []" by (simp add: client_key_def)
  have "limiter_ok l' \<and> bucket_ok (PerClientBurst (l_cfg l)) c \<and> l_cfg l' = l_cfg l \<and> l_global l' = l_global l \<and>
    map_of (l_clients l') ?k = Some c"
  proof (cases "map_of (l_clients l) ?k")
    case (Some b)
    with run ok map_of_SomeD [OF Some] show ?thesis
      by (auto simp: clientLocked_def Let_def limiter_ok_def)
  next
    case None
    then have new: "?k \<notin> fst ` set (l_clients l)" by (simp add: map_of_eq_None_iff)
    let ?full = "MaxClients (l_cfg l) \<le> int (length (l_clients l))"
    let ?l1 = "if ?full then evictOldestLocked l else l"
    let ?b = "\<lparr>tokens = of_int (PerClientBurst (l_cfg l)), last_refill = now, lastSeen = now\<rparr>"
    from run have "(?l1\<lparr>l_clients := (?k, ?b) # l_clients ?l1\<rparr>, ?b) = (l', c)"
      unfolding clientLocked_def Let_def None by (simp only: option.case)
    then have l': "l' = ?l1\<lparr>l_clients := (?k, ?b) # l_clients ?l1\<rparr>" and c: "c = ?b" by blast+
    note ev = evict_clients [OF ok]
    have burst: "bucket_ok (PerClientBurst (l_cfg l)) ?b" "1 \<le> MaxClients (l_cfg l)"
      using ok by (simp_all add: bucket_ok_def limiter_ok_def cfg_ok_def)
    have sub: "set (l_clients ?l1) \<subseteq> set (l_clients l)" using ev(1) by simp
    have "int (length (l_clients ?l1)) < MaxClients (l_cfg l)"
      using ok ev(5) burst(2) by (cases "l_clients l = []") (auto simp: limiter_ok_def)
    moreover have "?k \<notin> fst ` set (l_clients ?l1)" using new sub by blast
    moreover have "distinct (map fst (l_clients ?l1))" using ok ev(4) by (simp add: limiter_ok_def)
    ultimately have "limiter_ok l'" unfolding l' limiter_ok_def
      using ok sub ev(2,3) burst(1) k by (auto simp: limiter_ok_def)
    with burst(1) ev(2,3) show ?thesis unfolding l' c by simp
  qed
  then show "limiter_ok l'" "bucket_ok (PerClientBurst (l_cfg l)) c" "l_cfg l' = l_cfg l" "l_global l' = l_global l"
    "map_of (l_clients l') (client_key key) = Some c" by simp_all
qed

text \<open>\<open>Allow\<close> over the refilled buckets.\<close>

lemma Allow_eq:
  assumes ok: "limiter_ok l" and cl: "clientLocked key now (cleanupLocked now l) = (l1, c)"
    and b: "b = refill (l_global l) (GlobalRate (l_cfg l)) (GlobalBurst (l_cfg l)) now"
    and cb: "cb = refill c (PerClientRate (l_cfg l)) (PerClientBurst (l_cfg l)) now"
  shows "Allow key now l =
    (if 1 \<le> tokens b \<and> 1 \<le> tokens cb
     then (put_client key (cb\<lparr>lastSeen := now, tokens := tokens cb - 1\<rparr>)
             (l1\<lparr>l_global := b\<lparr>lastSeen := now, tokens := tokens b - 1\<rparr>\<rparr>), True, 0)
     else (put_client key (cb\<lparr>lastSeen := now\<rparr>) (l1\<lparr>l_global := b\<lparr>lastSeen := now\<rparr>\<rparr>), False,
       max (waitDuration (tokens b) (GlobalRate (l_cfg l))) (waitDuration (tokens cb) (PerClientRate (l_cfg l)))))"
proof -
  note c = clientLocked_ok [OF cleanup_ok [OF ok] cl, simplified]
  have rates: "0 < GlobalRate (l_cfg l)" "0 < PerClientRate (l_cfg l)"
    using ok by (simp_all add: limiter_ok_def cfg_ok_def)
  let ?gw = "waitDuration (tokens b) (GlobalRate (l_cfg l))" and ?cw = "waitDuration (tokens cb) (PerClientRate (l_cfg l))"
  have "0 < ?gw \<or> 0 < ?cw \<longleftrightarrow> \<not> (1 \<le> tokens b \<and> 1 \<le> tokens cb)"
    using waitDuration_zero(1) [OF rates(1), of "tokens b"] waitDuration_zero(1) [OF rates(2), of "tokens cb"] by linarith
  moreover have "(if ?gw < ?cw then ?cw else ?gw) = max ?gw ?cw" by (simp add: max_def)
  ultimately show ?thesis
    unfolding Allow_def cl Let_def prod.case c(3) c(4) b [symmetric] cb [symmetric] by simp
qed

lemma put_client_sel [simp]:
  "l_cfg (put_client key g l) = l_cfg l" "l_global (put_client key g l) = l_global l"
  "map fst (l_clients (put_client key g l)) = map fst (l_clients l)"
  "length (l_clients (put_client key g l)) = length (l_clients l)"
  by (simp_all add: put_client_def case_prod_beta comp_def)

lemma put_client_ok:
  assumes "limiter_ok l" and "bucket_ok (PerClientBurst (l_cfg l)) g" and "bucket_ok (GlobalBurst (l_cfg l)) b"
  shows "limiter_ok (put_client key g (l\<lparr>l_global := b\<rparr>))"
proof -
  have "\<forall>(k, c)\<in>set (l_clients (put_client key g l)). k \<noteq> [] \<and> bucket_ok (PerClientBurst (l_cfg l)) c"
    using assms(1,2) by (auto simp: put_client_def limiter_ok_def)
  moreover have "l_clients (put_client key g (l\<lparr>l_global := b\<rparr>)) = l_clients (put_client key g l)"
    by (simp add: put_client_def)
  ultimately show ?thesis using assms(1,3) unfolding limiter_ok_def by simp
qed

lemma Allow_ok:
  assumes ok: "limiter_ok l"
  shows "limiter_ok (fst (Allow key now l))"
proof -
  obtain l1 c where cl: "clientLocked key now (cleanupLocked now l) = (l1, c)" by fastforce
  define b where "b = refill (l_global l) (GlobalRate (l_cfg l)) (GlobalBurst (l_cfg l)) now"
  define cb where "cb = refill c (PerClientRate (l_cfg l)) (PerClientBurst (l_cfg l)) now"
  note c = clientLocked_ok [OF cleanup_ok [OF ok] cl, simplified]
  have rates: "0 < GlobalRate (l_cfg l)" "0 < PerClientRate (l_cfg l)" "1 \<le> PerClientBurst (l_cfg l)" "1 \<le> GlobalBurst (l_cfg l)"
    "bucket_ok (GlobalBurst (l_cfg l)) (l_global l)"
    using ok by (simp_all add: limiter_ok_def cfg_ok_def)
  have "bucket_ok (PerClientBurst (l_cfg l)) cb" unfolding cb_def by (rule refill_ok [OF c(2) rates(2,3)])
  moreover have "bucket_ok (GlobalBurst (l_cfg l)) b" unfolding b_def by (rule refill_ok [OF rates(5,1,4)])
  ultimately show ?thesis
    unfolding Allow_eq [OF ok cl b_def cb_def] using c(1,3)
    by (auto intro!: put_client_ok simp: bucket_ok_def)
qed

section \<open>Properties\<close>

lemma run_allow_ok: "limiter_ok l \<Longrightarrow> limiter_ok (fst (run_allow calls l))"
proof (induction calls arbitrary: l)
  case (Cons call calls)
  obtain key now where call: "call = (key, now)" by fastforce
  obtain l1 a w where run: "Allow key now l = (l1, a, w)" by (metis prod_cases3)
  with Allow_ok [OF Cons.prems, of key now] have "limiter_ok l1" by simp
  from Cons.IH [OF this] show ?case by (simp add: call run case_prod_beta)
qed simp

text \<open>Whatever the configuration, the calls and the readings of the clock, the limiter never holds a
  negative number of tokens nor more than the burst in any bucket, tracks each client once and
  no more clients than configured.\<close>

theorem limiter_invariant:
  "limiter_ok (fst (run_allow calls (newLimiter cfg startedAt)))"
  by (rule run_allow_ok [OF newLimiter_ok])

lemma elapsed_pos [simp]: "elapsed_seconds a b \<le> 0 \<longleftrightarrow> b \<le> a" "elapsed_seconds a a = 0"
  by (simp_all add: elapsed_seconds_def)

text \<open>The global bucket gains at most the rate times the elapsed time and pays one token per call.\<close>

lemma refill_gain:
  assumes "zero_time < last_refill b" and "0 < rate"
  shows "tokens (refill b rate burst now) \<le> tokens b + rate * elapsed_seconds (last_refill b) (last_refill (refill b rate burst now))"
    and "last_refill b \<le> last_refill (refill b rate burst now)"
    and "last_refill (refill b rate burst now) \<le> max (last_refill b) now"
  using assms by (auto simp: refill_def Let_def elapsed_pos mult.commute [of rate] min_le_iff_disj)

lemma elapsed_add: "elapsed_seconds a b + elapsed_seconds b c = elapsed_seconds a c"
  by (simp add: elapsed_seconds_def field_simps)

lemma Allow_global:
  assumes ok: "limiter_ok l" and z: "zero_time < last_refill (l_global l)"
    and run: "Allow key now l = (l', allowed, wait)"
  defines "g \<equiv> l_global l" and "g' \<equiv> l_global l'"
  shows "tokens g' + of_bool allowed \<le> tokens g + GlobalRate (l_cfg l) * elapsed_seconds (last_refill g) (last_refill g')"
    and "last_refill g \<le> last_refill g'" and "last_refill g' \<le> max (last_refill g) now" and "l_cfg l' = l_cfg l"
proof -
  obtain l1 c where cl: "clientLocked key now (cleanupLocked now l) = (l1, c)" by fastforce
  have r: "0 < GlobalRate (l_cfg l)" using ok by (simp add: limiter_ok_def cfg_ok_def)
  note eq = run [unfolded Allow_eq [OF ok cl refl refl]]
  from eq have "last_refill g' = last_refill (refill g (GlobalRate (l_cfg l)) (GlobalBurst (l_cfg l)) now)"
    and "tokens g' + of_bool allowed = tokens (refill g (GlobalRate (l_cfg l)) (GlobalBurst (l_cfg l)) now)"
    unfolding g_def g'_def by (auto split: if_splits)
  with refill_gain [OF z r, of "GlobalBurst (l_cfg l)" now] show
    "tokens g' + of_bool allowed \<le> tokens g + GlobalRate (l_cfg l) * elapsed_seconds (last_refill g) (last_refill g')"
    "last_refill g \<le> last_refill g'" "last_refill g' \<le> max (last_refill g) now" unfolding g_def by simp_all
  show "l_cfg l' = l_cfg l" using eq clientLocked_ok(3) [OF cleanup_ok [OF ok] cl] by (auto split: if_splits)
qed

lemma run_allow_bound:
  assumes "limiter_ok l" and "zero_time < last_refill (l_global l)" and "last_refill (l_global l) \<le> T"
    and "\<forall>(k, now)\<in>set calls. now \<le> T"
  shows "real (snd (run_allow calls l)) \<le>
    tokens (l_global l) + GlobalRate (l_cfg l) * elapsed_seconds (last_refill (l_global l)) T"
  using assms
proof (induction calls arbitrary: l)
  case Nil
  then have "0 \<le> tokens (l_global l)" "0 \<le> GlobalRate (l_cfg l)" by (simp_all add: limiter_ok_def bucket_ok_def cfg_ok_def)
  with Nil show ?case by (simp add: elapsed_seconds_def)
next
  case (Cons call calls)
  obtain key now where call: "call = (key, now)" by fastforce
  obtain l1 allowed w where a: "Allow key now l = (l1, allowed, w)" by (metis prod_cases3)
  note g = Allow_global [OF Cons.prems(1,2) a]
  have "limiter_ok l1" using Allow_ok [OF Cons.prems(1), of key now] a by simp
  moreover have "zero_time < last_refill (l_global l1)" using g(2) Cons.prems(2) by simp
  moreover have "last_refill (l_global l1) \<le> T" using g(3) Cons.prems(3,4) call by auto
  ultimately have ih: "real (snd (run_allow calls l1)) \<le>
      tokens (l_global l1) + GlobalRate (l_cfg l) * elapsed_seconds (last_refill (l_global l1)) T"
    using Cons.IH [of l1] Cons.prems(4) g(4) by simp
  have "real (snd (run_allow (call # calls) l)) = of_bool allowed + real (snd (run_allow calls l1))"
    by (simp add: call a split: prod.splits)
  also have "\<dots> \<le> tokens (l_global l) + GlobalRate (l_cfg l) *
      (elapsed_seconds (last_refill (l_global l)) (last_refill (l_global l1)) + elapsed_seconds (last_refill (l_global l1)) T)"
    using ih g(1) by (simp add: distrib_left)
  finally show ?case by (simp add: elapsed_add)
qed


text \<open>A bucket that waits as long as it was told has a token.\<close>

lemma refill_after_wait:
  assumes "0 < rate" and "1 \<le> burst" and "last_refill b \<le> now" and "waitDuration (tokens b) rate \<le> w"
    and "last_refill b = now \<or> last_refill b = zero_time"
  shows "1 \<le> tokens (refill b rate burst (now + w))"
proof (cases "last_refill b = zero_time \<or> 1 \<le> tokens b")
  case True
  have "1 \<le> tokens b + elapsed_seconds a c * rate" if "1 \<le> tokens b" "\<not> c \<le> a" for a c
  proof -
    have "0 < elapsed_seconds a c" using that(2) elapsed_pos(1) [of a c] by linarith
    then have "0 < elapsed_seconds a c * rate" using assms(1) by simp
    with that(1) show ?thesis by linarith
  qed
  with True assms(2) show ?thesis by (auto simp: refill_def Let_def)
next
  case False
  then have t: "tokens b < 1" and l: "last_refill b \<noteq> zero_time" "last_refill b = now" using assms(5) by auto
  note wd = waitDuration_short [OF assms(1) t]
  have "(1 - tokens b) / rate * 1000000000 \<le> of_int w" using wd(1) assms(4) by (simp add: ceiling_le_iff)
  then have "(1 - tokens b) / rate \<le> of_int w / 1000000000" by (simp add: field_simps)
  then have "1 - tokens b \<le> of_int w / 1000000000 * rate" using assms(1) by (simp add: pos_divide_le_eq)
  moreover have "0 < w" using wd(2) assms(4) by simp
  ultimately show ?thesis using l assms(2) by (auto simp: refill_def Let_def elapsed_seconds_def)
qed

lemma refill_last: "last_refill b \<le> now \<Longrightarrow> last_refill (refill b rate burst now) = now"
  by (auto simp: refill_def Let_def)

lemma put_client_lookup:
  assumes "map_of (l_clients l) (client_key key) = Some c"
  shows "map_of (l_clients (put_client key g l)) (client_key key) = Some g"
proof -
  have "map_of (map (\<lambda>(k, c). (k, if k = K then g else c)) cs) K = Some g" if "map_of cs K = Some c" for cs K
    using that by (induction cs) auto
  from this [OF assms] show ?thesis by (simp add: put_client_def)
qed

text \<open>The bucket of a client at its next call: the one it left, or a fresh one after a cleanup.\<close>

lemma clientLocked_again:
  assumes ok: "limiter_ok l" and old: "map_of (l_clients l) (client_key key) = Some g"
    and cl: "clientLocked key now (cleanupLocked now l) = (l2, c2)"
  shows "c2 = g \<or> c2 = \<lparr>tokens = of_int (PerClientBurst (l_cfg l)), last_refill = now, lastSeen = now\<rparr>"
proof (cases "map_of (l_clients (cleanupLocked now l)) (client_key key)")
  case None
  with cl show ?thesis by (auto simp: clientLocked_def Let_def)
next
  case (Some b)
  then have "(client_key key, b) \<in> set (l_clients (cleanupLocked now l))" by (rule map_of_SomeD)
  then have "(client_key key, b) \<in> set (l_clients l)" by (auto simp: cleanupLocked_def Let_def split: if_splits)
  moreover have "distinct (map fst (l_clients l))" using ok by (simp add: limiter_ok_def)
  ultimately have "map_of (l_clients l) (client_key key) = Some b" by simp
  with old cl Some show ?thesis by (simp add: clientLocked_def Let_def)
qed

text \<open>The wait that a rejected call is told is positive and honest: if the clock does not run
  backwards and the client calls again exactly after that time, with no call in between, it is
  let through.\<close>

theorem limiter_retry:
  assumes ok: "limiter_ok l" and run: "Allow key now l = (l', False, wait)"
    and clock: "last_refill (l_global l) \<le> now" "\<forall>(k, c)\<in>set (l_clients l). last_refill c \<le> now"
  shows "0 < wait \<and> fst (snd (Allow key (now + wait) l'))"
proof -
  obtain l1 c where cl: "clientLocked key now (cleanupLocked now l) = (l1, c)" by fastforce
  define b where "b = refill (l_global l) (GlobalRate (l_cfg l)) (GlobalBurst (l_cfg l)) now"
  define cb where "cb = refill c (PerClientRate (l_cfg l)) (PerClientBurst (l_cfg l)) now"
  note c = clientLocked_ok [OF cleanup_ok [OF ok] cl, simplified]
  have cfg: "0 < GlobalRate (l_cfg l)" "0 < PerClientRate (l_cfg l)" "1 \<le> PerClientBurst (l_cfg l)" "1 \<le> GlobalBurst (l_cfg l)"
    using ok by (simp_all add: limiter_ok_def cfg_ok_def)
  note eq = run [unfolded Allow_eq [OF ok cl b_def cb_def]]
  from eq have short: "tokens b < 1 \<or> tokens cb < 1"
    and l': "l' = put_client key (cb\<lparr>lastSeen := now\<rparr>) (l1\<lparr>l_global := b\<lparr>lastSeen := now\<rparr>\<rparr>)"
    and wait: "wait = max (waitDuration (tokens b) (GlobalRate (l_cfg l))) (waitDuration (tokens cb) (PerClientRate (l_cfg l)))"
    by (auto split: if_splits)
  have pos: "0 < wait" unfolding wait
    using short waitDuration_short(2) [OF cfg(1), of "tokens b"] waitDuration_short(2) [OF cfg(2), of "tokens cb"] by auto
  have "last_refill c \<le> now"
  proof (cases "map_of (l_clients (cleanupLocked now l)) (client_key key)")
    case (Some e)
    then have "(client_key key, e) \<in> set (l_clients l)"
      by (auto dest!: map_of_SomeD simp: cleanupLocked_def Let_def split: if_splits)
    with Some cl clock(2) show ?thesis by (auto simp: clientLocked_def Let_def)
  qed (use cl in \<open>auto simp: clientLocked_def Let_def\<close>)
  then have last: "last_refill b = now" "last_refill cb = now" using clock(1) by (simp_all add: b_def cb_def refill_last)
  have ok': "limiter_ok l'" using Allow_ok [OF ok, of key now] run by simp
  have cfg': "l_cfg l' = l_cfg l" unfolding l' by (simp add: c(3))
  have g': "l_global l' = b\<lparr>lastSeen := now\<rparr>" unfolding l' by simp
  have "map_of (l_clients l') (client_key key) = Some (cb\<lparr>lastSeen := now\<rparr>)"
    unfolding l' by (rule put_client_lookup [of _ _ c]) (simp add: c(5))
  note again = clientLocked_again [OF ok' this]
  obtain l2 c2 where cl2: "clientLocked key (now + wait) (cleanupLocked (now + wait) l') = (l2, c2)" by fastforce
  have 1: "1 \<le> tokens (refill (l_global l') (GlobalRate (l_cfg l')) (GlobalBurst (l_cfg l')) (now + wait))"
    unfolding g' cfg' by (rule refill_after_wait) (use cfg last wait in auto)
  have 2: "1 \<le> tokens (refill c2 (PerClientRate (l_cfg l')) (PerClientBurst (l_cfg l')) (now + wait))"
    using again [OF cl2]
  proof
    assume "c2 = cb\<lparr>lastSeen := now\<rparr>"
    then show ?thesis unfolding cfg' by (intro refill_after_wait) (use cfg last wait in auto)
  next
    assume "c2 = \<lparr>tokens = of_int (PerClientBurst (l_cfg l')), last_refill = now + wait, lastSeen = now + wait\<rparr>"
    then show ?thesis using cfg(3) cfg' by (simp add: refill_def)
  qed
  show ?thesis using pos 1 2 unfolding Allow_eq [OF ok' cl2 refl refl] by simp
qed

section \<open>A small limiter\<close>

definition demo_rate :: RateConfig where
  "demo_rate = \<lparr>PerClientRate = 1, PerClientBurst = 1, GlobalRate = 2, GlobalBurst = 2, MaxClients = 1, InactiveTTL = 1, CleanupEvery = 1\<rparr>"


lemma demo_rejected:
  "\<not> fst (snd (Allow ''a'' 0 (fst (Allow ''a'' 0 (newLimiter demo_rate 0)))))"
  by (simp add: Allow_def newLimiter_def rate_normalized_def demo_rate_def cleanupLocked_def clientLocked_def client_key_def
    refill_def waitDuration_def put_client_def zero_time_def Let_def)

theorem limiter_retry_witness:
  "\<exists>wait. 0 < wait \<and> fst (snd (Allow ''a'' wait (fst (Allow ''a'' 0 (fst (Allow ''a'' 0 (newLimiter demo_rate 0)))))))"
proof -
  let ?l = "fst (Allow ''a'' 0 (newLimiter demo_rate 0))"
  let ?w = "snd (snd (Allow ''a'' 0 ?l))"
  have run: "Allow ''a'' 0 ?l = (fst (Allow ''a'' 0 ?l), False, ?w)"
    using demo_rejected by (metis prod.collapse)
  have clock: "last_refill (l_global ?l) \<le> 0" "\<forall>(k, c)\<in>set (l_clients ?l). last_refill c \<le> 0"
    by (simp_all add: Allow_def newLimiter_def rate_normalized_def demo_rate_def cleanupLocked_def clientLocked_def client_key_def
      refill_def waitDuration_def put_client_def zero_time_def Let_def)
  from limiter_retry [OF Allow_ok [OF newLimiter_ok] run clock] show ?thesis by (intro exI [of _ ?w]) simp
qed

end
