(* ===== verification/Gateway.thy ===== *)
theory Gateway
  imports Rate_Limiter Executor
begin

text \<open>
  The API gateway, \<^verbatim>\<open>cmd/api-gateway/main.go\<close>: it answers health checks itself, passes every other
  request through the rate limiter and forwards it to the service that owns the path prefix.
  URL parsing, the upstream services and \<^verbatim>\<open>strconv.ParseFloat\<close> are arguments.
\<close>

section \<open>Strings\<close>

fun IndexByte :: "string \<Rightarrow> char \<Rightarrow> nat option" where
  "IndexByte [] c = None"
| "IndexByte (x # xs) c = (if x = c then Some 0 else map_option Suc (IndexByte xs c))"

fun LastIndexByte :: "string \<Rightarrow> char \<Rightarrow> nat option" where
  "LastIndexByte [] c = None"
| "LastIndexByte (x # xs) c =
    (case LastIndexByte xs c of Some i \<Rightarrow> Some (Suc i) | None \<Rightarrow> if x = c then Some 0 else None)"

text \<open>\<^verbatim>\<open>net.SplitHostPort\<close>, its host part; \<open>None\<close> for an error.\<close>

definition SplitHostPort :: "string \<Rightarrow> string option" where
  "SplitHostPort s =
    (case LastIndexByte s (CHR '':'') of
       None \<Rightarrow> None
     | Some i \<Rightarrow>
         if s ! 0 = CHR ''[''
         then (case IndexByte s (CHR '']'') of
                 None \<Rightarrow> None
               | Some e \<Rightarrow>
                   if Suc e \<noteq> i then None
                   else if CHR ''['' \<in> set (drop 1 s) \<or> CHR '']'' \<in> set (drop (Suc e) s) then None
                   else Some (take (e - 1) (drop 1 s)))
         else if CHR '':'' \<in> set (take i s) then None
         else if CHR ''['' \<in> set s \<or> CHR '']'' \<in> set s then None
         else Some (take i s))"

section \<open>Routes\<close>

record target_url =
  url_Scheme :: string
  url_Host :: string

record gw_route =
  route_name :: string
  route_prefix :: string
  route_base :: target_url

definition newUpstream :: "(string \<Rightarrow> target_url option) \<Rightarrow> string \<Rightarrow> string \<Rightarrow> gw_route option" where
  "newUpstream parse name rawURL =
    (case parse rawURL of
       None \<Rightarrow> None
     | Some target \<Rightarrow>
         if url_Scheme target = [] \<or> url_Host target = [] then None
         else Some \<lparr>route_name = name, route_prefix = [], route_base = target\<rparr>)"

definition withPrefix :: "gw_route \<Rightarrow> string \<Rightarrow> gw_route" where
  "withPrefix r prefix = r\<lparr>route_prefix := prefix\<rparr>"

definition buildRoutes :: "(string \<Rightarrow> target_url option) \<Rightarrow> (string \<Rightarrow> string) \<Rightarrow> gw_route list option" where
  "buildRoutes parse services =
    (case newUpstream parse ''identity-service'' (services ''identity-service'') of None \<Rightarrow> None | Some identity \<Rightarrow>
     case newUpstream parse ''catalog-service'' (services ''catalog-service'') of None \<Rightarrow> None | Some catalog \<Rightarrow>
     case newUpstream parse ''inventory-service'' (services ''inventory-service'') of None \<Rightarrow> None | Some inventory \<Rightarrow>
     case newUpstream parse ''order-service'' (services ''order-service'') of None \<Rightarrow> None | Some orders \<Rightarrow>
       Some [withPrefix identity ''/api/v1/auth'',
             withPrefix identity ''/api/v1/users'',
             withPrefix catalog ''/api/v1/products'',
             withPrefix inventory ''/api/v1/inventory'',
             withPrefix inventory ''/api/v1/stock-logs'',
             withPrefix orders ''/api/v1/orders''])"

definition pathMatches :: "string \<Rightarrow> string \<Rightarrow> bool" where
  "pathMatches path prefix \<longleftrightarrow> path = prefix \<or> HasPrefix path (prefix @ ''/'')"

section \<open>Requests\<close>

definition envOrDefault :: "(string \<Rightarrow> string) \<Rightarrow> string \<Rightarrow> string \<Rightarrow> string" where
  "envOrDefault getenv key fallback = (let value = TrimSpace (getenv key) in if value \<noteq> [] then value else fallback)"

definition envPositiveFloat :: "(string \<Rightarrow> real option) \<Rightarrow> string \<Rightarrow> real \<Rightarrow> real" where
  "envPositiveFloat parseFloat raw fallback =
    (case parseFloat (TrimSpace raw) of Some v \<Rightarrow> if v \<le> 0 then fallback else v | None \<Rightarrow> fallback)"

definition clientKey :: "string \<Rightarrow> string" where
  "clientKey remoteAddr =
    (let remote = TrimSpace remoteAddr in
     case SplitHostPort remote of
       Some host \<Rightarrow> if host \<noteq> [] then host else if remote = [] then ''unknown'' else remote
     | None \<Rightarrow> if remote = [] then ''unknown'' else remote)"

record gw_request =
  gq_Path :: string
  gq_RemoteAddr :: string

text \<open>What the gateway answers: a JSON reply of its own, a rejection with \<^verbatim>\<open>Retry-After\<close>, the reply of an
  upstream, or the reply of the proxy's error handler.\<close>

datatype 'r gw_reply =
    GwJSON int "(string \<times> string) list"
  | GwRateLimited int
  | GwUpstream string 'r
  | GwProxyError string int string

text \<open>An attempt of the reverse proxy: the upstream's reply, or an error with whether it is, or the
  request's context has, an exceeded deadline.\<close>

datatype 'r proxied = ProxyReply 'r | ProxyFailed bool

definition proxy_ServeHTTP :: "gw_route \<Rightarrow> 'r proxied \<Rightarrow> 'r gw_reply" where
  "proxy_ServeHTTP r p = (case p of
      ProxyReply x \<Rightarrow> GwUpstream (route_name r) x
    | ProxyFailed deadline \<Rightarrow>
        if deadline then GwProxyError (route_name r) 504 ''upstream_timeout''
        else GwProxyError (route_name r) 502 ''upstream_unavailable'')"

text \<open>\<^verbatim>\<open>ready\<close>: one health request per service; \<open>live\<close> is its status, \<open>None\<close> when the request fails.\<close>

fun ready_loop :: "(string \<Rightarrow> int option) \<Rightarrow> string list \<Rightarrow> gw_route list \<Rightarrow> 'r gw_reply" where
  "ready_loop live seen [] = GwJSON 200 [(''status'', ''ready'')]"
| "ready_loop live seen (r # rest) =
    (if route_name r \<in> set seen then ready_loop live seen rest
     else
       case live (route_name r) of
         None \<Rightarrow> GwJSON 503 [(''status'', ''not_ready''), (''service'', route_name r)]
       | Some status \<Rightarrow>
           if status < 200 \<or> 300 \<le> status
           then GwJSON 503 [(''status'', ''not_ready''), (''service'', route_name r)]
           else ready_loop live (route_name r # seen) rest)"

definition retry_after_seconds :: "duration \<Rightarrow> int" where
  "retry_after_seconds retryAfter =
    (let seconds = \<lceil>real_of_int retryAfter / 1000000000\<rceil> in if seconds < 1 then 1 else seconds)"

definition gateway_ServeHTTP ::
  "gw_route list \<Rightarrow> (string \<Rightarrow> int option) \<Rightarrow> (gw_route \<Rightarrow> 'r proxied) \<Rightarrow> time \<Rightarrow> gw_request \<Rightarrow> Limiter
    \<Rightarrow> Limiter \<times> 'r gw_reply" where
  "gateway_ServeHTTP routes live upstream now req l =
    (if gq_Path req = ''/ping'' then (l, GwJSON 200 [(''message'', ''success'')])
     else if gq_Path req = ''/live'' then (l, GwJSON 200 [(''message'', ''live'')])
     else if gq_Path req = ''/readyz'' then (l, ready_loop live [] routes)
     else
       case Allow (clientKey (gq_RemoteAddr req)) now l of
         (l', False, retryAfter) \<Rightarrow> (l', GwRateLimited (retry_after_seconds retryAfter))
       | (l', True, _) \<Rightarrow>
           (l', (case List.find (\<lambda>r. pathMatches (gq_Path req) (route_prefix r)) routes of
                   Some r \<Rightarrow> proxy_ServeHTTP r (upstream r)
                 | None \<Rightarrow> GwJSON 404 [(''code'', ''route_not_found''), (''message'', ''gateway route not found'')])))"

section \<open>Start\<close>

text \<open>What \<^verbatim>\<open>main\<close> reads from the environment: the routes and the port, or an exit, and the limits.\<close>

definition gateway_limits ::
  "(string \<Rightarrow> real option) \<Rightarrow> (string \<Rightarrow> duration option) \<Rightarrow> (string \<Rightarrow> string) \<Rightarrow> RateConfig" where
  "gateway_limits parseFloat parseDuration getenv =
    \<lparr>PerClientRate = envPositiveFloat parseFloat (getenv ''GATEWAY_RATE_LIMIT_PER_CLIENT_RPS'') 50,
     PerClientBurst = envPositiveInt (getenv ''GATEWAY_RATE_LIMIT_PER_CLIENT_BURST'') 100,
     GlobalRate = envPositiveFloat parseFloat (getenv ''GATEWAY_RATE_LIMIT_GLOBAL_RPS'') 500,
     GlobalBurst = envPositiveInt (getenv ''GATEWAY_RATE_LIMIT_GLOBAL_BURST'') 1000,
     MaxClients = envPositiveInt (getenv ''GATEWAY_RATE_LIMIT_MAX_CLIENTS'') 10000,
     InactiveTTL = envPositiveDuration parseDuration (getenv ''GATEWAY_RATE_LIMIT_INACTIVE_TTL'') 600000000000,
     CleanupEvery = envPositiveDuration parseDuration (getenv ''GATEWAY_RATE_LIMIT_CLEANUP_INTERVAL'') 60000000000\<rparr>"

definition gateway_main ::
  "(string \<Rightarrow> target_url option) \<Rightarrow> (string \<Rightarrow> string) \<Rightarrow> (gw_route list \<times> int) option" where
  "gateway_main parse getenv =
    (case buildRoutes parse (\<lambda>name.
        if name = ''identity-service'' then envOrDefault getenv ''IDENTITY_SERVICE_URL'' ''http://identity-service:8083''
        else if name = ''catalog-service'' then envOrDefault getenv ''CATALOG_SERVICE_URL'' ''http://catalog-service:8084''
        else if name = ''inventory-service'' then envOrDefault getenv ''INVENTORY_SERVICE_URL'' ''http://inventory-service:8085''
        else if name = ''order-service'' then envOrDefault getenv ''ORDER_SERVICE_URL'' ''http://order-service:8086''
        else []) of
       None \<Rightarrow> None
     | Some routes \<Rightarrow>
         (case Atoi (envOrDefault getenv ''GATEWAY_PORT'' ''8082'') of
            None \<Rightarrow> None
          | Some port \<Rightarrow> if port \<le> 0 then None else Some (routes, port)))"

section \<open>Properties\<close>

lemma buildRoutes_Some:
  assumes "buildRoutes parse services = Some routes"
  shows "map (\<lambda>r. (route_name r, route_prefix r)) routes =
    [(''identity-service'', ''/api/v1/auth''), (''identity-service'', ''/api/v1/users''),
     (''catalog-service'', ''/api/v1/products''), (''inventory-service'', ''/api/v1/inventory''),
     (''inventory-service'', ''/api/v1/stock-logs''), (''order-service'', ''/api/v1/orders'')]"
  using assms
  by (auto simp: buildRoutes_def newUpstream_def withPrefix_def split: option.splits if_splits)

text \<open>The service that owns a path, by its public prefix.\<close>

definition owner :: "string \<Rightarrow> string option" where
  "owner path = map_option fst (List.find (\<lambda>(name, prefix). pathMatches path prefix)
    [(''identity-service'', ''/api/v1/auth''), (''identity-service'', ''/api/v1/users''),
     (''catalog-service'', ''/api/v1/products''), (''inventory-service'', ''/api/v1/inventory''),
     (''inventory-service'', ''/api/v1/stock-logs''), (''order-service'', ''/api/v1/orders'')])"

lemma find_map: "List.find p (map f xs) = map_option f (List.find (p \<circ> f) xs)"
  by (induction xs) auto

lemma find_owner:
  assumes "buildRoutes parse services = Some routes"
  shows "map_option route_name (List.find (\<lambda>r. pathMatches path (route_prefix r)) routes) = owner path"
proof -
  have "map_option route_name (List.find (\<lambda>r. pathMatches path (route_prefix r)) routes) =
    map_option fst (List.find (\<lambda>(name, prefix). pathMatches path prefix) (map (\<lambda>r. (route_name r, route_prefix r)) routes))"
    by (simp add: find_map option.map_comp comp_def)
  then show ?thesis unfolding buildRoutes_Some [OF assms] owner_def .
qed

lemma internal_not_owned:
  assumes "HasPrefix path ''/internal''"
  shows "owner path = None"
proof -
  from assms obtain rest where "path = ''/internal'' @ rest"
    unfolding HasPrefix_def by (metis append_take_drop_id)
  then show ?thesis by (simp add: owner_def pathMatches_def HasPrefix_def)
qed


lemma ready_loop_Cons:
  "ready_loop live seen (r # rest) =
    (if route_name r \<in> set seen then ready_loop live seen rest
     else if case live (route_name r) of Some st \<Rightarrow> 200 \<le> st \<and> st < 300 | None \<Rightarrow> False
     then ready_loop live (route_name r # seen) rest
     else GwJSON 503 [(''status'', ''not_ready''), (''service'', route_name r)])"
  by (auto split: option.splits)

text \<open>The gateway is ready exactly if each of its four services answers its health check with a
  success status; otherwise it answers 503 and names the first service that does not.\<close>

theorem gateway_ready:
  assumes "buildRoutes parse services = Some routes"
  shows "ready_loop live [] routes =
    (case List.find (\<lambda>n. \<not> (case live n of Some st \<Rightarrow> 200 \<le> st \<and> st < 300 | None \<Rightarrow> False))
        [''identity-service'', ''catalog-service'', ''inventory-service'', ''order-service''] of
       None \<Rightarrow> GwJSON 200 [(''status'', ''ready'')]
     | Some n \<Rightarrow> GwJSON 503 [(''status'', ''not_ready''), (''service'', n)])"
proof -
  from buildRoutes_Some [OF assms] obtain r1 r2 r3 r4 r5 r6 where r: "routes = [r1, r2, r3, r4, r5, r6]"
    and n: "route_name r1 = ''identity-service''" "route_name r2 = ''identity-service''" "route_name r3 = ''catalog-service''"
      "route_name r4 = ''inventory-service''" "route_name r5 = ''inventory-service''" "route_name r6 = ''order-service''"
    by (auto simp: map_eq_Cons_conv)
  show ?thesis unfolding r by (simp add: n ready_loop_Cons del: ready_loop.simps(2))
qed

section \<open>Small instances\<close>

definition demo_parse :: "string \<Rightarrow> target_url option" where
  "demo_parse raw = Some \<lparr>url_Scheme = ''http'', url_Host = raw\<rparr>"

definition demo_routes :: "gw_route list" where
  "demo_routes = the (buildRoutes demo_parse (\<lambda>name. name))"

lemma demo_routes_built: "buildRoutes demo_parse (\<lambda>name. name) = Some demo_routes"
  unfolding demo_routes_def by (simp add: buildRoutes_def newUpstream_def demo_parse_def)

definition demo_request :: gw_request where
  "demo_request = \<lparr>gq_Path = ''/api/v1/orders/7'', gq_RemoteAddr = ''10.0.0.1:5555''\<rparr>"


theorem gateway_ready_witness:
  "ready_loop (\<lambda>n. if n = ''inventory-service'' then Some 500 else Some 200) [] demo_routes =
    (GwJSON 503 [(''status'', ''not_ready''), (''service'', ''inventory-service'')] :: unit gw_reply)"
  by (subst gateway_ready [OF demo_routes_built]) simp

end
