(* ===== verification/Catalog.thy ===== *)
theory Catalog
  imports Clients
begin

text \<open>
  The catalog service, \<^verbatim>\<open>internal/catalogsvc/catalog.go\<close>: the table of products, the operations of the
  service, its handlers, and the catalog client of the order service
  (\<^verbatim>\<open>internal/ordersvc/clients.go\<close>) on a network of attempts. MySQL reports as affected the rows that an
  update changes, so \<^verbatim>\<open>SetStatus\<close> counts a row only when its stored status or its update time,
  kept in milliseconds, becomes another.
\<close>

section \<open>Table\<close>

record Product =
  pr_ID :: int
  pr_Name :: string
  pr_Description :: string
  pr_PriceFen :: int
  pr_Status :: int
  pr_CreatedAt :: time
  pr_UpdatedAt :: time

record catalog_db =
  catalog_products :: "Product list"
  next_product :: int

definition ProductStatusOnSale :: int where "ProductStatusOnSale = 1"
definition ProductStatusOffSale :: int where "ProductStatusOffSale = 2"

lemmas product_status_defs = ProductStatusOnSale_def ProductStatusOffSale_def

datatype cat_site = ProductInsert | ProductFind | ProductCount | ProductPage | ProductUpdate

datatype cat_error = ErrProductNotFound | InvalidProduct | CatDB db_error

text \<open>\<^verbatim>\<open>chk_catalog_products_price\<close>.\<close>

definition product_check :: "Product \<Rightarrow> db_error option" where
  "product_check p = (if pr_PriceFen p \<le> 0 then Some CheckViolated else None)"

section \<open>Operations\<close>

definition insert_product :: "Product \<Rightarrow> catalog_db \<Rightarrow> db_error + catalog_db \<times> Product" where
  "insert_product p db =
    (let row = p\<lparr>pr_ID := next_product db\<rparr> in
     case sql_insert product_check (\<lambda>a b. pr_ID a = pr_ID b) row (catalog_products db) of
       Inl d \<Rightarrow> Inl d
     | Inr rows \<Rightarrow> Inr (db\<lparr>catalog_products := rows, next_product := next_product db + 1\<rparr>, row))"

definition catalog_Create ::
  "cat_site env \<Rightarrow> string \<Rightarrow> string \<Rightarrow> int \<Rightarrow> catalog_db \<Rightarrow> catalog_db \<times> (cat_error + Product)" where
  "catalog_Create env name0 description0 priceFen db =
    (let name = TrimSpace name0; description = TrimSpace description0 in
     if name = [] \<or> 100 < length name \<or> 500 < length description \<or> priceFen \<le> 0
     then (db, Inl InvalidProduct)
     else
       let now = round_ms (e_now env ProductInsert) in
       case autocommit env ProductInsert (insert_product
           \<lparr>pr_ID = 0, pr_Name = name, pr_Description = description, pr_PriceFen = priceFen,
            pr_Status = ProductStatusOffSale, pr_CreatedAt = now, pr_UpdatedAt = now\<rparr>) db of
         (db', Inl d) \<Rightarrow> (db', Inl (CatDB d))
       | (db', Inr product) \<Rightarrow> (db', Inr product))"

definition catalog_Get :: "cat_site env \<Rightarrow> int \<Rightarrow> catalog_db \<Rightarrow> cat_error + Product" where
  "catalog_Get env pid db =
    (case stmt env ProductFind (Inr (lookup_by pr_ID pid (catalog_products db))) of
       Inl d \<Rightarrow> Inl (CatDB d)
     | Inr None \<Rightarrow> Inl ErrProductNotFound
     | Inr (Some product) \<Rightarrow> Inr product)"

definition catalog_List ::
  "cat_site env \<Rightarrow> int option \<Rightarrow> int \<Rightarrow> int \<Rightarrow> catalog_db \<Rightarrow> cat_error + Product list \<times> int" where
  "catalog_List env status page0 pageSize0 db =
    (let page = (if page0 \<le> 0 then 1 else page0);
         pageSize = (if pageSize0 \<le> 0 \<or> 100 < pageSize0 then 20 else pageSize0);
         scoped = filter (\<lambda>p. case status of None \<Rightarrow> True | Some st \<Rightarrow> pr_Status p = st) (catalog_products db)
     in case stmt env ProductCount (Inr (int (length scoped))) of
          Inl d \<Rightarrow> Inl (CatDB d)
        | Inr cnt \<Rightarrow>
            (case stmt env ProductPage
                (Inr (sql_page (wrap64 (wrap64 (page - 1) * pageSize)) pageSize (rev scoped))) of
               Inl d \<Rightarrow> Inl (CatDB d)
             | Inr products \<Rightarrow> Inr (products, cnt)))"

definition update_status :: "int \<Rightarrow> int \<Rightarrow> time \<Rightarrow> catalog_db \<Rightarrow> db_error + catalog_db \<times> nat" where
  "update_status pid status now db =
    (let set_row = (\<lambda>p. p\<lparr>pr_Status := status, pr_UpdatedAt := round_ms now\<rparr>) in
     case sql_update product_check (\<lambda>p. pr_ID p = pid \<and> set_row p \<noteq> p) set_row (catalog_products db) of
       Inl d \<Rightarrow> Inl d
     | Inr (rows, n) \<Rightarrow> Inr (db\<lparr>catalog_products := rows\<rparr>, n))"

definition catalog_SetStatus ::
  "cat_site env \<Rightarrow> int \<Rightarrow> int \<Rightarrow> catalog_db \<Rightarrow> catalog_db \<times> cat_error option" where
  "catalog_SetStatus env pid status db =
    (case autocommit env ProductUpdate (update_status pid status (e_now env ProductUpdate)) db of
       (db', Inl d) \<Rightarrow> (db', Some (CatDB d))
     | (db', Inr n) \<Rightarrow> (db', if n = 0 then Some ErrProductNotFound else None))"

section \<open>Handlers\<close>

datatype cat_msg = CatMsg string | CatErrText cat_error

record product_request =
  pq_Name :: string
  pq_Description :: string
  pq_PriceFen :: int

definition cat_handler_create ::
  "cat_site env \<Rightarrow> product_request option \<Rightarrow> catalog_db \<Rightarrow> catalog_db \<times> (cat_msg, Product) reply" where
  "cat_handler_create env body db =
    (case body of
       None \<Rightarrow> (db, FailReply 400 40001 (CatMsg ''invalid request''))
     | Some req \<Rightarrow>
         (case catalog_Create env (pq_Name req) (pq_Description req) (pq_PriceFen req) db of
            (db', Inl err) \<Rightarrow> (db', FailReply 400 40002 (CatErrText err))
          | (db', Inr product) \<Rightarrow> (db', OkReply 201 product)))"

definition cat_handler_list ::
  "cat_site env \<Rightarrow> string \<Rightarrow> string \<Rightarrow> string \<Rightarrow> catalog_db
    \<Rightarrow> (cat_msg, Product list \<times> int \<times> int \<times> int) reply" where
  "cat_handler_list env qpage qsize qstatus db =
    (let page = parsePositiveInt qpage 1;
         pageSize = parsePositiveInt qsize 20;
         raw = TrimSpace qstatus
     in case (if raw = [] then Some None else map_option Some (ParseInt 8 raw)) of
          None \<Rightarrow> FailReply 400 40003 (CatMsg ''invalid status'')
        | Some status \<Rightarrow>
            (case catalog_List env status page pageSize db of
               Inl _ \<Rightarrow> FailReply 500 50001 (CatMsg ''list products failed'')
             | Inr (products, cnt) \<Rightarrow> OkReply 200 (products, cnt, page, pageSize)))"

definition cat_handler_get :: "cat_site env \<Rightarrow> string \<Rightarrow> catalog_db \<Rightarrow> (cat_msg, Product) reply" where
  "cat_handler_get env param db =
    (case parseID param of
       None \<Rightarrow> FailReply 400 40004 (CatMsg ''invalid product id'')
     | Some pid \<Rightarrow>
         (case catalog_Get env pid db of
            Inl ErrProductNotFound \<Rightarrow> FailReply 404 40401 (CatMsg ''product not found'')
          | Inl _ \<Rightarrow> FailReply 500 50002 (CatMsg ''get product failed'')
          | Inr product \<Rightarrow> OkReply 200 product))"

definition cat_handler_internalGet :: "cat_site env \<Rightarrow> string \<Rightarrow> catalog_db \<Rightarrow> (cat_msg, Product) reply" where
  "cat_handler_internalGet env param db =
    (case parseID param of
       None \<Rightarrow> ErrorReply 400 (CatMsg ''invalid product id'')
     | Some pid \<Rightarrow>
         (case catalog_Get env pid db of
            Inl ErrProductNotFound \<Rightarrow> ErrorReply 404 (CatMsg ''product not found'')
          | Inl _ \<Rightarrow> ErrorReply 500 (CatMsg ''get product failed'')
          | Inr product \<Rightarrow> PlainReply 200 product))"

definition cat_handler_setStatus ::
  "cat_site env \<Rightarrow> int \<Rightarrow> string \<Rightarrow> catalog_db \<Rightarrow> catalog_db \<times> (cat_msg, int \<times> int) reply" where
  "cat_handler_setStatus env status param db =
    (case parseID param of
       None \<Rightarrow> (db, FailReply 400 40004 (CatMsg ''invalid product id''))
     | Some pid \<Rightarrow>
         (case catalog_SetStatus env pid status db of
            (db', Some ErrProductNotFound) \<Rightarrow> (db', FailReply 404 40401 (CatMsg ''product not found''))
          | (db', Some _) \<Rightarrow> (db', FailReply 500 50003 (CatMsg ''update product status failed''))
          | (db', None) \<Rightarrow> (db', OkReply 200 (pid, status))))"

definition cat_handler_onSale where "cat_handler_onSale env = cat_handler_setStatus env ProductStatusOnSale"
definition cat_handler_offSale where "cat_handler_offSale env = cat_handler_setStatus env ProductStatusOffSale"

section \<open>The catalog client\<close>

text \<open>An attempt of the client: whether it reaches the catalog, the catalog's products and statement
  outcomes at that moment, and what becomes of the reply.\<close>

record cat_attempt =
  ca_reach :: bool
  ca_db :: catalog_db
  ca_env :: "cat_site env"
  ca_lost :: "call_error option"
  ca_whole :: bool

record 'c cat_world =
  cw_token :: string
  cw_net :: "cat_attempt list"
  cw_ctx :: 'c

type_synonym cat_reply = "(cat_msg, Product) reply"

definition cat_serve :: "string \<Rightarrow> http_request \<Rightarrow> int \<Rightarrow> cat_attempt \<Rightarrow> cat_reply" where
  "cat_serve token req pid a =
    snd (internal_middleware CatMsg token
      (case map_of (rq_headers req) ''X-Internal-Token'' of Some t \<Rightarrow> t | None \<Rightarrow> [])
      (\<lambda>db. (db, cat_handler_internalGet (ca_env a) (FormatInt pid) db)) (ca_db a))"

definition cat_do ::
  "'c ctx_ops \<Rightarrow> int \<Rightarrow> http_request \<Rightarrow> 'c cat_world
    \<Rightarrow> 'c cat_world \<times> (call_error + (cat_reply \<times> bool) http_response)" where
  "cat_do cx pid req w =
    (case cw_net w of
       [] \<Rightarrow> (w\<lparr>cw_ctx := cx_do cx (cw_ctx w)\<rparr>, Inl (NetError ''connection refused''))
     | a # rest \<Rightarrow>
         (w\<lparr>cw_net := rest, cw_ctx := cx_do cx (cw_ctx w)\<rparr>,
          case ca_lost a of
            Some e \<Rightarrow> Inl e
          | None \<Rightarrow>
              if ca_reach a
              then Inr \<lparr>hr_status = r_status (cat_serve (cw_token w) req pid a),
                     hr_body = (cat_serve (cw_token w) req pid a, ca_whole a)\<rparr>
              else Inl (NetError ''connection refused'')))"

definition cat_ops :: "'c ctx_ops \<Rightarrow> int \<Rightarrow> ('c cat_world, cat_reply \<times> bool) exec_ops" where
  "cat_ops cx pid =
    \<lparr>x_ctxErr = cx_ctxErr cx \<circ> cw_ctx, x_deadline = cx_deadline cx \<circ> cw_ctx,
     x_requestID = cx_requestID cx \<circ> cw_ctx, x_now = cx_now cx \<circ> cw_ctx, x_format = cx_format cx,
     x_do = (\<lambda>req st. case cat_do cx pid req (xs_world st) of (w, r) \<Rightarrow> (st\<lparr>xs_world := w\<rparr>, r)),
     x_sleep = (\<lambda>d st. case cx_sleep cx d (cw_ctx (xs_world st)) of
        (c, e) \<Rightarrow> (st\<lparr>xs_world := (xs_world st)\<lparr>cw_ctx := c\<rparr>\<rparr>, e)),
     x_jitter = (\<lambda>d w. cx_jitter cx d (cw_ctx w))\<rparr>"

record cat_client =
  cc_baseURL :: string
  cc_token :: string
  cc_breaker :: CircuitBreakerConfig
  cc_text :: "cat_reply \<times> bool \<Rightarrow> string"

definition NewCatalogClient ::
  "string \<Rightarrow> string \<Rightarrow> CircuitBreakerConfig \<Rightarrow> (cat_reply \<times> bool \<Rightarrow> string) \<Rightarrow> cat_client" where
  "NewCatalogClient baseURL token cfg text =
    \<lparr>cc_baseURL = rev (dropWhile (\<lambda>c. c = CHR ''/'') (rev (TrimSpace baseURL))),
     cc_token = TrimSpace token, cc_breaker = cfg, cc_text = text\<rparr>"

definition catalog_product :: "Product \<Rightarrow> CatalogProduct" where
  "catalog_product p = \<lparr>cp_ID = pr_ID p, cp_Name = pr_Name p, cp_Description = pr_Description p,
     cp_PriceFen = pr_PriceFen p, cp_Status = pr_Status p\<rparr>"

definition decode_product :: "cat_reply \<times> bool \<Rightarrow> CatalogProduct option" where
  "decode_product b = (case b of (PlainReply _ p, True) \<Rightarrow> Some (catalog_product p) | _ \<Rightarrow> None)"

definition client_GetProduct ::
  "'c ctx_ops \<Rightarrow> cat_client \<Rightarrow> int \<Rightarrow> 'c cat_world exec_state
    \<Rightarrow> 'c cat_world exec_state \<times> (client_error + CatalogProduct)" where
  "client_GetProduct cx c pid st =
    apsnd (output_of \<lparr>cp_ID = 0, cp_Name = [], cp_Description = [], cp_PriceFen = 0, cp_Status = 0\<rparr>)
      (doJSON (cat_ops cx pid) (cc_breaker c) (cc_text c) decode_product (cc_token c)
        ''catalog-service'' ''get-product-snapshot'' ''GET''
        (cc_baseURL c @ ''/internal/v1/products/'' @ FormatInt pid) None st)"

section \<open>Invariant\<close>

definition product_ok :: "Product \<Rightarrow> bool" where
  "product_ok p \<longleftrightarrow> pr_Name p \<noteq> [] \<and> length (pr_Name p) \<le> 100 \<and> length (pr_Description p) \<le> 500 \<and>
    0 < pr_PriceFen p \<and> pr_Status p \<in> {ProductStatusOnSale, ProductStatusOffSale}"

definition catalog_ok :: "catalog_db \<Rightarrow> bool" where
  "catalog_ok db \<longleftrightarrow> sorted_wrt (<) (map pr_ID (catalog_products db)) \<and> 0 < next_product db \<and>
    (\<forall>p\<in>set (catalog_products db). product_ok p \<and> 0 < pr_ID p \<and> pr_ID p < next_product db)"

definition catalog_empty :: catalog_db where
  "catalog_empty = \<lparr>catalog_products = [], next_product = 1\<rparr>"

text \<open>The columns that no operation changes.\<close>

definition product_core :: "Product \<Rightarrow> int \<times> string \<times> string \<times> int \<times> time" where
  "product_core p = (pr_ID p, pr_Name p, pr_Description p, pr_PriceFen p, pr_CreatedAt p)"

text \<open>The requests that change the catalog.\<close>

datatype cat_call =
    CatCreate "cat_site env" "product_request option"
  | CatOnSale "cat_site env" string
  | CatOffSale "cat_site env" string

fun cat_exec :: "cat_call \<Rightarrow> catalog_db \<Rightarrow> catalog_db" where
  "cat_exec (CatCreate env body) db = fst (cat_handler_create env body db)"
| "cat_exec (CatOnSale env param) db = fst (cat_handler_onSale env param db)"
| "cat_exec (CatOffSale env param) db = fst (cat_handler_offSale env param db)"

lemma update_status_spec:
  assumes "update_status pid status now db = Inr (db', n)"
  shows "db' = db\<lparr>catalog_products := map (\<lambda>p. if pr_ID p = pid
      then p\<lparr>pr_Status := status, pr_UpdatedAt := round_ms now\<rparr> else p) (catalog_products db)\<rparr>"
  using assms by (auto simp: update_status_def Let_def sql_update_Inr split: sum.splits prod.splits intro!: map_cong)

lemma catalog_SetStatus_fst:
  "fst (catalog_SetStatus env pid status db) \<in> {db, db\<lparr>catalog_products := map (\<lambda>p. if pr_ID p = pid
      then p\<lparr>pr_Status := status, pr_UpdatedAt := round_ms (e_now env ProductUpdate)\<rparr> else p) (catalog_products db)\<rparr>}"
proof -
  have "fst (catalog_SetStatus env pid status db) =
    fst (autocommit env ProductUpdate (update_status pid status (e_now env ProductUpdate)) db)"
    by (auto simp: catalog_SetStatus_def split: prod.splits sum.splits)
  with autocommit_fst [of env ProductUpdate "update_status pid status (e_now env ProductUpdate)" db] update_status_spec
  show ?thesis by fastforce
qed

lemma catalog_Create_fst:
  assumes "fst (catalog_Create env name description price db) \<noteq> db"
  shows "\<exists>p. pr_ID p = next_product db \<and> product_ok p \<and>
    fst (catalog_Create env name description price db) =
      db\<lparr>catalog_products := catalog_products db @ [p], next_product := next_product db + 1\<rparr>"
proof -
  let ?n = "TrimSpace name" and ?d = "TrimSpace description" and ?t = "round_ms (e_now env ProductInsert)"
  let ?p = "\<lparr>pr_ID = 0, pr_Name = ?n, pr_Description = ?d, pr_PriceFen = price,
            pr_Status = ProductStatusOffSale, pr_CreatedAt = ?t, pr_UpdatedAt = ?t\<rparr>"
  from assms have ok: "\<not> (?n = [] \<or> 100 < length ?n \<or> 500 < length ?d \<or> price \<le> 0)"
    by (auto simp: catalog_Create_def Let_def split: if_splits)
  then have f: "fst (catalog_Create env name description price db) = fst (autocommit env ProductInsert (insert_product ?p) db)"
    by (auto simp: catalog_Create_def Let_def split: prod.splits sum.splits)
  from autocommit_fst [of env ProductInsert "insert_product ?p" db] assms f obtain x where
    "insert_product ?p db = Inr (fst (catalog_Create env name description price db), x)" by auto
  then have "fst (catalog_Create env name description price db) =
    db\<lparr>catalog_products := catalog_products db @ [?p\<lparr>pr_ID := next_product db\<rparr>], next_product := next_product db + 1\<rparr>"
    by (auto simp: insert_product_def Let_def sql_insert_Inr split: sum.splits)
  moreover have "product_ok (?p\<lparr>pr_ID := next_product db\<rparr>)" using ok by (simp add: product_ok_def)
  ultimately show ?thesis by (intro exI [of _ "?p\<lparr>pr_ID := next_product db\<rparr>"]) simp
qed

lemma set_status_ok:
  assumes "catalog_ok db" and "status \<in> {ProductStatusOnSale, ProductStatusOffSale}"
  shows "catalog_ok (fst (catalog_SetStatus env pid status db))"
    and "map product_core (catalog_products (fst (catalog_SetStatus env pid status db))) =
      map product_core (catalog_products db)"
proof -
  define f where "f p = (if pr_ID p = pid then p\<lparr>pr_Status := status, pr_UpdatedAt := round_ms (e_now env ProductUpdate)\<rparr>
    else p)" for p :: Product
  have f: "pr_ID (f p) = pr_ID p" "product_core (f p) = product_core p" "product_ok p \<Longrightarrow> product_ok (f p)" for p
    using assms(2) by (auto simp: f_def product_core_def product_ok_def)
  with assms(1) have "catalog_ok (db\<lparr>catalog_products := map f (catalog_products db)\<rparr>)"
    by (simp add: catalog_ok_def comp_def)
  with catalog_SetStatus_fst [of env pid status db, folded f_def] assms(1) f(2)
  show "catalog_ok (fst (catalog_SetStatus env pid status db))"
    and "map product_core (catalog_products (fst (catalog_SetStatus env pid status db))) =
      map product_core (catalog_products db)" by auto
qed

lemma create_ok:
  assumes "catalog_ok db"
  shows "catalog_ok (fst (catalog_Create env name description price db))"
    and "\<exists>new. map product_core (catalog_products (fst (catalog_Create env name description price db))) =
      map product_core (catalog_products db) @ new"
proof -
  have "catalog_ok (fst (catalog_Create env name description price db)) \<and>
    (\<exists>new. map product_core (catalog_products (fst (catalog_Create env name description price db))) =
      map product_core (catalog_products db) @ new)"
  proof (cases "fst (catalog_Create env name description price db) = db")
    case True
    then show ?thesis using assms by simp
  next
    case False
    then obtain p where p: "pr_ID p = next_product db" "product_ok p" "fst (catalog_Create env name description price db) =
      db\<lparr>catalog_products := catalog_products db @ [p], next_product := next_product db + 1\<rparr>"
      using catalog_Create_fst by blast
    show ?thesis unfolding p(3) using assms p(1,2) by (auto simp: catalog_ok_def sorted_wrt_append)
  qed
  then show "catalog_ok (fst (catalog_Create env name description price db))"
    and "\<exists>new. map product_core (catalog_products (fst (catalog_Create env name description price db))) =
      map product_core (catalog_products db) @ new" by blast+
qed

lemma cat_exec_step:
  assumes "catalog_ok db"
  shows "catalog_ok (cat_exec c db) \<and>
    (\<exists>new. map product_core (catalog_products (cat_exec c db)) = map product_core (catalog_products db) @ new)"
proof (cases c)
  case (CatCreate env body)
  have "fst (cat_handler_create env body db) = (case body of None \<Rightarrow> db
      | Some req \<Rightarrow> fst (catalog_Create env (pq_Name req) (pq_Description req) (pq_PriceFen req) db))"
    by (auto simp: cat_handler_create_def split: option.splits prod.splits sum.splits)
  with CatCreate assms create_ok show ?thesis by (auto split: option.splits)
next
  have set: "fst (cat_handler_setStatus env status param db) = (case parseID param of None \<Rightarrow> db
      | Some pid \<Rightarrow> fst (catalog_SetStatus env pid status db))" for env status param
    by (auto simp: cat_handler_setStatus_def split: option.splits prod.splits cat_error.splits)
  {
    case (CatOnSale env param)
    with set set_status_ok [OF assms] assms show ?thesis
      by (auto simp: cat_handler_onSale_def split: option.splits)
  next
    case (CatOffSale env param)
    with set set_status_ok [OF assms] assms show ?thesis
      by (auto simp: cat_handler_offSale_def split: option.splits)
  }
qed

lemma cat_exec_steps:
  assumes "catalog_ok db"
  shows "catalog_ok (fold cat_exec cs db) \<and>
    (\<exists>new. map product_core (catalog_products (fold cat_exec cs db)) = map product_core (catalog_products db) @ new)"
  using assms
proof (induction cs arbitrary: db)
  case (Cons c cs)
  from cat_exec_step [OF Cons.prems, of c] Cons.IH [of "cat_exec c db"] show ?case by auto
qed simp

section \<open>Properties\<close>

text \<open>Whatever requests the catalog serves, and however its statements fail, every product keeps a
  name of at most 100 bytes, a description of at most 500, a positive price and one of the two
  statuses; ids increase, and id, name, description, price and creation time never change once written.\<close>

theorem catalog_reachable:
  "catalog_ok (fold cat_exec cs catalog_empty) \<and>
   (\<exists>new. map product_core (catalog_products (fold cat_exec (cs @ cs') catalog_empty)) =
     map product_core (catalog_products (fold cat_exec cs catalog_empty)) @ new)"
proof -
  have "catalog_ok catalog_empty" by (simp add: catalog_ok_def catalog_empty_def)
  then have "catalog_ok (fold cat_exec cs catalog_empty)" using cat_exec_steps by blast
  with cat_exec_steps show ?thesis by simp
qed

lemma concat_pages: "concat (map (\<lambda>i. take k (drop (i * k) xs)) [0..<n]) = take (n * k) xs"
proof (induction n)
  case (Suc n)
  then show ?case using take_add [of "n * k" k xs] by (simp add: add.commute)
qed simp

text \<open>Paging through the catalog shows every product of the filter exactly once, newest first:
  the first \<open>n\<close> pages joined are the first \<open>n * k\<close> products in descending order of id, and every
  page reports the same total.\<close>

theorem catalog_pages:
  assumes "fault_free env" and "1 \<le> k" and "k \<le> 100" and "int n * int k \<le> int64_max"
    and scoped: "scoped = filter (\<lambda>p. case status of None \<Rightarrow> True | Some st \<Rightarrow> pr_Status p = st) (catalog_products db)"
  shows "\<exists>rows. (\<forall>page\<in>{1..n}. catalog_List env status (int page) (int k) db = Inr (rows page, int (length scoped))) \<and>
    concat (map rows [1..<Suc n]) = take (n * k) (rev scoped)"
proof -
  let ?rows = "\<lambda>page. take k (drop ((page - 1) * k) (rev scoped))"
  have "catalog_List env status (int page) (int k) db = Inr (?rows page, int (length scoped))" if p: "page \<in> {1..n}" for page
  proof -
    from p obtain i where i: "page = Suc i" "i < n" by (cases page) auto
    then have "int i * int k \<le> int n * int k" by (intro mult_right_mono) auto
    then have le: "int i * int k \<le> int64_max" using assms(4) by (rule order_trans)
    have "int i * 1 \<le> int i * int k" using assms(2) by (intro mult_left_mono) auto
    with le have "wrap64 (wrap64 (int i) * int k) = int (i * k)" by (simp add: int64_small)
    then show ?thesis
      using assms(1-3) by (simp add: catalog_List_def Let_def sql_page_def i(1) scoped nat_mult_distrib)
  qed
  moreover have "map ?rows [1..<Suc n] = map (\<lambda>i. take k (drop (i * k) (rev scoped))) [0..<n]"
    by (simp add: map_Suc_upt [symmetric] del: upt_Suc)
  ultimately show ?thesis using concat_pages [of k "rev scoped" n] by (intro exI [of _ ?rows]) simp
qed

text \<open>C33. Changing the status of a product changes that product alone. The call reports that the
  product is missing when it is, and also when it exists with that status and was last written in
  the same millisecond, since MySQL counts changed rows.\<close>

theorem catalog_SetStatus_effect:
  assumes "fault_free env" and "catalog_ok db"
  shows "case lookup_by pr_ID pid (catalog_products db) of
      None \<Rightarrow> catalog_SetStatus env pid status db = (db, Some ErrProductNotFound)
    | Some p \<Rightarrow>
        let p' = p\<lparr>pr_Status := status, pr_UpdatedAt := round_ms (e_now env ProductUpdate)\<rparr>;
            (db', r) = catalog_SetStatus env pid status db
        in lookup_by pr_ID pid (catalog_products db') = Some p' \<and>
           (\<forall>k. k \<noteq> pid \<longrightarrow> lookup_by pr_ID k (catalog_products db') = lookup_by pr_ID k (catalog_products db)) \<and>
           r = (if pr_Status p = status \<and> pr_UpdatedAt p = round_ms (e_now env ProductUpdate)
                then Some ErrProductNotFound else None)"
proof -
  define f where "f p = p\<lparr>pr_Status := status, pr_UpdatedAt := round_ms (e_now env ProductUpdate)\<rparr>" for p :: Product
  define g where "g p = (if pr_ID p = pid then f p else p)" for p
  let ?hit = "\<lambda>p. pr_ID p = pid \<and> f p \<noteq> p"
  have id: "pr_ID (g p) = pr_ID p" for p by (simp add: f_def g_def)
  have chk: "\<forall>p\<in>set (catalog_products db). ?hit p \<longrightarrow> product_check (f p) = None"
    using assms(2) by (auto simp: catalog_ok_def product_ok_def product_check_def f_def)
  have "map (\<lambda>p. if ?hit p then f p else p) (catalog_products db) = map g (catalog_products db)"
    by (simp add: g_def)
  with chk have "update_status pid status (e_now env ProductUpdate) db =
      Inr (db\<lparr>catalog_products := map g (catalog_products db)\<rparr>, length (filter ?hit (catalog_products db)))"
    unfolding update_status_def Let_def f_def [symmetric] by (simp add: sql_update_Inr [THEN iffD2])
  with assms(1) have run: "catalog_SetStatus env pid status db = (db\<lparr>catalog_products := map g (catalog_products db)\<rparr>,
     if filter ?hit (catalog_products db) = [] then Some ErrProductNotFound else None)"
    by (simp add: catalog_SetStatus_def autocommit_def Transaction_def)
  show ?thesis
  proof (cases "lookup_by pr_ID pid (catalog_products db)")
    case None
    then have "pid \<notin> pr_ID ` set (catalog_products db)" by (simp add: lookup_by_None_iff)
    then have "map g (catalog_products db) = catalog_products db" and "filter ?hit (catalog_products db) = []"
      by (auto intro!: map_idI simp: filter_empty_conv g_def)
    with None run show ?thesis by simp
  next
    case (Some p)
    then have p: "p \<in> set (catalog_products db)" "pr_ID p = pid" using lookup_by_Some_D by fastforce+
    have "distinct (map pr_ID (catalog_products db))"
      using assms(2) by (simp add: catalog_ok_def strict_sorted_iff)
    then have "q = p" if "q \<in> set (catalog_products db)" "pr_ID q = pid" for q
      by (rule distinct_key_eq) (use that p in simp_all)
    then have hit: "filter ?hit (catalog_products db) = [] \<longleftrightarrow> f p = p"
      unfolding filter_empty_conv using p by blast
    have fp: "f p = p \<longleftrightarrow> pr_Status p = status \<and> pr_UpdatedAt p = round_ms (e_now env ProductUpdate)"
      by (cases p) (auto simp: f_def)
    have "map_option g (lookup_by pr_ID k (catalog_products db)) = lookup_by pr_ID k (catalog_products db)" if "k \<noteq> pid" for k
      using that by (cases "lookup_by pr_ID k (catalog_products db)") (auto simp: g_def dest: lookup_by_Some_D)
    then have "\<forall>k. k \<noteq> pid \<longrightarrow> lookup_by pr_ID k (map g (catalog_products db)) = lookup_by pr_ID k (catalog_products db)"
      by (simp add: lookup_by_map id)
    moreover have "lookup_by pr_ID pid (map g (catalog_products db)) = Some (f p)"
      unfolding lookup_by_map [of pr_ID g, OF id] Some by (simp add: g_def p(2))
    ultimately show ?thesis
      unfolding Some run hit fp by (simp add: f_def)
  qed
qed

text \<open>What an answer of the catalog shows: the product stood in the catalog when the attempt reached it.\<close>

definition cat_answered :: "string \<Rightarrow> int \<Rightarrow> cat_attempt list \<Rightarrow> (cat_reply \<times> bool) http_response \<Rightarrow> bool" where
  "cat_answered token pid net resp \<longleftrightarrow>
    (\<exists>a req. a \<in> set net \<and> ca_reach a \<and> ca_lost a = None \<and>
      hr_status resp = r_status (cat_serve token req pid a) \<and> hr_body resp = (cat_serve token req pid a, ca_whole a))"

lemma cat_answeredI:
  assumes "a \<in> set net" and "ca_reach a" and "ca_lost a = None"
  shows "cat_answered token pid net
    \<lparr>hr_status = r_status (cat_serve token req pid a), hr_body = (cat_serve token req pid a, ca_whole a)\<rparr>"
  unfolding cat_answered_def http_response.simps using assms by blast

interpretation cat_net: json_client "cat_ops cx pid" "\<lambda>w. cw_token w = token \<and> set (cw_net w) \<subseteq> set net"
  "\<lambda>resp w. cat_answered token pid net resp" for cx pid token net
proof unfold_locales
  fix s req s' r
  assume P: "cw_token (xs_world s) = token \<and> set (cw_net (xs_world s)) \<subseteq> set net" and d: "x_do (cat_ops cx pid) req s = (s', r)"
  obtain w' where w': "cat_do cx pid req (xs_world s) = (w', r)" "s' = s\<lparr>xs_world := w'\<rparr>"
    using d by (auto simp: cat_ops_def split: prod.splits)
  show "(cw_token (xs_world s') = token \<and> set (cw_net (xs_world s')) \<subseteq> set net) \<and>
    (\<forall>resp. r = Inr resp \<longrightarrow> cat_answered token pid net resp)"
  proof (cases "cw_net (xs_world s)")
    case Nil
    with P w' show ?thesis by (auto simp: cat_do_def)
  next
    case (Cons a rest)
    with P w' show ?thesis
      by (auto simp: cat_do_def split: option.splits if_splits intro!: cat_answeredI)
  qed
next
  fix s d s' e
  assume "cw_token (xs_world s) = token \<and> set (cw_net (xs_world s)) \<subseteq> set net" "x_sleep (cat_ops cx pid) d s = (s', e)"
  then show "cw_token (xs_world s') = token \<and> set (cw_net (xs_world s')) \<subseteq> set net"
    by (auto simp: cat_ops_def split: prod.splits)
qed

lemma cat_serve_status: "r_status (cat_serve token req pid a) \<noteq> 204"
  by (auto simp: cat_serve_def internal_middleware_def Let_def cat_handler_internalGet_def
      split: option.split sum.split cat_error.split)

lemma cat_serve_product:
  assumes "cat_serve token req pid a = PlainReply st p" and "int64 pid"
  shows "0 < pid \<and> lookup_by pr_ID pid (catalog_products (ca_db a)) = Some p"
  using assms
  by (auto simp: cat_serve_def internal_middleware_def Let_def cat_handler_internalGet_def parseID_def catalog_Get_def
      stmt_def split: option.splits sum.splits cat_error.splits if_splits outcome.splits)

text \<open>A product that the catalog client returns to the order service is the row that the catalog
  held under that id when one of the attempts of the call reached it: no price is invented, taken from
  another product or from a failed reply.\<close>

theorem catalog_client_snapshot:
  assumes "int64 pid" and run: "client_GetProduct cx c pid st = (st', Inr product)"
  shows "0 < pid \<and> (\<exists>a\<in>set (cw_net (xs_world st)). ca_reach a \<and>
    (\<exists>p. lookup_by pr_ID pid (catalog_products (ca_db a)) = Some p \<and> product = catalog_product p))"
proof -
  obtain r where d: "doJSON (cat_ops cx pid) (cc_breaker c) (cc_text c) decode_product (cc_token c)
        ''catalog-service'' ''get-product-snapshot'' ''GET''
        (cc_baseURL c @ ''/internal/v1/products/'' @ FormatInt pid) None st = (st', r)"
    and o: "output_of \<lparr>cp_ID = 0, cp_Name = [], cp_Description = [], cp_PriceFen = 0, cp_Status = 0\<rparr> r = Inr product"
    using run by (auto simp: client_GetProduct_def apsnd_def map_prod_def split: prod.splits)
  have "cw_token (xs_world st) = cw_token (xs_world st) \<and> set (cw_net (xs_world st)) \<subseteq> set (cw_net (xs_world st))" by simp
  note k = cat_net.doJSON_keeps [OF this d]
  from k(2) cat_serve_status have "r \<noteq> Inr None" by (auto simp: cat_answered_def)
  with o have "r = Inr (Some product)" by (auto simp: output_of_def split: sum.splits option.splits)
  from k(3) [OF this] obtain resp where dec: "decode_product (hr_body resp) = Some product"
    and ans: "cat_answered (cw_token (xs_world st)) pid (cw_net (xs_world st)) resp" by blast
  from ans obtain a req where a: "a \<in> set (cw_net (xs_world st))" "ca_reach a"
    "hr_body resp = (cat_serve (cw_token (xs_world st)) req pid a, ca_whole a)" by (auto simp: cat_answered_def)
  from dec a(3) obtain code p where "cat_serve (cw_token (xs_world st)) req pid a = PlainReply code p" "product = catalog_product p"
    by (auto simp: decode_product_def split: reply.splits bool.splits)
  with cat_serve_product [OF _ assms(1)] a(1,2) show ?thesis by blast
qed

section \<open>A small catalog\<close>

definition demo_product :: Product where
  "demo_product = \<lparr>pr_ID = 1, pr_Name = ''pen'', pr_Description = [], pr_PriceFen = 150, pr_Status = 1,
     pr_CreatedAt = 0, pr_UpdatedAt = 0\<rparr>"

definition demo_store :: catalog_db where
  "demo_store = \<lparr>catalog_products = [demo_product, demo_product\<lparr>pr_ID := 2\<rparr>], next_product = 3\<rparr>"

theorem catalog_pages_witness:
  "\<exists>rows. catalog_List calm_env None 1 1 demo_store = Inr (rows 1, 2) \<and> catalog_List calm_env None 2 1 demo_store = Inr (rows 2, 2) \<and>
    concat (map rows [1..<3]) = [demo_product\<lparr>pr_ID := 2\<rparr>, demo_product]"
proof -
  have "int 2 * int 1 \<le> int64_max" by (simp add: int64_max_def)
  from catalog_pages [OF fault_free_calm _ _ this refl, of None demo_store] obtain rows :: "nat \<Rightarrow> Product list" where
    r: "\<forall>page\<in>{1..2}. catalog_List calm_env None (int page) (int 1) demo_store = Inr (rows page, 2)"
      "concat (map rows [1..<3]) = [demo_product\<lparr>pr_ID := 2\<rparr>, demo_product]"
    by (auto simp: demo_store_def numeral_eq_Suc)
  from bspec [OF r(1), of 1] bspec [OF r(1), of 2] r(2) show ?thesis by (intro exI [of _ rows]) simp
qed

lemma demo_store_ok: "catalog_ok demo_store"
  by code_simp

theorem catalog_SetStatus_effect_witness:
  "snd (catalog_SetStatus calm_env 1 1 demo_store) = Some ErrProductNotFound \<and>
   snd (catalog_SetStatus calm_env 1 2 demo_store) = None \<and> snd (catalog_SetStatus calm_env 7 2 demo_store) = Some ErrProductNotFound"
  using catalog_SetStatus_effect [OF fault_free_calm demo_store_ok, of 1 1]
    catalog_SetStatus_effect [OF fault_free_calm demo_store_ok, of 1 2]
    catalog_SetStatus_effect [OF fault_free_calm demo_store_ok, of 7 2]
  by (auto simp: demo_store_def demo_product_def round_ms_def split: prod.splits)

definition demo_context :: "unit ctx_ops" where
  "demo_context = \<lparr>cx_ctxErr = (\<lambda>_. None), cx_deadline = (\<lambda>_. None), cx_requestID = (\<lambda>_. ''rid''), cx_now = (\<lambda>_. 0),
     cx_format = (\<lambda>_. ''time''), cx_do = (\<lambda>c. c), cx_sleep = (\<lambda>_ c. (c, None)), cx_jitter = (\<lambda>_ _. 0)\<rparr>"

definition demo_cat_client :: cat_client where
  "demo_cat_client = NewCatalogClient ''http://c/'' ''t''
    \<lparr>FailureThreshold = 5, OpenInterval = 1, HalfOpenMaxProbes = 1\<rparr> (\<lambda>_. [])"

definition demo_cat_world :: "unit cat_world exec_state" where
  "demo_cat_world = \<lparr>xs_world = \<lparr>cw_token = ''t'', cw_net =
      [\<lparr>ca_reach = True, ca_db = demo_store, ca_env = calm_env, ca_lost = Some (NetError ''reset''), ca_whole = True\<rparr>,
       \<lparr>ca_reach = True, ca_db = demo_store, ca_env = calm_env, ca_lost = None, ca_whole = True\<rparr>], cw_ctx = ()\<rparr>,
    xs_breakers = []\<rparr>"

theorem catalog_client_snapshot_witness:
  "\<exists>product. snd (client_GetProduct demo_context demo_cat_client 1 demo_cat_world) = Inr product \<and>
    (\<exists>p. lookup_by pr_ID 1 (catalog_products demo_store) = Some p \<and> product = catalog_product p)"
proof -
  let ?g = "client_GetProduct demo_context demo_cat_client 1 demo_cat_world"
  have s: "snd ?g = Inr (catalog_product demo_product)" by code_simp
  have "int64 1" by (simp add: int64_defs)
  from catalog_client_snapshot [OF this, of demo_context demo_cat_client demo_cat_world "fst ?g"] s
  show ?thesis by (auto simp: demo_cat_world_def prod_eq_iff)
qed

end
