(* ===== verification/App_Error.thy ===== *)
theory App_Error
  imports Database
begin

text \<open>
  Errors and replies of the application layer: the response codes of \<^verbatim>\<open>internal/response/code.go\<close>, the
  application errors of \<^verbatim>\<open>internal/apperror\<close>, the error values of \<^verbatim>\<open>internal/service\<close>, and
  \<^verbatim>\<open>handleError\<close>, which turns an error into a reply. The texts of messages are left out; two error
  values stay apart even when they carry the same status and code.
\<close>

section \<open>Response codes\<close>

datatype (plugins only: code) response_code =
    CodeSuccess | CodeParameterError | CodeCreateProductFailed | CodeProductNotFound
  | CodeProductOnSaleFailed | CodeProductAlreadyOffSale | CodeProductOffSaleFailed | CodeQueryProductFailed
  | CodeQueryProductListFailed | CodeInitInventoryExists | CodeCreateStockLogFailed | CodeInitInventoryFailed
  | CodeInventoryInvalidQuantity | CodeInventoryNotFound | CodeAddInventoryError | CodeQueryInventoryFailed
  | CodeQueryStockLogFailed | CodeInsufficientStock | CodeCreateOrderFailed | CodeOrderNotFound
  | CodeOrderPayFailed | CodeOrderFinishFailed | CodeOrderCancelFailed | CodeQueryOrderListFailed
  | CodeQueryOrderDetailFailed | CodeOrderNotPaid | CodeOrderAlreadyCanceled | CodeOrderAlreadyFinished
  | CodeOrderAlreadyPaid | CodeOrderParameterError | CodeOrderIdempotencyConflict | CodeOrderBeingCreated
  | CodeOrderIdempotencyStateError | CodeInternalServerError | CodeReadinessFailed | CodeRequestTimeout
  | CodeDatabaseNotInitialized | CodeUsernameAlreadyExists | CodeRegisterFailed | CodeUserNotFound
  | CodeUserDisabled | CodeLoginFailed | CodeUserPasswordNoDifference | CodeUpdateUserPasswordFailed
  | CodeNicknameInvalid | CodeUpdateNicknameFailed | CodeInvalidUserID | CodeTokenGenerateFailed
  | CodeTokenMissing | CodeTokenInvalidFormat | CodeTokenExpired | CodeTokenInvalid | CodeTokenMalformed
  | CodeTokenSignatureInvalid | CodeTokenUserInvalid | CodeUserRoleCheckFailed | CodeUserRoleNotFound
  | CodeCreateUserRoleFailed | CodePermissionDenied

primrec code_value :: "response_code \<Rightarrow> int" where
  "code_value CodeSuccess = 0"
| "code_value CodeParameterError = 1001"
| "code_value CodeCreateProductFailed = 1103"
| "code_value CodeProductNotFound = 1104"
| "code_value CodeProductOnSaleFailed = 1105"
| "code_value CodeProductAlreadyOffSale = 1106"
| "code_value CodeProductOffSaleFailed = 1107"
| "code_value CodeQueryProductFailed = 1108"
| "code_value CodeQueryProductListFailed = 1109"
| "code_value CodeInitInventoryExists = 2001"
| "code_value CodeCreateStockLogFailed = 2002"
| "code_value CodeInitInventoryFailed = 2003"
| "code_value CodeInventoryInvalidQuantity = 2004"
| "code_value CodeInventoryNotFound = 2005"
| "code_value CodeAddInventoryError = 2006"
| "code_value CodeQueryInventoryFailed = 2007"
| "code_value CodeQueryStockLogFailed = 3001"
| "code_value CodeInsufficientStock = 4001"
| "code_value CodeCreateOrderFailed = 4002"
| "code_value CodeOrderNotFound = 4003"
| "code_value CodeOrderPayFailed = 4004"
| "code_value CodeOrderFinishFailed = 4005"
| "code_value CodeOrderCancelFailed = 4006"
| "code_value CodeQueryOrderListFailed = 4007"
| "code_value CodeQueryOrderDetailFailed = 4008"
| "code_value CodeOrderNotPaid = 4009"
| "code_value CodeOrderAlreadyCanceled = 4010"
| "code_value CodeOrderAlreadyFinished = 4011"
| "code_value CodeOrderAlreadyPaid = 4012"
| "code_value CodeOrderParameterError = 4013"
| "code_value CodeOrderIdempotencyConflict = 4014"
| "code_value CodeOrderBeingCreated = 4015"
| "code_value CodeOrderIdempotencyStateError = 4016"
| "code_value CodeInternalServerError = 5000"
| "code_value CodeReadinessFailed = 5001"
| "code_value CodeRequestTimeout = 5002"
| "code_value CodeDatabaseNotInitialized = 5003"
| "code_value CodeUsernameAlreadyExists = 6001"
| "code_value CodeRegisterFailed = 6002"
| "code_value CodeUserNotFound = 6003"
| "code_value CodeUserDisabled = 6004"
| "code_value CodeLoginFailed = 6005"
| "code_value CodeUserPasswordNoDifference = 6006"
| "code_value CodeUpdateUserPasswordFailed = 6007"
| "code_value CodeNicknameInvalid = 6008"
| "code_value CodeUpdateNicknameFailed = 6009"
| "code_value CodeInvalidUserID = 6010"
| "code_value CodeTokenGenerateFailed = 7001"
| "code_value CodeTokenMissing = 7002"
| "code_value CodeTokenInvalidFormat = 7003"
| "code_value CodeTokenExpired = 7004"
| "code_value CodeTokenInvalid = 7005"
| "code_value CodeTokenMalformed = 7006"
| "code_value CodeTokenSignatureInvalid = 7007"
| "code_value CodeTokenUserInvalid = 7008"
| "code_value CodeUserRoleCheckFailed = 8001"
| "code_value CodeUserRoleNotFound = 8002"
| "code_value CodeCreateUserRoleFailed = 8003"
| "code_value CodePermissionDenied = 8004"

section \<open>Application errors\<close>

text \<open>What an error wraps: an error of the database, or one of another package.\<close>

datatype cause = DBCause db_error | OtherCause string

text \<open>The error values of the services. \<open>Wrapped\<close> is \<^verbatim>\<open>apperror.Wrap\<close>, \<open>Plain\<close> an error that is no
  application error.\<close>

datatype (plugins only: code) service_error =
    ErrInitInventoryFailed | ErrInitInventoryExists | ErrInventoryNotFound | ErrInvalidAddQuantity
  | ErrInvalidStockQuantity | ErrInvalidProductPrice | ErrInvalidProductName | ErrInvalidProductDescription
  | ErrProductNotFound | ErrInvalidProductID | ErrProductOnSaleFailed | ErrProductOffSaleFailed
  | ErrCreateStockLogFailed | ErrInvalidIdempotencyKey | ErrOrderIdempotencyConflict | ErrOrderBeingCreated
  | ErrOrderIdempotencyStateInvalid | ErrDuplicateOrderItem | ErrInvalidOrderPagination | ErrProductOffSale
  | ErrInsufficientStock | ErrCreateOrderFailed | ErrOrderNotFound | ErrOrderPayFailed | ErrOrderFinishFailed
  | ErrOrderCancelFailed | ErrOrderNotPaid | ErrOrderAlreadyCanceled | ErrOrderAlreadyFinished
  | ErrOrderAlreadyPaid | ErrUsernameAlreadyExists | ErrUsernameInvalid | ErrPasswordInvalid
  | ErrInvalidCredentials | ErrUserDisabled | ErrUserNotFound | ErrInvalidUserID | ErrNicknameInvalid
  | ErrPasswordUnchanged | ErrOldPasswordIncorrect | ErrPasswordUpdateConflict | ErrDatabaseNotInitialized
  | ErrDefaultRoleNotFound
  | Wrapped int response_code cause
  | Plain cause

text \<open>\<^verbatim>\<open>apperror.FromError\<close>: the status and the code of an application error.\<close>

primrec FromError :: "service_error \<Rightarrow> (int \<times> response_code) option" where
  "FromError ErrInitInventoryFailed = Some (500, CodeInitInventoryFailed)"
| "FromError ErrInitInventoryExists = Some (409, CodeInitInventoryExists)"
| "FromError ErrInventoryNotFound = Some (404, CodeInventoryNotFound)"
| "FromError ErrInvalidAddQuantity = Some (400, CodeInventoryInvalidQuantity)"
| "FromError ErrInvalidStockQuantity = Some (400, CodeParameterError)"
| "FromError ErrInvalidProductPrice = Some (400, CodeParameterError)"
| "FromError ErrInvalidProductName = Some (400, CodeParameterError)"
| "FromError ErrInvalidProductDescription = Some (400, CodeParameterError)"
| "FromError ErrProductNotFound = Some (404, CodeProductNotFound)"
| "FromError ErrInvalidProductID = Some (400, CodeParameterError)"
| "FromError ErrProductOnSaleFailed = Some (409, CodeProductOnSaleFailed)"
| "FromError ErrProductOffSaleFailed = Some (409, CodeProductOffSaleFailed)"
| "FromError ErrCreateStockLogFailed = Some (404, CodeCreateStockLogFailed)"
| "FromError ErrInvalidIdempotencyKey = Some (400, CodeOrderParameterError)"
| "FromError ErrOrderIdempotencyConflict = Some (409, CodeOrderIdempotencyConflict)"
| "FromError ErrOrderBeingCreated = Some (409, CodeOrderBeingCreated)"
| "FromError ErrOrderIdempotencyStateInvalid = Some (500, CodeOrderIdempotencyStateError)"
| "FromError ErrDuplicateOrderItem = Some (400, CodeParameterError)"
| "FromError ErrInvalidOrderPagination = Some (400, CodeOrderParameterError)"
| "FromError ErrProductOffSale = Some (409, CodeProductAlreadyOffSale)"
| "FromError ErrInsufficientStock = Some (409, CodeInsufficientStock)"
| "FromError ErrCreateOrderFailed = Some (500, CodeCreateOrderFailed)"
| "FromError ErrOrderNotFound = Some (404, CodeOrderNotFound)"
| "FromError ErrOrderPayFailed = Some (409, CodeOrderPayFailed)"
| "FromError ErrOrderFinishFailed = Some (409, CodeOrderFinishFailed)"
| "FromError ErrOrderCancelFailed = Some (409, CodeOrderCancelFailed)"
| "FromError ErrOrderNotPaid = Some (409, CodeOrderNotPaid)"
| "FromError ErrOrderAlreadyCanceled = Some (409, CodeOrderAlreadyCanceled)"
| "FromError ErrOrderAlreadyFinished = Some (409, CodeOrderAlreadyFinished)"
| "FromError ErrOrderAlreadyPaid = Some (409, CodeOrderAlreadyPaid)"
| "FromError ErrUsernameAlreadyExists = Some (409, CodeUsernameAlreadyExists)"
| "FromError ErrUsernameInvalid = Some (400, CodeParameterError)"
| "FromError ErrPasswordInvalid = Some (400, CodeParameterError)"
| "FromError ErrInvalidCredentials = Some (401, CodeLoginFailed)"
| "FromError ErrUserDisabled = Some (403, CodeUserDisabled)"
| "FromError ErrUserNotFound = Some (404, CodeUserNotFound)"
| "FromError ErrInvalidUserID = Some (400, CodeInvalidUserID)"
| "FromError ErrNicknameInvalid = Some (400, CodeNicknameInvalid)"
| "FromError ErrPasswordUnchanged = Some (400, CodeUserPasswordNoDifference)"
| "FromError ErrOldPasswordIncorrect = Some (400, CodeUpdateUserPasswordFailed)"
| "FromError ErrPasswordUpdateConflict = Some (409, CodeUpdateUserPasswordFailed)"
| "FromError ErrDatabaseNotInitialized = Some (500, CodeDatabaseNotInitialized)"
| "FromError ErrDefaultRoleNotFound = Some (500, CodeUserRoleNotFound)"
| "FromError (Wrapped status code c) = Some (status, code)"
| "FromError (Plain c) = None"

text \<open>\<^verbatim>\<open>errors.Is(err, target)\<close> for an error of the database.\<close>

definition Is_db :: "service_error \<Rightarrow> db_error \<Rightarrow> bool" where
  "Is_db e d = (case e of Wrapped _ _ c \<Rightarrow> c = DBCause d | Plain c \<Rightarrow> c = DBCause d | _ \<Rightarrow> False)"

definition cause_of :: "service_error \<Rightarrow> cause" where
  "cause_of e = (case e of Wrapped _ _ c \<Rightarrow> c | Plain c \<Rightarrow> c | _ \<Rightarrow> OtherCause [])"

section \<open>Replies\<close>

datatype 'd app_reply = Success 'd | Fail (fail_status: int) (fail_code: response_code)

definition handleError :: "service_error \<Rightarrow> response_code \<Rightarrow> 'd app_reply" where
  "handleError err fallbackCode =
    (case FromError err of Some (status, code) \<Rightarrow> Fail status code | None \<Rightarrow> Fail 500 fallbackCode)"

text \<open>\<^verbatim>\<open>currentUserID\<close> of the handlers: the user id the authentication middleware stored, if it is valid.\<close>

definition app_currentUserID :: "int option \<Rightarrow> int option" where
  "app_currentUserID ctx = (case ctx of Some u \<Rightarrow> if 0 < u then Some u else None | None \<Rightarrow> None)"

end
