(* ===== verification/Identity.thy ===== *)
theory Identity
  imports App_Error
begin

text \<open>
  Users and roles: the tables of \<^verbatim>\<open>migrations/identity\<close>, the queries of \<^verbatim>\<open>internal/dao\<close>, \<^verbatim>\<open>UserService\<close> and
  \<^verbatim>\<open>AuthorizationService\<close> of \<^verbatim>\<open>internal/service\<close>, and the user handlers, which the identity service and
  the single-process application share. \<^verbatim>\<open>bcrypt\<close> is two arguments: the result of
  \<^verbatim>\<open>GenerateFromPassword\<close> in this call, and \<^verbatim>\<open>CompareHashAndPassword\<close>. A user has at most one role
  (\<^verbatim>\<open>uk_user_id\<close>), so a list of roles needs no order.
\<close>

section \<open>Tables\<close>

definition UserStatusActive :: int where "UserStatusActive = 1"

record User =
  u_ID :: int
  u_Username :: string
  u_PasswordHash :: string
  u_Nickname :: string
  u_Status :: int
  u_CreatedAt :: time
  u_UpdatedAt :: time
  u_LastLoginAt :: "time option"
  u_DeletedAt :: "time option"

record Role =
  role_ID :: int
  role_Name :: string

record UserRole =
  ur_ID :: int
  ur_RoleID :: int
  ur_UserID :: int
  ur_CreatedAt :: time
  ur_UpdatedAt :: time

text \<open>\<open>id_collate\<close> maps a string to its key under the collation of the tables.\<close>

record identity_db =
  users :: "User list"
  roles :: "Role list"
  user_roles :: "UserRole list"
  next_user :: int
  next_user_role :: int
  id_collate :: "string \<Rightarrow> string"

datatype id_site =
    UserInsert | RoleFind | UserRoleInsert | RegisterCommit | UserFind | LastLoginUpdate | RolesList
  | NicknameUpdate | PasswordFind | PasswordUpdate | PasswordCommit | RoleCheck

section \<open>Queries\<close>

definition CreateUser :: "User \<Rightarrow> identity_db \<Rightarrow> db_error + identity_db \<times> User" where
  "CreateUser user db =
    (let row = user\<lparr>u_ID := next_user db\<rparr> in
     case sql_insert (\<lambda>_. None)
         (\<lambda>a b. u_ID a = u_ID b \<or> id_collate db (u_Username a) = id_collate db (u_Username b)) row (users db) of
       Inl d \<Rightarrow> Inl d
     | Inr rows \<Rightarrow> Inr (db\<lparr>users := rows, next_user := next_user db + 1\<rparr>, row))"

text \<open>gorm leaves out rows that are marked deleted.\<close>

definition GetUserByUsername :: "string \<Rightarrow> identity_db \<Rightarrow> User option" where
  "GetUserByUsername username db =
    List.find (\<lambda>u. id_collate db (u_Username u) = id_collate db username \<and> u_DeletedAt u = None) (users db)"

definition GetUserByID :: "int \<Rightarrow> identity_db \<Rightarrow> User option" where
  "GetUserByID uid db = List.find (\<lambda>u. u_ID u = uid \<and> u_DeletedAt u = None) (users db)"

text \<open>\<^verbatim>\<open>UPDATE users SET ... WHERE ...\<close>, with the number of rows that change.\<close>

definition update_users :: "(User \<Rightarrow> bool) \<Rightarrow> (User \<Rightarrow> User) \<Rightarrow> identity_db \<Rightarrow> db_error + identity_db \<times> nat" where
  "update_users p f db =
    (let hit = (\<lambda>u. p u \<and> u_DeletedAt u = None) in
     Inr (db\<lparr>users := map (\<lambda>u. if hit u then f u else u) (users db)\<rparr>,
          length (filter (\<lambda>u. hit u \<and> f u \<noteq> u) (users db))))"

definition UpdateNicknameByID :: "time \<Rightarrow> int \<Rightarrow> string \<Rightarrow> identity_db \<Rightarrow> db_error + identity_db \<times> nat" where
  "UpdateNicknameByID now uid nickname =
    update_users (\<lambda>u. u_ID u = uid) (\<lambda>u. u\<lparr>u_Nickname := nickname, u_UpdatedAt := round_ms now\<rparr>)"

definition UpdateLastLoginAtByID :: "time \<Rightarrow> int \<Rightarrow> time \<Rightarrow> identity_db \<Rightarrow> db_error + identity_db \<times> nat" where
  "UpdateLastLoginAtByID now uid at =
    update_users (\<lambda>u. u_ID u = uid) (\<lambda>u. u\<lparr>u_LastLoginAt := Some (round_ms at), u_UpdatedAt := round_ms now\<rparr>)"

definition UpdateUserPassword ::
  "time \<Rightarrow> int \<Rightarrow> string \<Rightarrow> string \<Rightarrow> identity_db \<Rightarrow> db_error + identity_db \<times> nat" where
  "UpdateUserPassword now uid oldHash newHash db =
    update_users (\<lambda>u. u_ID u = uid \<and> id_collate db (u_PasswordHash u) = id_collate db oldHash)
      (\<lambda>u. u\<lparr>u_PasswordHash := newHash, u_UpdatedAt := round_ms now\<rparr>) db"

definition GetRoleByRoleName :: "string \<Rightarrow> identity_db \<Rightarrow> Role option" where
  "GetRoleByRoleName roleName db =
    List.find (\<lambda>r. id_collate db (role_Name r) = id_collate db roleName) (roles db)"

definition CreateUserRole :: "time \<Rightarrow> int \<Rightarrow> int \<Rightarrow> identity_db \<Rightarrow> db_error + identity_db" where
  "CreateUserRole now userID roleID db =
    (case sql_insert (\<lambda>_. None) (\<lambda>a b. ur_ID a = ur_ID b \<or> ur_UserID a = ur_UserID b)
         \<lparr>ur_ID = next_user_role db, ur_RoleID = roleID, ur_UserID = userID, ur_CreatedAt = round_ms now, ur_UpdatedAt = round_ms now\<rparr>
         (user_roles db) of
       Inl d \<Rightarrow> Inl d
     | Inr rows \<Rightarrow> Inr (db\<lparr>user_roles := rows, next_user_role := next_user_role db + 1\<rparr>))"

text \<open>The join of \<^verbatim>\<open>user_roles\<close> and \<^verbatim>\<open>roles\<close> for one user.\<close>

definition role_names :: "int \<Rightarrow> identity_db \<Rightarrow> string list" where
  "role_names userID db =
    concat (map (\<lambda>ur. map role_Name (filter (\<lambda>r. role_ID r = ur_RoleID ur) (roles db)))
      (filter (\<lambda>ur. ur_UserID ur = userID) (user_roles db)))"

definition UserHasRole :: "int \<Rightarrow> string \<Rightarrow> identity_db \<Rightarrow> bool" where
  "UserHasRole userID roleName db =
    list_ex (\<lambda>n. id_collate db n = id_collate db roleName) (role_names userID db)"

section \<open>UserService\<close>

definition validatePassword :: "string \<Rightarrow> service_error option" where
  "validatePassword password = (if length password < 6 \<or> 72 < length password then Some ErrPasswordInvalid else None)"

definition register_body :: "id_site env \<Rightarrow> User \<Rightarrow> identity_db \<Rightarrow> service_error + identity_db \<times> unit" where
  "register_body env user tx =
    (case stmt env UserInsert (CreateUser user tx) of
       Inl d \<Rightarrow> Inl (Plain (DBCause d))
     | Inr (tx1, user1) \<Rightarrow>
         (case stmt env RoleFind (Inr (GetRoleByRoleName ''user'' tx1)) of
            Inl d \<Rightarrow> Inl (Wrapped 500 CodeUserRoleNotFound (DBCause d))
          | Inr None \<Rightarrow> Inl ErrDefaultRoleNotFound
          | Inr (Some role) \<Rightarrow>
              (case stmt env UserRoleInsert (CreateUserRole (e_now env UserRoleInsert) (u_ID user1) (role_ID role) tx1) of
                 Inl d \<Rightarrow> Inl (Wrapped 500 CodeCreateUserRoleFailed (DBCause d))
               | Inr tx2 \<Rightarrow> Inr (tx2, ()))))"

definition new_user :: "time \<Rightarrow> string \<Rightarrow> string \<Rightarrow> User" where
  "new_user now username passwordHash =
    \<lparr>u_ID = 0, u_Username = username, u_PasswordHash = passwordHash, u_Nickname = username, u_Status = UserStatusActive,
     u_CreatedAt = round_ms now, u_UpdatedAt = round_ms now, u_LastLoginAt = None, u_DeletedAt = None\<rparr>"

definition Register ::
  "id_site env \<Rightarrow> (string \<Rightarrow> string + string) \<Rightarrow> string \<Rightarrow> string \<Rightarrow> identity_db \<Rightarrow> identity_db \<times> service_error option" where
  "Register env generate rawName password db =
    (let username = TrimSpace rawName in
     if length username < 3 \<or> 64 < length username then (db, Some ErrUsernameInvalid)
     else case validatePassword password of
       Some e \<Rightarrow> (db, Some e)
     | None \<Rightarrow>
         (case generate password of
            Inl e \<Rightarrow> (db, Some (Wrapped 500 CodeRegisterFailed (OtherCause e)))
          | Inr passwordHash \<Rightarrow>
              (case Transaction (e_out env RegisterCommit) (\<lambda>d. Plain (DBCause d))
                  (register_body env (new_user (e_now env UserInsert) username passwordHash)) db of
                 (db', Inr _) \<Rightarrow> (db', None)
               | (db', Inl err) \<Rightarrow>
                   (db', Some (if Is_db err DuplicatedKey then ErrUsernameAlreadyExists
                               else if FromError err \<noteq> None then err
                               else Wrapped 500 CodeRegisterFailed (cause_of err))))))"

definition loadRoles :: "id_site env \<Rightarrow> int \<Rightarrow> identity_db \<Rightarrow> service_error + string list" where
  "loadRoles env userID db =
    (case stmt env RolesList (Inr (role_names userID db)) of
       Inl d \<Rightarrow> Inl (Wrapped 500 CodeUserRoleCheckFailed (DBCause d))
     | Inr names \<Rightarrow> Inr names)"

definition Login ::
  "id_site env \<Rightarrow> (string \<Rightarrow> string \<Rightarrow> bool) \<Rightarrow> string \<Rightarrow> string \<Rightarrow> identity_db
    \<Rightarrow> identity_db \<times> (service_error + User \<times> string list)" where
  "Login env compare rawName password db =
    (case stmt env UserFind (Inr (GetUserByUsername (TrimSpace rawName) db)) of
       Inl d \<Rightarrow> (db, Inl (Wrapped 500 CodeLoginFailed (DBCause d)))
     | Inr None \<Rightarrow> (db, Inl ErrInvalidCredentials)
     | Inr (Some user) \<Rightarrow>
         if u_Status user \<noteq> UserStatusActive then (db, Inl ErrUserDisabled)
         else if \<not> compare (u_PasswordHash user) password then (db, Inl ErrInvalidCredentials)
         else
           let at = e_now env UserFind in
           case autocommit env LastLoginUpdate (UpdateLastLoginAtByID (e_now env LastLoginUpdate) (u_ID user) at) db of
             (db', Inl d) \<Rightarrow> (db', Inl (Wrapped 500 CodeLoginFailed (DBCause d)))
           | (db', Inr _) \<Rightarrow>
               (case loadRoles env (u_ID user) db' of
                  Inl e \<Rightarrow> (db', Inl e)
                | Inr names \<Rightarrow> (db', Inr (user\<lparr>u_LastLoginAt := Some at\<rparr>, names))))"

definition GetProfile :: "id_site env \<Rightarrow> int \<Rightarrow> identity_db \<Rightarrow> service_error + User \<times> string list" where
  "GetProfile env userID db =
    (if userID \<le> 0 then Inl ErrInvalidUserID
     else case stmt env UserFind (Inr (GetUserByID userID db)) of
       Inl d \<Rightarrow> Inl (Wrapped 500 CodeUserNotFound (DBCause d))
     | Inr None \<Rightarrow> Inl ErrUserNotFound
     | Inr (Some user) \<Rightarrow>
         if u_Status user \<noteq> UserStatusActive then Inl ErrUserDisabled
         else (case loadRoles env (u_ID user) db of
                 Inl e \<Rightarrow> Inl e
               | Inr names \<Rightarrow> Inr (user, names)))"

definition UpdateNickname ::
  "id_site env \<Rightarrow> int \<Rightarrow> string \<Rightarrow> identity_db \<Rightarrow> identity_db \<times> service_error option" where
  "UpdateNickname env userID rawNickname db =
    (let nickname = TrimSpace rawNickname in
     if userID \<le> 0 then (db, Some ErrInvalidUserID)
     else if nickname = [] \<or> 64 < length nickname then (db, Some ErrNicknameInvalid)
     else case GetProfile env userID db of
       Inl e \<Rightarrow> (db, Some e)
     | Inr _ \<Rightarrow>
         (case autocommit env NicknameUpdate (UpdateNicknameByID (e_now env NicknameUpdate) userID nickname) db of
            (db', Inl d) \<Rightarrow> (db', Some (Wrapped 500 CodeUpdateNicknameFailed (DBCause d)))
          | (db', Inr _) \<Rightarrow> (db', None)))"

definition password_body ::
  "id_site env \<Rightarrow> (string \<Rightarrow> string + string) \<Rightarrow> (string \<Rightarrow> string \<Rightarrow> bool) \<Rightarrow> int \<Rightarrow> string \<Rightarrow> string \<Rightarrow> identity_db
    \<Rightarrow> service_error + identity_db \<times> unit" where
  "password_body env generate compare userID oldPassword newPassword tx =
    (case stmt env PasswordFind (Inr (GetUserByID userID tx)) of
       Inl d \<Rightarrow> Inl (Plain (DBCause d))
     | Inr None \<Rightarrow> Inl ErrUserNotFound
     | Inr (Some user) \<Rightarrow>
         if \<not> compare (u_PasswordHash user) oldPassword then Inl ErrOldPasswordIncorrect
         else
           (case generate newPassword of
              Inl e \<Rightarrow> Inl (Plain (OtherCause e))
            | Inr newHash \<Rightarrow>
                (case stmt env PasswordUpdate
                    (UpdateUserPassword (e_now env PasswordUpdate) userID (u_PasswordHash user) newHash tx) of
                   Inl d \<Rightarrow> Inl (Wrapped 500 CodeUpdateUserPasswordFailed (DBCause d))
                 | Inr (tx', rows) \<Rightarrow> if rows \<noteq> 1 then Inl ErrPasswordUpdateConflict else Inr (tx', ()))))"

definition UpdatePassword ::
  "id_site env \<Rightarrow> (string \<Rightarrow> string + string) \<Rightarrow> (string \<Rightarrow> string \<Rightarrow> bool) \<Rightarrow> int \<Rightarrow> string \<Rightarrow> string \<Rightarrow> identity_db
    \<Rightarrow> identity_db \<times> service_error option" where
  "UpdatePassword env generate compare userID oldPassword newPassword db =
    (if userID \<le> 0 then (db, Some ErrInvalidUserID)
     else if oldPassword = newPassword then (db, Some ErrPasswordUnchanged)
     else case validatePassword newPassword of
       Some e \<Rightarrow> (db, Some e)
     | None \<Rightarrow>
         (case Transaction (e_out env PasswordCommit) (\<lambda>d. Plain (DBCause d))
             (password_body env generate compare userID oldPassword newPassword) db of
            (db', Inl e) \<Rightarrow> (db', Some e)
          | (db', Inr _) \<Rightarrow> (db', None)))"

text \<open>\<^verbatim>\<open>AuthorizationService.HasRole\<close>.\<close>

definition HasRole :: "id_site env \<Rightarrow> int \<Rightarrow> string \<Rightarrow> identity_db \<Rightarrow> db_error + bool" where
  "HasRole env userID roleName db = stmt env RoleCheck (Inr (UserHasRole userID roleName db))"

section \<open>Handlers\<close>

record user_response =
  usr_ID :: int
  usr_Username :: string
  usr_Nickname :: string
  usr_Status :: int
  usr_LastLoginAt :: "time option"
  usr_Roles :: "string list"

definition userResponse :: "User \<times> string list \<Rightarrow> user_response" where
  "userResponse u = \<lparr>usr_ID = u_ID (fst u), usr_Username = u_Username (fst u), usr_Nickname = u_Nickname (fst u),
     usr_Status = u_Status (fst u), usr_LastLoginAt = u_LastLoginAt (fst u), usr_Roles = snd u\<rparr>"

definition user_handler_Register ::
  "id_site env \<Rightarrow> (string \<Rightarrow> string + string) \<Rightarrow> (string \<times> string) option \<Rightarrow> identity_db \<Rightarrow> identity_db \<times> unit app_reply" where
  "user_handler_Register env generate body db =
    (case body of
       None \<Rightarrow> (db, Fail 400 CodeParameterError)
     | Some (username, password) \<Rightarrow>
         (case Register env generate username password db of
            (db', Some e) \<Rightarrow> (db', handleError e CodeRegisterFailed)
          | (db', None) \<Rightarrow> (db', Success ())))"

definition user_handler_Login ::
  "id_site env \<Rightarrow> (string \<Rightarrow> string \<Rightarrow> bool) \<Rightarrow> (int \<Rightarrow> string \<Rightarrow> string + string) \<Rightarrow> (string \<times> string) option \<Rightarrow> identity_db
    \<Rightarrow> identity_db \<times> (string \<times> user_response) app_reply" where
  "user_handler_Login env compare generateToken body db =
    (case body of
       None \<Rightarrow> (db, Fail 400 CodeParameterError)
     | Some (username, password) \<Rightarrow>
         (case Login env compare username password db of
            (db', Inl e) \<Rightarrow> (db', handleError e CodeLoginFailed)
          | (db', Inr u) \<Rightarrow>
              (db', (case generateToken (u_ID (fst u)) (u_Username (fst u)) of
                 Inl e \<Rightarrow> handleError (Wrapped 500 CodeTokenGenerateFailed (OtherCause e)) CodeTokenGenerateFailed
               | Inr token \<Rightarrow> Success (token, userResponse u)))))"

definition user_handler_Me :: "id_site env \<Rightarrow> int option \<Rightarrow> identity_db \<Rightarrow> user_response app_reply" where
  "user_handler_Me env ctx db =
    (case app_currentUserID ctx of
       None \<Rightarrow> Fail 500 CodeTokenUserInvalid
     | Some userID \<Rightarrow>
         (case GetProfile env userID db of
            Inl e \<Rightarrow> handleError e CodeUserNotFound
          | Inr u \<Rightarrow> Success (userResponse u)))"

definition user_handler_UpdateProfile ::
  "id_site env \<Rightarrow> int option \<Rightarrow> string option \<Rightarrow> identity_db \<Rightarrow> identity_db \<times> unit app_reply" where
  "user_handler_UpdateProfile env ctx body db =
    (case app_currentUserID ctx of
       None \<Rightarrow> (db, Fail 500 CodeTokenUserInvalid)
     | Some userID \<Rightarrow>
         (case body of
            None \<Rightarrow> (db, Fail 400 CodeParameterError)
          | Some nickname \<Rightarrow>
              (case UpdateNickname env userID nickname db of
                 (db', Some e) \<Rightarrow> (db', handleError e CodeUpdateNicknameFailed)
               | (db', None) \<Rightarrow> (db', Success ()))))"

definition user_handler_UpdatePassword ::
  "id_site env \<Rightarrow> (string \<Rightarrow> string + string) \<Rightarrow> (string \<Rightarrow> string \<Rightarrow> bool) \<Rightarrow> int option \<Rightarrow> (string \<times> string) option \<Rightarrow> identity_db
    \<Rightarrow> identity_db \<times> unit app_reply" where
  "user_handler_UpdatePassword env generate compare ctx body db =
    (case app_currentUserID ctx of
       None \<Rightarrow> (db, Fail 500 CodeTokenUserInvalid)
     | Some userID \<Rightarrow>
         (case body of
            None \<Rightarrow> (db, Fail 400 CodeParameterError)
          | Some (oldPassword, newPassword) \<Rightarrow>
              (case UpdatePassword env generate compare userID oldPassword newPassword db of
                 (db', Some e) \<Rightarrow> (db', handleError e CodeUpdateUserPasswordFailed)
               | (db', None) \<Rightarrow> (db', Success ()))))"

text \<open>The internal endpoint of \<^verbatim>\<open>cmd/identity-service/main.go\<close>.\<close>

definition role_endpoint :: "id_site env \<Rightarrow> string \<Rightarrow> string \<Rightarrow> identity_db \<Rightarrow> (string, bool) reply" where
  "role_endpoint env idParam role db =
    (case ParseInt 64 idParam of
       None \<Rightarrow> ErrorReply 400 ''invalid user id''
     | Some userID \<Rightarrow>
         if userID \<le> 0 then ErrorReply 400 ''invalid user id''
         else (case HasRole env userID role db of
                 Inl _ \<Rightarrow> ErrorReply 500 ''role check failed''
               | Inr allowed \<Rightarrow> PlainReply 200 allowed))"

end
