(* ===== verification/Identity_Correct.thy ===== *)
theory Identity_Correct
  imports Identity
begin

text \<open>
  What the user service guarantees: the tables stay consistent and nobody gains a role under every call
  and every failure, a registered user can log in, and a password changes only for who knows it.
\<close>

section \<open>Invariant\<close>

definition user_ok :: "User \<Rightarrow> bool" where
  "user_ok u \<longleftrightarrow> 3 \<le> length (u_Username u) \<and> length (u_Username u) \<le> 64 \<and> u_Nickname u \<noteq> [] \<and> length (u_Nickname u) \<le> 64"

definition identity_ok :: "identity_db \<Rightarrow> bool" where
  "identity_ok db \<longleftrightarrow>
    distinct (map u_ID (users db)) \<and> distinct (map (id_collate db \<circ> u_Username) (users db)) \<and> 0 < next_user db \<and>
    (\<forall>u\<in>set (users db). user_ok u \<and> 0 < u_ID u \<and> u_ID u < next_user db) \<and>
    distinct (map role_ID (roles db)) \<and>
    distinct (map ur_ID (user_roles db)) \<and> (\<forall>ur\<in>set (user_roles db). ur_ID ur < next_user_role db) \<and>
    distinct (map ur_UserID (user_roles db)) \<and> set (map ur_UserID (user_roles db)) = set (map u_ID (users db)) \<and>
    set (map ur_RoleID (user_roles db)) \<subseteq> set (map role_ID (roles db))"

text \<open>The calls that change the tables.\<close>

datatype id_call =
    IdRegister "id_site env" "string \<Rightarrow> string + string" string string
  | IdLogin "id_site env" "string \<Rightarrow> string \<Rightarrow> bool" string string
  | IdNickname "id_site env" int string
  | IdPassword "id_site env" "string \<Rightarrow> string + string" "string \<Rightarrow> string \<Rightarrow> bool" int string string

fun id_exec :: "id_call \<Rightarrow> identity_db \<Rightarrow> identity_db" where
  "id_exec (IdRegister env gen name pw) db = fst (Register env gen name pw db)"
| "id_exec (IdLogin env cmp name pw) db = fst (Login env cmp name pw db)"
| "id_exec (IdNickname env uid nick) db = fst (UpdateNickname env uid nick db)"
| "id_exec (IdPassword env gen cmp uid old new) db = fst (UpdatePassword env gen cmp uid old new db)"

section \<open>Updates of users\<close>

text \<open>What an update of users keeps: all tables but the users, and of each user the id and the name.\<close>

definition same_users :: "identity_db \<Rightarrow> identity_db \<Rightarrow> bool" where
  "same_users db db' \<longleftrightarrow> (\<exists>f. db' = db\<lparr>users := map f (users db)\<rparr> \<and>
    (\<forall>u. u_ID (f u) = u_ID u \<and> u_Username (f u) = u_Username u \<and> u_DeletedAt (f u) = u_DeletedAt u \<and>
      (user_ok u \<longrightarrow> user_ok (f u))))"

lemma same_users_refl [simp]: "same_users db db"
  unfolding same_users_def by (rule exI [of _ id]) simp

lemma update_users_same:
  assumes "update_users p f db = Inr (db', n)"
    and "\<And>u. u_ID (f u) = u_ID u \<and> u_Username (f u) = u_Username u \<and> u_DeletedAt (f u) = u_DeletedAt u \<and>
      (user_ok u \<longrightarrow> user_ok (f u))"
  shows "same_users db db'"
  unfolding same_users_def
  by (rule exI [of _ "\<lambda>u. if p u \<and> u_DeletedAt u = None then f u else u"])
    (use assms in \<open>auto simp: update_users_def Let_def\<close>)

lemma same_users_ok:
  assumes "same_users db db'" and "identity_ok db"
  shows "identity_ok db'"
proof -
  from assms(1) obtain f where f: "db' = db\<lparr>users := map f (users db)\<rparr>"
    "\<And>u. u_ID (f u) = u_ID u" "\<And>u. u_Username (f u) = u_Username u" "\<And>u. user_ok u \<Longrightarrow> user_ok (f u)"
    unfolding same_users_def by blast
  have "u_ID \<circ> f = u_ID" and "id_collate db \<circ> u_Username \<circ> f = id_collate db \<circ> u_Username"
    by (auto simp: f(2,3))
  with assms(2) f(2-4) show ?thesis
    by (auto simp: identity_ok_def f(1) simp flip: image_image)
qed

lemma same_users_roles:
  assumes "same_users db db'"
  shows "role_names uid db' = role_names uid db" and "roles db' = roles db" and "user_roles db' = user_roles db"
    and "map u_ID (users db') = map u_ID (users db)"
  using assms by (auto simp: same_users_def role_names_def)

lemma last_login_same: "same_users db (fst (autocommit env LastLoginUpdate (UpdateLastLoginAtByID now uid at) db))"
  using autocommit_fst [of env LastLoginUpdate "UpdateLastLoginAtByID now uid at" db]
  by (auto simp: UpdateLastLoginAtByID_def user_ok_def dest!: update_users_same)

lemma Login_same: "same_users db (fst (Login env cmp name pw db))"
  using last_login_same
  by (auto simp: Login_def Let_def split: sum.splits option.splits prod.splits) (metis fst_conv)+

lemma UpdateNickname_same: "same_users db (fst (UpdateNickname env uid nick db))"
proof (cases "TrimSpace nick = [] \<or> 64 < length (TrimSpace nick)")
  case True
  then show ?thesis by (auto simp: UpdateNickname_def Let_def)
next
  case False
  then have "same_users db (fst (autocommit env NicknameUpdate (UpdateNicknameByID now uid (TrimSpace nick)) db))" for now
    using autocommit_fst [of env NicknameUpdate "UpdateNicknameByID now uid (TrimSpace nick)" db]
    by (auto simp: UpdateNicknameByID_def user_ok_def dest!: update_users_same)
  then show ?thesis
    by (auto simp: UpdateNickname_def Let_def split: sum.splits option.splits prod.splits) (metis fst_conv)+
qed

lemma Transaction_fst:
  "fst (Transaction c wrap body s) = s \<or> (\<exists>x. body s = Inr (fst (Transaction c wrap body s), x))"
  by (auto simp: Transaction_def split: sum.splits prod.splits outcome.splits)

lemma password_body_same:
  assumes "password_body env gen cmp uid old new db = Inr (db', x)"
  shows "same_users db db'"
proof -
  from assms obtain h h' n where "UpdateUserPassword (e_now env PasswordUpdate) uid h h' db = Inr (db', n)"
    by (auto simp: password_body_def stmt_def split: sum.splits option.splits prod.splits if_splits outcome.splits)
  then show ?thesis by (auto simp: UpdateUserPassword_def user_ok_def dest!: update_users_same)
qed

lemma UpdatePassword_same: "same_users db (fst (UpdatePassword env gen cmp uid old new db))"
proof -
  have "same_users db (fst (Transaction (e_out env PasswordCommit) (\<lambda>d. Plain (DBCause d))
      (password_body env gen cmp uid old new) db))"
    using Transaction_fst [of "e_out env PasswordCommit" "\<lambda>d. Plain (DBCause d)" "password_body env gen cmp uid old new" db]
      password_body_same by auto
  then show ?thesis
    by (auto simp: UpdatePassword_def split: sum.splits option.splits prod.splits)
qed

section \<open>Registration\<close>

lemma register_body_Inr:
  assumes "register_body env user db = Inr (db', x)"
  obtains role where "GetRoleByRoleName ''user'' db = Some role"
    and "\<forall>u\<in>set (users db). id_collate db (u_Username user) \<noteq> id_collate db (u_Username u)"
    and "db' = db\<lparr>users := users db @ [user\<lparr>u_ID := next_user db\<rparr>], next_user := next_user db + 1,
      user_roles := user_roles db @ [\<lparr>ur_ID = next_user_role db, ur_RoleID = role_ID role, ur_UserID = next_user db,
        ur_CreatedAt = round_ms (e_now env UserRoleInsert), ur_UpdatedAt = round_ms (e_now env UserRoleInsert)\<rparr>],
      next_user_role := next_user_role db + 1\<rparr>"
proof -
  let ?db1 = "db\<lparr>users := users db @ [user\<lparr>u_ID := next_user db\<rparr>], next_user := next_user db + 1\<rparr>"
  from assms obtain db1 user1 role where c: "CreateUser user db = Inr (db1, user1)"
    "GetRoleByRoleName ''user'' db1 = Some role"
    "CreateUserRole (e_now env UserRoleInsert) (u_ID user1) (role_ID role) db1 = Inr db'"
    by (auto simp: register_body_def stmt_def split: sum.splits option.splits prod.splits outcome.splits)
  from c(1) have u: "db1 = ?db1" "u_ID user1 = next_user db"
    "\<forall>u\<in>set (users db). id_collate db (u_Username user) \<noteq> id_collate db (u_Username u)"
    by (auto simp: CreateUser_def Let_def sql_insert_Inr split: sum.splits)
  show ?thesis
  proof (rule that)
    show "GetRoleByRoleName ''user'' db = Some role" using c(2) by (simp add: u(1) GetRoleByRoleName_def)
    show "\<forall>u\<in>set (users db). id_collate db (u_Username user) \<noteq> id_collate db (u_Username u)" by (rule u(3))
    show "db' = db\<lparr>users := users db @ [user\<lparr>u_ID := next_user db\<rparr>], next_user := next_user db + 1,
      user_roles := user_roles db @ [\<lparr>ur_ID = next_user_role db, ur_RoleID = role_ID role, ur_UserID = next_user db,
        ur_CreatedAt = round_ms (e_now env UserRoleInsert), ur_UpdatedAt = round_ms (e_now env UserRoleInsert)\<rparr>],
      next_user_role := next_user_role db + 1\<rparr>"
      using c(3) u(1,2) by (auto simp: CreateUserRole_def sql_insert_Inr split: sum.splits)
  qed
qed

lemma Register_fst:
  "fst (Register env gen name pw db) = db \<or>
    (\<exists>h x. 3 \<le> length (TrimSpace name) \<and> length (TrimSpace name) \<le> 64 \<and> gen pw = Inr h \<and>
      register_body env (new_user (e_now env UserInsert) (TrimSpace name) h) db = Inr (fst (Register env gen name pw db), x))"
proof (cases "length (TrimSpace name) < 3 \<or> 64 < length (TrimSpace name) \<or> validatePassword pw \<noteq> None \<or> isl (gen pw)")
  case True
  then show ?thesis by (cases "gen pw") (auto simp: Register_def Let_def split: option.splits)
next
  case False
  then obtain h where h: "gen pw = Inr h" by (cases "gen pw") auto
  let ?b = "register_body env (new_user (e_now env UserInsert) (TrimSpace name) h)"
  have "fst (Register env gen name pw db) = fst (Transaction (e_out env RegisterCommit) (\<lambda>d. Plain (DBCause d)) ?b db)"
    using False h by (auto simp: Register_def Let_def split: prod.splits sum.splits)
  with Transaction_fst [of "e_out env RegisterCommit" "\<lambda>d. Plain (DBCause d)" ?b db] False h show ?thesis by auto
qed

text \<open>The users a database knows, and what a call may do to roles: those of known users stay, a new
  user gets the default role.\<close>

definition user_ids :: "identity_db \<Rightarrow> int set" where
  "user_ids db = u_ID ` set (users db)"

definition roles_kept :: "identity_db \<Rightarrow> identity_db \<Rightarrow> bool" where
  "roles_kept db db' \<longleftrightarrow> roles db' = roles db \<and> id_collate db' = id_collate db \<and> user_ids db \<subseteq> user_ids db' \<and>
    (\<forall>uid\<in>user_ids db. role_names uid db' = role_names uid db) \<and>
    (\<forall>uid\<in>user_ids db' - user_ids db. \<exists>role. GetRoleByRoleName ''user'' db = Some role \<and> role_names uid db' = [role_Name role])"

lemma roles_kept_trans:
  assumes "roles_kept a b" and "roles_kept b c"
  shows "roles_kept a c"
proof -
  have g: "GetRoleByRoleName n b = GetRoleByRoleName n a" for n
    using assms(1) by (simp add: roles_kept_def GetRoleByRoleName_def)
  have "\<exists>role. GetRoleByRoleName ''user'' a = Some role \<and> role_names uid c = [role_Name role]"
    if "uid \<in> user_ids c - user_ids a" for uid
    using assms g that by (cases "uid \<in> user_ids b") (auto simp: roles_kept_def)
  with assms show ?thesis by (auto simp: roles_kept_def)
qed

lemma same_users_kept: "same_users db db' \<Longrightarrow> roles_kept db db'"
proof -
  assume s: "same_users db db'"
  then have "u_ID ` set (users db') = u_ID ` set (users db)"
    using same_users_roles(4) by (metis list.set_map)
  with s same_users_roles [OF s] show ?thesis by (auto simp: roles_kept_def user_ids_def same_users_def)
qed

lemma Register_step:
  assumes ok: "identity_ok db"
  shows "identity_ok (fst (Register env gen name pw db)) \<and> roles_kept db (fst (Register env gen name pw db))"
proof (cases "fst (Register env gen name pw db) = db")
  case True
  then show ?thesis using ok same_users_kept [of db db] by simp
next
  case False
  define db' where "db' = fst (Register env gen name pw db)"
  from False Register_fst [of env gen name pw db] obtain h x where n: "3 \<le> length (TrimSpace name)" "length (TrimSpace name) \<le> 64"
    and b: "register_body env (new_user (e_now env UserInsert) (TrimSpace name) h) db = Inr (db', x)"
    unfolding db'_def by auto
  let ?u = "(new_user (e_now env UserInsert) (TrimSpace name) h)\<lparr>u_ID := next_user db\<rparr>"
  obtain role where r: "GetRoleByRoleName ''user'' db = Some role"
    and fresh: "\<forall>u\<in>set (users db). id_collate db (u_Username ?u) \<noteq> id_collate db (u_Username u)"
    and eq: "db' = db\<lparr>users := users db @ [?u], next_user := next_user db + 1,
      user_roles := user_roles db @ [\<lparr>ur_ID = next_user_role db, ur_RoleID = role_ID role, ur_UserID = next_user db,
        ur_CreatedAt = round_ms (e_now env UserRoleInsert), ur_UpdatedAt = round_ms (e_now env UserRoleInsert)\<rparr>],
      next_user_role := next_user_role db + 1\<rparr>"
    by (rule register_body_Inr [OF b]) simp
  define ur where "ur = \<lparr>ur_ID = next_user_role db, ur_RoleID = role_ID role, ur_UserID = next_user db,
    ur_CreatedAt = round_ms (e_now env UserRoleInsert), ur_UpdatedAt = round_ms (e_now env UserRoleInsert)\<rparr>"
  have ur: "ur_ID ur = next_user_role db" "ur_RoleID ur = role_ID role" "ur_UserID ur = next_user db"
    by (simp_all add: ur_def)
  note db' = eq [folded ur_def]
  have new: "next_user db \<notin> u_ID ` set (users db)" "next_user db \<notin> ur_UserID ` set (user_roles db)"
    and newr: "next_user_role db \<notin> ur_ID ` set (user_roles db)" using ok by (auto simp: identity_ok_def)
  have role: "role \<in> set (roles db)" using r by (auto simp: GetRoleByRoleName_def find_Some_iff)
  have u: "user_ok ?u" "u_ID ?u = next_user db" using n by (auto simp: user_ok_def new_user_def)
  with ok new newr fresh role have ok': "identity_ok db'"
    by (auto simp: identity_ok_def db' ur)
  have "filter (\<lambda>r. role_ID r = role_ID role) (roles db) = [role]"
    using ok role by (intro distinct_filter_single) (auto simp: identity_ok_def)
  moreover have "filter (\<lambda>ur. ur_UserID ur = next_user db) (user_roles db) = []"
    using new(2) by (metis (mono_tags, lifting) filter_False imageI)
  ultimately have "role_names (next_user db) db' = [role_Name role]"
    by (simp add: role_names_def db' ur)
  moreover have "role_names uid db' = role_names uid db" if "uid \<in> user_ids db" for uid
    using that new(1) by (auto simp: role_names_def db' ur user_ids_def)
  ultimately show ?thesis using r ok' unfolding db'_def [symmetric] by (auto simp: db' roles_kept_def user_ids_def)
qed

lemma id_exec_step:
  assumes "identity_ok db"
  shows "identity_ok (id_exec c db) \<and> roles_kept db (id_exec c db)"
proof (cases c)
  case (IdRegister env gen name pw)
  then show ?thesis using Register_step [OF assms] by simp
next
  case (IdLogin env cmp name pw)
  then show ?thesis using same_users_ok [OF Login_same assms] same_users_kept [OF Login_same] by simp
next
  case (IdNickname env uid nick)
  then show ?thesis using same_users_ok [OF UpdateNickname_same assms] same_users_kept [OF UpdateNickname_same] by simp
next
  case (IdPassword env gen cmp uid old new)
  then show ?thesis using same_users_ok [OF UpdatePassword_same assms] same_users_kept [OF UpdatePassword_same] by simp
qed

section \<open>Properties\<close>

text \<open>C34. Whatever calls the user service serves, and whichever statements fail, the tables stay
  consistent (user names unique under the collation, every user with exactly one role), no call changes
  the role of a user, and every user who registers gets the default role: the public API grants nobody
  another one.\<close>

theorem identity_reachable:
  assumes "identity_ok db"
  shows "identity_ok (fold id_exec cs db) \<and> roles_kept db (fold id_exec cs db)"
  using assms
proof (induction cs arbitrary: db)
  case Nil
  then show ?case using same_users_kept [of db db] by simp
next
  case (Cons c cs)
  from id_exec_step [OF Cons.prems, of c] Cons.IH [of "id_exec c db"] roles_kept_trans show ?case by auto
qed

lemma register_body_fresh:
  assumes ok: "identity_ok db" and ff: "fault_free env" and role: "GetRoleByRoleName ''user'' db = Some role"
    and fresh: "\<forall>u\<in>set (users db). id_collate db (u_Username user) \<noteq> id_collate db (u_Username u)"
  shows "\<exists>db'. register_body env user db = Inr (db', ())"
proof -
  have "next_user db \<notin> u_ID ` set (users db)" using ok by (auto simp: identity_ok_def)
  then have c: "CreateUser user db =
      Inr (db\<lparr>users := users db @ [user\<lparr>u_ID := next_user db\<rparr>], next_user := next_user db + 1\<rparr>, user\<lparr>u_ID := next_user db\<rparr>)"
    using fresh by (auto simp: CreateUser_def Let_def sql_insert_def list_ex_iff)
  have "next_user_role db \<notin> ur_ID ` set (user_roles db)" and "next_user db \<notin> ur_UserID ` set (user_roles db)"
    using ok by (auto simp: identity_ok_def)
  then have "\<exists>db'. CreateUserRole now (next_user db) rid
      (db\<lparr>users := users db @ [user\<lparr>u_ID := next_user db\<rparr>], next_user := next_user db + 1\<rparr>) = Inr db'" for now rid
    by (auto simp: CreateUserRole_def sql_insert_def list_ex_iff)
  then obtain db' where "CreateUserRole (e_now env UserRoleInsert) (next_user db) (role_ID role)
      (db\<lparr>users := users db @ [user\<lparr>u_ID := next_user db\<rparr>], next_user := next_user db + 1\<rparr>) = Inr db'" by blast
  with ff c role show ?thesis by (simp add: register_body_def GetRoleByRoleName_def)
qed

lemma Login_new:
  assumes "identity_ok db" and "fault_free env" and "u \<in> set (users db)" and "u_DeletedAt u = None"
    and "u_Status u = UserStatusActive" and "cmp (u_PasswordHash u) pw" and "id_collate db (u_Username u) = id_collate db (TrimSpace name)"
  shows "snd (Login env cmp name pw db) =
    Inr (u\<lparr>u_LastLoginAt := Some (e_now env UserFind)\<rparr>, role_names (u_ID u) db)"
proof -
  have d: "distinct (map (\<lambda>u. id_collate db (u_Username u)) (users db))" using assms(1) by (simp add: identity_ok_def comp_def)
  have "GetUserByUsername (TrimSpace name) db = Some u"
  proof (cases "GetUserByUsername (TrimSpace name) db")
    case None
    with assms(3,4,7) show ?thesis by (auto simp: GetUserByUsername_def find_None_iff)
  next
    case (Some v)
    then have v: "v \<in> set (users db)" "id_collate db (u_Username v) = id_collate db (TrimSpace name)"
      unfolding GetUserByUsername_def find_Some_iff by auto
    then have "v = u" using distinct_key_eq [OF d v(1) assms(3)] assms(7) by simp
    with Some show ?thesis by simp
  qed
  moreover have "role_names (u_ID u) (fst (autocommit env LastLoginUpdate
      (UpdateLastLoginAtByID now (u_ID u) at) db)) = role_names (u_ID u) db" for now at
    by (rule same_users_roles(1) [OF last_login_same])
  ultimately show ?thesis
    using assms(2,5,6)
    by (simp add: Login_def Let_def loadRoles_def autocommit_def Transaction_def UpdateLastLoginAtByID_def update_users_def)
qed

text \<open>C35. Registration and login are inverse: when a user name is valid and free, registering creates the
  account, the same name and password then log in to it with the default role, and the name is taken for
  everyone who registers later, in any spelling the collation identifies with it.\<close>

theorem register_login:
  assumes ok: "identity_ok db" and ff: "fault_free env" "fault_free env'"
    and role: "GetRoleByRoleName ''user'' db = Some role"
    and bcrypt: "gen pw = Inr h" "cmp h pw"
    and name: "3 \<le> length (TrimSpace name)" "length (TrimSpace name) \<le> 64" and pw: "6 \<le> length pw" "length pw \<le> 72"
    and fresh: "\<forall>u\<in>set (users db). id_collate db (TrimSpace name) \<noteq> id_collate db (u_Username u)"
    and again: "id_collate db (TrimSpace name2) = id_collate db (TrimSpace name)"
      "3 \<le> length (TrimSpace name2)" "length (TrimSpace name2) \<le> 64"
  shows "\<exists>db' u. Register env gen name pw db = (db', None) \<and>
    snd (Login env' cmp name pw db') = Inr (u, [role_Name role]) \<and> u_ID u = next_user db \<and> u_Username u = TrimSpace name \<and>
    Register env' gen name2 pw db' = (db', Some ErrUsernameAlreadyExists)"
proof -
  let ?new = "new_user (e_now env UserInsert) (TrimSpace name) h"
  let ?u = "?new\<lparr>u_ID := next_user db\<rparr>"
  have v: "validatePassword pw = None" using pw by (simp add: validatePassword_def)
  from register_body_fresh [OF ok ff(1) role, of ?new] fresh obtain db' where b: "register_body env ?new db = Inr (db', ())"
    by (auto simp: new_user_def)
  then have reg: "Register env gen name pw db = (db', None)"
    using ff v name bcrypt(1) by (simp add: Register_def Let_def Transaction_def)
  have db': "identity_ok db'" "roles_kept db db'" using Register_step [OF ok, of env gen name pw] by (simp_all add: reg)
  have eq: "users db' = users db @ [?u] \<and> id_collate db' = id_collate db"
    by (rule register_body_Inr [OF b]) simp
  have u: "?u \<in> set (users db')" "id_collate db' = id_collate db" "u_ID ?u = next_user db" "u_Username ?u = TrimSpace name"
    "u_Status ?u = UserStatusActive" "u_DeletedAt ?u = None" "u_PasswordHash ?u = h"
    by (simp_all add: eq new_user_def)
  have "next_user db \<in> user_ids db'"
    unfolding user_ids_def using imageI [OF u(1), of u_ID] by (simp only: u(3))
  moreover have "next_user db \<notin> user_ids db" using ok by (auto simp: user_ids_def identity_ok_def)
  ultimately have "role_names (next_user db) db' = [role_Name role]"
    using db'(2) role by (auto simp: roles_kept_def)
  moreover have "snd (Login env' cmp name pw db') =
      Inr (?u\<lparr>u_LastLoginAt := Some (e_now env' UserFind)\<rparr>, role_names (u_ID ?u) db')"
    by (rule Login_new [OF db'(1) ff(2) u(1,6,5)]) (simp_all add: u(2,4,7) bcrypt(2))
  ultimately have "snd (Login env' cmp name pw db') =
      Inr (?u\<lparr>u_LastLoginAt := Some (e_now env' UserFind)\<rparr>, [role_Name role])" by (simp add: u(3))
  moreover have "register_body env' (new_user (e_now env' UserInsert) (TrimSpace name2) h) db' = Inl (Plain (DBCause DuplicatedKey))"
    using u(1,2,4) again(1) ff(2)
    by (auto simp: register_body_def CreateUser_def Let_def sql_insert_def list_ex_iff new_user_def)
  then have "Register env' gen name2 pw db' = (db', Some ErrUsernameAlreadyExists)"
    using v again bcrypt(1) by (simp add: Register_def Let_def Transaction_def Is_db_def)
  ultimately show ?thesis using reg u(3,4)
    by (intro exI [of _ db'] exI [of _ "?u\<lparr>u_LastLoginAt := Some (e_now env' UserFind)\<rparr>"]) simp
qed

text \<open>C36. A password changes only for someone who knows the old one. When \<^verbatim>\<open>UpdatePassword\<close> succeeds, the
  old password matched the stored hash and the row of that user, no other, holds the hash of the new one.
  When it reports an error nothing changed, unless the acknowledgement of the commit was lost.\<close>

theorem password_change:
  assumes "identity_ok db" and run: "UpdatePassword env gen cmp uid old new db = (db', r)"
    and "\<not> is_Lost (e_out env PasswordCommit)"
  shows "case r of
      Some e \<Rightarrow> db' = db
    | None \<Rightarrow> old \<noteq> new \<and> 6 \<le> length new \<and> length new \<le> 72 \<and>
        (\<exists>u h. u \<in> set (users db) \<and> u_ID u = uid \<and> cmp (u_PasswordHash u) old \<and> gen new = Inr h \<and>
          db' = db\<lparr>users := map (\<lambda>v. if u_ID v = uid
            then v\<lparr>u_PasswordHash := h, u_UpdatedAt := round_ms (e_now env PasswordUpdate)\<rparr> else v) (users db)\<rparr>)"
proof (cases r)
  case (Some e)
  with assms(2,3) have "db' = db"
    by (auto simp: UpdatePassword_def Transaction_def split: if_splits option.splits sum.splits prod.splits outcome.splits)
  with Some show ?thesis by simp
next
  case None
  with run have v: "old \<noteq> new" "validatePassword new = None"
    and b: "password_body env gen cmp uid old new db = Inr (db', ())"
    by (auto simp: UpdatePassword_def Transaction_def split: if_splits option.splits sum.splits prod.splits outcome.splits)
  from b obtain u h n where u: "GetUserByID uid db = Some u" "cmp (u_PasswordHash u) old" "gen new = Inr h"
    and w: "UpdateUserPassword (e_now env PasswordUpdate) uid (u_PasswordHash u) h db = Inr (db', n)"
    by (auto simp: password_body_def stmt_def split: sum.splits option.splits prod.splits if_splits outcome.splits)
  from u(1) have m: "u \<in> set (users db)" "u_ID u = uid" "u_DeletedAt u = None"
    unfolding GetUserByID_def find_Some_iff by auto
  have "x = u" if "x \<in> set (users db)" "u_ID x = uid" for x
    using assms(1) that m(1,2) by (intro distinct_key_eq [of u_ID "users db"]) (auto simp: identity_ok_def)
  note only = this
  let ?set = "\<lambda>p v. if p v then v\<lparr>u_PasswordHash := h, u_UpdatedAt := round_ms (e_now env PasswordUpdate)\<rparr> else v"
  let ?p = "\<lambda>v. u_ID v = uid \<and> id_collate db (u_PasswordHash v) = id_collate db (u_PasswordHash u) \<and> u_DeletedAt v = None"
  have "map (?set ?p) (users db) = map (?set (\<lambda>v. u_ID v = uid)) (users db)"
    using only m(3) by (intro map_cong refl) auto
  note same = this
  have "db' = db\<lparr>users := map (?set ?p) (users db)\<rparr>"
    using w by (simp add: UpdateUserPassword_def update_users_def Let_def conj_assoc)
  then have "db' = db\<lparr>users := map (?set (\<lambda>v. u_ID v = uid)) (users db)\<rparr>" unfolding same .
  moreover have "6 \<le> length new" "length new \<le> 72" using v(2) by (auto simp: validatePassword_def split: if_splits)
  ultimately show ?thesis using None v(1) m(1,2) u(2,3) by auto
qed

section \<open>A small instance\<close>

definition demo_identity :: identity_db where
  "demo_identity = \<lparr>users = [], roles = [\<lparr>role_ID = 1, role_Name = ''admin''\<rparr>, \<lparr>role_ID = 2, role_Name = ''user''\<rparr>],
     user_roles = [], next_user = 1, next_user_role = 1, id_collate = (\<lambda>s. s)\<rparr>"

definition demo_hash :: "string \<Rightarrow> string + string" where
  "demo_hash pw = Inr (rev pw)"

definition demo_compare :: "string \<Rightarrow> string \<Rightarrow> bool" where
  "demo_compare h pw \<longleftrightarrow> h = rev pw"

lemma demo_identity_ok: "identity_ok demo_identity"
  by (simp add: identity_ok_def demo_identity_def)

theorem identity_reachable_witness:
  "role_names 1 (id_exec (IdRegister calm_env demo_hash ''alice'' ''secret'') demo_identity) = [''user''] \<and>
   identity_ok (id_exec (IdRegister calm_env demo_hash ''alice'' ''secret'') demo_identity)"
proof
  show "role_names 1 (id_exec (IdRegister calm_env demo_hash ''alice'' ''secret'') demo_identity) = [''user'']" by code_simp
  show "identity_ok (id_exec (IdRegister calm_env demo_hash ''alice'' ''secret'') demo_identity)"
    using identity_reachable [OF demo_identity_ok, of "[IdRegister calm_env demo_hash ''alice'' ''secret'']"] by simp
qed

theorem register_login_witness:
  "\<exists>db' u. Register calm_env demo_hash ''alice'' ''secret'' demo_identity = (db', None) \<and>
    snd (Login calm_env demo_compare ''alice'' ''secret'' db') = Inr (u, [''user'']) \<and>
    Register calm_env demo_hash '' alice'' ''secret'' db' = (db', Some ErrUsernameAlreadyExists)"
proof -
  have t: "TrimSpace ''alice'' = ''alice''" "TrimSpace '' alice'' = ''alice''" by code_simp+
  have r: "GetRoleByRoleName ''user'' demo_identity = Some \<lparr>role_ID = 2, role_Name = ''user''\<rparr>" by code_simp
  from register_login [OF demo_identity_ok fault_free_calm fault_free_calm r, of demo_hash "''secret''" "rev ''secret''"
      demo_compare "''alice''" "'' alice''"] show ?thesis
    by (auto simp: t demo_hash_def demo_compare_def demo_identity_def)
qed

theorem password_change_witness:
  "\<exists>db' u. UpdatePassword calm_env demo_hash demo_compare 1 ''secret'' ''better''
      (id_exec (IdRegister calm_env demo_hash ''alice'' ''secret'') demo_identity) = (db', None) \<and>
    u \<in> set (users (id_exec (IdRegister calm_env demo_hash ''alice'' ''secret'') demo_identity)) \<and>
    u_ID u = 1 \<and> demo_compare (u_PasswordHash u) ''secret''"
proof -
  let ?db = "id_exec (IdRegister calm_env demo_hash ''alice'' ''secret'') demo_identity"
  let ?r = "UpdatePassword calm_env demo_hash demo_compare 1 ''secret'' ''better'' ?db"
  have ok: "identity_ok ?db" using id_exec_step [OF demo_identity_ok] by blast
  have n: "snd ?r = None" by code_simp
  have r: "?r = (fst ?r, None)" unfolding n [symmetric] by (rule prod.collapse [symmetric])
  from password_change [OF ok r] r show ?thesis by auto
qed

end
