(* ===== verification/Auth.thy ===== *)
theory Auth
  imports Clients Identity
begin

text \<open>
  Authentication and authorization: the token manager of \<^verbatim>\<open>internal/auth\<close>, the authentication and
  administrator middlewares, and the role checker of \<^verbatim>\<open>internal/platform/serviceclient\<close>, which asks the
  identity service over a network of attempts. The JWT library is two arguments, \<open>Sign\<close> for
  \<^verbatim>\<open>SignedString\<close> and \<open>Parse\<close> for \<^verbatim>\<open>ParseWithClaims\<close>; \<open>jwt_law\<close> states its documented behaviour.
\<close>

section \<open>strings.Fields and strings.EqualFold\<close>

text \<open>The bytes up to the next white space, and the rest.\<close>

fun take_field :: "string \<Rightarrow> string \<times> string" where
  "take_field [] = ([], [])"
| "take_field (c # cs) =
    (if space_prefix white_space (c # cs) \<noteq> 0 then ([], c # cs)
     else case take_field cs of (w, rest) \<Rightarrow> (c # w, rest))"

lemma take_field_length: "length (snd (take_field s)) \<le> length s"
  by (induction s) (auto split: prod.splits)

lemma take_field_less: "s \<noteq> [] \<Longrightarrow> space_prefix white_space s = 0 \<Longrightarrow> length (snd (take_field s)) < length s"
  using take_field_length [of "tl s"] by (cases s) (auto simp: less_Suc_eq_le split: prod.splits)

lemma trim_left_length: "length (trim_left ws s) \<le> length s"
  using trim_left_suffix [of s ws] by (metis le_add2 length_append)

function Fields :: "string \<Rightarrow> string list" where
  "Fields s =
    (let t = trim_left white_space s in
     if t = [] then [] else fst (take_field t) # Fields (snd (take_field t)))"
  by pat_completeness auto
termination
proof (relation "measure length", goal_cases)
  case (2 s t)
  then have "space_prefix white_space t = 0" using trim_left_stopped [of white_space s] by auto
  with 2 have "length (snd (take_field t)) < length t" by (intro take_field_less) auto
  with 2(1) trim_left_length [of white_space s] show ?case by auto
qed simp

declare Fields.simps [simp del]

text \<open>\<^verbatim>\<open>EqualFold(s, t)\<close> for a \<open>t\<close> of ASCII letters none of which folds to a letter outside ASCII.\<close>

definition ascii_lower :: "char \<Rightarrow> char" where
  "ascii_lower c = (let n = of_char c :: nat in if 65 \<le> n \<and> n \<le> 90 then char_of (n + 32) else c)"

definition EqualFold :: "string \<Rightarrow> string \<Rightarrow> bool" where
  "EqualFold s t \<longleftrightarrow> map ascii_lower s = map ascii_lower t"

section \<open>Tokens\<close>

datatype jwt_kind =
    TokenMalformed | TokenSignatureInvalid | TokenUnverifiable | TokenInvalidClaims | TokenExpired
  | TokenUsedBeforeIssued | TokenInvalidIssuer | TokenRequiredClaimMissing

datatype token_error =
    ErrAccessTokenInvalid | ErrJWTSecretTooShort | ErrJWTIssuerEmpty | ErrJWTExpireInvalid | ErrTokenUserInvalid
  | ErrTokenUsernameInvalid
  | ParseError "jwt_kind list" \<comment> \<open>an error of the library: what \<^verbatim>\<open>errors.Is\<close> finds in it\<close>
  | SignError string

record UserClaims =
  uc_Username :: string
  uc_UserID :: int
  uc_Issuer :: string
  uc_Subject :: string
  uc_IssuedAt :: "time option"
  uc_ExpiresAt :: "time option"

text \<open>\<^verbatim>\<open>jwt.NewNumericDate\<close> keeps whole seconds.\<close>

definition NewNumericDate :: "time \<Rightarrow> time" where
  "NewNumericDate t = t div 1000000000 * 1000000000"

record TokenManager =
  tm_secret :: string
  tm_issuer :: string
  tm_ttl :: duration

definition NewTokenManager :: "string \<Rightarrow> string \<Rightarrow> duration \<Rightarrow> token_error + TokenManager" where
  "NewTokenManager secret0 issuer ttl =
    (let secret = TrimSpace secret0 in
     if length secret < 32 then Inl ErrJWTSecretTooShort
     else if TrimSpace issuer = [] then Inl ErrJWTIssuerEmpty
     else if ttl \<le> 0 then Inl ErrJWTExpireInvalid
     else Inr \<lparr>tm_secret = secret, tm_issuer = issuer, tm_ttl = ttl\<rparr>)"

definition GenerateAccessToken ::
  "(string \<Rightarrow> UserClaims \<Rightarrow> string + string) \<Rightarrow> TokenManager \<Rightarrow> time \<Rightarrow> int \<Rightarrow> string \<Rightarrow> token_error + string" where
  "GenerateAccessToken Sign m now userID username0 =
    (if userID \<le> 0 then Inl ErrTokenUserInvalid
     else
       let username = TrimSpace username0 in
       if username = [] then Inl ErrTokenUsernameInvalid
       else
         (case Sign (tm_secret m)
             \<lparr>uc_Username = username, uc_UserID = userID, uc_Issuer = tm_issuer m, uc_Subject = FormatInt userID,
              uc_IssuedAt = Some (NewNumericDate now), uc_ExpiresAt = Some (NewNumericDate (now + tm_ttl m))\<rparr> of
            Inl e \<Rightarrow> Inl (SignError e)
          | Inr token \<Rightarrow> Inr token))"

text \<open>The options of the parser, and what it returns: whether the token is valid, and its claims.\<close>

record parser_options =
  po_ValidMethods :: "string list"
  po_Issuer :: string
  po_ExpirationRequired :: bool
  po_IssuedAt :: bool
  po_Leeway :: duration

type_synonym jwt_parse = "parser_options \<Rightarrow> string \<Rightarrow> time \<Rightarrow> string \<Rightarrow> jwt_kind list + bool \<times> UserClaims"

definition ParseAccessToken :: "jwt_parse \<Rightarrow> TokenManager \<Rightarrow> time \<Rightarrow> string \<Rightarrow> token_error + UserClaims" where
  "ParseAccessToken Parse m now tokenString =
    (case Parse \<lparr>po_ValidMethods = [''HS256''], po_Issuer = tm_issuer m, po_ExpirationRequired = True, po_IssuedAt = True,
            po_Leeway = 30000000000\<rparr> (tm_secret m) now tokenString of
       Inl kinds \<Rightarrow> Inl (ParseError kinds)
     | Inr (valid, claims) \<Rightarrow>
         if \<not> valid \<or> uc_ExpiresAt claims = None \<or> uc_IssuedAt claims = None then Inl ErrAccessTokenInvalid
         else if uc_UserID claims \<le> 0 then Inl ErrTokenUserInvalid
         else if TrimSpace (uc_Username claims) = [] then Inl ErrTokenUsernameInvalid
         else Inr claims)"

section \<open>Middlewares\<close>

record auth_identity =
  id_UserID :: int
  id_Username :: string

text \<open>What a middleware decides: abort with a reply, or go on.\<close>

type_synonym 'a gate = "(int \<times> response_code) + 'a"

definition AuthMiddleware :: "jwt_parse \<Rightarrow> TokenManager \<Rightarrow> time \<Rightarrow> string \<Rightarrow> auth_identity gate" where
  "AuthMiddleware Parse m now header =
    (let parts = Fields header in
     if parts = [] then Inl (401, CodeTokenMissing)
     else if length parts \<noteq> 2 \<or> \<not> EqualFold (parts ! 0) ''Bearer'' then Inl (401, CodeTokenInvalidFormat)
     else
       case ParseAccessToken Parse m now (parts ! 1) of
         Inl err \<Rightarrow>
           (let kinds = (case err of ParseError ks \<Rightarrow> ks | _ \<Rightarrow> []) in
            Inl (401, if TokenMalformed \<in> set kinds then CodeTokenMalformed
                      else if TokenSignatureInvalid \<in> set kinds then CodeTokenSignatureInvalid
                      else if TokenExpired \<in> set kinds then CodeTokenExpired
                      else CodeTokenInvalid))
       | Inr claims \<Rightarrow> Inr \<lparr>id_UserID = uc_UserID claims, id_Username = uc_Username claims\<rparr>)"

text \<open>The role checker is \<open>None\<close> for nil; \<open>s\<close> is the state it works on.\<close>

definition AdminMiddleware ::
  "(int \<Rightarrow> string \<Rightarrow> 's \<Rightarrow> 's \<times> ('e + bool)) option \<Rightarrow> int option \<Rightarrow> 's \<Rightarrow> 's \<times> unit gate" where
  "AdminMiddleware roleChecker ctx s =
    (case app_currentUserID ctx of
       None \<Rightarrow> (s, Inl (401, CodeTokenUserInvalid))
     | Some userID \<Rightarrow>
         (case roleChecker of
            None \<Rightarrow> (s, Inl (500, CodeUserRoleCheckFailed))
          | Some hasRole \<Rightarrow>
              (case hasRole userID ''admin'' s of
                 (s', Inl _) \<Rightarrow> (s', Inl (500, CodeUserRoleCheckFailed))
               | (s', Inr allowed) \<Rightarrow> (s', if \<not> allowed then Inl (403, CodePermissionDenied) else Inr ()))))"

section \<open>The role checker\<close>

text \<open>An attempt of the checker: whether it reaches the identity service, the tables and statement
  outcomes at that moment, and what becomes of the reply.\<close>

record role_attempt =
  ra_reach :: bool
  ra_db :: identity_db
  ra_env :: "id_site env"
  ra_lost :: "call_error option"
  ra_whole :: bool

record 'c role_world =
  rw_token :: string
  rw_net :: "role_attempt list"
  rw_ctx :: 'c

type_synonym role_reply = "(string, bool) reply"

definition role_serve :: "string \<Rightarrow> http_request \<Rightarrow> int \<Rightarrow> string \<Rightarrow> role_attempt \<Rightarrow> role_reply" where
  "role_serve token req userID role a =
    snd (internal_middleware (\<lambda>m. m) token
      (case map_of (rq_headers req) ''X-Internal-Token'' of Some t \<Rightarrow> t | None \<Rightarrow> [])
      (\<lambda>db. (db, role_endpoint (ra_env a) (FormatInt userID) role db)) (ra_db a))"

definition role_do ::
  "'c ctx_ops \<Rightarrow> int \<Rightarrow> string \<Rightarrow> http_request \<Rightarrow> 'c role_world
    \<Rightarrow> 'c role_world \<times> (call_error + (role_reply \<times> bool) http_response)" where
  "role_do cx userID role req w =
    (case rw_net w of
       [] \<Rightarrow> (w\<lparr>rw_ctx := cx_do cx (rw_ctx w)\<rparr>, Inl (NetError ''connection refused''))
     | a # rest \<Rightarrow>
         (w\<lparr>rw_net := rest, rw_ctx := cx_do cx (rw_ctx w)\<rparr>,
          case ra_lost a of
            Some e \<Rightarrow> Inl e
          | None \<Rightarrow>
              if ra_reach a
              then Inr \<lparr>hr_status = r_status (role_serve (rw_token w) req userID role a),
                     hr_body = (role_serve (rw_token w) req userID role a, ra_whole a)\<rparr>
              else Inl (NetError ''connection refused'')))"

definition role_ops :: "'c ctx_ops \<Rightarrow> int \<Rightarrow> string \<Rightarrow> ('c role_world, role_reply \<times> bool) exec_ops" where
  "role_ops cx userID role =
    \<lparr>x_ctxErr = cx_ctxErr cx \<circ> rw_ctx, x_deadline = cx_deadline cx \<circ> rw_ctx,
     x_requestID = cx_requestID cx \<circ> rw_ctx, x_now = cx_now cx \<circ> rw_ctx, x_format = cx_format cx,
     x_do = (\<lambda>req st. case role_do cx userID role req (xs_world st) of (w, r) \<Rightarrow> (st\<lparr>xs_world := w\<rparr>, r)),
     x_sleep = (\<lambda>d st. case cx_sleep cx d (rw_ctx (xs_world st)) of
        (c, e) \<Rightarrow> (st\<lparr>xs_world := (xs_world st)\<lparr>rw_ctx := c\<rparr>\<rparr>, e)),
     x_jitter = (\<lambda>d w. cx_jitter cx d (rw_ctx w))\<rparr>"

record role_checker =
  rc_baseURL :: string
  rc_token :: string
  rc_breaker :: CircuitBreakerConfig
  rc_escape :: "string \<Rightarrow> string" \<comment> \<open>\<^verbatim>\<open>url.PathEscape\<close>\<close>

definition NewIdentityRoleChecker ::
  "string \<Rightarrow> string \<Rightarrow> CircuitBreakerConfig \<Rightarrow> (string \<Rightarrow> string) \<Rightarrow> role_checker" where
  "NewIdentityRoleChecker baseURL token cfg escape =
    \<lparr>rc_baseURL = rev (dropWhile (\<lambda>c. c = CHR ''/'') (rev (TrimSpace baseURL))),
     rc_token = TrimSpace token, rc_breaker = cfg, rc_escape = escape\<rparr>"

datatype role_error =
    CheckerNotConfigured | CallIdentity exec_error | IdentityReturned int | DecodeIdentity

definition decode_allowed :: "role_reply \<times> bool \<Rightarrow> bool option" where
  "decode_allowed b = (case b of (PlainReply _ allowed, True) \<Rightarrow> Some allowed | _ \<Rightarrow> None)"

definition checker_HasRole ::
  "'c ctx_ops \<Rightarrow> role_checker \<Rightarrow> int \<Rightarrow> string \<Rightarrow> 'c role_world exec_state \<Rightarrow> 'c role_world exec_state \<times> (role_error + bool)" where
  "checker_HasRole cx c userID roleName st =
    (if rc_baseURL c = [] \<or> rc_token c = [] then (st, Inl CheckerNotConfigured)
     else if userID \<le> 0 \<or> TrimSpace roleName = [] then (st, Inr False)
     else
       case executor_Do (role_ops cx userID roleName) (rc_breaker c) ''identity-service'' ''check-user-role''
           \<lparr>MaxAttempts = 3, BaseBackoff = 50000000, MaxBackoff = 300000000, MinimumAttemptGap = 100000000\<rparr>
           (\<lambda>_. Inr \<lparr>rq_method = ''GET'',
              rq_url = rc_baseURL c @ ''/internal/v1/users/'' @ FormatInt userID @ ''/roles/'' @ rc_escape c roleName,
              rq_headers = [(''X-Internal-Token'', rc_token c)], rq_body = []\<rparr>) st of
         (st', Inl err) \<Rightarrow> (st', Inl (CallIdentity err))
       | (st', Inr resp) \<Rightarrow>
           if hr_status resp \<noteq> 200 then (st', Inl (IdentityReturned (hr_status resp)))
           else (case decode_allowed (hr_body resp) of
                   None \<Rightarrow> (st', Inl DecodeIdentity)
                 | Some allowed \<Rightarrow> (st', Inr allowed)))"

section \<open>Properties\<close>

text \<open>The documented behaviour of the JWT library on a token it signed itself with the same secret: the
  claims are checked one by one, each with the leeway, and returned unchanged when all are good.\<close>

definition claim_errors :: "parser_options \<Rightarrow> time \<Rightarrow> UserClaims \<Rightarrow> jwt_kind list" where
  "claim_errors opts now claims =
    (case uc_ExpiresAt claims of
       None \<Rightarrow> if po_ExpirationRequired opts then [TokenRequiredClaimMissing] else []
     | Some t \<Rightarrow> if now < t + po_Leeway opts then [] else [TokenExpired]) @
    (if po_IssuedAt opts
     then (case uc_IssuedAt claims of None \<Rightarrow> [] | Some t \<Rightarrow> if now < t - po_Leeway opts then [TokenUsedBeforeIssued] else [])
     else []) @
    (if po_Issuer opts = uc_Issuer claims then [] else [TokenInvalidIssuer])"

definition jwt_law :: "(string \<Rightarrow> UserClaims \<Rightarrow> string + string) \<Rightarrow> jwt_parse \<Rightarrow> bool" where
  "jwt_law Sign Parse \<longleftrightarrow> (\<forall>secret claims token opts now. Sign secret claims = Inr token \<longrightarrow> ''HS256'' \<in> set (po_ValidMethods opts) \<longrightarrow>
    Parse opts secret now token =
      (if claim_errors opts now claims = [] then Inr (True, claims) else Inl (TokenInvalidClaims # claim_errors opts now claims)))"

lemma take_field_solid:
  assumes "\<forall>n < length s. space_prefix white_space (drop n s) = 0"
  shows "take_field s = (s, [])"
  using assms
proof (induction s)
  case (Cons c cs)
  have "space_prefix white_space (drop n cs) = 0" if "n < length cs" for n
    using Cons.prems that by (metis Suc_less_eq drop_Suc_Cons length_Cons)
  with Cons.IH have "take_field cs = (cs, [])" by blast
  moreover have "space_prefix white_space (c # cs) = 0" using Cons.prems by (metis drop0 length_greater_0_conv list.distinct(1))
  ultimately show ?case by simp
qed simp

lemma space_prefix_letter:
  assumes "c \<notin> hd ` set white_space"
  shows "space_prefix white_space (c # s) = 0"
proof -
  have "take (length w) (c # s) \<noteq> w" if "w \<in> set white_space" for w
  proof
    assume "take (length w) (c # s) = w"
    moreover have "w \<noteq> []" using that Nil_notin_white_space by blast
    ultimately have "hd w = c" by (cases w) simp_all
    with that assms show False by blast
  qed
  then have "List.find (\<lambda>w. take (length w) (c # s) = w) white_space = None" by (auto simp: find_None_iff)
  then show ?thesis by (simp add: space_prefix_def)
qed

lemma solid_letters:
  assumes "\<forall>c\<in>set s. c \<notin> hd ` set white_space"
  shows "\<forall>n < length s. space_prefix white_space (drop n s) = 0"
  using assms by (metis Cons_nth_drop_Suc nth_mem space_prefix_letter)

lemma Fields_bearer:
  assumes "token \<noteq> []" and "\<forall>n < length token. space_prefix white_space (drop n token) = 0"
  shows "Fields (''Bearer '' @ token) = [''Bearer'', token]"
proof -
  have l: "space_prefix white_space (c # s) = 0" if "c \<in> set ''Bearer''" for c s
    using that by (intro space_prefix_letter) (auto simp: white_space_def)
  have sp: "space_prefix white_space (CHR '' '' # s) = 1" for s
    by (simp add: space_prefix_def white_space_def)
  have t0: "trim_left white_space token = token" using assms by (intro trim_left_stop) (metis drop0 length_greater_0_conv)
  then have "trim_left white_space (CHR '' '' # token) = token"
    by (subst trim_left.simps) (simp add: sp)
  then have "Fields (CHR '' '' # token) = [token]"
    using assms(1) take_field_solid [OF assms(2)]
    by (subst Fields.simps) (simp add: Fields.simps [of "[]"])
  moreover have "trim_left white_space (''Bearer '' @ token) = ''Bearer '' @ token"
    by (intro trim_left_stop) (simp add: l)
  moreover have "take_field (''Bearer '' @ token) = (''Bearer'', CHR '' '' # token)"
    by (simp add: l sp)
  ultimately show ?thesis by (subst Fields.simps) (simp add: Let_def)
qed

text \<open>C37. A token authenticates its user for its lifetime and not beyond. A token the manager issued at
  \<open>t\<close> is accepted, as a bearer token, from 30 seconds before it was issued until 30 seconds after it expires,
  and yields the user it was issued to; from then on the middleware answers 401 with the code for
  expired tokens.\<close>

theorem token_lifetime:
  assumes lib: "jwt_law Sign Parse" and mgr: "NewTokenManager secret issuer ttl = Inr m"
    and gen: "GenerateAccessToken Sign m t userID username = Inr token"
    and solid: "token \<noteq> []" "\<forall>n < length token. space_prefix white_space (drop n token) = 0"
    and "NewNumericDate t - 30000000000 \<le> now"
  shows "AuthMiddleware Parse m now (''Bearer '' @ token) =
    (if now < NewNumericDate (t + ttl) + 30000000000
     then Inr \<lparr>id_UserID = userID, id_Username = TrimSpace username\<rparr> else Inl (401, CodeTokenExpired))"
proof -
  let ?claims = "\<lparr>uc_Username = TrimSpace username, uc_UserID = userID, uc_Issuer = tm_issuer m, uc_Subject = FormatInt userID,
    uc_IssuedAt = Some (NewNumericDate t), uc_ExpiresAt = Some (NewNumericDate (t + tm_ttl m))\<rparr>"
  let ?opts = "\<lparr>po_ValidMethods = [''HS256''], po_Issuer = tm_issuer m, po_ExpirationRequired = True, po_IssuedAt = True,
    po_Leeway = 30000000000\<rparr>"
  have ttl: "tm_ttl m = ttl" using mgr by (auto simp: NewTokenManager_def Let_def split: if_splits)
  from gen have u: "0 < userID" "TrimSpace username \<noteq> []" and s: "Sign (tm_secret m) ?claims = Inr token"
    by (auto simp: GenerateAccessToken_def Let_def split: if_splits sum.splits)
  have "''HS256'' \<in> set (po_ValidMethods ?opts)" by simp
  from lib [unfolded jwt_law_def, rule_format, OF s this, of now] have "Parse ?opts (tm_secret m) now token =
      (if claim_errors ?opts now ?claims = [] then Inr (True, ?claims) else Inl (TokenInvalidClaims # claim_errors ?opts now ?claims))" .
  moreover have "claim_errors ?opts now ?claims =
      (if now < NewNumericDate (t + ttl) + 30000000000 then [] else [TokenExpired])"
    using assms(6) by (simp add: claim_errors_def ttl)
  ultimately have p: "ParseAccessToken Parse m now token =
      (if now < NewNumericDate (t + ttl) + 30000000000 then Inr ?claims else Inl (ParseError [TokenInvalidClaims, TokenExpired]))"
    using u by (simp add: ParseAccessToken_def)
  show ?thesis
    unfolding AuthMiddleware_def Fields_bearer [OF solid] Let_def by (simp add: p EqualFold_def)
qed

text \<open>What an answer of the identity service shows.\<close>

definition role_answered :: "string \<Rightarrow> int \<Rightarrow> string \<Rightarrow> role_attempt list \<Rightarrow> (role_reply \<times> bool) http_response \<Rightarrow> bool" where
  "role_answered token userID role net resp \<longleftrightarrow>
    (\<exists>a req. a \<in> set net \<and> ra_reach a \<and> hr_body resp = (role_serve token req userID role a, ra_whole a))"

lemma role_answeredI:
  assumes "a \<in> set net" and "ra_reach a"
  shows "role_answered token userID role net
    \<lparr>hr_status = r_status (role_serve token req userID role a), hr_body = (role_serve token req userID role a, ra_whole a)\<rparr>"
  unfolding role_answered_def http_response.simps using assms by blast

interpretation role_net: json_client "role_ops cx userID role" "\<lambda>w. rw_token w = token \<and> set (rw_net w) \<subseteq> set net"
  "\<lambda>resp w. role_answered token userID role net resp" for cx userID role token net
proof unfold_locales
  fix s req s' r
  assume P: "rw_token (xs_world s) = token \<and> set (rw_net (xs_world s)) \<subseteq> set net" and d: "x_do (role_ops cx userID role) req s = (s', r)"
  obtain w' where w': "role_do cx userID role req (xs_world s) = (w', r)" "s' = s\<lparr>xs_world := w'\<rparr>"
    using d by (auto simp: role_ops_def split: prod.splits)
  show "(rw_token (xs_world s') = token \<and> set (rw_net (xs_world s')) \<subseteq> set net) \<and>
    (\<forall>resp. r = Inr resp \<longrightarrow> role_answered token userID role net resp)"
  proof (cases "rw_net (xs_world s)")
    case Nil
    with P w' show ?thesis by (auto simp: role_do_def)
  next
    case (Cons a rest)
    with P w' show ?thesis
      by (auto simp: role_do_def split: option.splits if_splits intro!: role_answeredI)
  qed
next
  fix s d s' e
  assume "rw_token (xs_world s) = token \<and> set (rw_net (xs_world s)) \<subseteq> set net" "x_sleep (role_ops cx userID role) d s = (s', e)"
  then show "rw_token (xs_world s') = token \<and> set (rw_net (xs_world s')) \<subseteq> set net"
    by (auto simp: role_ops_def split: prod.splits)
qed

lemma role_serve_allowed:
  assumes "decode_allowed (role_serve token req userID role a, whole) = Some True" and "int64 userID"
  shows "UserHasRole userID role (ra_db a)"
  using assms
  by (auto simp: decode_allowed_def role_serve_def internal_middleware_def Let_def role_endpoint_def HasRole_def stmt_def
      split: option.splits sum.splits if_splits outcome.splits reply.splits bool.splits)

text \<open>C38. A request gets past the administrator middleware only if the identity service, asked during
  this request, had the administrator role on record for the authenticated user. A service that cannot be
  reached, fails or answers with garbage never lets a request through.\<close>

theorem admin_needs_role:
  assumes "int64 userID"
    and run: "AdminMiddleware (Some (checker_HasRole cx c)) (Some userID) st = (st', Inr ())"
  shows "0 < userID \<and> (\<exists>a\<in>set (rw_net (xs_world st)). ra_reach a \<and> UserHasRole userID ''admin'' (ra_db a))"
proof -
  from run have u: "0 < userID" and h: "checker_HasRole cx c userID ''admin'' st = (st', Inr True)"
    by (auto simp: AdminMiddleware_def app_currentUserID_def split: option.splits if_splits prod.splits sum.splits)
  from h obtain factory resp where
    x: "executor_Do (role_ops cx userID ''admin'') (rc_breaker c) ''identity-service'' ''check-user-role''
           \<lparr>MaxAttempts = 3, BaseBackoff = 50000000, MaxBackoff = 300000000, MinimumAttemptGap = 100000000\<rparr> factory st = (st', Inr resp)"
    and dec: "decode_allowed (hr_body resp) = Some True"
    by (auto simp: checker_HasRole_def split: if_splits prod.splits sum.splits option.splits)
  have "rw_token (xs_world st) = rw_token (xs_world st) \<and> set (rw_net (xs_world st)) \<subseteq> set (rw_net (xs_world st))" by simp
  from role_net.executor_keeps(2) [OF this x refl] obtain a req where
    a: "a \<in> set (rw_net (xs_world st))" "ra_reach a"
      "hr_body resp = (role_serve (rw_token (xs_world st)) req userID ''admin'' a, ra_whole a)"
    unfolding role_answered_def by blast
  with dec assms(1) u show ?thesis using role_serve_allowed by (metis (no_types, lifting))
qed

section \<open>A small instance\<close>

text \<open>A library that writes the user into the token, for one fixed issuer and lifetime.\<close>

definition demo_sign :: "string \<Rightarrow> UserClaims \<Rightarrow> string + string" where
  "demo_sign secret claims =
    (if claims = \<lparr>uc_Username = ''alice'', uc_UserID = 7, uc_Issuer = ''iss'', uc_Subject = ''7'', uc_IssuedAt = Some 0,
        uc_ExpiresAt = Some 60000000000\<rparr> then Inr ''token'' else Inl ''unsupported'')"

definition demo_jwt :: jwt_parse where
  "demo_jwt opts secret now token =
    (let claims = \<lparr>uc_Username = ''alice'', uc_UserID = 7, uc_Issuer = ''iss'', uc_Subject = ''7'', uc_IssuedAt = Some 0,
        uc_ExpiresAt = Some 60000000000\<rparr> in
     if claim_errors opts now claims = [] then Inr (True, claims) else Inl (TokenInvalidClaims # claim_errors opts now claims))"

definition demo_manager :: TokenManager where
  "demo_manager = \<lparr>tm_secret = replicate 32 (CHR ''k''), tm_issuer = ''iss'', tm_ttl = 60000000000\<rparr>"

theorem token_lifetime_witness:
  "AuthMiddleware demo_jwt demo_manager 1000 ''Bearer token'' = Inr \<lparr>id_UserID = 7, id_Username = ''alice''\<rparr> \<and>
   AuthMiddleware demo_jwt demo_manager 90000000000 ''Bearer token'' = Inl (401, CodeTokenExpired)"
proof -
  have law: "jwt_law demo_sign demo_jwt"
    by (simp add: jwt_law_def demo_sign_def demo_jwt_def Let_def)
  have mgr: "NewTokenManager (replicate 32 (CHR ''k'')) ''iss'' 60000000000 = Inr demo_manager" by code_simp
  have t: "TrimSpace ''alice'' = ''alice''" by code_simp
  have gen: "GenerateAccessToken demo_sign demo_manager 0 7 ''alice'' = Inr ''token''" by code_simp
  have solid: "\<forall>n < length ''token''. space_prefix white_space (drop n ''token'') = 0"
    by (rule solid_letters) (simp add: white_space_def)
  from token_lifetime [OF law mgr gen _ solid, of 1000] token_lifetime [OF law mgr gen _ solid, of 90000000000]
  show ?thesis by (simp add: NewNumericDate_def t)
qed

definition demo_admins :: identity_db where
  "demo_admins = \<lparr>users = [], roles = [\<lparr>role_ID = 1, role_Name = ''admin''\<rparr>],
     user_roles = [\<lparr>ur_ID = 1, ur_RoleID = 1, ur_UserID = 7, ur_CreatedAt = 0, ur_UpdatedAt = 0\<rparr>],
     next_user = 8, next_user_role = 2, id_collate = (\<lambda>s. s)\<rparr>"

definition demo_checker :: role_checker where
  "demo_checker = NewIdentityRoleChecker ''http://i/'' ''t''
    \<lparr>FailureThreshold = 5, OpenInterval = 1, HalfOpenMaxProbes = 1\<rparr> (\<lambda>s. s)"

definition demo_role_context :: "unit ctx_ops" where
  "demo_role_context = \<lparr>cx_ctxErr = (\<lambda>_. None), cx_deadline = (\<lambda>_. None), cx_requestID = (\<lambda>_. ''rid''), cx_now = (\<lambda>_. 0),
     cx_format = (\<lambda>_. ''time''), cx_do = (\<lambda>c. c), cx_sleep = (\<lambda>_ c. (c, None)), cx_jitter = (\<lambda>_ _. 0)\<rparr>"

definition demo_role_world :: "unit role_world exec_state" where
  "demo_role_world = \<lparr>xs_world = \<lparr>rw_token = ''t'', rw_net =
      [\<lparr>ra_reach = True, ra_db = demo_admins, ra_env = calm_env, ra_lost = None, ra_whole = True\<rparr>], rw_ctx = ()\<rparr>,
    xs_breakers = []\<rparr>"

theorem admin_needs_role_witness:
  "snd (AdminMiddleware (Some (checker_HasRole demo_role_context demo_checker)) (Some 7) demo_role_world) = Inr () \<and>
   UserHasRole 7 ''admin'' demo_admins"
proof -
  let ?g = "AdminMiddleware (Some (checker_HasRole demo_role_context demo_checker)) (Some 7) demo_role_world"
  have s: "snd ?g = Inr ()" by code_simp
  have r: "?g = (fst ?g, Inr ())" unfolding s [symmetric] by (rule prod.collapse [symmetric])
  have "int64 7" by (simp add: int64_defs)
  from admin_needs_role [OF this r] have "UserHasRole 7 ''admin'' demo_admins"
    by (simp add: demo_role_world_def)
  with s show ?thesis by (rule conjI)
qed

end
