(* ===== verification/Shop_DB.thy ===== *)
theory Shop_DB
  imports App_Error
begin

text \<open>
  The tables of the single-process application (\<^verbatim>\<open>internal/model\<close>, \<^verbatim>\<open>migrations\<close>) and the statements of
  \<^verbatim>\<open>internal/dao\<close> on them, each with the constraints the migrations declare. Remarks of stock logs are
  left out. Status columns are integers, as the source has them.
\<close>

section \<open>Tables\<close>

record m_product =
  mp_ID :: int
  mp_Name :: string
  mp_Description :: string
  mp_PriceFen :: int
  mp_Status :: int
  mp_CreatedAt :: time
  mp_UpdatedAt :: time

record m_inventory =
  mi_ID :: int
  mi_ProductID :: int
  mi_StockQuantity :: int
  mi_CreatedAt :: time
  mi_UpdatedAt :: time

record m_stock_log =
  ms_ID :: int
  ms_ProductID :: int
  ms_ChangeQuantity :: int
  ms_BeforeQuantity :: int
  ms_AfterQuantity :: int
  ms_BizType :: int
  ms_BizID :: "int option"
  ms_CreatedAt :: time

record m_order =
  mo_ID :: int
  mo_UserID :: int
  mo_OrderNo :: string
  mo_TotalAmountFen :: int
  mo_Status :: int
  mo_PaidAt :: "time option"
  mo_CompletedAt :: "time option"
  mo_CancelledAt :: "time option"
  mo_CreatedAt :: time
  mo_UpdatedAt :: time

record m_order_item =
  mt_ID :: int
  mt_OrderID :: int
  mt_ProductID :: int
  mt_ProductName :: string
  mt_ProductPriceFen :: int
  mt_Quantity :: int
  mt_SubtotalFen :: int
  mt_CreatedAt :: time

record m_key =
  mk_ID :: int
  mk_UserID :: int
  mk_IdempotencyKey :: string
  mk_RequestHash :: string
  mk_OrderID :: "int option"
  mk_Status :: int

record m_outbox =
  mb_ID :: int
  mb_EventID :: string
  mb_OrderID :: int
  mb_UserID :: int
  mb_TimeoutAt :: time
  mb_PublishedAt :: "time option"
  mb_Attempts :: int
  mb_NextAttemptAt :: time
  mb_LastError :: string

definition OrderStatusPending :: int where "OrderStatusPending = 1"
definition OrderStatusPaid :: int where "OrderStatusPaid = 2"
definition OrderStatusFinished :: int where "OrderStatusFinished = 3"
definition OrderStatusCancelled :: int where "OrderStatusCancelled = 4"
definition ProductOnSale :: int where "ProductOnSale = 1"
definition ProductOffSale :: int where "ProductOffSale = 2"
definition OrderBeingCreated :: int where "OrderBeingCreated = 1"
definition OrderAlreadyCreated :: int where "OrderAlreadyCreated = 2"
definition StockBizInit :: int where "StockBizInit = 1"
definition StockBizManualAdd :: int where "StockBizManualAdd = 2"
definition StockBizOrderDeduct :: int where "StockBizOrderDeduct = 3"
definition StockBizOrderRollback :: int where "StockBizOrderRollback = 4"

lemmas shop_consts = OrderStatusPending_def OrderStatusPaid_def OrderStatusFinished_def OrderStatusCancelled_def
  ProductOnSale_def ProductOffSale_def OrderBeingCreated_def OrderAlreadyCreated_def
  StockBizInit_def StockBizManualAdd_def StockBizOrderDeduct_def StockBizOrderRollback_def

text \<open>The database; \<open>shop_next\<close> is the next automatic id, shared by the tables, and \<open>shop_collate\<close> the key of a
  string under their collation.\<close>

record shop_db =
  products :: "m_product list"
  product_inventories :: "m_inventory list"
  stock_logs :: "m_stock_log list"
  shop_orders :: "m_order list"
  shop_items :: "m_order_item list"
  order_idempotency_keys :: "m_key list"
  order_timeout_outbox :: "m_outbox list"
  shop_users :: "int list" \<comment> \<open>the ids the foreign keys on \<^verbatim>\<open>users\<close> accept\<close>
  shop_next :: int
  shop_collate :: "string \<Rightarrow> string"

text \<open>Statement sites; those in the loop over the items of an order carry its round.\<close>

datatype shop_site =
    SProductInsert | SProductCount | SProductList | SProductFind | SProductUpdate
  | SInventoryFind | SInventoryLock | SInventoryInsert | SInventoryUpdate | SLogInsert | SInventoryCommit | SLogList
  | SKeyInsert | SKeyFind | SKeyComplete | SOrderInsert | SOrderFind | SOrderTotal | SOrderStatus | SOrderCount
  | SOrderList | SItemList | SOutboxInsert | SOutboxFind | SOrderCommit
  | SItemProduct nat | SItemInventory nat | SItemDeduct nat | SItemInsert nat | SItemLog nat
  | SBackInventory nat | SBackUpdate nat | SBackLog nat
  | SOutboxList | SOutboxPublished string | SOutboxFailed string

section \<open>Constraints\<close>

abbreviation (input) ForeignKey :: db_error where
  "ForeignKey \<equiv> DriverError ''foreign key''"

definition bigint_check :: "int list \<Rightarrow> db_error option \<Rightarrow> db_error option" where
  "bigint_check ns other = (if list_all int64 ns then other else Some OutOfRange)"

definition m_product_check :: "m_product \<Rightarrow> db_error option" where
  "m_product_check p = bigint_check [mp_PriceFen p] (if 0 < mp_PriceFen p \<and> mp_Status p \<in> {1, 2} then None else Some CheckViolated)"

definition m_inventory_check :: "m_inventory \<Rightarrow> db_error option" where
  "m_inventory_check i = bigint_check [mi_StockQuantity i] (if 0 \<le> mi_StockQuantity i then None else Some CheckViolated)"

definition m_log_check :: "m_stock_log \<Rightarrow> db_error option" where
  "m_log_check l =
    (if 0 \<le> ms_BeforeQuantity l \<and> 0 \<le> ms_AfterQuantity l \<and>
        ms_AfterQuantity l = ms_BeforeQuantity l + ms_ChangeQuantity l \<and> ms_BizType l \<in> {1, 2, 3, 4}
     then None else Some CheckViolated)"

definition m_order_check :: "m_order \<Rightarrow> db_error option" where
  "m_order_check r = (if 0 \<le> mo_TotalAmountFen r \<and> mo_Status r \<in> {1, 2, 3, 4} then None else Some CheckViolated)"

definition m_item_check :: "m_order_item \<Rightarrow> db_error option" where
  "m_item_check i =
    (if 0 < mt_ProductPriceFen i \<and> 0 < mt_Quantity i \<and> 0 < mt_SubtotalFen i then None else Some CheckViolated)"

section \<open>Products\<close>

definition dao_CreateProduct :: "m_product \<Rightarrow> shop_db \<Rightarrow> db_error + shop_db \<times> m_product" where
  "dao_CreateProduct p db =
    (let row = p\<lparr>mp_ID := shop_next db\<rparr> in
     case sql_insert m_product_check (\<lambda>a b. mp_ID a = mp_ID b) row (products db) of
       Inl d \<Rightarrow> Inl d
     | Inr rows \<Rightarrow> Inr (db\<lparr>products := rows, shop_next := shop_next db + 1\<rparr>, row))"

definition dao_GetProductByID :: "int \<Rightarrow> shop_db \<Rightarrow> m_product option" where
  "dao_GetProductByID pid db = lookup_by mp_ID pid (products db)"

definition dao_UpdateProductStatus :: "time \<Rightarrow> int \<Rightarrow> int \<Rightarrow> shop_db \<Rightarrow> db_error + shop_db \<times> unit" where
  "dao_UpdateProductStatus now pid status db =
    (case sql_update m_product_check (\<lambda>p. mp_ID p = pid) (\<lambda>p. p\<lparr>mp_Status := status, mp_UpdatedAt := round_ms now\<rparr>) (products db) of
       Inl d \<Rightarrow> Inl d
     | Inr (rows, _) \<Rightarrow> Inr (db\<lparr>products := rows\<rparr>, ()))"

definition dao_ListProducts ::
  "shop_site env \<Rightarrow> int option \<Rightarrow> int \<Rightarrow> int \<Rightarrow> shop_db \<Rightarrow> db_error + m_product list \<times> int" where
  "dao_ListProducts env status page pageSize db =
    (let scoped = rev (filter (\<lambda>p. case status of None \<Rightarrow> True | Some st \<Rightarrow> mp_Status p = st) (products db)) in
     if 0 < pageSize
     then (case stmt env SProductCount (Inr (int (length scoped))) of
             Inl d \<Rightarrow> Inl d
           | Inr cnt \<Rightarrow>
               (case stmt env SProductList (Inr (sql_page (wrap64 (wrap64 (page - 1) * pageSize)) pageSize scoped)) of
                  Inl d \<Rightarrow> Inl d
                | Inr rows \<Rightarrow> Inr (rows, cnt)))
     else (case stmt env SProductList (Inr scoped) of
             Inl d \<Rightarrow> Inl d
           | Inr rows \<Rightarrow> Inr (rows, if pageSize = 0 then int (length rows) else 0)))"

section \<open>Inventory and stock logs\<close>

definition dao_InitInventory :: "time \<Rightarrow> int \<Rightarrow> int \<Rightarrow> shop_db \<Rightarrow> db_error + shop_db" where
  "dao_InitInventory now pid stock db =
    (case sql_insert m_inventory_check (\<lambda>a b. mi_ID a = mi_ID b \<or> mi_ProductID a = mi_ProductID b)
        \<lparr>mi_ID = shop_next db, mi_ProductID = pid, mi_StockQuantity = stock, mi_CreatedAt = round_ms now, mi_UpdatedAt = round_ms now\<rparr>
        (product_inventories db) of
       Inl d \<Rightarrow> Inl d
     | Inr rows \<Rightarrow> Inr (db\<lparr>product_inventories := rows, shop_next := shop_next db + 1\<rparr>))"

definition dao_GetInventoryByProductID :: "int \<Rightarrow> shop_db \<Rightarrow> m_inventory option" where
  "dao_GetInventoryByProductID pid db = lookup_by mi_ProductID pid (product_inventories db)"

text \<open>The assignment of the stock of one product: the new table and the number of rows it changed.\<close>

definition set_stock ::
  "(m_inventory \<Rightarrow> bool) \<Rightarrow> (m_inventory \<Rightarrow> m_inventory) \<Rightarrow> shop_db \<Rightarrow> db_error + shop_db \<times> nat" where
  "set_stock p f db =
    (case sql_update m_inventory_check (\<lambda>i. p i \<and> f i \<noteq> i) f (product_inventories db) of
       Inl d \<Rightarrow> Inl d
     | Inr (rows, n) \<Rightarrow> Inr (db\<lparr>product_inventories := rows\<rparr>, n))"

definition dao_UpdateInventoryStockQuantity :: "time \<Rightarrow> int \<Rightarrow> int \<Rightarrow> shop_db \<Rightarrow> db_error + shop_db \<times> nat" where
  "dao_UpdateInventoryStockQuantity now pid stock =
    set_stock (\<lambda>i. mi_ProductID i = pid) (\<lambda>i. i\<lparr>mi_StockQuantity := stock, mi_UpdatedAt := round_ms now\<rparr>)"

text \<open>\<^verbatim>\<open>UpdateColumn\<close> leaves \<^verbatim>\<open>updated_at\<close> to MySQL, which sets it when the row changes.\<close>

definition dao_DeductInventory :: "time \<Rightarrow> int \<Rightarrow> int \<Rightarrow> shop_db \<Rightarrow> db_error + shop_db \<times> nat" where
  "dao_DeductInventory now pid quantity =
    set_stock (\<lambda>i. mi_ProductID i = pid \<and> quantity \<le> mi_StockQuantity i \<and> quantity \<noteq> 0)
      (\<lambda>i. i\<lparr>mi_StockQuantity := mi_StockQuantity i - quantity, mi_UpdatedAt := round_ms now\<rparr>)"

definition dao_CreateStockLog :: "m_stock_log \<Rightarrow> shop_db \<Rightarrow> db_error + shop_db" where
  "dao_CreateStockLog l db =
    (case sql_insert m_log_check (\<lambda>a b. ms_ID a = ms_ID b) (l\<lparr>ms_ID := shop_next db\<rparr>) (stock_logs db) of
       Inl d \<Rightarrow> Inl d
     | Inr rows \<Rightarrow> Inr (db\<lparr>stock_logs := rows, shop_next := shop_next db + 1\<rparr>))"

text \<open>Among logs of the same time, which \<^verbatim>\<open>ORDER BY created_at\<close> leaves open, the later id comes first.\<close>

definition dao_ListStockLogsByProductID :: "int option \<Rightarrow> shop_db \<Rightarrow> m_stock_log list" where
  "dao_ListStockLogsByProductID productID db =
    (let newest = (\<lambda>ls. rev (sort_key ms_CreatedAt ls)) in
     if productID = None \<or> productID = Some 0 then newest (stock_logs db)
     else newest (filter (\<lambda>l. Some (ms_ProductID l) = productID) (stock_logs db)))"

section \<open>Orders\<close>

text \<open>The column rounds the time of creation; the caller keeps its own reading.\<close>

definition dao_CreateOrder :: "m_order \<Rightarrow> shop_db \<Rightarrow> db_error + shop_db \<times> m_order" where
  "dao_CreateOrder r db =
    (let r' = r\<lparr>mo_ID := shop_next db\<rparr> in
     if mo_UserID r \<notin> set (shop_users db) then Inl ForeignKey
     else case sql_insert m_order_check (\<lambda>a b. mo_ID a = mo_ID b \<or> shop_collate db (mo_OrderNo a) = shop_collate db (mo_OrderNo b))
         (r'\<lparr>mo_CreatedAt := round_ms (mo_CreatedAt r)\<rparr>) (shop_orders db) of
       Inl d \<Rightarrow> Inl d
     | Inr rows \<Rightarrow> Inr (db\<lparr>shop_orders := rows, shop_next := shop_next db + 1\<rparr>, r'))"

definition dao_CreateOrderItem :: "m_order_item \<Rightarrow> shop_db \<Rightarrow> db_error + shop_db" where
  "dao_CreateOrderItem i db =
    (case sql_insert m_item_check (\<lambda>a b. mt_ID a = mt_ID b) (i\<lparr>mt_ID := shop_next db\<rparr>) (shop_items db) of
       Inl d \<Rightarrow> Inl d
     | Inr rows \<Rightarrow> Inr (db\<lparr>shop_items := rows, shop_next := shop_next db + 1\<rparr>))"

definition dao_GetOrderByID :: "int \<Rightarrow> int \<Rightarrow> shop_db \<Rightarrow> m_order option" where
  "dao_GetOrderByID userID oid db = List.find (\<lambda>r. mo_UserID r = userID \<and> mo_ID r = oid) (shop_orders db)"

definition dao_GetOrderByIDForSystem :: "int \<Rightarrow> shop_db \<Rightarrow> m_order option" where
  "dao_GetOrderByIDForSystem oid db = lookup_by mo_ID oid (shop_orders db)"

definition dao_ListOrders :: "shop_site env \<Rightarrow> int \<Rightarrow> int \<Rightarrow> int \<Rightarrow> shop_db \<Rightarrow> db_error + m_order list \<times> int" where
  "dao_ListOrders env userID pageSize offset db =
    (let scoped = filter (\<lambda>r. mo_UserID r = userID) (shop_orders db) in
     case stmt env SOrderCount (Inr (int (length scoped))) of
       Inl d \<Rightarrow> Inl d
     | Inr cnt \<Rightarrow>
         (case stmt env SOrderList (Inr (sql_page offset pageSize (rev scoped))) of
            Inl d \<Rightarrow> Inl d
          | Inr rows \<Rightarrow> Inr (rows, cnt)))"

definition dao_ListOrderItemsByOrderID :: "int \<Rightarrow> shop_db \<Rightarrow> m_order_item list" where
  "dao_ListOrderItemsByOrderID oid db = filter (\<lambda>i. mt_OrderID i = oid) (shop_items db)"

definition update_shop_orders :: "(m_order \<Rightarrow> bool) \<Rightarrow> (m_order \<Rightarrow> m_order) \<Rightarrow> shop_db \<Rightarrow> db_error + shop_db \<times> nat" where
  "update_shop_orders p f db =
    (case sql_update m_order_check p f (shop_orders db) of
       Inl d \<Rightarrow> Inl d
     | Inr (rows, n) \<Rightarrow> Inr (db\<lparr>shop_orders := rows\<rparr>, n))"

text \<open>The column of a transition, and the transition itself; it changes the status, so every row it finds counts.\<close>

datatype time_field = PaidAt | CompletedAt | CancelledAt

definition set_time_field :: "time_field \<Rightarrow> time \<Rightarrow> m_order \<Rightarrow> m_order" where
  "set_time_field fld now r = (case fld of
      PaidAt \<Rightarrow> r\<lparr>mo_PaidAt := Some now\<rparr> | CompletedAt \<Rightarrow> r\<lparr>mo_CompletedAt := Some now\<rparr> | CancelledAt \<Rightarrow> r\<lparr>mo_CancelledAt := Some now\<rparr>)"

definition dao_PatchOrderStatus ::
  "time \<Rightarrow> int \<Rightarrow> int \<Rightarrow> int \<Rightarrow> int \<Rightarrow> time_field \<Rightarrow> shop_db \<Rightarrow> db_error + shop_db \<times> nat" where
  "dao_PatchOrderStatus now userID oid fromStatus toStatus timeField =
    update_shop_orders (\<lambda>r. mo_UserID r = userID \<and> mo_ID r = oid \<and> mo_Status r = fromStatus)
      (\<lambda>r. set_time_field timeField (round_ms now) (r\<lparr>mo_Status := toStatus, mo_UpdatedAt := round_ms now\<rparr>))"

definition dao_PatchOrderTotalPriceFen :: "time \<Rightarrow> int \<Rightarrow> int \<Rightarrow> int \<Rightarrow> shop_db \<Rightarrow> db_error + shop_db \<times> nat" where
  "dao_PatchOrderTotalPriceFen now oid totalFen userID =
    update_shop_orders (\<lambda>r. mo_ID r = oid \<and> mo_UserID r = userID)
      (\<lambda>r. r\<lparr>mo_TotalAmountFen := totalFen, mo_UpdatedAt := round_ms now\<rparr>)"

section \<open>Idempotency keys\<close>

definition same_key :: "shop_db \<Rightarrow> int \<Rightarrow> string \<Rightarrow> m_key \<Rightarrow> bool" where
  "same_key db userID key k \<longleftrightarrow> mk_UserID k = userID \<and> shop_collate db (mk_IdempotencyKey k) = shop_collate db key"

text \<open>\<^verbatim>\<open>INSERT\<close> that does nothing on a conflict: whether the row was inserted.\<close>

definition dao_TryCreateOrderIdempotencyKey :: "int \<Rightarrow> string \<Rightarrow> string \<Rightarrow> shop_db \<Rightarrow> db_error + shop_db \<times> bool" where
  "dao_TryCreateOrderIdempotencyKey userID key requestHash db =
    (if list_ex (same_key db userID key) (order_idempotency_keys db) then Inr (db, False)
     else if userID \<notin> set (shop_users db) then Inl ForeignKey
     else Inr (db\<lparr>order_idempotency_keys := order_idempotency_keys db @
            [\<lparr>mk_ID = shop_next db, mk_UserID = userID, mk_IdempotencyKey = key, mk_RequestHash = requestHash,
              mk_OrderID = None, mk_Status = OrderBeingCreated\<rparr>],
          shop_next := shop_next db + 1\<rparr>, True))"

definition dao_GetOrderIdempotencyKey :: "int \<Rightarrow> string \<Rightarrow> shop_db \<Rightarrow> m_key option" where
  "dao_GetOrderIdempotencyKey userID key db = List.find (same_key db userID key) (order_idempotency_keys db)"

definition dao_CompleteOrderIdempotencyKey :: "int \<Rightarrow> string \<Rightarrow> int \<Rightarrow> shop_db \<Rightarrow> db_error + shop_db \<times> nat" where
  "dao_CompleteOrderIdempotencyKey userID key oid db =
    (let hit = (\<lambda>k. same_key db userID key k \<and> mk_Status k = OrderBeingCreated) in
     Inr (db\<lparr>order_idempotency_keys := map (\<lambda>k. if hit k then k\<lparr>mk_OrderID := Some oid, mk_Status := OrderAlreadyCreated\<rparr> else k)
            (order_idempotency_keys db)\<rparr>,
          length (filter hit (order_idempotency_keys db))))"

section \<open>Timeout outbox\<close>

definition dao_CreateOrderTimeoutOutbox :: "m_outbox \<Rightarrow> shop_db \<Rightarrow> db_error + shop_db" where
  "dao_CreateOrderTimeoutOutbox e db =
    (if mb_OrderID e \<notin> mo_ID ` set (shop_orders db) then Inl ForeignKey
     else case sql_insert (\<lambda>_. None) (\<lambda>a b. mb_ID a = mb_ID b \<or> mb_OrderID a = mb_OrderID b \<or>
          shop_collate db (mb_EventID a) = shop_collate db (mb_EventID b))
        (e\<lparr>mb_ID := shop_next db\<rparr>) (order_timeout_outbox db) of
       Inl d \<Rightarrow> Inl d
     | Inr rows \<Rightarrow> Inr (db\<lparr>order_timeout_outbox := rows, shop_next := shop_next db + 1\<rparr>))"

definition dao_GetOrderTimeoutOutbox :: "string \<Rightarrow> int \<Rightarrow> shop_db \<Rightarrow> m_outbox option" where
  "dao_GetOrderTimeoutOutbox eventID oid db =
    List.find (\<lambda>e. shop_collate db (mb_EventID e) = shop_collate db eventID \<and> mb_OrderID e = oid) (order_timeout_outbox db)"

definition dao_ListPendingOrderTimeoutOutbox :: "time \<Rightarrow> int \<Rightarrow> shop_db \<Rightarrow> m_outbox list" where
  "dao_ListPendingOrderTimeoutOutbox now limit db =
    take (nat limit) (filter (\<lambda>e. mb_PublishedAt e = None \<and> mb_NextAttemptAt e \<le> now) (order_timeout_outbox db))"

definition update_shop_outbox :: "string \<Rightarrow> (m_outbox \<Rightarrow> m_outbox) \<Rightarrow> shop_db \<Rightarrow> db_error + shop_db \<times> unit" where
  "update_shop_outbox eventID f db =
    (case sql_update (\<lambda>e. if mb_Attempts e < 2 ^ 31 then None else Some OutOfRange)
        (\<lambda>e. shop_collate db (mb_EventID e) = shop_collate db eventID \<and> mb_PublishedAt e = None) f (order_timeout_outbox db) of
       Inl d \<Rightarrow> Inl d
     | Inr (rows, _) \<Rightarrow> Inr (db\<lparr>order_timeout_outbox := rows\<rparr>, ()))"

definition dao_MarkOrderTimeoutOutboxPublished :: "string \<Rightarrow> time \<Rightarrow> shop_db \<Rightarrow> db_error + shop_db \<times> unit" where
  "dao_MarkOrderTimeoutOutboxPublished eventID now =
    update_shop_outbox eventID (\<lambda>e. e\<lparr>mb_PublishedAt := Some (round_ms now), mb_LastError := []\<rparr>)"

definition dao_MarkOrderTimeoutOutboxFailed :: "string \<Rightarrow> string \<Rightarrow> time \<Rightarrow> shop_db \<Rightarrow> db_error + shop_db \<times> unit" where
  "dao_MarkOrderTimeoutOutboxFailed eventID lastError nextAttemptAt =
    update_shop_outbox eventID (\<lambda>e. e\<lparr>mb_Attempts := mb_Attempts e + 1, mb_LastError := lastError,
      mb_NextAttemptAt := round_ms nextAttemptAt\<rparr>)"

end
