(* ===== verification/Shop.thy ===== *)
theory Shop
  imports Shop_DB "HOL-Library.Product_Lexorder"
begin

text \<open>
  The services of the single-process application: \<^verbatim>\<open>ProductService\<close> with its Redis cache
  (\<^verbatim>\<open>internal/bizcache\<close>), \<^verbatim>\<open>InventoryService\<close>, \<^verbatim>\<open>StockLogService\<close> and \<^verbatim>\<open>OrderService\<close> of \<^verbatim>\<open>internal/service\<close>.
  Every transaction of the source is one \<^const>\<open>Transaction\<close>. SHA-256 with its hexadecimal form is an argument
  of the order operations, and so are the two results of \<^verbatim>\<open>uuid.NewString\<close> in \<^verbatim>\<open>CreateOrder\<close>.
\<close>

section \<open>Errors\<close>

text \<open>\<^verbatim>\<open>if err != nil { return ... }\<close>: go on with the value, or return the error.\<close>

definition and_then :: "'e + 'a \<Rightarrow> ('a \<Rightarrow> 'e + 'b) \<Rightarrow> 'e + 'b" where
  "and_then r k = (case r of Inl e \<Rightarrow> Inl e | Inr x \<Rightarrow> k x)"

abbreviation db_plain :: "db_error \<Rightarrow> service_error" where
  "db_plain d \<equiv> Plain (DBCause d)"

text \<open>The error of the database as it is, in place of it an error of the service, and the answer of a
  query for one row, whose absence is an error of the service.\<close>

definition or_err :: "db_error + 'a \<Rightarrow> service_error + 'a" where
  "or_err r = (case r of Inl d \<Rightarrow> Inl (db_plain d) | Inr x \<Rightarrow> Inr x)"

definition or_fail :: "service_error \<Rightarrow> db_error + 'a \<Rightarrow> service_error + 'a" where
  "or_fail e r = (case r of Inl _ \<Rightarrow> Inl e | Inr x \<Rightarrow> Inr x)"

definition found :: "service_error \<Rightarrow> db_error + 'a option \<Rightarrow> service_error + 'a" where
  "found e r = (case r of Inl d \<Rightarrow> Inl (db_plain d) | Inr None \<Rightarrow> Inl e | Inr (Some x) \<Rightarrow> Inr x)"

abbreviation RecordNotFound :: service_error where
  "RecordNotFound \<equiv> Plain (OtherCause ''record not found'')"

definition no_result :: "'s \<times> ('e + unit) \<Rightarrow> 's \<times> 'e option" where
  "no_result r = (fst r, case snd r of Inl e \<Rightarrow> Some e | Inr _ \<Rightarrow> None)"

section \<open>Product cache\<close>

text \<open>Redis holds the JSON form of a product, which decodes to the product. A call has an effect or not
  (no client, timeout, an error, an entry past its ten minutes): the source ignores which.\<close>

type_synonym product_cache = "string \<Rightarrow> m_product option"

record redis_env =
  re_get :: bool
  re_set :: bool
  re_del :: bool

definition ProductDetailCacheKey :: "int \<Rightarrow> string" where
  "ProductDetailCacheKey pid = ''product:detail:'' @ FormatInt pid"

definition GetProductDetail :: "redis_env \<Rightarrow> int \<Rightarrow> product_cache \<Rightarrow> m_product option" where
  "GetProductDetail re pid cache = (if re_get re then cache (ProductDetailCacheKey pid) else None)"

definition SetProductDetail :: "redis_env \<Rightarrow> m_product \<Rightarrow> product_cache \<Rightarrow> product_cache" where
  "SetProductDetail re p cache = (if re_set re then cache(ProductDetailCacheKey (mp_ID p) := Some p) else cache)"

definition DeleteProductDetailCache :: "redis_env \<Rightarrow> int \<Rightarrow> product_cache \<Rightarrow> product_cache" where
  "DeleteProductDetailCache re pid cache = (if re_del re then cache(ProductDetailCacheKey pid := None) else cache)"

section \<open>Products\<close>

record create_product_request =
  cp_Name :: string
  cp_Description :: string
  cp_PriceFen :: int

definition svc_CreateProduct ::
  "shop_site env \<Rightarrow> create_product_request \<Rightarrow> shop_db \<Rightarrow> shop_db \<times> (service_error + m_product)" where
  "svc_CreateProduct env req db =
    (let name = TrimSpace (cp_Name req); description = TrimSpace (cp_Description req);
         now = round_ms (e_now env SProductInsert) in
     if cp_PriceFen req \<le> 0 then (db, Inl ErrInvalidProductPrice)
     else if name = [] then (db, Inl ErrInvalidProductName)
     else if length description > 500 then (db, Inl ErrInvalidProductDescription)
     else let (db', r) = autocommit env SProductInsert (dao_CreateProduct
            \<lparr>mp_ID = 0, mp_Name = name, mp_Description = description, mp_PriceFen = cp_PriceFen req,
             mp_Status = ProductOffSale, mp_CreatedAt = now, mp_UpdatedAt = now\<rparr>) db
          in (db', or_err r))"

definition svc_ListProducts ::
  "shop_site env \<Rightarrow> int option \<Rightarrow> int \<Rightarrow> int \<Rightarrow> shop_db \<Rightarrow> service_error + m_product list \<times> int" where
  "svc_ListProducts env status page pageSize db = or_err (dao_ListProducts env status page pageSize db)"

definition svc_GetProductByID ::
  "shop_site env \<Rightarrow> redis_env \<Rightarrow> int \<Rightarrow> shop_db \<times> product_cache \<Rightarrow> (shop_db \<times> product_cache) \<times> (service_error + m_product)" where
  "svc_GetProductByID env re pid s =
    (case GetProductDetail re pid (snd s) of
       Some p \<Rightarrow> (s, Inr p)
     | None \<Rightarrow>
         (case found ErrProductNotFound (stmt env SProductFind (Inr (dao_GetProductByID pid (fst s)))) of
            Inl e \<Rightarrow> (s, Inl e)
          | Inr p \<Rightarrow> ((fst s, SetProductDetail re p (snd s)), Inr p)))"

text \<open>\<^verbatim>\<open>OnSaleProduct\<close> and \<^verbatim>\<open>OffSaleProduct\<close> differ in the status they set and the error of the update.\<close>

definition set_sale_status ::
  "int \<Rightarrow> service_error \<Rightarrow> shop_site env \<Rightarrow> redis_env \<Rightarrow> int \<Rightarrow> shop_db \<times> product_cache
    \<Rightarrow> (shop_db \<times> product_cache) \<times> service_error option" where
  "set_sale_status status failed env re pid s =
    (case found ErrProductNotFound (stmt env SProductFind (Inr (dao_GetProductByID pid (fst s)))) of
       Inl e \<Rightarrow> (s, Some e)
     | Inr p \<Rightarrow>
         if mp_Status p = status then (s, None)
         else (case autocommit env SProductUpdate
                 (dao_UpdateProductStatus (e_now env SProductUpdate) (mp_ID p) status) (fst s) of
                 (db', Inl _) \<Rightarrow> ((db', snd s), Some failed)
               | (db', Inr _) \<Rightarrow> ((db', DeleteProductDetailCache re pid (snd s)), None)))"

definition OnSaleProduct where
  "OnSaleProduct = set_sale_status ProductOnSale ErrProductOnSaleFailed"

definition OffSaleProduct where
  "OffSaleProduct = set_sale_status ProductOffSale ErrProductOffSaleFailed"

section \<open>Inventory and stock logs\<close>

definition new_log :: "time \<Rightarrow> int \<Rightarrow> int \<Rightarrow> int \<Rightarrow> int \<Rightarrow> int \<Rightarrow> int option \<Rightarrow> m_stock_log" where
  "new_log now pid change before after bizType bizID =
    \<lparr>ms_ID = 0, ms_ProductID = pid, ms_ChangeQuantity = change, ms_BeforeQuantity = before, ms_AfterQuantity = after,
     ms_BizType = bizType, ms_BizID = bizID, ms_CreatedAt = round_ms now\<rparr>"

definition init_body :: "shop_site env \<Rightarrow> int \<Rightarrow> int \<Rightarrow> shop_db \<Rightarrow> service_error + shop_db \<times> unit" where
  "init_body env pid stock tx =
    and_then (or_fail ErrInitInventoryFailed
        (stmt env SInventoryInsert (dao_InitInventory (e_now env SInventoryInsert) pid stock tx))) (\<lambda>tx.
    and_then (or_fail ErrCreateStockLogFailed
        (stmt env SLogInsert (dao_CreateStockLog (new_log (e_now env SLogInsert) pid stock 0 stock StockBizInit None) tx))) (\<lambda>tx.
    Inr (tx, ())))"

definition svc_InitInventory :: "shop_site env \<Rightarrow> int \<Rightarrow> int option \<Rightarrow> shop_db \<Rightarrow> shop_db \<times> service_error option" where
  "svc_InitInventory env productID stockQuantity db =
    (case stockQuantity of
       None \<Rightarrow> (db, Some ErrInvalidStockQuantity)
     | Some stock \<Rightarrow>
         if stock < 0 then (db, Some ErrInvalidStockQuantity)
         else (case found ErrProductNotFound (stmt env SProductFind (Inr (dao_GetProductByID productID db))) of
                 Inl e \<Rightarrow> (db, Some e)
               | Inr product \<Rightarrow>
                   (case stmt env SInventoryFind (Inr (dao_GetInventoryByProductID productID db)) of
                      Inl d \<Rightarrow> (db, Some (db_plain d))
                    | Inr (Some _) \<Rightarrow> (db, Some ErrInitInventoryExists)
                    | Inr None \<Rightarrow> no_result (Transaction (e_out env SInventoryCommit) db_plain
                        (init_body env (mp_ID product) stock) db))))"

definition svc_GetInventoryByProductID :: "shop_site env \<Rightarrow> int \<Rightarrow> shop_db \<Rightarrow> service_error + m_inventory" where
  "svc_GetInventoryByProductID env pid db =
    found ErrInventoryNotFound (stmt env SInventoryFind (Inr (dao_GetInventoryByProductID pid db)))"

text \<open>An update of the stock that finds no row to change is \<^verbatim>\<open>ErrRecordNotFound\<close>.\<close>

definition update_stock :: "shop_site env \<Rightarrow> shop_site \<Rightarrow> int \<Rightarrow> int \<Rightarrow> shop_db \<Rightarrow> service_error + shop_db" where
  "update_stock env site pid after tx =
    and_then (or_err (stmt env site (dao_UpdateInventoryStockQuantity (e_now env site) pid after tx))) (\<lambda>(tx, rows).
    if rows = 0 then Inl RecordNotFound else Inr tx)"

definition add_body :: "shop_site env \<Rightarrow> int \<Rightarrow> int \<Rightarrow> shop_db \<Rightarrow> service_error + shop_db \<times> unit" where
  "add_body env pid quantity tx =
    and_then (found ErrInventoryNotFound (stmt env SInventoryLock (Inr (dao_GetInventoryByProductID pid tx)))) (\<lambda>inventory.
    and_then (found ErrProductNotFound (stmt env SProductFind (Inr (dao_GetProductByID pid tx)))) (\<lambda>product.
    let before = mi_StockQuantity inventory; after = wrap64 (before + quantity) in
    and_then (update_stock env SInventoryUpdate pid after tx) (\<lambda>tx.
    and_then (or_fail ErrCreateStockLogFailed
        (stmt env SLogInsert (dao_CreateStockLog
          (new_log (e_now env SLogInsert) pid quantity before after StockBizManualAdd None) tx))) (\<lambda>tx.
    Inr (tx, ())))))"

definition svc_AddInventory :: "shop_site env \<Rightarrow> int \<Rightarrow> int \<Rightarrow> shop_db \<Rightarrow> shop_db \<times> service_error option" where
  "svc_AddInventory env productID quantity db =
    (if quantity \<le> 0 then (db, Some ErrInvalidAddQuantity)
     else no_result (Transaction (e_out env SInventoryCommit) db_plain (add_body env productID quantity) db))"

definition svc_ListStockLogs :: "shop_site env \<Rightarrow> int option \<Rightarrow> shop_db \<Rightarrow> service_error + m_stock_log list" where
  "svc_ListStockLogs env productID db = or_err (stmt env SLogList (Inr (dao_ListStockLogsByProductID productID db)))"

text \<open>No handler calls \<^verbatim>\<open>StockLogService.CreateStockLog\<close>.\<close>

definition svc_CreateStockLog :: "shop_site env \<Rightarrow> m_stock_log \<Rightarrow> shop_db \<Rightarrow> shop_db \<times> service_error option" where
  "svc_CreateStockLog env l db =
    (let (db', r) = autocommit env SLogInsert (\<lambda>db. map_sum id (\<lambda>db'. (db', ())) (dao_CreateStockLog l db)) db
     in no_result (db', or_err r))"

section \<open>Creating an order\<close>

record create_order_request =
  cr_IdempotencyKey :: string
  cr_Items :: "(int \<times> int) list" \<comment> \<open>product id and quantity\<close>

fun dup_items :: "int set \<Rightarrow> (int \<times> int) list \<Rightarrow> bool" where
  "dup_items seen [] = False"
| "dup_items seen ((pid, _) # rest) = (if pid \<in> seen then True else dup_items (insert pid seen) rest)"

definition validateDuplicateItems :: "(int \<times> int) list \<Rightarrow> service_error + unit" where
  "validateDuplicateItems items = (if dup_items {} items then Inl ErrDuplicateOrderItem else Inr ())"

text \<open>\<^verbatim>\<open>json.Marshal\<close> of the payload; \<^verbatim>\<open>append\<close> to a nil slice leaves it nil when there are no items.\<close>

definition item_json :: "int \<times> int \<Rightarrow> string" where
  "item_json i = ''{\"product_id\":'' @ FormatInt (fst i) @ '',\"quantity\":'' @ FormatInt (snd i) @ ''}''"

fun items_json :: "(int \<times> int) list \<Rightarrow> string" where
  "items_json [] = []"
| "items_json [i] = item_json i"
| "items_json (i # is) = item_json i @ '','' @ items_json is"

definition payload_json :: "(int \<times> int) list \<Rightarrow> string" where
  "payload_json items = ''{\"version\":1,\"items\":'' @
    (if items = [] then ''null'' else ''['' @ items_json items @ '']'') @ ''}''"

text \<open>The order of \<^verbatim>\<open>sort.Slice\<close>, by product and then by quantity, is the lexicographic order of pairs.\<close>

definition buildCreateOrderRequestHash :: "(string \<Rightarrow> string) \<Rightarrow> create_order_request \<Rightarrow> string" where
  "buildCreateOrderRequestHash sha256hex req = sha256hex (payload_json (sort (cr_Items req)))"

definition generateOrderNo :: "string \<Rightarrow> string" where
  "generateOrderNo uuid = ''ORD'' @ uuid"

text \<open>One round of the loop: the transaction state and the subtotal of the item.\<close>

definition create_item ::
  "shop_site env \<Rightarrow> int \<Rightarrow> nat \<Rightarrow> int \<times> int \<Rightarrow> shop_db \<Rightarrow> service_error + shop_db \<times> int" where
  "create_item env oid n itemReq tx =
    (let (pid, quantity) = itemReq in
    and_then (found ErrProductNotFound (stmt env (SItemProduct n) (Inr (dao_GetProductByID pid tx)))) (\<lambda>product.
    if mp_Status product \<noteq> ProductOnSale then Inl ErrProductOffSale else
    and_then (found ErrInventoryNotFound (stmt env (SItemInventory n) (Inr (dao_GetInventoryByProductID pid tx)))) (\<lambda>inv.
    let before = mi_StockQuantity inv; after = wrap64 (before - quantity) in
    if after < 0 then Inl ErrInsufficientStock else
    and_then (or_err (stmt env (SItemDeduct n) (dao_DeductInventory (e_now env (SItemDeduct n)) pid quantity tx))) (\<lambda>(tx, rows).
    if rows = 0 then Inl ErrInsufficientStock else
    let subtotalFen = wrap64 (mp_PriceFen product * quantity) in
    and_then (or_err (stmt env (SItemInsert n) (dao_CreateOrderItem
        \<lparr>mt_ID = 0, mt_OrderID = oid, mt_ProductID = mp_ID product, mt_ProductName = mp_Name product,
         mt_ProductPriceFen = mp_PriceFen product, mt_Quantity = quantity, mt_SubtotalFen = subtotalFen,
         mt_CreatedAt = round_ms (e_now env (SItemInsert n))\<rparr> tx))) (\<lambda>tx.
    and_then (or_fail ErrCreateStockLogFailed (stmt env (SItemLog n) (dao_CreateStockLog
        (new_log (e_now env (SItemLog n)) (mp_ID product) (wrap64 (- quantity)) before after StockBizOrderDeduct (Some oid)) tx))) (\<lambda>tx.
    Inr (tx, subtotalFen)))))))"

fun create_items ::
  "shop_site env \<Rightarrow> int \<Rightarrow> nat \<Rightarrow> (int \<times> int) list \<Rightarrow> int \<Rightarrow> shop_db \<Rightarrow> service_error + shop_db \<times> int" where
  "create_items env oid n [] totalFen tx = Inr (tx, totalFen)"
| "create_items env oid n (i # rest) totalFen tx =
    and_then (create_item env oid n i tx) (\<lambda>(tx, subtotalFen).
    create_items env oid (Suc n) rest (wrap64 (totalFen + subtotalFen)) tx)"

text \<open>The branch for a key that exists already.\<close>

definition replay_order :: "shop_site env \<Rightarrow> int \<Rightarrow> string \<Rightarrow> string \<Rightarrow> shop_db \<Rightarrow> service_error + m_order" where
  "replay_order env userID key requestHash tx =
    and_then (found RecordNotFound (stmt env SKeyFind (Inr (dao_GetOrderIdempotencyKey userID key tx)))) (\<lambda>rec.
    if mk_RequestHash rec \<noteq> requestHash then Inl ErrOrderIdempotencyConflict
    else if mk_Status rec = OrderAlreadyCreated
    then (case mk_OrderID rec of
            None \<Rightarrow> Inl ErrOrderIdempotencyStateInvalid
          | Some oid \<Rightarrow>
              if oid \<le> 0 then Inl ErrOrderIdempotencyStateInvalid
              else found ErrOrderIdempotencyStateInvalid (stmt env SOrderFind (Inr (dao_GetOrderByID userID oid tx))))
    else if mk_Status rec = OrderBeingCreated then Inl ErrOrderBeingCreated
    else Inl ErrOrderIdempotencyStateInvalid)"

text \<open>The branch for a fresh key, after the key was inserted.\<close>

definition fresh_order ::
  "shop_site env \<Rightarrow> string \<Rightarrow> string \<Rightarrow> duration \<Rightarrow> int \<Rightarrow> create_order_request \<Rightarrow> shop_db \<Rightarrow> service_error + shop_db \<times> m_order" where
  "fresh_order env orderUUID eventUUID orderTimeout userID req tx =
    (let createdAt = e_now env SOrderInsert in
    and_then (or_err (stmt env SOrderInsert (dao_CreateOrder
        \<lparr>mo_ID = 0, mo_UserID = userID, mo_OrderNo = generateOrderNo orderUUID, mo_TotalAmountFen = 0,
         mo_Status = OrderStatusPending, mo_PaidAt = None, mo_CompletedAt = None, mo_CancelledAt = None,
         mo_CreatedAt = createdAt, mo_UpdatedAt = round_ms createdAt\<rparr> tx))) (\<lambda>(tx, order).
    and_then (validateDuplicateItems (cr_Items req)) (\<lambda>_.
    and_then (create_items env (mo_ID order) 0 (cr_Items req) 0 tx) (\<lambda>(tx, totalAmountFen).
    and_then (or_err (stmt env SOrderTotal
        (dao_PatchOrderTotalPriceFen (e_now env SOrderTotal) (mo_ID order) totalAmountFen userID tx))) (\<lambda>(tx, _).
    and_then (or_fail ErrOrderIdempotencyStateInvalid (stmt env SKeyComplete
        (dao_CompleteOrderIdempotencyKey userID (cr_IdempotencyKey req) (mo_ID order) tx))) (\<lambda>(tx, rowsAffected).
    if rowsAffected \<noteq> 1 then Inl ErrOrderIdempotencyStateInvalid else
    and_then (or_err (stmt env SOutboxInsert (dao_CreateOrderTimeoutOutbox
        \<lparr>mb_ID = 0, mb_EventID = eventUUID, mb_OrderID = mo_ID order, mb_UserID = userID,
         mb_TimeoutAt = round_ms (createdAt + orderTimeout), mb_PublishedAt = None, mb_Attempts = 0,
         mb_NextAttemptAt = round_ms (e_now env SOutboxInsert), mb_LastError = []\<rparr> tx))) (\<lambda>tx.
    Inr (tx, order\<lparr>mo_TotalAmountFen := totalAmountFen\<rparr>))))))))"

definition create_order_body ::
  "shop_site env \<Rightarrow> string \<Rightarrow> string \<Rightarrow> duration \<Rightarrow> int \<Rightarrow> create_order_request \<Rightarrow> string \<Rightarrow> shop_db \<Rightarrow> service_error + shop_db \<times> m_order" where
  "create_order_body env orderUUID eventUUID orderTimeout userID req requestHash tx =
    and_then (or_err (stmt env SKeyInsert
        (dao_TryCreateOrderIdempotencyKey userID (cr_IdempotencyKey req) requestHash tx))) (\<lambda>(tx, acquired).
    if acquired then fresh_order env orderUUID eventUUID orderTimeout userID req tx
    else map_sum id (\<lambda>order. (tx, order)) (replay_order env userID (cr_IdempotencyKey req) requestHash tx))"

definition svc_CreateOrder ::
  "shop_site env \<Rightarrow> (string \<Rightarrow> string) \<Rightarrow> string \<Rightarrow> string \<Rightarrow> duration \<Rightarrow> int \<Rightarrow> create_order_request \<Rightarrow> shop_db
    \<Rightarrow> shop_db \<times> (service_error + m_order)" where
  "svc_CreateOrder env sha256hex orderUUID eventUUID orderTimeout userID req db =
    (if userID \<le> 0 then (db, Inl ErrInvalidUserID)
     else if TrimSpace (cr_IdempotencyKey req) = [] \<or> length (cr_IdempotencyKey req) > 128 then (db, Inl ErrInvalidIdempotencyKey)
     else Transaction (e_out env SOrderCommit) db_plain
       (create_order_body env orderUUID eventUUID orderTimeout userID req (buildCreateOrderRequestHash sha256hex req)) db)"

section \<open>Reading orders\<close>

definition svc_GetOrderByID :: "shop_site env \<Rightarrow> int \<Rightarrow> int \<Rightarrow> shop_db \<Rightarrow> service_error + m_order \<times> m_order_item list" where
  "svc_GetOrderByID env userID oid db =
    and_then (found ErrOrderNotFound (stmt env SOrderFind (Inr (dao_GetOrderByID userID oid db)))) (\<lambda>order.
    and_then (or_err (stmt env SItemList (Inr (dao_ListOrderItemsByOrderID oid db)))) (\<lambda>items.
    Inr (order, items)))"

definition maxOrderPage :: int where "maxOrderPage = 1000000"
definition maxOrderPageSize :: int where "maxOrderPageSize = 100"

definition svc_ListOrders :: "shop_site env \<Rightarrow> int \<Rightarrow> int \<Rightarrow> int \<Rightarrow> shop_db \<Rightarrow> service_error + m_order list \<times> int" where
  "svc_ListOrders env userID page pageSize db =
    (if userID \<le> 0 then Inl ErrInvalidUserID
     else if page \<le> 0 \<or> page > maxOrderPage \<or> pageSize \<le> 0 \<or> pageSize > maxOrderPageSize then Inl ErrInvalidOrderPagination
     else or_err (dao_ListOrders env userID pageSize (wrap64 ((page - 1) * pageSize)) db))"

section \<open>Cancelling an order\<close>

definition return_item :: "shop_site env \<Rightarrow> int \<Rightarrow> nat \<Rightarrow> m_order_item \<Rightarrow> shop_db \<Rightarrow> service_error + shop_db" where
  "return_item env oid n item tx =
    and_then (found RecordNotFound (stmt env (SBackInventory n) (Inr (dao_GetInventoryByProductID (mt_ProductID item) tx)))) (\<lambda>inventory.
    let before = mi_StockQuantity inventory; after = wrap64 (before + mt_Quantity item) in
    and_then (update_stock env (SBackUpdate n) (mt_ProductID item) after tx) (\<lambda>tx.
    or_err (stmt env (SBackLog n) (dao_CreateStockLog
      (new_log (e_now env (SBackLog n)) (mt_ProductID item) (mt_Quantity item) before after StockBizOrderRollback (Some oid)) tx))))"

fun return_items :: "shop_site env \<Rightarrow> int \<Rightarrow> nat \<Rightarrow> m_order_item list \<Rightarrow> shop_db \<Rightarrow> service_error + shop_db" where
  "return_items env oid n [] tx = Inr tx"
| "return_items env oid n (i # rest) tx = and_then (return_item env oid n i tx) (return_items env oid (Suc n) rest)"

definition cancelPendingOrder :: "shop_site env \<Rightarrow> m_order \<Rightarrow> shop_db \<Rightarrow> service_error + shop_db \<times> bool" where
  "cancelPendingOrder env order tx =
    and_then (or_err (stmt env SOrderStatus (dao_PatchOrderStatus (e_now env SOrderStatus) (mo_UserID order) (mo_ID order)
        OrderStatusPending OrderStatusCancelled CancelledAt tx))) (\<lambda>(tx, rows).
    if rows = 0 then Inr (tx, False) else
    and_then (or_err (stmt env SItemList (Inr (dao_ListOrderItemsByOrderID (mo_ID order) tx)))) (\<lambda>items.
    and_then (return_items env (mo_ID order) 0 items tx) (\<lambda>tx.
    Inr (tx, True))))"

definition cancel_body :: "shop_site env \<Rightarrow> int \<Rightarrow> int \<Rightarrow> shop_db \<Rightarrow> service_error + shop_db \<times> unit" where
  "cancel_body env userID oid tx =
    and_then (found ErrOrderNotFound (stmt env SOrderFind (Inr (dao_GetOrderByID userID oid tx)))) (\<lambda>order.
    if mo_Status order = OrderStatusCancelled then Inr (tx, ())
    else if mo_Status order = OrderStatusPaid then Inl ErrOrderAlreadyPaid
    else if mo_Status order = OrderStatusFinished then Inl ErrOrderAlreadyFinished
    else if mo_Status order \<noteq> OrderStatusPending then Inl ErrOrderCancelFailed
    else and_then (cancelPendingOrder env order tx) (\<lambda>(tx, cancelled).
    if cancelled then Inr (tx, ()) else Inl ErrOrderCancelFailed))"

definition svc_CancelOrder :: "shop_site env \<Rightarrow> int \<Rightarrow> int \<Rightarrow> shop_db \<Rightarrow> shop_db \<times> service_error option" where
  "svc_CancelOrder env userID oid db =
    no_result (Transaction (e_out env SOrderCommit) db_plain (cancel_body env userID oid) db)"

definition expire_body :: "shop_site env \<Rightarrow> string \<Rightarrow> int \<Rightarrow> shop_db \<Rightarrow> service_error + shop_db \<times> unit" where
  "expire_body env eventID oid tx =
    and_then (or_err (stmt env SOutboxFind (Inr (dao_GetOrderTimeoutOutbox eventID oid tx)))) (\<lambda>outbox.
    case outbox of None \<Rightarrow> Inr (tx, ()) | Some ev \<Rightarrow>
    if e_now env SOutboxFind < mb_TimeoutAt ev then Inl (Plain (OtherCause ''order timeout deadline has not been reached'')) else
    and_then (or_err (stmt env SOrderFind (Inr (dao_GetOrderByIDForSystem oid tx)))) (\<lambda>found_order.
    case found_order of None \<Rightarrow> Inr (tx, ()) | Some order \<Rightarrow>
    if mo_Status order \<noteq> OrderStatusPending then Inr (tx, ())
    else and_then (cancelPendingOrder env order tx) (\<lambda>(tx, _). Inr (tx, ()))))"

definition svc_CancelExpiredOrder :: "shop_site env \<Rightarrow> string \<Rightarrow> int \<Rightarrow> shop_db \<Rightarrow> shop_db \<times> service_error option" where
  "svc_CancelExpiredOrder env eventID oid db =
    no_result (Transaction (e_out env SOrderCommit) db_plain (expire_body env eventID oid) db)"

section \<open>Paying and finishing an order\<close>

text \<open>Both read the order and then update it where it still has the status they read. Another operation may
  run in between: the database of the update is an argument of its own.\<close>

definition patch_status ::
  "shop_site env \<Rightarrow> int \<Rightarrow> int \<Rightarrow> int \<Rightarrow> int \<Rightarrow> time_field \<Rightarrow> service_error \<Rightarrow> shop_db \<Rightarrow> shop_db \<times> service_error option" where
  "patch_status env userID oid fromStatus toStatus fld failed db =
    (case autocommit env SOrderStatus (dao_PatchOrderStatus (e_now env SOrderStatus) userID oid fromStatus toStatus fld) db of
       (db', Inl d) \<Rightarrow> (db', Some (db_plain d))
     | (db', Inr rows) \<Rightarrow> (db', if rows = 0 then Some failed else None))"

definition pay_check :: "int \<Rightarrow> service_error option" where
  "pay_check status =
    (if status = OrderStatusPaid then Some ErrOrderAlreadyPaid
     else if status = OrderStatusFinished then Some ErrOrderAlreadyFinished
     else if status = OrderStatusCancelled then Some ErrOrderAlreadyCanceled
     else if status = OrderStatusPending then None
     else Some ErrOrderPayFailed)"

definition finish_check :: "int \<Rightarrow> service_error option" where
  "finish_check status =
    (if status = OrderStatusPending then Some ErrOrderNotPaid
     else if status = OrderStatusCancelled then Some ErrOrderAlreadyCanceled
     else if status = OrderStatusFinished then Some ErrOrderAlreadyFinished
     else if status = OrderStatusPaid then None
     else Some ErrOrderFinishFailed)"

definition svc_PayOrder :: "shop_site env \<Rightarrow> int \<Rightarrow> int \<Rightarrow> shop_db \<Rightarrow> shop_db \<Rightarrow> shop_db \<times> service_error option" where
  "svc_PayOrder env userID oid readDb db =
    (case found ErrOrderNotFound (stmt env SOrderFind (Inr (dao_GetOrderByID userID oid readDb))) of
       Inl e \<Rightarrow> (db, Some e)
     | Inr order \<Rightarrow>
         (case pay_check (mo_Status order) of
            Some e \<Rightarrow> (db, Some e)
          | None \<Rightarrow> patch_status env userID (mo_ID order) OrderStatusPending OrderStatusPaid PaidAt ErrOrderPayFailed db))"

definition svc_FinishOrder :: "shop_site env \<Rightarrow> int \<Rightarrow> int \<Rightarrow> shop_db \<Rightarrow> shop_db \<Rightarrow> shop_db \<times> service_error option" where
  "svc_FinishOrder env userID oid readDb db =
    (case found ErrOrderNotFound (stmt env SOrderFind (Inr (dao_GetOrderByID userID oid readDb))) of
       Inl e \<Rightarrow> (db, Some e)
     | Inr order \<Rightarrow>
         (case finish_check (mo_Status order) of
            Some e \<Rightarrow> (db, Some e)
          | None \<Rightarrow> patch_status env userID (mo_ID order) OrderStatusPaid OrderStatusFinished CompletedAt ErrOrderFinishFailed db))"

end
