(* ===== verification/Shop_Correct.thy ===== *)
theory Shop_Correct
  imports Shop
begin

text \<open>
  Invariant of the database of the single-process application: the stock of a product is what its stock logs add
  up to, and together with what the orders that are not cancelled hold it is what was ever supplied. Every
  statement sequence inside the transactions keeps it, with the quantities still to be returned as a term of
  its own while an order is being cancelled.
\<close>

section \<open>Results of statements\<close>

lemma and_then_Inr [simp]: "and_then r k = Inr y \<longleftrightarrow> (\<exists>x. r = Inr x \<and> k x = Inr y)"
  by (auto simp: and_then_def split: sum.splits)

lemma or_err_Inr [simp]: "or_err r = Inr x \<longleftrightarrow> r = Inr x"
  by (auto simp: or_err_def split: sum.splits)

lemma or_fail_Inr [simp]: "or_fail e r = Inr x \<longleftrightarrow> r = Inr x"
  by (auto simp: or_fail_def split: sum.splits)

lemma found_Inr [simp]: "found e r = Inr x \<longleftrightarrow> r = Inr (Some x)"
  by (auto simp: found_def split: sum.splits option.splits)

lemma and_then_simps [simp]: "and_then (Inr x) k = k x" "and_then (Inl e) k = Inl e"
  by (simp_all add: and_then_def)

lemma error_simps [simp]:
  "or_err (Inr x) = Inr x" "or_fail e (Inr x) = Inr x" "found e (Inr (Some x)) = Inr x" "found e (Inr None) = Inl e"
  by (simp_all add: or_err_def or_fail_def found_def)

lemma fst_no_result [simp]: "fst (no_result r) = fst r"
  by (simp add: no_result_def)

section \<open>Quantities\<close>

definition stock_at :: "shop_db \<Rightarrow> int \<Rightarrow> int option" where
  "stock_at db p = map_option mi_StockQuantity (dao_GetInventoryByProductID p db)"

definition stock_of :: "shop_db \<Rightarrow> int \<Rightarrow> int" where
  "stock_of db p = (case stock_at db p of None \<Rightarrow> 0 | Some s \<Rightarrow> s)"

text \<open>What the logs of a product add up to, all of them or those that supply stock.\<close>

definition logged :: "shop_db \<Rightarrow> int \<Rightarrow> int" where
  "logged db p = (\<Sum>l\<leftarrow>stock_logs db. if ms_ProductID l = p then ms_ChangeQuantity l else 0)"

definition supplied :: "shop_db \<Rightarrow> int \<Rightarrow> int" where
  "supplied db p = (\<Sum>l\<leftarrow>stock_logs db.
    if ms_ProductID l = p \<and> (ms_BizType l = StockBizInit \<or> ms_BizType l = StockBizManualAdd) then ms_ChangeQuantity l else 0)"

text \<open>The quantity of a product in a list of items, and in the items of orders that are not cancelled.\<close>

definition item_qty :: "m_order_item list \<Rightarrow> int \<Rightarrow> int" where
  "item_qty items p = (\<Sum>i\<leftarrow>items. if mt_ProductID i = p then mt_Quantity i else 0)"

definition live :: "shop_db \<Rightarrow> int \<Rightarrow> bool" where
  "live db oid = (case lookup_by mo_ID oid (shop_orders db) of None \<Rightarrow> False | Some r \<Rightarrow> mo_Status r \<noteq> OrderStatusCancelled)"

definition held :: "shop_db \<Rightarrow> int \<Rightarrow> int" where
  "held db = item_qty (filter (\<lambda>i. live db (mt_OrderID i)) (shop_items db))"

lemma item_qty_simps [simp]:
  "item_qty [] p = 0" "item_qty (i # is) p = (if mt_ProductID i = p then mt_Quantity i else 0) + item_qty is p"
  "item_qty (xs @ ys) p = item_qty xs p + item_qty ys p"
  by (simp_all add: item_qty_def)

lemma item_qty_split:
  "item_qty xs p = item_qty (filter P xs) p + item_qty (filter (\<lambda>i. \<not> P i) xs) p"
  by (induction xs) auto

section \<open>The invariant\<close>

definition item_ok :: "shop_db \<Rightarrow> m_order_item \<Rightarrow> bool" where
  "item_ok db i \<longleftrightarrow> mt_OrderID i \<in> mo_ID ` set (shop_orders db) \<and> stock_at db (mt_ProductID i) \<noteq> None \<and>
    0 < mt_Quantity i \<and> 0 < mt_ProductPriceFen i \<and> 0 < mt_SubtotalFen i \<and>
    mt_SubtotalFen i = wrap64 (mt_ProductPriceFen i * mt_Quantity i)"

definition shop_core :: "(int \<Rightarrow> int) \<Rightarrow> shop_db \<Rightarrow> bool" where
  "shop_core due db \<longleftrightarrow>
    distinct (map mi_ProductID (product_inventories db)) \<and>
    (\<forall>p s. stock_at db p = Some s \<longrightarrow> 0 \<le> s \<and> int64 s) \<and>
    distinct (map mo_ID (shop_orders db)) \<and> 0 < shop_next db \<and>
    (\<forall>r\<in>set (shop_orders db). 0 < mo_ID r \<and> mo_ID r < shop_next db \<and> mo_Status r \<in> {1, 2, 3, 4}) \<and>
    (\<forall>i\<in>set (shop_items db). item_ok db i) \<and>
    (\<forall>p. stock_of db p + held db p + due p = supplied db p) \<and>
    (\<forall>p. logged db p = stock_of db p)"

abbreviation no_due :: "int \<Rightarrow> int" where
  "no_due \<equiv> \<lambda>_. 0"

text \<open>Every stored key belongs to an order of its user, and no two keys of a user are equal; every order has its
  timeout event; the total of an order is the sum of its subtotals in 64 bits.\<close>

definition key_ok :: "shop_db \<Rightarrow> m_key \<Rightarrow> bool" where
  "key_ok db k \<longleftrightarrow> mk_Status k = OrderAlreadyCreated \<and>
    (\<exists>r\<in>set (shop_orders db). mk_OrderID k = Some (mo_ID r) \<and> mo_UserID r = mk_UserID k)"

definition key_id :: "shop_db \<Rightarrow> m_key \<Rightarrow> int \<times> string" where
  "key_id db k = (mk_UserID k, shop_collate db (mk_IdempotencyKey k))"

definition order_total :: "shop_db \<Rightarrow> int \<Rightarrow> int" where
  "order_total db oid = wrap64 (\<Sum>i\<leftarrow>dao_ListOrderItemsByOrderID oid db. mt_SubtotalFen i)"

definition shop_ok :: "shop_db \<Rightarrow> bool" where
  "shop_ok db \<longleftrightarrow> shop_core no_due db \<and>
    (\<forall>k\<in>set (order_idempotency_keys db). key_ok db k) \<and>
    distinct (map (key_id db) (order_idempotency_keys db)) \<and>
    map mb_OrderID (order_timeout_outbox db) = map mo_ID (shop_orders db) \<and>
    (\<forall>r\<in>set (shop_orders db). mo_TotalAmountFen r = order_total db (mo_ID r) \<and> 0 \<le> mo_TotalAmountFen r)"

text \<open>Tables that the core does not speak of may change.\<close>

lemma shop_core_cong:
  assumes "shop_core due db"
    and "product_inventories db' = product_inventories db" and "stock_logs db' = stock_logs db"
    and "shop_orders db' = shop_orders db" and "shop_items db' = shop_items db" and "shop_next db \<le> shop_next db'"
  shows "shop_core due db'"
proof -
  have e: "stock_at db' = stock_at db" "supplied db' = supplied db" "logged db' = logged db" "live db' = live db"
    using assms by (auto simp: stock_at_def supplied_def logged_def live_def dao_GetInventoryByProductID_def fun_eq_iff)
  then have "held db' = held db" "stock_of db' = stock_of db" "item_ok db' = item_ok db"
    using assms by (auto simp: held_def stock_of_def item_ok_def fun_eq_iff)
  with e assms show ?thesis unfolding shop_core_def by fastforce
qed

section \<open>Changes of stock\<close>

definition stock_change :: "int \<Rightarrow> int \<Rightarrow> shop_db \<Rightarrow> shop_db \<Rightarrow> bool" where
  "stock_change pid d db db' \<longleftrightarrow>
    (\<exists>rows s. db' = db\<lparr>product_inventories := rows\<rparr> \<and>
      map mi_ProductID rows = map mi_ProductID (product_inventories db) \<and>
      stock_at db pid = Some s \<and> 0 \<le> s + d \<and> int64 (s + d) \<and> stock_at db' = (stock_at db)(pid := Some (s + d)))"

lemma set_stock_change:
  assumes u: "set_stock p f db = Inr (db', n)" and n: "n \<noteq> 0"
    and dist: "distinct (map mi_ProductID (product_inventories db))"
    and inv: "dao_GetInventoryByProductID pid db = Some i"
    and p: "\<And>j. p j \<Longrightarrow> mi_ProductID j = pid"
    and key: "\<And>j. mi_ProductID (f j) = mi_ProductID j" and f: "mi_StockQuantity (f i) = mi_StockQuantity i + d"
  shows "p i \<and> stock_change pid d db db'"
proof -
  define g where "g j = (if p j \<and> f j \<noteq> j then f j else j)" for j
  let ?rows = "map g (product_inventories db)"
  from u have db': "db' = db\<lparr>product_inventories := ?rows\<rparr>"
    and chk: "\<And>j. j \<in> set (product_inventories db) \<Longrightarrow> p j \<Longrightarrow> f j \<noteq> j \<Longrightarrow> m_inventory_check (f j) = None"
    and nn: "n = length (filter (\<lambda>j. p j \<and> f j \<noteq> j) (product_inventories db))"
    by (auto simp: set_stock_def sql_update_Inr g_def split: sum.splits)
  have i: "i \<in> set (product_inventories db)" "mi_ProductID i = pid"
    using inv by (auto simp: dao_GetInventoryByProductID_def dest: lookup_by_Some_D)
  from n nn obtain j where j: "j \<in> set (product_inventories db)" "p j" "f j \<noteq> j"
    by (auto simp: filter_empty_conv)
  have ji: "j = i"
    using distinct_key_eq [OF dist j(1) i(1)] p [OF j(2)] i(2) by simp
  have ids: "map mi_ProductID ?rows = map mi_ProductID (product_inventories db)"
    by (simp add: g_def key)
  have gk: "mi_ProductID (g j) = mi_ProductID j" for j
    by (simp add: g_def key)
  have look: "stock_at db' q = map_option (\<lambda>j. mi_StockQuantity (g j)) (dao_GetInventoryByProductID q db)" for q
    unfolding db' stock_at_def dao_GetInventoryByProductID_def
    by (simp add: lookup_by_map [where f = g and key = mi_ProductID, OF gk] option.map_comp o_def)
  have other: "g j = j" if "dao_GetInventoryByProductID q db = Some j" "q \<noteq> pid" for q j
    using that p [of j] by (auto simp: g_def dao_GetInventoryByProductID_def dest: lookup_by_Some_D)
  have gi: "g i = f i" using j ji by (simp add: g_def)
  have st: "stock_at db' = (stock_at db)(pid := Some (mi_StockQuantity i + d))"
  proof
    fix q
    show "stock_at db' q = ((stock_at db)(pid := Some (mi_StockQuantity i + d))) q"
      by (cases "dao_GetInventoryByProductID q db") (use inv gi f other [of q] in \<open>auto simp: look stock_at_def [of db]\<close>)
  qed
  have "0 \<le> mi_StockQuantity i + d \<and> int64 (mi_StockQuantity i + d)"
    using chk [OF j] ji f by (auto simp: m_inventory_check_def bigint_check_def split: if_splits)
  moreover have "stock_at db pid = Some (mi_StockQuantity i)" by (simp add: stock_at_def inv)
  ultimately show ?thesis
    using db' ids st j ji unfolding stock_change_def by blast
qed

lemma deduct_change:
  assumes "dao_DeductInventory now pid q db = Inr (db', n)" "n \<noteq> 0"
    and "distinct (map mi_ProductID (product_inventories db))"
    and "dao_GetInventoryByProductID pid db = Some i"
  shows "q \<le> mi_StockQuantity i \<and> stock_change pid (- q) db db'"
  using set_stock_change [OF assms(1) [unfolded dao_DeductInventory_def] assms(2-4), where d = "- q"] by simp

lemma update_stock_change:
  assumes "update_stock env site pid after db = Inr db'"
    and "distinct (map mi_ProductID (product_inventories db))"
    and "dao_GetInventoryByProductID pid db = Some i"
  shows "stock_change pid (after - mi_StockQuantity i) db db'"
proof -
  from assms(1) obtain n where "dao_UpdateInventoryStockQuantity (e_now env site) pid after db = Inr (db', n)" "n \<noteq> 0"
    by (auto simp: update_stock_def stmt_Inr split: if_splits)
  from set_stock_change [OF this(1) [unfolded dao_UpdateInventoryStockQuantity_def] this(2) assms(2,3),
      where d = "after - mi_StockQuantity i"]
  show ?thesis by simp
qed

section \<open>Steps of the transactions\<close>

lemma stock_of_at [simp]: "stock_at db p = Some s \<Longrightarrow> stock_of db p = s"
  by (simp add: stock_of_def)

lemma stock_at_cong: "product_inventories db' = product_inventories db \<Longrightarrow> stock_at db' = stock_at db"
  by (simp add: stock_at_def dao_GetInventoryByProductID_def fun_eq_iff)

lemma stock_change_of:
  assumes "stock_change pid d db db1" and "product_inventories db' = product_inventories db1"
  shows "stock_of db' p = stock_of db p + (if p = pid then d else 0)"
  using assms stock_at_cong [OF assms(2)] by (auto simp: stock_change_def stock_of_def)

lemma log_Inr:
  assumes "dao_CreateStockLog l db = Inr db'"
  shows "db' = db\<lparr>stock_logs := stock_logs db @ [l\<lparr>ms_ID := shop_next db\<rparr>], shop_next := shop_next db + 1\<rparr>
    \<and> ms_AfterQuantity l = ms_BeforeQuantity l + ms_ChangeQuantity l"
  using assms by (auto simp: dao_CreateStockLog_def sql_insert_Inr m_log_check_def split: sum.splits if_splits)

text \<open>A change of stock with its log, and with the items it accounts for.\<close>

lemma core_move:
  assumes core: "shop_core due db" and ch: "stock_change pid d db db1"
    and l: "ms_ProductID l = pid" "ms_ChangeQuantity l = d"
    and db': "db' = db1\<lparr>stock_logs := stock_logs db1 @ [l], shop_items := shop_items db1 @ items, shop_next := n\<rparr>" "shop_next db \<le> n"
    and items: "\<And>i. i \<in> set items \<Longrightarrow> item_ok db i" "\<And>i. i \<in> set items \<Longrightarrow> live db (mt_OrderID i)"
    and bal: "\<And>p. (if p = pid then d else 0) + item_qty items p + due' p =
      due p + (if p = pid \<and> (ms_BizType l = StockBizInit \<or> ms_BizType l = StockBizManualAdd) then d else 0)"
  shows "shop_core due' db'"
proof -
  from ch obtain rows s where r: "db1 = db\<lparr>product_inventories := rows\<rparr>"
    "map mi_ProductID rows = map mi_ProductID (product_inventories db)"
    "stock_at db pid = Some s" "0 \<le> s + d" "int64 (s + d)" "stock_at db1 = (stock_at db)(pid := Some (s + d))"
    by (auto simp: stock_change_def)
  have at: "stock_at db' = (stock_at db)(pid := Some (s + d))"
    using r(6) by (simp add: db' stock_at_def dao_GetInventoryByProductID_def fun_eq_iff)
  have of: "stock_of db' p = stock_of db p + (if p = pid then d else 0)" for p
    using r(3) by (simp add: stock_of_def at)
  have lv: "live db' = live db" by (simp add: db' r(1) live_def fun_eq_iff)
  have hl: "held db' p = held db p + item_qty items p" for p
    using items(2) by (simp add: held_def lv) (simp add: db' r(1) filter_id_conv)
  have sp: "supplied db' p = supplied db p +
      (if p = pid \<and> (ms_BizType l = StockBizInit \<or> ms_BizType l = StockBizManualAdd) then d else 0)" for p
    by (auto simp: supplied_def db' r(1) l)
  have lg: "logged db' p = logged db p + (if p = pid then d else 0)" for p
    by (simp add: logged_def db' r(1) l)
  have it: "item_ok db' i" if "item_ok db i" for i
    using that by (simp add: item_ok_def at) (simp add: db' r(1))
  have "stock_of db' p + held db' p + due' p = supplied db' p" for p
    using core bal [of p] by (simp add: shop_core_def of hl sp) (smt (verit))
  moreover have "logged db' p = stock_of db' p" for p
    using core by (simp add: shop_core_def of lg)
  moreover have "\<forall>i\<in>set (shop_items db'). item_ok db' i"
    using core items(1) it by (auto simp: shop_core_def db' r(1))
  moreover have "\<forall>p s. stock_at db' p = Some s \<longrightarrow> 0 \<le> s \<and> int64 s"
    using core r by (simp add: shop_core_def at)
  moreover have "shop_orders db' = shop_orders db" "shop_next db' = n" "product_inventories db' = rows"
    by (simp_all add: db' r(1))
  ultimately show ?thesis
    using core r(2) db'(2) unfolding shop_core_def by fastforce
qed

lemma core_distinct: "shop_core due db \<Longrightarrow> distinct (map mi_ProductID (product_inventories db))"
  by (simp add: shop_core_def)

lemma core_stock: "shop_core due db \<Longrightarrow> stock_at db p = Some s \<Longrightarrow> 0 \<le> s \<and> int64 s"
  by (simp add: shop_core_def)

lemma core_item: "shop_core due db \<Longrightarrow> i \<in> set (shop_items db) \<Longrightarrow> item_ok db i"
  by (simp add: shop_core_def)

lemma core_balance: "shop_core due db \<Longrightarrow> stock_of db p + held db p + due p = supplied db p"
  unfolding shop_core_def by blast

lemma stock_at_found: "dao_GetInventoryByProductID p db = Some i \<Longrightarrow> stock_at db p = Some (mi_StockQuantity i)"
  by (simp add: stock_at_def)

text \<open>What a round of the creation loop does: every table but the inventories, the logs and the items stays.\<close>

definition item_for :: "int \<Rightarrow> m_product \<Rightarrow> int \<Rightarrow> m_order_item \<Rightarrow> bool" where
  "item_for oid product q i \<longleftrightarrow> mt_OrderID i = oid \<and> mt_ProductID i = mp_ID product \<and> mt_ProductName i = mp_Name product \<and>
    mt_ProductPriceFen i = mp_PriceFen product \<and> mt_Quantity i = q \<and> mt_SubtotalFen i = wrap64 (mp_PriceFen product * q)"

lemma create_item_D:
  assumes c: "create_item env oid n (pid, q) tx = Inr (tx', sub)" and core: "shop_core due tx"
    and oid: "live tx oid"
  obtains product item log db1 where "dao_GetProductByID pid tx = Some product" "mp_Status product = ProductOnSale"
    "item_for oid product q item" "item_ok tx item" "sub = mt_SubtotalFen item" "mp_ID product = pid"
    "stock_change pid (- q) tx db1" "ms_ProductID log = pid" "ms_ChangeQuantity log = - q"
    "ms_BizType log = StockBizOrderDeduct"
    "tx' = db1\<lparr>stock_logs := stock_logs db1 @ [log], shop_items := shop_items db1 @ [item], shop_next := shop_next tx + 2\<rparr>"
proof -
  from c obtain product inv db1 rows db2 where
    p: "dao_GetProductByID pid tx = Some product" "mp_Status product = ProductOnSale"
    and inv: "dao_GetInventoryByProductID pid tx = Some inv"
    and d: "dao_DeductInventory (e_now env (SItemDeduct n)) pid q tx = Inr (db1, rows)" "rows \<noteq> 0"
    and i: "dao_CreateOrderItem \<lparr>mt_ID = 0, mt_OrderID = oid, mt_ProductID = mp_ID product, mt_ProductName = mp_Name product,
         mt_ProductPriceFen = mp_PriceFen product, mt_Quantity = q, mt_SubtotalFen = wrap64 (mp_PriceFen product * q),
         mt_CreatedAt = round_ms (e_now env (SItemInsert n))\<rparr> db1 = Inr db2"
    and l: "dao_CreateStockLog (new_log (e_now env (SItemLog n)) (mp_ID product) (wrap64 (- q)) (mi_StockQuantity inv)
        (wrap64 (mi_StockQuantity inv - q)) StockBizOrderDeduct (Some oid)) db2 = Inr tx'"
    and sub: "sub = wrap64 (mp_PriceFen product * q)"
    by (auto simp: create_item_def stmt_Inr Let_def split: if_splits prod.splits)
  define item where "item = \<lparr>mt_ID = shop_next db1, mt_OrderID = oid, mt_ProductID = mp_ID product, mt_ProductName = mp_Name product,
         mt_ProductPriceFen = mp_PriceFen product, mt_Quantity = q, mt_SubtotalFen = wrap64 (mp_PriceFen product * q),
         mt_CreatedAt = round_ms (e_now env (SItemInsert n))\<rparr>"
  define log where "log = (new_log (e_now env (SItemLog n)) (mp_ID product) (wrap64 (- q)) (mi_StockQuantity inv)
        (wrap64 (mi_StockQuantity inv - q)) StockBizOrderDeduct (Some oid))\<lparr>ms_ID := shop_next db2\<rparr>"
  have pid: "mp_ID product = pid" using p(1) by (auto simp: dao_GetProductByID_def dest: lookup_by_Some_D)
  from deduct_change [OF d core_distinct [OF core] inv]
  have q: "q \<le> mi_StockQuantity inv" and ch: "stock_change pid (- q) tx db1" by simp_all
  have n1: "shop_next db1 = shop_next tx" using ch by (auto simp: stock_change_def)
  from i have pos: "0 < mp_PriceFen product" "0 < q" "0 < wrap64 (mp_PriceFen product * q)"
    and db2: "db2 = db1\<lparr>shop_items := shop_items db1 @ [item], shop_next := shop_next db1 + 1\<rparr>"
    by (auto simp: dao_CreateOrderItem_def sql_insert_Inr m_item_check_def item_def split: sum.splits if_splits)
  have "int64 (mi_StockQuantity inv)" using core_stock [OF core stock_at_found [OF inv]] by simp
  with q pos have w: "wrap64 (- q) = - q" by (intro wrap64_id) (auto simp: int64_defs)
  have "item_ok tx item"
    using oid pos inv pid by (auto simp: item_ok_def item_def live_def stock_at_def image_iff split: option.splits dest: lookup_by_Some_D)
  moreover have "item_for oid product q item" by (simp add: item_for_def item_def)
  moreover have "sub = mt_SubtotalFen item" by (simp add: sub item_def)
  moreover have "tx' = db1\<lparr>stock_logs := stock_logs db1 @ [log], shop_items := shop_items db1 @ [item], shop_next := shop_next tx + 2\<rparr>"
    using log_Inr [OF l] by (simp add: log_def db2 n1)
  moreover have "ms_ProductID log = pid" "ms_ChangeQuantity log = - q" "ms_BizType log = StockBizOrderDeduct"
    by (simp_all add: log_def new_log_def pid w)
  ultimately show thesis using p pid ch by (intro that [of product item db1 log])
qed

lemma create_item_core:
  assumes "create_item env oid n (pid, q) tx = Inr (tx', sub)" and "shop_core due tx" and "live tx oid"
  shows "shop_core due tx'"
  using assms(1)
proof (rule create_item_D [OF _ assms(2,3)])
  fix product item log db1
  assume a: "item_for oid product q item" "item_ok tx item" "mp_ID product = pid" "stock_change pid (- q) tx db1"
    "ms_ProductID log = pid" "ms_ChangeQuantity log = - q" "ms_BizType log = StockBizOrderDeduct"
    "tx' = db1\<lparr>stock_logs := stock_logs db1 @ [log], shop_items := shop_items db1 @ [item], shop_next := shop_next tx + 2\<rparr>"
  show "shop_core due tx'"
    by (rule core_move [OF assms(2) a(4,5,6,8)]) (use a assms(3) in \<open>auto simp: item_for_def shop_consts\<close>)
qed

lemma live_cong: "shop_orders db' = shop_orders db \<Longrightarrow> live db' = live db"
  by (simp add: live_def fun_eq_iff)

lemma stock_change_same:
  assumes "stock_change pid d db db'"
  shows "shop_orders db' = shop_orders db" "shop_items db' = shop_items db" "order_idempotency_keys db' = order_idempotency_keys db"
    "order_timeout_outbox db' = order_timeout_outbox db" "products db' = products db" "shop_users db' = shop_users db"
    "shop_collate db' = shop_collate db" "shop_next db' = shop_next db" "stock_logs db' = stock_logs db"
  using assms by (auto simp: stock_change_def)

text \<open>The whole loop: the invariant stays, the items of the request are appended, and the stock falls by what
  they ask for.\<close>

definition same_but_stock :: "shop_db \<Rightarrow> shop_db \<Rightarrow> bool" where
  "same_but_stock db db' \<longleftrightarrow> shop_orders db' = shop_orders db \<and> order_idempotency_keys db' = order_idempotency_keys db \<and>
    order_timeout_outbox db' = order_timeout_outbox db \<and> products db' = products db \<and> shop_users db' = shop_users db \<and>
    shop_collate db' = shop_collate db \<and> shop_next db \<le> shop_next db'"

lemma create_items_core:
  assumes "create_items env oid n reqs t tx = Inr (tx', t')" and "shop_core due tx" and "live tx oid"
  shows "shop_core due tx' \<and> same_but_stock tx tx' \<and>
    (\<exists>items. shop_items tx' = shop_items tx @ items \<and>
      list_all2 (\<lambda>(pid, q) i. \<exists>product. dao_GetProductByID pid tx = Some product \<and> mp_Status product = ProductOnSale \<and>
        item_for oid product q i) reqs items \<and>
      (int64 t \<longrightarrow> t' = wrap64 (t + (\<Sum>i\<leftarrow>items. mt_SubtotalFen i))) \<and>
      (\<forall>p. stock_of tx' p = stock_of tx p - item_qty items p))"
  using assms
proof (induction reqs arbitrary: n t tx)
  case Nil
  then show ?case by (auto simp: same_but_stock_def)
next
  case (Cons r reqs)
  obtain pid q where r: "r = (pid, q)" by fastforce
  from Cons.prems(1) obtain tx1 sub where
    c: "create_item env oid n (pid, q) tx = Inr (tx1, sub)"
    and rest: "create_items env oid (Suc n) reqs (wrap64 (t + sub)) tx1 = Inr (tx', t')"
    by (auto simp: r)
  from c Cons.prems(2,3) obtain product item log db1 where a: "dao_GetProductByID pid tx = Some product"
    "mp_Status product = ProductOnSale" "item_for oid product q item" "sub = mt_SubtotalFen item" "mp_ID product = pid"
    "stock_change pid (- q) tx db1"
    "tx1 = db1\<lparr>stock_logs := stock_logs db1 @ [log], shop_items := shop_items db1 @ [item], shop_next := shop_next tx + 2\<rparr>"
    by (rule create_item_D)
  note same = stock_change_same [OF a(6)]
  have s1: "same_but_stock tx tx1" "shop_items tx1 = shop_items tx @ [item]"
    using same by (auto simp: same_but_stock_def a(7))
  have of: "stock_of tx1 p = stock_of tx p - item_qty [item] p" for p
    using stock_change_of [OF a(6), of tx1 p] a(3,5) by (simp add: a(7) item_for_def)
  have "live tx1 oid" using Cons.prems(3) s1(1) live_cong [of tx1 tx] by (simp add: same_but_stock_def)
  from Cons.IH [OF rest create_item_core [OF c Cons.prems(2,3)] this] obtain items where
    ih: "shop_core due tx'" "same_but_stock tx1 tx'" "shop_items tx' = shop_items tx1 @ items"
      "list_all2 (\<lambda>(pid, q) i. \<exists>product. dao_GetProductByID pid tx1 = Some product \<and> mp_Status product = ProductOnSale \<and>
        item_for oid product q i) reqs items"
      "t' = wrap64 (wrap64 (t + sub) + (\<Sum>i\<leftarrow>items. mt_SubtotalFen i))" "\<forall>p. stock_of tx' p = stock_of tx1 p - item_qty items p"
    by auto
  have pr: "dao_GetProductByID k tx1 = dao_GetProductByID k tx" for k
    using s1(1) by (simp add: same_but_stock_def dao_GetProductByID_def)
  show ?case
  proof (intro conjI exI [of _ "item # items"])
    show "same_but_stock tx tx'" using s1(1) ih(2) by (auto simp: same_but_stock_def)
    show "int64 t \<longrightarrow> t' = wrap64 (t + (\<Sum>i\<leftarrow>item # items. mt_SubtotalFen i))"
      by (simp add: ih(5) a(4) wrap64_wrap_add add.assoc)
    show "\<forall>p. stock_of tx' p = stock_of tx p - item_qty (item # items) p"
      using ih(6) of by simp
  qed (use ih s1 a pr r in auto)
qed

section \<open>Cancelling\<close>

definition shop_rest :: "shop_db \<Rightarrow> bool" where
  "shop_rest db \<longleftrightarrow>
    (\<forall>k\<in>set (order_idempotency_keys db). key_ok db k) \<and>
    distinct (map (key_id db) (order_idempotency_keys db)) \<and>
    map mb_OrderID (order_timeout_outbox db) = map mo_ID (shop_orders db) \<and>
    (\<forall>r\<in>set (shop_orders db). mo_TotalAmountFen r = order_total db (mo_ID r) \<and> 0 \<le> mo_TotalAmountFen r)"

lemma shop_ok_split: "shop_ok db \<longleftrightarrow> shop_core no_due db \<and> shop_rest db"
  by (auto simp: shop_ok_def shop_rest_def)

definition order_face :: "m_order \<Rightarrow> int \<times> int \<times> int" where
  "order_face r = (mo_ID r, mo_UserID r, mo_TotalAmountFen r)"

lemma shop_rest_cong:
  assumes "shop_rest db" and "order_idempotency_keys db' = order_idempotency_keys db"
    and "map mb_OrderID (order_timeout_outbox db') = map mb_OrderID (order_timeout_outbox db)"
    and "shop_items db' = shop_items db" and "shop_collate db' = shop_collate db"
    and f: "map order_face (shop_orders db') = map order_face (shop_orders db)"
  shows "shop_rest db'"
proof -
  have ids: "map mo_ID (shop_orders db') = map mo_ID (shop_orders db)"
    using arg_cong [OF f, of "map fst"] by (simp add: order_face_def o_def)
  have im: "order_face ` set (shop_orders db') = order_face ` set (shop_orders db)"
    using arg_cong [OF f, of set] by simp
  have tot: "order_total db' = order_total db"
    using assms by (simp add: order_total_def dao_ListOrderItemsByOrderID_def fun_eq_iff)
  have ord: "\<exists>s\<in>set (shop_orders db). mo_ID s = mo_ID r \<and> mo_UserID s = mo_UserID r \<and> mo_TotalAmountFen s = mo_TotalAmountFen r"
    if "r \<in> set (shop_orders db')" for r
  proof -
    from that im have "order_face r \<in> order_face ` set (shop_orders db)" by blast
    then show ?thesis by (auto simp: order_face_def)
  qed
  have ord': "\<exists>s\<in>set (shop_orders db'). mo_ID s = mo_ID r \<and> mo_UserID s = mo_UserID r"
    if "r \<in> set (shop_orders db)" for r
  proof -
    from that im have "order_face r \<in> order_face ` set (shop_orders db')" by blast
    then show ?thesis by (auto simp: order_face_def)
  qed
  have key: "key_ok db' k" if "key_ok db k" for k
  proof -
    from that obtain r where r: "r \<in> set (shop_orders db)" "mk_Status k = OrderAlreadyCreated"
      "mk_OrderID k = Some (mo_ID r)" "mo_UserID r = mk_UserID k"
      by (auto simp: key_ok_def)
    with ord' [OF r(1)] show ?thesis unfolding key_ok_def by metis
  qed
  have kid: "key_id db' = key_id db" using assms(5) by (simp add: key_id_def fun_eq_iff)
  have "mo_TotalAmountFen r = order_total db' (mo_ID r) \<and> 0 \<le> mo_TotalAmountFen r" if "r \<in> set (shop_orders db')" for r
    using ord [OF that] assms(1) unfolding tot shop_rest_def by metis
  then have "\<forall>r\<in>set (shop_orders db'). mo_TotalAmountFen r = order_total db' (mo_ID r) \<and> 0 \<le> mo_TotalAmountFen r"
    by blast
  moreover have "\<forall>k\<in>set (order_idempotency_keys db'). key_ok db' k" "distinct (map (key_id db') (order_idempotency_keys db'))"
    "map mb_OrderID (order_timeout_outbox db') = map mo_ID (shop_orders db')"
    using assms(1-3) key by (simp_all add: shop_rest_def kid ids)
  ultimately show ?thesis unfolding shop_rest_def by blast
qed

lemma update_orders_D:
  assumes "update_shop_orders p f db = Inr (db', n)"
  shows "db' = db\<lparr>shop_orders := map (\<lambda>r. if p r then f r else r) (shop_orders db)\<rparr>"
    "n = length (filter p (shop_orders db))" "\<forall>r\<in>set (shop_orders db). p r \<longrightarrow> m_order_check (f r) = None"
  using assms by (auto simp: update_shop_orders_def sql_update_Inr split: sum.splits)

lemma set_time_field_sel [simp]:
  "mo_ID (set_time_field fld t r) = mo_ID r" "mo_UserID (set_time_field fld t r) = mo_UserID r"
  "mo_Status (set_time_field fld t r) = mo_Status r" "mo_TotalAmountFen (set_time_field fld t r) = mo_TotalAmountFen r"
  by (simp_all add: set_time_field_def split: time_field.splits)

text \<open>A change of status: the orders keep their identity, and the one that changes is the one of the condition.\<close>

lemma patch_D:
  assumes "dao_PatchOrderStatus now u oid from_st to_st fld db = Inr (db', n)"
  obtains rows where "db' = db\<lparr>shop_orders := rows\<rparr>" "map order_face rows = map order_face (shop_orders db)"
    "map mo_ID rows = map mo_ID (shop_orders db)"
    "\<And>k. map_option mo_Status (lookup_by mo_ID k rows) = (case lookup_by mo_ID k (shop_orders db) of None \<Rightarrow> None
       | Some r \<Rightarrow> Some (if k = oid \<and> mo_UserID r = u \<and> mo_Status r = from_st then to_st else mo_Status r))"
    "\<And>r. r \<in> set rows \<Longrightarrow> mo_Status r \<in> {1, 2, 3, 4} \<or> r \<in> set (shop_orders db)"
    "n = length (filter (\<lambda>r. mo_UserID r = u \<and> mo_ID r = oid \<and> mo_Status r = from_st) (shop_orders db))"
    "n = 0 \<Longrightarrow> rows = shop_orders db"
proof -
  define f where "f r = set_time_field fld (round_ms now) (r\<lparr>mo_Status := to_st, mo_UpdatedAt := round_ms now\<rparr>)" for r
  define g where "g r = (if mo_UserID r = u \<and> mo_ID r = oid \<and> mo_Status r = from_st then f r else r)" for r
  note d = update_orders_D [OF assms [unfolded dao_PatchOrderStatus_def], folded f_def, folded g_def]
  have gs: "mo_ID (g r) = mo_ID r" "order_face (g r) = order_face r" for r
    by (simp_all add: g_def f_def order_face_def)
  show thesis
  proof (rule that [of "map g (shop_orders db)"])
    show "map_option mo_Status (lookup_by mo_ID k (map g (shop_orders db))) = (case lookup_by mo_ID k (shop_orders db) of None \<Rightarrow> None
       | Some r \<Rightarrow> Some (if k = oid \<and> mo_UserID r = u \<and> mo_Status r = from_st then to_st else mo_Status r))" for k
      by (simp add: lookup_by_map [where f = g and key = mo_ID, OF gs(1)] split: option.splits)
        (auto simp: g_def f_def dest: lookup_by_Some_D)
    show "map g (shop_orders db) = shop_orders db" if "n = 0"
      using that d(2) by (intro map_idI) (auto simp: g_def filter_empty_conv)
    show "mo_Status r \<in> {1, 2, 3, 4} \<or> r \<in> set (shop_orders db)" if "r \<in> set (map g (shop_orders db))" for r
      using that d(3) by (auto simp: g_def m_order_check_def split: if_splits)
  qed (use d gs in \<open>simp_all add: o_def\<close>)
qed

lemma live_alt: "live db k \<longleftrightarrow> (\<exists>s. map_option mo_Status (lookup_by mo_ID k (shop_orders db)) = Some s \<and> s \<noteq> OrderStatusCancelled)"
  by (auto simp: live_def split: option.splits)

text \<open>The core after a change of status, given what it does to the items the orders hold.\<close>

lemma core_status:
  assumes core: "shop_core no_due db" and "db' = db\<lparr>shop_orders := rows\<rparr>"
    and ids: "map mo_ID rows = map mo_ID (shop_orders db)"
    and st: "\<And>r. r \<in> set rows \<Longrightarrow> mo_Status r \<in> {1, 2, 3, 4} \<or> r \<in> set (shop_orders db)"
    and held: "\<And>p. held db' p + due p = held db p"
  shows "shop_core due db'"
proof -
  have at: "stock_at db' = stock_at db" by (rule stock_at_cong) (simp add: assms(2))
  have same: "stock_of db' = stock_of db" "supplied db' = supplied db" "logged db' = logged db"
    using at by (simp_all add: stock_of_def fun_eq_iff) (simp_all add: supplied_def logged_def assms(2))
  have im: "mo_ID ` set rows = mo_ID ` set (shop_orders db)"
    using arg_cong [OF ids, of set] by simp
  have it: "item_ok db' = item_ok db" using at by (simp add: item_ok_def fun_eq_iff) (simp add: assms(2) im)
  have "stock_of db' p + held db' p + due p = supplied db' p" for p
    using core_balance [OF core, of p] held [of p] by (simp add: same)
  moreover have "0 < mo_ID r \<and> mo_ID r < shop_next db \<and> mo_Status r \<in> {1, 2, 3, 4}" if "r \<in> set rows" for r
  proof -
    from that im obtain s where "s \<in> set (shop_orders db)" "mo_ID s = mo_ID r" by force
    with core st [OF that] show ?thesis unfolding shop_core_def by metis
  qed
  moreover have "product_inventories db' = product_inventories db" "shop_items db' = shop_items db" "shop_orders db' = rows"
    "shop_next db' = shop_next db" by (simp_all add: assms(2))
  ultimately show ?thesis
    using core by (simp add: shop_core_def ids it at same)
qed

lemma return_item_D:
  assumes c: "return_item env oid n item tx = Inr tx'" and core: "shop_core due tx"
  obtains db1 log where "stock_change (mt_ProductID item) (mt_Quantity item) tx db1"
    "ms_ProductID log = mt_ProductID item" "ms_ChangeQuantity log = mt_Quantity item" "ms_BizType log = StockBizOrderRollback"
    "tx' = db1\<lparr>stock_logs := stock_logs db1 @ [log], shop_items := shop_items db1 @ [], shop_next := shop_next tx + 1\<rparr>"
proof -
  from c obtain inv db1 where inv: "dao_GetInventoryByProductID (mt_ProductID item) tx = Some inv"
    and u: "update_stock env (SBackUpdate n) (mt_ProductID item) (wrap64 (mi_StockQuantity inv + mt_Quantity item)) tx = Inr db1"
    and l: "dao_CreateStockLog (new_log (e_now env (SBackLog n)) (mt_ProductID item) (mt_Quantity item) (mi_StockQuantity inv)
        (wrap64 (mi_StockQuantity inv + mt_Quantity item)) StockBizOrderRollback (Some oid)) db1 = Inr tx'"
    by (auto simp: return_item_def stmt_Inr Let_def)
  define log where "log = (new_log (e_now env (SBackLog n)) (mt_ProductID item) (mt_Quantity item) (mi_StockQuantity inv)
        (wrap64 (mi_StockQuantity inv + mt_Quantity item)) StockBizOrderRollback (Some oid))\<lparr>ms_ID := shop_next db1\<rparr>"
  have w: "wrap64 (mi_StockQuantity inv + mt_Quantity item) - mi_StockQuantity inv = mt_Quantity item"
    using log_Inr [OF l] by (simp add: new_log_def)
  have ch: "stock_change (mt_ProductID item) (mt_Quantity item) tx db1"
    using update_stock_change [OF u core_distinct [OF core] inv] unfolding w .
  show thesis
  proof (rule that [of db1 log])
    show "tx' = db1\<lparr>stock_logs := stock_logs db1 @ [log], shop_items := shop_items db1 @ [], shop_next := shop_next tx + 1\<rparr>"
      using log_Inr [OF l] stock_change_same [OF ch] by (simp add: log_def)
  qed (simp_all add: ch log_def new_log_def)
qed

text \<open>The loop that returns the items: what is due shrinks to what the loop has not returned yet.\<close>

lemma return_items_core:
  assumes "return_items env oid n items tx = Inr tx'" and "shop_core (\<lambda>p. item_qty items p + due p) tx"
  shows "shop_core due tx' \<and> same_but_stock tx tx' \<and> shop_items tx' = shop_items tx \<and>
    (\<forall>p. stock_of tx' p = stock_of tx p + item_qty items p)"
  using assms
proof (induction items arbitrary: n tx)
  case Nil
  then show ?case by (auto simp: same_but_stock_def)
next
  case (Cons i items)
  from Cons.prems(1) obtain tx1 where c: "return_item env oid n i tx = Inr tx1"
    and rest: "return_items env oid (Suc n) items tx1 = Inr tx'" by auto
  from return_item_D [OF c Cons.prems(2)] obtain db1 log where
    a: "stock_change (mt_ProductID i) (mt_Quantity i) tx db1"
    "ms_ProductID log = mt_ProductID i" "ms_ChangeQuantity log = mt_Quantity i" "ms_BizType log = StockBizOrderRollback"
    "tx1 = db1\<lparr>stock_logs := stock_logs db1 @ [log], shop_items := shop_items db1 @ [], shop_next := shop_next tx + 1\<rparr>"
    by metis
  have "shop_core (\<lambda>p. item_qty items p + due p) tx1"
    by (rule core_move [OF Cons.prems(2) a(1,2,3,5)]) (use a(4) in \<open>auto simp: shop_consts\<close>)
  from Cons.IH [OF rest this] have ih: "shop_core due tx'" "same_but_stock tx1 tx'" "shop_items tx' = shop_items tx1"
    "stock_of tx' p = stock_of tx1 p + item_qty items p" for p by auto
  have "same_but_stock tx tx1" "shop_items tx1 = shop_items tx"
    using stock_change_same [OF a(1)] by (simp_all add: same_but_stock_def a(5))
  moreover have "stock_of tx1 p = stock_of tx p + item_qty [i] p" for p
    using stock_change_of [OF a(1), of tx1 p] by (simp add: a(5))
  ultimately show ?case using ih by (auto simp: same_but_stock_def)
qed

lemma length_filter_one:
  assumes "distinct (map mo_ID (shop_orders db))"
  shows "length (filter (\<lambda>r. mo_UserID r = u \<and> mo_ID r = oid \<and> mo_Status r = st) (shop_orders db)) =
    (case lookup_by mo_ID oid (shop_orders db) of None \<Rightarrow> 0 | Some r \<Rightarrow> if mo_UserID r = u \<and> mo_Status r = st then 1 else 0)"
  using length_filter_key [OF assms, of oid "\<lambda>r. mo_UserID r = u \<and> mo_Status r = st"]
  by (simp add: conj_commute conj_left_commute)

text \<open>The status of an order, as far as it has one.\<close>

definition status_of :: "shop_db \<Rightarrow> int \<Rightarrow> int option" where
  "status_of db oid = map_option mo_Status (lookup_by mo_ID oid (shop_orders db))"

lemma status_of_cong: "shop_orders db' = shop_orders db \<Longrightarrow> status_of db' = status_of db"
  by (simp add: status_of_def fun_eq_iff)

lemma cancel_patch:
  assumes p: "dao_PatchOrderStatus now u oid OrderStatusPending OrderStatusCancelled CancelledAt tx = Inr (tx1, n)"
    and core: "shop_core no_due tx"
  obtains rows where "tx1 = tx\<lparr>shop_orders := rows\<rparr>" "map order_face rows = map order_face (shop_orders tx)"
    "n = 0 \<Longrightarrow> tx1 = tx" "n \<noteq> 0 \<Longrightarrow> status_of tx oid = Some OrderStatusPending"
    "n \<noteq> 0 \<Longrightarrow> status_of tx1 = (status_of tx)(oid := Some OrderStatusCancelled)"
    "n \<noteq> 0 \<Longrightarrow> shop_core (\<lambda>p. item_qty (dao_ListOrderItemsByOrderID oid tx) p + 0) tx1"
proof -
  from p obtain rows where r: "tx1 = tx\<lparr>shop_orders := rows\<rparr>" "map order_face rows = map order_face (shop_orders tx)"
    "map mo_ID rows = map mo_ID (shop_orders tx)"
    "\<And>k. map_option mo_Status (lookup_by mo_ID k rows) = (case lookup_by mo_ID k (shop_orders tx) of None \<Rightarrow> None
       | Some r \<Rightarrow> Some (if k = oid \<and> mo_UserID r = u \<and> mo_Status r = OrderStatusPending
           then OrderStatusCancelled else mo_Status r))"
    "\<And>r. r \<in> set rows \<Longrightarrow> mo_Status r \<in> {1, 2, 3, 4} \<or> r \<in> set (shop_orders tx)"
    "n = length (filter (\<lambda>r. mo_UserID r = u \<and> mo_ID r = oid \<and> mo_Status r = OrderStatusPending) (shop_orders tx))"
    "n = 0 \<Longrightarrow> rows = shop_orders tx"
    by (rule patch_D) blast
  have hit: "\<exists>r. lookup_by mo_ID oid (shop_orders tx) = Some r \<and> mo_UserID r = u \<and> mo_Status r = OrderStatusPending" if "n \<noteq> 0"
    using that length_filter_one [of tx u oid OrderStatusPending] core
    by (auto simp: r(6) shop_core_def split: option.splits if_splits)
  have st: "status_of tx1 = (status_of tx)(oid := Some OrderStatusCancelled)" if "n \<noteq> 0"
    using hit [OF that] r(4) by (auto simp: status_of_def r(1) fun_eq_iff split: option.splits)
  have "shop_core (\<lambda>p. item_qty (dao_ListOrderItemsByOrderID oid tx) p + 0) tx1" if n: "n \<noteq> 0"
  proof (rule core_status [OF core r(1,3,5)])
    fix p
    have lv: "live tx1 k \<longleftrightarrow> live tx k \<and> k \<noteq> oid" for k
      using st [OF n] by (auto simp add: live_alt status_of_def fun_eq_iff)
    have lo: "live tx oid" using hit [OF n] by (auto simp: live_def shop_consts)
    have "filter (\<lambda>i. mt_OrderID i = oid) (filter (\<lambda>i. live tx (mt_OrderID i)) (shop_items tx)) = dao_ListOrderItemsByOrderID oid tx"
      using lo by (auto simp: dao_ListOrderItemsByOrderID_def intro: filter_cong)
    then show "held tx1 p + (item_qty (dao_ListOrderItemsByOrderID oid tx) p + 0) = held tx p"
      using item_qty_split [of "filter (\<lambda>i. live tx (mt_OrderID i)) (shop_items tx)" p "\<lambda>i. mt_OrderID i = oid"]
      by (simp add: held_def lv) (simp add: r(1))
  qed auto
  then show thesis
    using r(1,2,7) hit st by (intro that [of rows]) (auto simp: status_of_def)
qed

lemma cancelPendingOrder_core:
  assumes c: "cancelPendingOrder env order tx = Inr (tx', b)" and core: "shop_core no_due tx"
  shows "shop_core no_due tx' \<and> map order_face (shop_orders tx') = map order_face (shop_orders tx) \<and>
    shop_items tx' = shop_items tx \<and> order_idempotency_keys tx' = order_idempotency_keys tx \<and>
    order_timeout_outbox tx' = order_timeout_outbox tx \<and> shop_collate tx' = shop_collate tx \<and>
    (if b then status_of tx (mo_ID order) = Some OrderStatusPending \<and>
        status_of tx' = (status_of tx)(mo_ID order := Some OrderStatusCancelled) \<and>
        (\<forall>p. stock_of tx' p = stock_of tx p + item_qty (dao_ListOrderItemsByOrderID (mo_ID order) tx) p)
     else tx' = tx)"
proof -
  let ?oid = "mo_ID order" and ?items = "dao_ListOrderItemsByOrderID (mo_ID order) tx"
  from c obtain tx1 n where p: "dao_PatchOrderStatus (e_now env SOrderStatus) (mo_UserID order) ?oid
      OrderStatusPending OrderStatusCancelled CancelledAt tx = Inr (tx1, n)"
    and rest: "if n = 0 then tx' = tx1 \<and> \<not> b
      else b \<and> return_items env ?oid 0 (dao_ListOrderItemsByOrderID ?oid tx1) tx1 = Inr tx'"
    by (auto simp: cancelPendingOrder_def stmt_Inr split: if_splits prod.splits)
  from cancel_patch [OF p core] obtain rows where r: "tx1 = tx\<lparr>shop_orders := rows\<rparr>"
    "map order_face rows = map order_face (shop_orders tx)" "n = 0 \<Longrightarrow> tx1 = tx"
    "n \<noteq> 0 \<Longrightarrow> status_of tx ?oid = Some OrderStatusPending"
    "n \<noteq> 0 \<Longrightarrow> status_of tx1 = (status_of tx)(?oid := Some OrderStatusCancelled)"
    "n \<noteq> 0 \<Longrightarrow> shop_core (\<lambda>p. item_qty ?items p + 0) tx1"
    by metis
  show ?thesis
  proof (cases "n = 0")
    case True
    with rest r(3) core show ?thesis by simp
  next
    case False
    have items: "dao_ListOrderItemsByOrderID ?oid tx1 = ?items" by (simp add: dao_ListOrderItemsByOrderID_def r(1))
    from False rest items have ret: "return_items env ?oid 0 ?items tx1 = Inr tx'" and b by simp_all
    from return_items_core [OF ret r(6) [OF False]]
    have "shop_core no_due tx'" "same_but_stock tx1 tx'" "shop_items tx' = shop_items tx1"
      "\<forall>p. stock_of tx' p = stock_of tx1 p + item_qty ?items p" by auto
    moreover have "stock_of tx1 = stock_of tx"
      using stock_at_cong [of tx1 tx] by (simp add: r(1) stock_of_def fun_eq_iff)
    moreover have "status_of tx' = status_of tx1"
      using calculation(2) by (intro status_of_cong) (simp add: same_but_stock_def)
    ultimately show ?thesis
      using r(2,4,5) False \<open>b\<close> by (simp add: same_but_stock_def) (simp add: r(1))
  qed
qed

section \<open>Creating an order\<close>

text \<open>The state in which the loop over the items starts.\<close>

lemma insert_order_core:
  assumes core: "shop_core no_due tx" and ins: "dao_CreateOrder r tx = Inr (tx1, order)"
    and st: "mo_Status r = OrderStatusPending"
  shows "order = r\<lparr>mo_ID := shop_next tx\<rparr>"
    and "tx1 = tx\<lparr>shop_orders := shop_orders tx @ [order\<lparr>mo_CreatedAt := round_ms (mo_CreatedAt r)\<rparr>], shop_next := shop_next tx + 1\<rparr>"
    and "shop_core no_due tx1" and "live tx1 (mo_ID order)" and "stock_of tx1 = stock_of tx"
    and "mo_UserID r \<in> set (shop_users tx)" and "\<forall>i\<in>set (shop_items tx). mt_OrderID i \<noteq> mo_ID order"
    and "mo_ID order \<notin> mo_ID ` set (shop_orders tx)"
proof -
  show order: "order = r\<lparr>mo_ID := shop_next tx\<rparr>"
    and tx1: "tx1 = tx\<lparr>shop_orders := shop_orders tx @ [order\<lparr>mo_CreatedAt := round_ms (mo_CreatedAt r)\<rparr>], shop_next := shop_next tx + 1\<rparr>"
    and "mo_UserID r \<in> set (shop_users tx)"
    using ins by (auto simp: dao_CreateOrder_def Let_def sql_insert_Inr split: sum.splits if_splits)
  have fresh: "lookup_by mo_ID (shop_next tx) (shop_orders tx) = None"
    using core by (auto simp: lookup_by_None_iff shop_core_def)
  then show new: "mo_ID order \<notin> mo_ID ` set (shop_orders tx)"
    by (simp add: order lookup_by_None_iff)
  with core_item [OF core] show it: "\<forall>i\<in>set (shop_items tx). mt_OrderID i \<noteq> mo_ID order"
    unfolding item_ok_def by metis
  have lv: "live tx1 k \<longleftrightarrow> k = mo_ID order \<or> live tx k" for k
    using fresh st by (auto simp: live_def tx1 lookup_by_append order shop_consts split: option.splits)
  then show "live tx1 (mo_ID order)" by simp
  have at: "stock_at tx1 = stock_at tx" by (rule stock_at_cong) (simp add: tx1)
  then show of: "stock_of tx1 = stock_of tx" by (simp add: stock_of_def fun_eq_iff)
  have "held tx1 = held tx"
    using it by (auto simp: held_def lv fun_eq_iff) (simp add: tx1 cong: filter_cong)
  moreover have "supplied tx1 = supplied tx" "logged tx1 = logged tx"
    by (simp_all add: supplied_def logged_def tx1 fun_eq_iff)
  moreover have "item_ok tx1 i" if "item_ok tx i" for i
    using that at by (auto simp: item_ok_def tx1)
  ultimately show "shop_core no_due tx1"
    using core new st unfolding shop_core_def at of
    by (auto simp: tx1 order shop_consts)
qed

lemma same_key_iff: "same_key db u key k \<longleftrightarrow> key_id db k = (u, shop_collate db key)"
  by (auto simp: same_key_def key_id_def)

text \<open>What a fresh order leaves behind.\<close>

definition created :: "int \<Rightarrow> create_order_request \<Rightarrow> shop_db \<Rightarrow> shop_db \<Rightarrow> m_order \<Rightarrow> m_order_item list \<Rightarrow> bool" where
  "created userID req tx tx' order items \<longleftrightarrow>
    mo_UserID order = userID \<and> mo_Status order = OrderStatusPending \<and>
    mo_ID order \<notin> mo_ID ` set (shop_orders tx) \<and>
    (\<exists>row ev. shop_orders tx' = shop_orders tx @ [row] \<and> order_face row = order_face order \<and> mo_Status row = OrderStatusPending \<and>
      order_timeout_outbox tx' = order_timeout_outbox tx @ [ev] \<and> mb_OrderID ev = mo_ID order \<and> mb_PublishedAt ev = None) \<and>
    shop_items tx' = shop_items tx @ items \<and> distinct (map fst (cr_Items req)) \<and>
    list_all2 (\<lambda>(pid, q) i. \<exists>product. dao_GetProductByID pid tx = Some product \<and> mp_Status product = ProductOnSale \<and>
      item_for (mo_ID order) product q i) (cr_Items req) items \<and>
    mo_TotalAmountFen order = wrap64 (\<Sum>i\<leftarrow>items. mt_SubtotalFen i) \<and> 0 \<le> mo_TotalAmountFen order \<and>
    (\<forall>p. stock_of tx' p = stock_of tx p - item_qty items p) \<and> products tx' = products tx \<and> shop_collate tx' = shop_collate tx"

lemma dup_items_iff: "dup_items seen items \<longleftrightarrow> \<not> (distinct (map fst items) \<and> fst ` set items \<inter> seen = {})"
proof (induction items arbitrary: seen)
  case (Cons i items)
  obtain pid q where "i = (pid, q)" by fastforce
  with Cons [of "insert pid seen"] show ?case by auto
qed simp

lemma total_D:
  assumes "dao_PatchOrderTotalPriceFen now oid t u tx = Inr (tx', n)"
    and o: "shop_orders tx = rows @ [r]" "mo_ID r = oid" "mo_UserID r = u" "oid \<notin> mo_ID ` set rows"
  shows "tx' = tx\<lparr>shop_orders := rows @ [r\<lparr>mo_TotalAmountFen := t, mo_UpdatedAt := round_ms now\<rparr>]\<rparr> \<and> 0 \<le> t"
proof -
  note d = update_orders_D [OF assms(1) [unfolded dao_PatchOrderTotalPriceFen_def]]
  have "map (\<lambda>r. if mo_ID r = oid \<and> mo_UserID r = u then r\<lparr>mo_TotalAmountFen := t, mo_UpdatedAt := round_ms now\<rparr> else r) rows = rows"
    using o(4) by (intro map_idI) auto
  with d o(1-3) show ?thesis by (auto simp: m_order_check_def split: if_splits)
qed

lemma core_status_id:
  assumes core: "shop_core due tx" and rows: "shop_orders tx = rows @ [r]"
    and tx': "tx' = tx\<lparr>shop_orders := rows @ [r']\<rparr>" and r': "mo_ID r' = mo_ID r" "mo_Status r' = mo_Status r"
  shows "shop_core due tx'"
proof -
  have at: "stock_at tx' = stock_at tx" by (rule stock_at_cong) (simp add: tx')
  have lv: "live tx' = live tx"
    using r' by (auto simp: live_def tx' rows lookup_by_append fun_eq_iff split: option.splits)
  have "held tx' = held tx" "stock_of tx' = stock_of tx"
    using lv at by (simp_all add: held_def stock_of_def fun_eq_iff) (simp add: tx')
  moreover have "item_ok tx' = item_ok tx"
    using at r' by (simp add: item_ok_def fun_eq_iff) (simp add: tx' rows)
  moreover have "supplied tx' = supplied tx" "logged tx' = logged tx"
    by (simp_all add: supplied_def logged_def tx' fun_eq_iff)
  moreover have "map mo_ID (shop_orders tx') = map mo_ID (shop_orders tx)" by (simp add: tx' rows r')
  moreover have "\<forall>x\<in>set (shop_orders tx'). 0 < mo_ID x \<and> mo_ID x < shop_next tx' \<and> mo_Status x \<in> {1, 2, 3, 4}"
    using core r' by (simp add: shop_core_def tx' rows)
  moreover have "product_inventories tx' = product_inventories tx" "shop_items tx' = shop_items tx" "shop_next tx' = shop_next tx"
    by (simp_all add: tx')
  ultimately show ?thesis using core by (simp add: shop_core_def at)
qed

lemma outbox_D:
  assumes "dao_CreateOrderTimeoutOutbox e db = Inr db'"
  shows "db' = db\<lparr>order_timeout_outbox := order_timeout_outbox db @ [e\<lparr>mb_ID := shop_next db\<rparr>], shop_next := shop_next db + 1\<rparr>"
  using assms by (auto simp: dao_CreateOrderTimeoutOutbox_def sql_insert_Inr split: sum.splits if_splits)

definition complete_key :: "shop_db \<Rightarrow> int \<Rightarrow> string \<Rightarrow> int \<Rightarrow> m_key \<Rightarrow> m_key" where
  "complete_key db u key oid k = (if same_key db u key k \<and> mk_Status k = OrderBeingCreated
     then k\<lparr>mk_OrderID := Some oid, mk_Status := OrderAlreadyCreated\<rparr> else k)"

lemma fresh_order_D:
  assumes c: "fresh_order env u1 u2 T userID req tx = Inr (tx', order)" and core: "shop_core no_due tx"
  obtains items where "created userID req tx tx' order items" "shop_core no_due tx'"
    "order_idempotency_keys tx' = map (complete_key tx userID (cr_IdempotencyKey req) (mo_ID order)) (order_idempotency_keys tx)"
proof -
  define r0 where "r0 = \<lparr>mo_ID = 0, mo_UserID = userID, mo_OrderNo = generateOrderNo u1, mo_TotalAmountFen = 0,
         mo_Status = OrderStatusPending, mo_PaidAt = None, mo_CompletedAt = None, mo_CancelledAt = None,
         mo_CreatedAt = e_now env SOrderInsert, mo_UpdatedAt = round_ms (e_now env SOrderInsert)\<rparr>"
  from c [unfolded fresh_order_def Let_def, folded r0_def] obtain tx1 o1 tx2 t tx3 n3 tx4 n4 ev where
    s1: "dao_CreateOrder r0 tx = Inr (tx1, o1)"
    and dup: "validateDuplicateItems (cr_Items req) = Inr ()"
    and s2: "create_items env (mo_ID o1) 0 (cr_Items req) 0 tx1 = Inr (tx2, t)"
    and s3: "dao_PatchOrderTotalPriceFen (e_now env SOrderTotal) (mo_ID o1) t userID tx2 = Inr (tx3, n3)"
    and s4: "dao_CompleteOrderIdempotencyKey userID (cr_IdempotencyKey req) (mo_ID o1) tx3 = Inr (tx4, n4)"
    and s5: "dao_CreateOrderTimeoutOutbox ev tx4 = Inr tx'" "mb_OrderID ev = mo_ID o1" "mb_PublishedAt ev = None"
    and order: "order = o1\<lparr>mo_TotalAmountFen := t\<rparr>"
    by (auto simp: stmt_Inr split: if_splits prod.splits)
  have p0: "mo_Status r0 = OrderStatusPending" "mo_UserID r0 = userID" by (simp_all add: r0_def)
  note i = insert_order_core [OF core s1 p0(1)]
  from create_items_core [OF s2 i(3,4)] obtain items where
    it: "shop_core no_due tx2" "same_but_stock tx1 tx2" "shop_items tx2 = shop_items tx1 @ items"
      "list_all2 (\<lambda>(pid, q) i. \<exists>product. dao_GetProductByID pid tx1 = Some product \<and> mp_Status product = ProductOnSale \<and>
        item_for (mo_ID o1) product q i) (cr_Items req) items"
      "t = wrap64 (\<Sum>i\<leftarrow>items. mt_SubtotalFen i)" "\<forall>p. stock_of tx2 p = stock_of tx1 p - item_qty items p"
    by auto
  define row where "row = o1\<lparr>mo_CreatedAt := round_ms (mo_CreatedAt r0)\<rparr>"
  have o2: "shop_orders tx2 = shop_orders tx @ [row]"
    using it(2) by (simp add: same_but_stock_def i(2) row_def)
  define row' where "row' = row\<lparr>mo_TotalAmountFen := t, mo_UpdatedAt := round_ms (e_now env SOrderTotal)\<rparr>"
  from total_D [OF s3 o2] i(1,8) p0 have tx3: "tx3 = tx2\<lparr>shop_orders := shop_orders tx @ [row']\<rparr>" and t0: "0 \<le> t"
    by (simp_all add: row_def row'_def)
  have core3: "shop_core no_due tx3"
    by (rule core_status_id [OF it(1) o2 tx3]) (simp_all add: row'_def)
  have tx4: "tx4 = tx3\<lparr>order_idempotency_keys := map (complete_key tx3 userID (cr_IdempotencyKey req) (mo_ID o1)) (order_idempotency_keys tx3)\<rparr>"
    using s4 by (auto simp: dao_CompleteOrderIdempotencyKey_def Let_def complete_key_def)
  note tx' = outbox_D [OF s5(1)]
  have core': "shop_core no_due tx'"
    by (rule shop_core_cong [OF core3]) (simp_all add: tx' tx4)
  have of: "stock_of tx' = stock_of tx2"
    using stock_at_cong [of tx' tx2] by (simp add: tx' tx4 tx3 stock_of_def fun_eq_iff)
  have "complete_key tx3 = complete_key tx"
    using it(2) by (simp add: complete_key_def same_key_def fun_eq_iff tx3 same_but_stock_def i(2))
  then have keys: "order_idempotency_keys tx' =
      map (complete_key tx userID (cr_IdempotencyKey req) (mo_ID order)) (order_idempotency_keys tx)"
    using it(2) by (simp add: tx' tx4 order) (simp add: tx3 same_but_stock_def i(2))
  have "created userID req tx tx' order items"
    unfolding created_def
  proof (intro conjI exI)
    show "shop_orders tx' = shop_orders tx @ [row']" by (simp add: tx' tx4 tx3)
    show "order_timeout_outbox tx' = order_timeout_outbox tx @ [ev\<lparr>mb_ID := shop_next tx4\<rparr>]"
      using it(2) by (simp add: tx') (simp add: tx4 tx3 same_but_stock_def i(2))
    show "distinct (map fst (cr_Items req))"
      using dup by (simp add: validateDuplicateItems_def dup_items_iff split: if_splits)
    show "list_all2 (\<lambda>(pid, q) i. \<exists>product. dao_GetProductByID pid tx = Some product \<and> mp_Status product = ProductOnSale \<and>
      item_for (mo_ID order) product q i) (cr_Items req) items"
      using it(4) by (simp add: order dao_GetProductByID_def i(2))
    show "\<forall>p. stock_of tx' p = stock_of tx p - item_qty items p" using it(6) i(5) of by simp
  qed (use i p0 s5 it t0 in \<open>simp_all add: order row'_def row_def order_face_def tx' tx4 tx3 same_but_stock_def\<close>)
  with core' keys show thesis by (rule that [rotated])
qed

text \<open>The two ways a transaction of \<^verbatim>\<open>CreateOrder\<close> can succeed.\<close>

definition new_key :: "shop_db \<Rightarrow> int \<Rightarrow> string \<Rightarrow> string \<Rightarrow> int \<Rightarrow> m_key" where
  "new_key db u key hash oid = \<lparr>mk_ID = shop_next db, mk_UserID = u, mk_IdempotencyKey = key, mk_RequestHash = hash,
     mk_OrderID = Some oid, mk_Status = OrderAlreadyCreated\<rparr>"

lemma create_order_body_cases:
  assumes c: "create_order_body env u1 u2 T userID req h db = Inr (db', order)" and ok: "shop_ok db"
  obtains (replayed) "db' = db" "replay_order env userID (cr_IdempotencyKey req) h db = Inr order"
      "\<exists>k\<in>set (order_idempotency_keys db). same_key db userID (cr_IdempotencyKey req) k"
    | (fresh) items where "created userID req db db' order items" "shop_core no_due db'"
      "order_idempotency_keys db' = order_idempotency_keys db @ [new_key db userID (cr_IdempotencyKey req) h (mo_ID order)]"
      "\<forall>k\<in>set (order_idempotency_keys db). \<not> same_key db userID (cr_IdempotencyKey req) k"
proof (cases "list_ex (same_key db userID (cr_IdempotencyKey req)) (order_idempotency_keys db)")
  case True
  with c show thesis
    by (intro replayed) (auto simp: create_order_body_def dao_TryCreateOrderIdempotencyKey_def stmt_Inr list_ex_iff
        map_sum_def split: sum.splits)
next
  case False
  let ?key = "cr_IdempotencyKey req"
  define k0 where "k0 = \<lparr>mk_ID = shop_next db, mk_UserID = userID, mk_IdempotencyKey = ?key, mk_RequestHash = h,
     mk_OrderID = None, mk_Status = OrderBeingCreated\<rparr>"
  define tx where "tx = db\<lparr>order_idempotency_keys := order_idempotency_keys db @ [k0], shop_next := shop_next db + 1\<rparr>"
  have f: "fresh_order env u1 u2 T userID req tx = Inr (db', order)"
    using c False by (auto simp: create_order_body_def dao_TryCreateOrderIdempotencyKey_def stmt_Inr tx_def k0_def split: if_splits)
  have "shop_core no_due db" using ok by (simp add: shop_ok_split)
  then have "shop_core no_due tx" by (rule shop_core_cong) (simp_all add: tx_def)
  from fresh_order_D [OF f this] obtain items where a: "created userID req tx db' order items" "shop_core no_due db'"
    "order_idempotency_keys db' = map (complete_key tx userID ?key (mo_ID order)) (order_idempotency_keys tx)" by metis
  have "map (complete_key tx userID ?key (mo_ID order)) (order_idempotency_keys db) = order_idempotency_keys db"
    using ok by (intro map_idI) (auto simp: shop_ok_def complete_key_def key_ok_def shop_consts)
  with a(3) have "order_idempotency_keys db' = order_idempotency_keys db @ [new_key db userID ?key h (mo_ID order)]"
    by (simp add: tx_def) (simp add: k0_def complete_key_def same_key_def new_key_def)
  moreover have "stock_of tx = stock_of db"
    using stock_at_cong [of tx db] by (simp add: tx_def stock_of_def fun_eq_iff)
  then have "created userID req db db' order items"
    using a(1) by (simp add: created_def dao_GetProductByID_def) (simp add: tx_def)
  ultimately show thesis
    using False a(2) by (intro fresh [of items]) (auto simp: list_ex_iff)
qed

lemma list_all2_set2: "list_all2 P xs ys \<Longrightarrow> y \<in> set ys \<Longrightarrow> \<exists>a b. (a, b) \<in> set xs \<and> P (a, b) y"
  by (induction rule: list_all2_induct) auto

lemma created_items:
  assumes "created userID req db db' order items"
  shows "\<forall>i\<in>set items. mt_OrderID i = mo_ID order"
proof
  fix i assume "i \<in> set items"
  with assms obtain pid q where "\<exists>product. dao_GetProductByID pid db = Some product \<and> mp_Status product = ProductOnSale \<and>
      item_for (mo_ID order) product q i"
    unfolding created_def by (blast dest: list_all2_set2)
  then show "mt_OrderID i = mo_ID order" by (auto simp: item_for_def)
qed

lemma created_rest:
  assumes ok: "shop_ok db" and c: "created userID req db db' order items"
    and k: "order_idempotency_keys db' = order_idempotency_keys db @ [new_key db userID (cr_IdempotencyKey req) h (mo_ID order)]"
    and new: "\<forall>k\<in>set (order_idempotency_keys db). \<not> same_key db userID (cr_IdempotencyKey req) k"
  shows "shop_rest db'"
proof -
  from c obtain row ev where r: "shop_orders db' = shop_orders db @ [row]" "order_face row = order_face order"
    "order_timeout_outbox db' = order_timeout_outbox db @ [ev]" "mb_OrderID ev = mo_ID order"
    "mo_UserID order = userID" "mo_ID order \<notin> mo_ID ` set (shop_orders db)" "shop_items db' = shop_items db @ items"
    "mo_TotalAmountFen order = wrap64 (\<Sum>i\<leftarrow>items. mt_SubtotalFen i)" "0 \<le> mo_TotalAmountFen order" "shop_collate db' = shop_collate db"
    by (auto simp: created_def)
  have kid: "key_id db' = key_id db" using r(10) by (simp add: key_id_def fun_eq_iff)
  have key: "key_ok db' k" if "key_ok db k" for k
    using that by (auto simp: key_ok_def r(1))
  have knew: "key_ok db' (new_key db userID (cr_IdempotencyKey req) h (mo_ID order))"
    using r(2,5) by (auto simp: key_ok_def new_key_def r(1) order_face_def)
  have old: "\<forall>i\<in>set (shop_items db). mt_OrderID i \<noteq> mo_ID order"
    using ok r(6) core_item [of no_due db] unfolding shop_ok_split item_ok_def by metis
  have tnew: "order_total db' (mo_ID order) = mo_TotalAmountFen order"
    using old created_items [OF c] by (simp add: order_total_def dao_ListOrderItemsByOrderID_def r(7,8) filter_id_conv filter_False)
  have told: "order_total db' (mo_ID s) = order_total db (mo_ID s)" if "s \<in> set (shop_orders db)" for s
  proof -
    have "mo_ID s \<noteq> mo_ID order" using that r(6) by (metis image_eqI)
    then show ?thesis using created_items [OF c]
      by (simp add: order_total_def dao_ListOrderItemsByOrderID_def r(7) filter_False)
  qed
  have "\<forall>s\<in>set (shop_orders db'). mo_TotalAmountFen s = order_total db' (mo_ID s) \<and> 0 \<le> mo_TotalAmountFen s"
  proof
    fix s assume "s \<in> set (shop_orders db')"
    then consider "s \<in> set (shop_orders db)" | "s = row" by (auto simp: r(1))
    then show "mo_TotalAmountFen s = order_total db' (mo_ID s) \<and> 0 \<le> mo_TotalAmountFen s"
    proof cases
      case 1
      then show ?thesis using ok told unfolding shop_ok_def by metis
    next
      case 2
      then show ?thesis using tnew r(2,9) by (simp add: order_face_def)
    qed
  qed
  moreover have "distinct (map (key_id db') (order_idempotency_keys db'))"
    using ok new by (auto simp: k kid shop_ok_def same_key_iff new_key_def key_id_def)
  moreover have "\<forall>k\<in>set (order_idempotency_keys db'). key_ok db' k"
    using ok key knew by (auto simp: k shop_ok_def)
  moreover have "map mb_OrderID (order_timeout_outbox db') = map mo_ID (shop_orders db')"
    using ok r(2) by (simp add: r(1,3,4) shop_ok_def order_face_def)
  ultimately show ?thesis unfolding shop_rest_def by blast
qed

lemma create_order_body_ok:
  assumes "create_order_body env u1 u2 T userID req h db = Inr (db', order)" and "shop_ok db"
  shows "shop_ok db'"
  using assms
proof (cases rule: create_order_body_cases)
  case replayed
  with assms show ?thesis by simp
next
  case (fresh items)
  with created_rest [OF assms(2) fresh(1,3,4)] show ?thesis by (simp add: shop_ok_split)
qed

end
