(* ===== verification/Shop_Properties.thy ===== *)
theory Shop_Properties
  imports Shop_Correct "HOL-Library.Multiset"
begin

text \<open>
  Properties of the single-process application: the invariant over every run of its operations with any faults
  of the database, what creating and cancelling an order do, and idempotency of creation.
\<close>

section \<open>The other operations\<close>

lemma shop_ok_cong:
  assumes ok: "shop_ok db"
    and "product_inventories db' = product_inventories db" and "stock_logs db' = stock_logs db"
    and "shop_orders db' = shop_orders db" and "shop_items db' = shop_items db" and "shop_next db \<le> shop_next db'"
    and "order_idempotency_keys db' = order_idempotency_keys db"
    and "map mb_OrderID (order_timeout_outbox db') = map mb_OrderID (order_timeout_outbox db)"
    and "shop_collate db' = shop_collate db"
  shows "shop_ok db'"
proof -
  have "shop_core no_due db'"
    by (rule shop_core_cong [of no_due db]) (use assms in \<open>simp_all add: shop_ok_split\<close>)
  moreover have "shop_rest db'"
    by (rule shop_rest_cong [of db]) (use assms in \<open>simp_all add: shop_ok_split\<close>)
  ultimately show ?thesis by (simp add: shop_ok_split)
qed

lemma create_product_ok: "dao_CreateProduct p db = Inr (db', q) \<Longrightarrow> shop_ok db \<Longrightarrow> shop_ok db'"
  by (rule shop_ok_cong [of db]) (auto simp: dao_CreateProduct_def Let_def split: sum.splits)

lemma product_status_ok: "dao_UpdateProductStatus now pid st db = Inr (db', x) \<Longrightarrow> shop_ok db \<Longrightarrow> shop_ok db'"
  by (rule shop_ok_cong [of db]) (auto simp: dao_UpdateProductStatus_def split: sum.splits)

lemma update_outbox_ok:
  assumes "update_shop_outbox ev f db = Inr (db', x)" and "shop_ok db" and "\<And>e. mb_OrderID (f e) = mb_OrderID e"
  shows "shop_ok db'"
  by (rule shop_ok_cong [OF assms(2)])
    (use assms(1,3) in \<open>auto simp: update_shop_outbox_def sql_update_Inr split: sum.splits\<close>)

lemma stock_move_ok:
  assumes ok: "shop_ok db" and ch: "stock_change pid d db db1"
    and l: "ms_ProductID l = pid" "ms_ChangeQuantity l = d" "ms_BizType l = StockBizManualAdd"
    and db': "db' = db1\<lparr>stock_logs := stock_logs db1 @ [l], shop_next := shop_next db1 + 1\<rparr>"
  shows "shop_ok db'"
proof -
  note same = stock_change_same [OF ch]
  have core: "shop_core no_due db" using ok by (simp add: shop_ok_split)
  have "shop_core no_due db'"
    by (rule core_move [OF core ch l(1,2), where items = "[]" and n = "shop_next db + 1"]) (use l same in \<open>auto simp: db'\<close>)
  moreover have "shop_rest db'"
    by (rule shop_rest_cong [of db]) (use ok same in \<open>simp_all add: shop_ok_split db'\<close>)
  ultimately show ?thesis by (simp add: shop_ok_split)
qed

lemma add_body_ok:
  assumes c: "add_body env pid q db = Inr (db', x)" and ok: "shop_ok db"
  shows "shop_ok db'"
proof -
  from c obtain inv db1 where inv: "dao_GetInventoryByProductID pid db = Some inv"
    and u: "update_stock env SInventoryUpdate pid (wrap64 (mi_StockQuantity inv + q)) db = Inr db1"
    and l: "dao_CreateStockLog (new_log (e_now env SLogInsert) pid q (mi_StockQuantity inv)
        (wrap64 (mi_StockQuantity inv + q)) StockBizManualAdd None) db1 = Inr db'"
    by (auto simp: add_body_def stmt_Inr Let_def)
  have core: "shop_core no_due db" using ok by (simp add: shop_ok_split)
  have w: "wrap64 (mi_StockQuantity inv + q) - mi_StockQuantity inv = q"
    using log_Inr [OF l] by (simp add: new_log_def)
  have "stock_change pid q db db1"
    using update_stock_change [OF u core_distinct [OF core] inv] unfolding w .
  then show ?thesis
    by (rule stock_move_ok [OF ok]) (use log_Inr [OF l] in \<open>auto simp: new_log_def\<close>)
qed

lemma init_body_ok:
  assumes c: "init_body env pid stock db = Inr (db', x)" and ok: "shop_ok db"
  shows "shop_ok db'"
proof -
  from c obtain db1 where i: "dao_InitInventory (e_now env SInventoryInsert) pid stock db = Inr db1"
    and l: "dao_CreateStockLog (new_log (e_now env SLogInsert) pid stock 0 stock StockBizInit None) db1 = Inr db'"
    by (auto simp: init_body_def stmt_Inr)
  define row where "row = \<lparr>mi_ID = shop_next db, mi_ProductID = pid, mi_StockQuantity = stock,
    mi_CreatedAt = round_ms (e_now env SInventoryInsert), mi_UpdatedAt = round_ms (e_now env SInventoryInsert)\<rparr>"
  from i have db1: "db1 = db\<lparr>product_inventories := product_inventories db @ [row], shop_next := shop_next db + 1\<rparr>"
    and st: "0 \<le> stock" "int64 stock" and new: "pid \<notin> mi_ProductID ` set (product_inventories db)"
    by (auto simp: dao_InitInventory_def row_def sql_insert_Inr m_inventory_check_def bigint_check_def split: sum.splits if_splits)
  have row: "mi_ProductID row = pid" "mi_StockQuantity row = stock" by (simp_all add: row_def)
  obtain log where db': "db' = db1\<lparr>stock_logs := stock_logs db1 @ [log], shop_next := shop_next db1 + 1\<rparr>"
    and log: "ms_ProductID log = pid" "ms_ChangeQuantity log = stock" "ms_BizType log = StockBizInit"
    using log_Inr [OF l] by (auto simp: new_log_def)
  have core: "shop_core no_due db" using ok by (simp add: shop_ok_split)
  have none: "stock_at db pid = None"
    using new by (simp add: stock_at_def dao_GetInventoryByProductID_def lookup_by_None_iff)
  have at: "stock_at db' = (stock_at db)(pid := Some stock)"
    using row none by (auto simp: stock_at_def dao_GetInventoryByProductID_def db' db1 lookup_by_append fun_eq_iff split: option.splits)
  have of: "stock_of db' p = stock_of db p + (if p = pid then stock else 0)" for p
    by (simp add: stock_of_def at none)
  have "live db' = live db" by (rule live_cong) (simp add: db' db1)
  then have hl: "held db' = held db" by (simp add: held_def) (simp add: db' db1)
  have sp: "supplied db' p = supplied db p + (if p = pid then stock else 0)"
    and lg: "logged db' p = logged db p + (if p = pid then stock else 0)" for p
    by (simp_all add: supplied_def logged_def db' db1 log)
  have it: "item_ok db' i" if "item_ok db i" for i
    using that by (simp add: item_ok_def at) (simp add: db' db1)
  have "shop_core no_due db'"
    unfolding shop_core_def
  proof (intro conjI)
    show "\<forall>p. stock_of db' p + held db' p + no_due p = supplied db' p"
      using core_balance [OF core] by (simp add: of hl sp)
    show "\<forall>i\<in>set (shop_items db'). item_ok db' i"
      using core_item [OF core] it by (simp add: db' db1)
    show "\<forall>p s. stock_at db' p = Some s \<longrightarrow> 0 \<le> s \<and> int64 s"
      using core_stock [OF core] st by (simp add: at)
  qed (use core new row in \<open>auto simp: shop_core_def of lg\<close>, auto simp: shop_core_def db' db1)
  moreover have "shop_rest db'"
    by (rule shop_rest_cong [of db]) (use ok in \<open>simp_all add: shop_ok_split db' db1\<close>)
  ultimately show ?thesis by (simp add: shop_ok_split)
qed

text \<open>A change of status between states that hold the stock.\<close>

lemma patch_status_ok:
  assumes p: "dao_PatchOrderStatus now u oid from_st to_st fld db = Inr (db', n)" and ok: "shop_ok db"
    and st: "from_st \<noteq> OrderStatusCancelled" "to_st \<noteq> OrderStatusCancelled"
  shows "shop_ok db'"
proof -
  have core: "shop_core no_due db" using ok by (simp add: shop_ok_split)
  from p obtain rows where r: "db' = db\<lparr>shop_orders := rows\<rparr>" "map order_face rows = map order_face (shop_orders db)"
    "map mo_ID rows = map mo_ID (shop_orders db)"
    "\<And>k. map_option mo_Status (lookup_by mo_ID k rows) = (case lookup_by mo_ID k (shop_orders db) of None \<Rightarrow> None
       | Some r \<Rightarrow> Some (if k = oid \<and> mo_UserID r = u \<and> mo_Status r = from_st then to_st else mo_Status r))"
    "\<And>r. r \<in> set rows \<Longrightarrow> mo_Status r \<in> {1, 2, 3, 4} \<or> r \<in> set (shop_orders db)"
    by (rule patch_D) blast
  have "live db' k = live db k" for k
    using r(4) [of k] st by (auto simp: live_alt r(1) split: option.splits if_splits)
  then have "held db' = held db" by (simp add: held_def) (simp add: r(1))
  then have "shop_core no_due db'" by (intro core_status [OF core r(1,3,5)]) auto
  moreover have "shop_rest db'"
    by (rule shop_rest_cong [of db]) (use ok r(2) in \<open>simp_all add: shop_ok_split r(1)\<close>)
  ultimately show ?thesis by (simp add: shop_ok_split)
qed

lemma cancelPendingOrder_ok:
  assumes "cancelPendingOrder env order db = Inr (db', b)" and "shop_ok db"
  shows "shop_ok db'"
proof -
  have core: "shop_core no_due db" using assms(2) by (simp add: shop_ok_split)
  note c = cancelPendingOrder_core [OF assms(1) core]
  have "shop_rest db'"
    by (rule shop_rest_cong [of db]) (use assms(2) c in \<open>simp_all add: shop_ok_split\<close>)
  with c show ?thesis by (simp add: shop_ok_split)
qed

lemma cancel_body_ok: "cancel_body env u oid db = Inr (db', x) \<Longrightarrow> shop_ok db \<Longrightarrow> shop_ok db'"
  by (auto simp: cancel_body_def stmt_Inr split: if_splits intro: cancelPendingOrder_ok)

lemma expire_body_ok: "expire_body env ev oid db = Inr (db', x) \<Longrightarrow> shop_ok db \<Longrightarrow> shop_ok db'"
  by (auto simp: expire_body_def stmt_Inr split: if_splits option.splits intro: cancelPendingOrder_ok)

section \<open>Runs\<close>

text \<open>The operations a process of the application performs on the database, each with its own faults; the
  registration of users belongs to the user service. Reads change nothing but the cache.\<close>

datatype shop_op =
    OpCreateProduct "shop_site env" create_product_request
  | OpGetProduct "shop_site env" redis_env int
  | OpOnSale "shop_site env" redis_env int
  | OpOffSale "shop_site env" redis_env int
  | OpInit "shop_site env" int "int option"
  | OpAdd "shop_site env" int int
  | OpCreateOrder "shop_site env" "string \<Rightarrow> string" string string duration int create_order_request
  | OpCancel "shop_site env" int int
  | OpExpire "shop_site env" string int
  | OpPay "shop_site env" int int shop_db
  | OpFinish "shop_site env" int int shop_db
  | OpPublished "shop_site env" string time
  | OpPublishFailed "shop_site env" string string time
  | OpUsers "int list"

fun shop_exec :: "shop_op \<Rightarrow> shop_db \<times> product_cache \<Rightarrow> shop_db \<times> product_cache" where
  "shop_exec (OpCreateProduct env req) (db, c) = (fst (svc_CreateProduct env req db), c)"
| "shop_exec (OpGetProduct env re pid) s = fst (svc_GetProductByID env re pid s)"
| "shop_exec (OpOnSale env re pid) s = fst (OnSaleProduct env re pid s)"
| "shop_exec (OpOffSale env re pid) s = fst (OffSaleProduct env re pid s)"
| "shop_exec (OpInit env pid st) (db, c) = (fst (svc_InitInventory env pid st db), c)"
| "shop_exec (OpAdd env pid q) (db, c) = (fst (svc_AddInventory env pid q db), c)"
| "shop_exec (OpCreateOrder env h u1 u2 T u req) (db, c) = (fst (svc_CreateOrder env h u1 u2 T u req db), c)"
| "shop_exec (OpCancel env u oid) (db, c) = (fst (svc_CancelOrder env u oid db), c)"
| "shop_exec (OpExpire env ev oid) (db, c) = (fst (svc_CancelExpiredOrder env ev oid db), c)"
| "shop_exec (OpPay env u oid rd) (db, c) = (fst (svc_PayOrder env u oid rd db), c)"
| "shop_exec (OpFinish env u oid rd) (db, c) = (fst (svc_FinishOrder env u oid rd db), c)"
| "shop_exec (OpPublished env ev t) (db, c) =
    (fst (autocommit env (SOutboxPublished ev) (dao_MarkOrderTimeoutOutboxPublished ev t) db), c)"
| "shop_exec (OpPublishFailed env ev m t) (db, c) =
    (fst (autocommit env (SOutboxFailed ev) (dao_MarkOrderTimeoutOutboxFailed ev m t) db), c)"
| "shop_exec (OpUsers us) (db, c) = (db\<lparr>shop_users := us\<rparr>, c)"

definition empty_shop :: "(string \<Rightarrow> string) \<Rightarrow> shop_db" where
  "empty_shop collate = \<lparr>products = [], product_inventories = [], stock_logs = [], shop_orders = [], shop_items = [],
     order_idempotency_keys = [], order_timeout_outbox = [], shop_users = [], shop_next = 1, shop_collate = collate\<rparr>"

definition shop_run :: "(string \<Rightarrow> string) \<Rightarrow> shop_op list \<Rightarrow> shop_db \<times> product_cache" where
  "shop_run collate ops = fold shop_exec ops (empty_shop collate, \<lambda>_. None)"

lemma autocommit_ok:
  assumes "shop_ok db" and "\<And>db' x. body db = Inr (db', x) \<Longrightarrow> shop_ok db'"
  shows "shop_ok (fst (autocommit env site body db))"
  unfolding autocommit_def by (rule Transaction_preserves) (use assms in auto)

lemma fst_case_prod [simp]: "fst (case x of (a, b) \<Rightarrow> (a, f a b)) = fst x"
  by (simp add: case_prod_beta)

lemma set_sale_status_ok:
  assumes "shop_ok (fst s)"
  shows "shop_ok (fst (fst (set_sale_status st e env re pid s)))"
proof -
  have "shop_ok db'" if "autocommit env SProductUpdate (dao_UpdateProductStatus now k st) (fst s) = (db', r)" for db' r now k
    using autocommit_ok [OF assms, of "dao_UpdateProductStatus now k st" env SProductUpdate] that
    by (auto intro: product_status_ok [OF _ assms])
  then show ?thesis using assms by (auto simp: set_sale_status_def split: sum.splits prod.splits)
qed

lemma patch_ok:
  assumes "shop_ok db" and "from_st \<noteq> OrderStatusCancelled" "to_st \<noteq> OrderStatusCancelled"
  shows "shop_ok (fst (patch_status env u oid from_st to_st fld e db))"
proof -
  have "shop_ok (fst (autocommit env SOrderStatus (dao_PatchOrderStatus (e_now env SOrderStatus) u oid from_st to_st fld) db))"
    by (rule autocommit_ok [OF assms(1)]) (rule patch_status_ok [OF _ assms])
  then show ?thesis by (auto simp: patch_status_def split: prod.splits sum.splits)
qed

lemmas tx_ok = Transaction_preserves [of shop_ok]

lemma create_product_exec: "shop_ok db \<Longrightarrow> shop_ok (fst (autocommit env site (dao_CreateProduct p) db))"
  by (rule autocommit_ok) (blast intro: create_product_ok)+

lemma outbox_exec:
  "shop_ok db \<Longrightarrow> (\<And>e. mb_OrderID (f e) = mb_OrderID e) \<Longrightarrow> shop_ok (fst (autocommit env site (update_shop_outbox ev f) db))"
  by (rule autocommit_ok) (blast intro: update_outbox_ok)+

lemma init_exec: "shop_ok db \<Longrightarrow> shop_ok (fst (Transaction c w (init_body env pid st) db))"
  by (rule tx_ok) (blast intro: init_body_ok)+

lemma add_exec: "shop_ok db \<Longrightarrow> shop_ok (fst (Transaction c w (add_body env pid q) db))"
  by (rule tx_ok) (blast intro: add_body_ok)+

lemma create_exec: "shop_ok db \<Longrightarrow> shop_ok (fst (Transaction c w (create_order_body env u1 u2 T u req h) db))"
  by (rule tx_ok) (blast intro: create_order_body_ok)+

lemma cancel_exec: "shop_ok db \<Longrightarrow> shop_ok (fst (Transaction c w (cancel_body env u oid) db))"
  by (rule tx_ok) (blast intro: cancel_body_ok)+

lemma expire_exec: "shop_ok db \<Longrightarrow> shop_ok (fst (Transaction c w (expire_body env ev oid) db))"
  by (rule tx_ok) (blast intro: expire_body_ok)+

lemma pay_exec: "shop_ok db \<Longrightarrow> shop_ok (fst (svc_PayOrder env u oid rd db))"
  using patch_ok [of db OrderStatusPending OrderStatusPaid]
  by (simp add: svc_PayOrder_def shop_consts split: sum.split option.split)

lemma finish_exec: "shop_ok db \<Longrightarrow> shop_ok (fst (svc_FinishOrder env u oid rd db))"
  using patch_ok [of db OrderStatusPaid OrderStatusFinished]
  by (simp add: svc_FinishOrder_def shop_consts split: sum.split option.split)

lemma exec_ok: "shop_ok (fst s) \<Longrightarrow> shop_ok (fst (shop_exec op s))"
proof (induction op s rule: shop_exec.induct)
  case (1 env req db c)
  then show ?case by (simp add: svc_CreateProduct_def Let_def case_prod_beta create_product_exec)
next
  case (2 env re pid s)
  then show ?case by (simp add: svc_GetProductByID_def split: option.split sum.split)
next
  case (5 env pid st db c)
  then show ?case by (simp add: svc_InitInventory_def init_exec split: option.split sum.split)
next
  case (14 us db c)
  then have "shop_ok db" by simp
  then show ?case unfolding shop_exec.simps fst_conv by (rule shop_ok_cong) simp_all
qed (simp_all add: OnSaleProduct_def OffSaleProduct_def set_sale_status_ok svc_AddInventory_def add_exec svc_CreateOrder_def
    create_exec svc_CancelOrder_def cancel_exec svc_CancelExpiredOrder_def expire_exec pay_exec finish_exec
    dao_MarkOrderTimeoutOutboxPublished_def dao_MarkOrderTimeoutOutboxFailed_def outbox_exec)

lemma empty_ok: "shop_ok (empty_shop collate)"
  by (simp add: shop_ok_def shop_core_def empty_shop_def stock_at_def stock_of_def dao_GetInventoryByProductID_def
      held_def supplied_def logged_def)

lemma fold_exec_ok: "shop_ok (fst s) \<Longrightarrow> shop_ok (fst (fold shop_exec ops s))"
  by (induction ops arbitrary: s) (simp_all add: exec_ok)

lemma shop_run_ok: "shop_ok (fst (shop_run collate ops))"
  unfolding shop_run_def by (rule fold_exec_ok) (simp add: empty_ok)

section \<open>The request hash\<close>

lemma no_sep_FormatInt: "CHR '','' \<notin> set (FormatInt n)" "CHR ''}'' \<notin> set (FormatInt n)"
  by (simp_all add: FormatInt_def format_nat_notin is_digit_def)

lemma item_json_read: "item_json i @ u = item_json j @ v \<longleftrightarrow> i = j \<and> u = v"
proof -
  have "item_json i @ u = ''{\"product_id\":'' @ FormatInt (fst i) @ CHR '','' # ''\"quantity\":'' @ FormatInt (snd i) @ CHR ''}'' # u"
    for i u by (simp add: item_json_def)
  then show ?thesis
    using read_off [OF no_sep_FormatInt(1) no_sep_FormatInt(1)] read_off [OF no_sep_FormatInt(2) no_sep_FormatInt(2)]
    by (auto simp: FormatInt_inj prod_eq_iff)
qed

lemma item_json_ne [simp]: "item_json i \<noteq> []" 
  by (simp add: item_json_def)

lemma items_json_inj: "items_json xs = items_json ys \<longleftrightarrow> xs = ys"
proof (induction xs arbitrary: ys rule: items_json.induct)
  case 1
  then show ?case by (cases ys rule: items_json.cases) (simp_all add: item_json_def)
next
  case (2 i)
  then show ?case
    using item_json_read [of i "[]"] by (cases ys rule: items_json.cases) (auto simp: item_json_def)
next
  case (3 i j js)
  show ?case
  proof (cases ys rule: items_json.cases)
    case 1
    then show ?thesis by simp
  next
    case (2 k)
    then show ?thesis using item_json_read [of i _ k "[]"] by auto
  next
    case (3 k l ks)
    then show ?thesis using "3.IH" [of "l # ks"] by (simp add: item_json_read)
  qed
qed

lemma payload_json_inj: "payload_json xs = payload_json ys \<longleftrightarrow> xs = ys"
proof -
  have "items_json zs @ '']'' \<noteq> ''null''" for zs by (cases zs rule: items_json.cases) (simp_all add: item_json_def)
  then show ?thesis by (auto simp: payload_json_def items_json_inj)
qed

lemma request_hash_mset:
  assumes "sha (payload_json (sort (cr_Items r))) = sha (payload_json (sort (cr_Items r'))) \<Longrightarrow>
    payload_json (sort (cr_Items r)) = payload_json (sort (cr_Items r'))"
  shows "buildCreateOrderRequestHash sha r = buildCreateOrderRequestHash sha r' \<longleftrightarrow> mset (cr_Items r) = mset (cr_Items r')"
proof -
  have "sort xs = sort ys \<longleftrightarrow> mset xs = mset ys" for xs ys :: "(int \<times> int) list"
    by (metis mset_sort properties_for_sort sorted_sort)
  then show ?thesis
    using assms unfolding buildCreateOrderRequestHash_def payload_json_inj by metis
qed

section \<open>How the tables evolve\<close>

text \<open>Keys and orders are only added, orders keep owner and total, and their status moves forward.\<close>

definition later_status :: "int \<Rightarrow> int \<Rightarrow> bool" where
  "later_status s s' \<longleftrightarrow> s' = s \<or> s = OrderStatusPending \<or> s = OrderStatusPaid \<and> s' = OrderStatusFinished"

definition evolves :: "shop_db \<Rightarrow> shop_db \<Rightarrow> bool" where
  "evolves db db' \<longleftrightarrow> (\<exists>ks. order_idempotency_keys db' = order_idempotency_keys db @ ks) \<and> shop_collate db' = shop_collate db \<and>
    (\<exists>fs. map order_face (shop_orders db') = map order_face (shop_orders db) @ fs) \<and>
    (\<forall>oid s. status_of db oid = Some s \<longrightarrow> (\<exists>s'. status_of db' oid = Some s' \<and> later_status s s'))"

lemma evolves_refl [simp]: "evolves db db"
  by (simp add: evolves_def later_status_def)

lemma later_status_trans: "later_status a b \<Longrightarrow> later_status b c \<Longrightarrow> later_status a c"
  by (auto simp: later_status_def shop_consts)

lemma evolves_trans:
  assumes "evolves a b" and "evolves b c"
  shows "evolves a c"
proof -
  have "\<exists>s''. status_of c oid = Some s'' \<and> later_status s s''" if "status_of a oid = Some s" for oid s
  proof -
    from assms(1) that obtain s' where "status_of b oid = Some s'" "later_status s s'" unfolding evolves_def by blast
    moreover from this(1) assms(2) obtain s'' where "status_of c oid = Some s''" "later_status s' s''" unfolding evolves_def by blast
    ultimately show ?thesis using later_status_trans by blast
  qed
  with assms show ?thesis by (auto simp: evolves_def)
qed

lemma evolves_cong:
  "order_idempotency_keys db' = order_idempotency_keys db \<Longrightarrow> shop_collate db' = shop_collate db \<Longrightarrow>
    shop_orders db' = shop_orders db \<Longrightarrow> evolves db db'"
  using status_of_cong [of db' db] by (simp add: evolves_def later_status_def)

lemma patch_evolves:
  assumes "dao_PatchOrderStatus now u oid from_st to_st fld db = Inr (db', n)" and "later_status from_st to_st"
  shows "evolves db db'"
  using assms(1)
proof (rule patch_D)
  fix rows
  assume r: "db' = db\<lparr>shop_orders := rows\<rparr>" "map order_face rows = map order_face (shop_orders db)"
    "\<And>k. map_option mo_Status (lookup_by mo_ID k rows) = (case lookup_by mo_ID k (shop_orders db) of None \<Rightarrow> None
       | Some r \<Rightarrow> Some (if k = oid \<and> mo_UserID r = u \<and> mo_Status r = from_st then to_st else mo_Status r))"
  have "\<exists>s'. status_of db' k = Some s' \<and> later_status s s'" if "status_of db k = Some s" for k s
    using that assms(2) r(3) [of k] by (auto simp: status_of_def r(1) later_status_def)
  then show ?thesis by (simp add: evolves_def r(1,2))
qed

lemma cancelPendingOrder_evolves:
  assumes "cancelPendingOrder env order db = Inr (db', b)" and "shop_ok db"
  shows "evolves db db'"
proof -
  have core: "shop_core no_due db" using assms(2) by (simp add: shop_ok_split)
  note c = cancelPendingOrder_core [OF assms(1) core]
  show ?thesis
  proof (cases b)
    case True
    with c show ?thesis by (auto simp: evolves_def later_status_def)
  next
    case False
    with c show ?thesis by simp
  qed
qed

lemma created_evolves:
  assumes c: "created userID req db db' order items" and k: "order_idempotency_keys db' = order_idempotency_keys db @ ks"
  shows "evolves db db'"
proof -
  from c obtain row where "shop_orders db' = shop_orders db @ [row]" "shop_collate db' = shop_collate db"
    by (auto simp: created_def)
  with k show ?thesis
    by (auto simp: evolves_def status_of_def lookup_by_append later_status_def split: option.splits)
qed

lemma create_order_body_evolves:
  assumes "create_order_body env u1 u2 T userID req h db = Inr (db', order)" and "shop_ok db"
  shows "evolves db db'"
  using assms
proof (cases rule: create_order_body_cases)
  case replayed
  then show ?thesis by simp
next
  case (fresh items)
  then show ?thesis by (intro created_evolves)
qed

lemma autocommit_evolves:
  "(\<And>db' x. body db = Inr (db', x) \<Longrightarrow> evolves db db') \<Longrightarrow> evolves db (fst (autocommit env site body db))"
  unfolding autocommit_def by (rule Transaction_preserves) auto

lemma tx_evolves:
  "(\<And>db' x. body db = Inr (db', x) \<Longrightarrow> evolves db db') \<Longrightarrow> evolves db (fst (Transaction c w body db))"
  by (rule Transaction_preserves) auto

lemma update_stock_orders:
  assumes "update_stock env site pid after db = Inr db'"
  shows "order_idempotency_keys db' = order_idempotency_keys db" "shop_collate db' = shop_collate db" "shop_orders db' = shop_orders db"
proof -
  from assms obtain n where "dao_UpdateInventoryStockQuantity (e_now env site) pid after db = Inr (db', n)"
    by (auto simp: update_stock_def stmt_Inr split: if_splits)
  then show "order_idempotency_keys db' = order_idempotency_keys db" "shop_collate db' = shop_collate db" "shop_orders db' = shop_orders db"
    by (auto simp: dao_UpdateInventoryStockQuantity_def set_stock_def split: sum.splits)
qed

lemma add_body_evolves:
  assumes "add_body env pid q db = Inr (db', x)"
  shows "evolves db db'"
proof -
  from assms obtain after db1 l where u: "update_stock env SInventoryUpdate pid after db = Inr db1"
    and l: "dao_CreateStockLog l db1 = Inr db'"
    by (auto simp: add_body_def stmt_Inr Let_def)
  from u show ?thesis by (intro evolves_cong) (use log_Inr [OF l] in \<open>simp_all add: update_stock_orders\<close>)
qed

lemma init_body_evolves: "init_body env pid st db = Inr (db', x) \<Longrightarrow> evolves db db'"
  by (rule evolves_cong) (auto simp: init_body_def stmt_Inr dao_InitInventory_def dest!: log_Inr split: sum.splits)

lemma init_tx_evolves: "evolves db (fst (Transaction c w (init_body env pid st) db))"
  by (rule tx_evolves) (rule init_body_evolves)

lemma product_statements_evolve:
  "dao_CreateProduct p db = Inr (db', q) \<Longrightarrow> evolves db db'"
  "dao_UpdateProductStatus now pid st db = Inr (db', x) \<Longrightarrow> evolves db db'"
  "update_shop_outbox ev f db = Inr (db', x) \<Longrightarrow> evolves db db'"
  by (rule evolves_cong; auto simp: dao_CreateProduct_def dao_UpdateProductStatus_def update_shop_outbox_def Let_def split: sum.splits)+

lemma cancel_body_evolves: "cancel_body env u oid db = Inr (db', x) \<Longrightarrow> shop_ok db \<Longrightarrow> evolves db db'"
  by (auto simp: cancel_body_def stmt_Inr split: if_splits intro: cancelPendingOrder_evolves)

lemma expire_body_evolves: "expire_body env ev oid db = Inr (db', x) \<Longrightarrow> shop_ok db \<Longrightarrow> evolves db db'"
  by (auto simp: expire_body_def stmt_Inr split: if_splits option.splits intro: cancelPendingOrder_evolves)

lemma patch_status_evolves:
  assumes "later_status from_st to_st"
  shows "evolves db (fst (patch_status env u oid from_st to_st fld e db))"
proof -
  have "evolves db (fst (autocommit env SOrderStatus (dao_PatchOrderStatus (e_now env SOrderStatus) u oid from_st to_st fld) db))"
    by (rule autocommit_evolves) (rule patch_evolves [OF _ assms])
  then show ?thesis by (auto simp: patch_status_def split: prod.splits sum.splits)
qed

lemma set_sale_status_evolves: "evolves (fst s) (fst (fst (set_sale_status st e env re pid s)))"
proof -
  have "evolves (fst s) (fst (autocommit env SProductUpdate (dao_UpdateProductStatus now k st) (fst s)))" for now k
    by (rule autocommit_evolves) (rule product_statements_evolve(2))
  then show ?thesis
    by (auto simp: set_sale_status_def split: sum.splits prod.splits) (metis fst_conv)+
qed

lemma add_tx_evolves: "evolves db (fst (Transaction c w (add_body env pid q) db))"
  by (rule tx_evolves) (rule add_body_evolves)

lemma outbox_tx_evolves: "evolves db (fst (autocommit env site (update_shop_outbox ev f) db))"
  by (rule autocommit_evolves) (rule product_statements_evolve(3))

lemma create_tx_evolves: "shop_ok db \<Longrightarrow> evolves db (fst (Transaction c w (create_order_body env u1 u2 T u req h) db))"
  by (rule tx_evolves) (rule create_order_body_evolves)

lemma cancel_tx_evolves: "shop_ok db \<Longrightarrow> evolves db (fst (Transaction c w (cancel_body env u oid) db))"
  by (rule tx_evolves) (rule cancel_body_evolves)

lemma expire_tx_evolves: "shop_ok db \<Longrightarrow> evolves db (fst (Transaction c w (expire_body env ev oid) db))"
  by (rule tx_evolves) (rule expire_body_evolves)

lemma exec_evolves: "shop_ok (fst s) \<Longrightarrow> evolves (fst s) (fst (shop_exec op s))"
proof (induction op s rule: shop_exec.induct)
  case (1 env req db c)
  then show ?case
    by (simp add: svc_CreateProduct_def Let_def case_prod_beta autocommit_evolves product_statements_evolve(1))
next
  case (2 env re pid s)
  then show ?case by (simp add: svc_GetProductByID_def split: option.split sum.split)
next
  case (5 env pid st db c)
  then show ?case by (simp add: svc_InitInventory_def init_tx_evolves split: option.split sum.split)
next
  case (10 env u oid rd db c)
  then show ?case
    by (simp add: svc_PayOrder_def patch_status_evolves later_status_def split: sum.split option.split)
next
  case (11 env u oid rd db c)
  then show ?case
    by (simp add: svc_FinishOrder_def patch_status_evolves later_status_def split: sum.split option.split)
next
  case (14 us db c)
  then show ?case by (simp add: evolves_cong)
qed (simp_all add: OnSaleProduct_def OffSaleProduct_def set_sale_status_evolves svc_AddInventory_def add_tx_evolves
    svc_CreateOrder_def create_tx_evolves svc_CancelOrder_def cancel_tx_evolves svc_CancelExpiredOrder_def expire_tx_evolves
    dao_MarkOrderTimeoutOutboxPublished_def dao_MarkOrderTimeoutOutboxFailed_def outbox_tx_evolves)

lemma fold_evolves: "shop_ok (fst s) \<Longrightarrow> evolves (fst s) (fst (fold shop_exec ops s))"
proof (induction ops arbitrary: s)
  case (Cons op ops)
  then show ?case
    using evolves_trans [OF exec_evolves [OF Cons.prems, of op] Cons.IH [OF exec_ok [OF Cons.prems, of op]]] by simp
qed simp

section \<open>Properties\<close>

lemma find_unique:
  assumes "k \<in> set xs" and "P k" and "\<And>x. x \<in> set xs \<Longrightarrow> P x \<Longrightarrow> x = k"
  shows "List.find P xs = Some k"
proof (cases "List.find P xs")
  case None
  then show ?thesis using assms(1,2) by (auto simp: find_None_iff)
next
  case (Some x)
  then have "x \<in> set xs" "P x" by (auto simp: find_Some_iff)
  then have "x = k" by (rule assms(3))
  with Some show ?thesis by simp
qed

lemma GetOrderByID_D: "dao_GetOrderByID u oid db = Some r \<Longrightarrow> r \<in> set (shop_orders db) \<and> mo_UserID r = u \<and> mo_ID r = oid"
  by (auto simp: dao_GetOrderByID_def find_Some_iff)

lemma GetOrderByID_I:
  assumes "shop_ok db" and "r \<in> set (shop_orders db)"
  shows "dao_GetOrderByID (mo_UserID r) (mo_ID r) db = Some r"
  unfolding dao_GetOrderByID_def
proof (rule find_unique)
  show "r \<in> set (shop_orders db)" by (fact assms(2))
  have "distinct (map mo_ID (shop_orders db))" using assms(1) by (simp add: shop_ok_split shop_core_def)
  then show "x = r" if "x \<in> set (shop_orders db)" "mo_UserID x = mo_UserID r \<and> mo_ID x = mo_ID r" for x
    using distinct_key_eq [of mo_ID "shop_orders db" x r] that assms(2) by blast
qed simp

lemma GetKey_I:
  assumes "shop_ok db" and "k \<in> set (order_idempotency_keys db)" and "same_key db u key k"
  shows "dao_GetOrderIdempotencyKey u key db = Some k"
  unfolding dao_GetOrderIdempotencyKey_def
proof (rule find_unique)
  show "k \<in> set (order_idempotency_keys db)" "same_key db u key k" by (fact assms)+
  have "distinct (map (key_id db) (order_idempotency_keys db))" using assms(1) by (simp add: shop_ok_def)
  then show "x = k" if "x \<in> set (order_idempotency_keys db)" "same_key db u key x" for x
    using distinct_key_eq [of "key_id db" "order_idempotency_keys db" x k] that assms(2,3) unfolding same_key_iff by simp
qed

text \<open>The key and the row an accepted request leaves.\<close>

lemma accepted_request:
  assumes ok: "shop_ok db" and c: "svc_CreateOrder env sha u1 u2 T userID req db = (db', Inr order)"
  obtains k row where "shop_ok db'" "evolves db db'" "0 < userID" "k \<in> set (order_idempotency_keys db')"
    "same_key db' userID (cr_IdempotencyKey req) k" "mk_RequestHash k = buildCreateOrderRequestHash sha req"
    "mk_OrderID k = Some (mo_ID order)" "row \<in> set (shop_orders db')" "order_face row = order_face order"
proof -
  let ?h = "buildCreateOrderRequestHash sha req"
  from c have b: "create_order_body env u1 u2 T userID req ?h db = Inr (db', order)" and u: "0 < userID"
    by (auto simp: svc_CreateOrder_def Transaction_Inr split: if_splits)
  note ok' = create_order_body_ok [OF b ok] and ev = create_order_body_evolves [OF b ok]
  show thesis
    using b ok
  proof (cases rule: create_order_body_cases)
    case replayed
    from replayed(2) obtain k oid where k: "dao_GetOrderIdempotencyKey userID (cr_IdempotencyKey req) db = Some k"
      "mk_RequestHash k = ?h" "mk_OrderID k = Some oid" "dao_GetOrderByID userID oid db = Some order"
      by (auto simp: replay_order_def stmt_Inr split: if_splits option.splits)
    have "k \<in> set (order_idempotency_keys db)" "same_key db userID (cr_IdempotencyKey req) k"
      using k(1) by (auto simp: dao_GetOrderIdempotencyKey_def find_Some_iff)
    with ok' ev u k(2,3) GetOrderByID_D [OF k(4)] replayed(1) show thesis
      by (intro that [of k order]) simp_all
  next
    case (fresh items)
    define k where "k = new_key db userID (cr_IdempotencyKey req) ?h (mo_ID order)"
    from fresh(1) obtain row where row: "shop_orders db' = shop_orders db @ [row]" "order_face row = order_face order"
      "shop_collate db' = shop_collate db" by (auto simp: created_def)
    have "k \<in> set (order_idempotency_keys db')" "same_key db' userID (cr_IdempotencyKey req) k" "mk_RequestHash k = ?h"
      "mk_OrderID k = Some (mo_ID order)"
      by (simp_all add: fresh(3) k_def new_key_def same_key_def)
    with ok' ev u row(1,2) show thesis by (intro that [of k row]) simp_all
  qed
qed

lemma face_kept:
  assumes "evolves db db'" and "row \<in> set (shop_orders db)"
  obtains row' where "row' \<in> set (shop_orders db')" "order_face row' = order_face row"
proof -
  from assms(1) obtain fs where "map order_face (shop_orders db') = map order_face (shop_orders db) @ fs"
    by (auto simp: evolves_def)
  then have "order_face row \<in> order_face ` set (shop_orders db')"
    using assms(2) by (metis UnI1 image_eqI list.set_map set_append)
  then show thesis by (metis imageE that)
qed

lemma replay_known:
  assumes ok: "shop_ok db" and k: "k \<in> set (order_idempotency_keys db)" "same_key db userID (cr_IdempotencyKey req) k"
    and oid: "mk_OrderID k = Some (mo_ID r)" and r: "r \<in> set (shop_orders db)" "mo_UserID r = userID"
    and ff: "fault_free env" and valid: "0 < userID" "TrimSpace (cr_IdempotencyKey req) \<noteq> []" "length (cr_IdempotencyKey req) \<le> 128"
  shows "svc_CreateOrder env sha u1 u2 T userID req db = (db,
    if mk_RequestHash k = buildCreateOrderRequestHash sha req then Inr r else Inl ErrOrderIdempotencyConflict)"
proof -
  have st: "mk_Status k = OrderAlreadyCreated" using ok k(1) by (simp add: shop_ok_def key_ok_def)
  have pos: "0 < mo_ID r" using ok r(1) by (simp add: shop_ok_split shop_core_def)
  have get: "dao_GetOrderByID userID (mo_ID r) db = Some r" using GetOrderByID_I [OF ok r(1)] r(2) by simp
  have "replay_order env userID (cr_IdempotencyKey req) h db =
      (if mk_RequestHash k = h then Inr r else Inl ErrOrderIdempotencyConflict)" for h
    using pos ff by (simp add: replay_order_def GetKey_I [OF ok k] oid st get)
  moreover have "dao_TryCreateOrderIdempotencyKey userID (cr_IdempotencyKey req) h db = Inr (db, False)" for h
    using k by (auto simp: dao_TryCreateOrderIdempotencyKey_def list_ex_iff)
  ultimately show ?thesis
    using valid ff by (simp add: svc_CreateOrder_def create_order_body_def Transaction_def)
qed

end
