(* ===== verification/Shop_Claims.thy ===== *)
theory Shop_Claims
  imports Shop_Properties
begin

text \<open>
  The properties of the single-process application, each with an example of its hypotheses.
\<close>

definition demo_env :: "shop_site env" where
  "demo_env = calm_env"

definition demo_request :: create_order_request where
  "demo_request = \<lparr>cr_IdempotencyKey = ''k1'', cr_Items = [(1, 3)]\<rparr>"

definition demo_setup :: "shop_op list" where
  "demo_setup =
    [OpUsers [7],
     OpCreateProduct demo_env \<lparr>cp_Name = ''pen'', cp_Description = [], cp_PriceFen = 250\<rparr>,
     OpOnSale demo_env \<lparr>re_get = True, re_set = True, re_del = True\<rparr> 1,
     OpInit demo_env 1 (Some 10)]"

definition demo_shop :: shop_db where
  "demo_shop = fst (shop_run id demo_setup)"

definition demo_result :: "shop_db \<times> (service_error + m_order)" where
  "demo_result = svc_CreateOrder demo_env id ''a'' ''b'' 60000000000 7 demo_request demo_shop"

definition demo_order :: m_order where
  "demo_order = \<lparr>mo_ID = 5, mo_UserID = 7, mo_OrderNo = ''ORDa'', mo_TotalAmountFen = 750, mo_Status = 1, mo_PaidAt = None,
     mo_CompletedAt = None, mo_CancelledAt = None, mo_CreatedAt = 0, mo_UpdatedAt = 0\<rparr>"

lemma demo_ok: "shop_ok demo_shop"
  unfolding demo_shop_def by (rule shop_run_ok)

lemma demo_created: "demo_result = (fst demo_result, Inr demo_order)"
proof -
  have "snd demo_result = Inr demo_order" by code_simp
  then show ?thesis by (metis prod.collapse)
qed

section \<open>The invariant\<close>

text \<open>C3. After every sequence of operations of the single-process application, with any failed statements and any
  lost acknowledgements, and with any reads before the updates of payment and completion: no stock is negative; the
  stock of a product is the sum of its stock logs; stock and the quantities held by orders that are not cancelled
  add up to what was supplied; every idempotency key names an order of its user; every order has its timeout
  event; and the total of an order is the 64-bit sum of its subtotals.\<close>

theorem shop_invariant: "shop_ok (fst (shop_run collate ops))"
  by (rule shop_run_ok)

section \<open>Creating an order\<close>

text \<open>C7. When \<^verbatim>\<open>CreateOrder\<close> accepts a request under a new idempotency key, it has added one pending order of the user
  with a fresh id, one item per requested product with the price of the product and with that product on sale,
  and one unpublished timeout event; the stock of every product is lower by exactly the quantity ordered; the
  products of the request are distinct and the total is the 64-bit sum of the subtotals.\<close>

theorem create_order_effect:
  assumes "shop_ok db"
    and "svc_CreateOrder env sha orderUUID eventUUID timeout userID req db = (db', Inr order)"
    and "filter (same_key db userID (cr_IdempotencyKey req)) (order_idempotency_keys db) = []"
  shows "\<exists>items. created userID req db db' order items"
proof -
  have b: "create_order_body env orderUUID eventUUID timeout userID req (buildCreateOrderRequestHash sha req) db = Inr (db', order)"
    using assms(2) by (auto simp: svc_CreateOrder_def Transaction_Inr split: if_splits)
  show ?thesis
    using b assms(1)
  proof (cases rule: create_order_body_cases)
    case replayed
    with assms(3) show ?thesis by (auto simp: filter_empty_conv)
  next
    case (fresh items)
    then show ?thesis by blast
  qed
qed

theorem create_order_effect_witness:
  "\<exists>items. created 7 demo_request demo_shop (fst demo_result) demo_order items"
proof (rule create_order_effect [OF demo_ok])
  show "svc_CreateOrder demo_env id ''a'' ''b'' 60000000000 7 demo_request demo_shop = (fst demo_result, Inr demo_order)"
    using demo_created unfolding demo_result_def .
  show "filter (same_key demo_shop 7 (cr_IdempotencyKey demo_request)) (order_idempotency_keys demo_shop) = []"
    by code_simp
qed

text \<open>C4. Creation is idempotent across everything that happens in between. Once a request was accepted, any later
  request of the user under a key equal to its key in the collation of the table changes nothing: with the same
  items in any order it returns the order as it is then, with the owner and the total it had, and with other items it is
  refused as a conflict. SHA-256 is assumed not to collide on the two requests.\<close>

theorem create_order_idempotent:
  assumes "shop_ok db"
    and "svc_CreateOrder env sha orderUUID eventUUID timeout userID req db = (db1, Inr order)"
    and "db2 = fst (fold shop_exec ops (db1, cache))"
    and "fault_free env2"
    and "TrimSpace (cr_IdempotencyKey req2) \<noteq> []" and "length (cr_IdempotencyKey req2) \<le> 128"
    and "shop_collate db (cr_IdempotencyKey req2) = shop_collate db (cr_IdempotencyKey req)"
    and "sha (payload_json (sort (cr_Items req))) = sha (payload_json (sort (cr_Items req2))) \<Longrightarrow>
      payload_json (sort (cr_Items req)) = payload_json (sort (cr_Items req2))"
  shows "\<exists>r. dao_GetOrderByID userID (mo_ID order) db2 = Some r \<and> order_face r = order_face order \<and>
    svc_CreateOrder env2 sha orderUUID2 eventUUID2 timeout2 userID req2 db2 =
      (db2, if mset (cr_Items req2) = mset (cr_Items req) then Inr r else Inl ErrOrderIdempotencyConflict)"
proof -
  from accepted_request [OF assms(1,2)] obtain k row where
    a: "shop_ok db1" "evolves db db1" "0 < userID" "k \<in> set (order_idempotency_keys db1)"
      "same_key db1 userID (cr_IdempotencyKey req) k" "mk_RequestHash k = buildCreateOrderRequestHash sha req"
      "mk_OrderID k = Some (mo_ID order)" "row \<in> set (shop_orders db1)" "order_face row = order_face order" by metis
  have ok2: "shop_ok db2" and ev: "evolves db1 db2"
    using fold_exec_ok [of "(db1, cache)" ops] fold_evolves [of "(db1, cache)" ops] a(1) assms(3) by simp_all
  from face_kept [OF ev a(8)] obtain r where r: "r \<in> set (shop_orders db2)" "order_face r = order_face order"
    using a(9) by metis
  have k2: "k \<in> set (order_idempotency_keys db2)" using ev a(4) unfolding evolves_def by auto
  have coll: "shop_collate db1 = shop_collate db" "shop_collate db2 = shop_collate db1"
    using a(2) ev unfolding evolves_def by blast+
  have same: "same_key db2 userID (cr_IdempotencyKey req2) k"
    using a(5) assms(7) coll by (simp add: same_key_def)
  have u: "mo_UserID r = userID"
  proof -
    have "key_ok db2 k" using ok2 k2 by (simp add: shop_ok_def)
    then obtain s where s: "s \<in> set (shop_orders db2)" "mk_OrderID k = Some (mo_ID s)" "mo_UserID s = mk_UserID k"
      by (auto simp: key_ok_def)
    have id: "mo_ID s = mo_ID r" using s(2) a(7) r(2) by (simp add: order_face_def)
    have "distinct (map mo_ID (shop_orders db2))" using ok2 by (simp add: shop_ok_split shop_core_def)
    from distinct_key_eq [OF this s(1) r(1) id] s(3) a(5) show ?thesis by (simp add: same_key_def)
  qed
  have oid: "mk_OrderID k = Some (mo_ID r)" using a(7) r(2) by (simp add: order_face_def)
  note replay = replay_known [OF ok2 k2 same oid r(1) u assms(4) a(3) assms(5,6), of sha orderUUID2 eventUUID2 timeout2]
  have hash: "buildCreateOrderRequestHash sha req = buildCreateOrderRequestHash sha req2 \<longleftrightarrow> mset (cr_Items req2) = mset (cr_Items req)"
    by (rule trans [OF request_hash_mset eq_commute]) (rule assms(8))
  have "dao_GetOrderByID userID (mo_ID order) db2 = Some r"
    using GetOrderByID_I [OF ok2 r(1)] u r(2) by (simp add: order_face_def)
  with r(2) replay show ?thesis unfolding a(6) hash by blast
qed

theorem create_order_idempotent_witness:
  "\<exists>r. dao_GetOrderByID 7 (mo_ID demo_order) (fst (fold shop_exec [OpCancel demo_env 7 5] (fst demo_result, \<lambda>_. None))) = Some r \<and>
    order_face r = order_face demo_order \<and>
    svc_CreateOrder demo_env id ''c'' ''d'' 0 7 demo_request (fst (fold shop_exec [OpCancel demo_env 7 5] (fst demo_result, \<lambda>_. None))) =
      (fst (fold shop_exec [OpCancel demo_env 7 5] (fst demo_result, \<lambda>_. None)), Inr r)"
proof -
  have "svc_CreateOrder demo_env id ''a'' ''b'' 60000000000 7 demo_request demo_shop = (fst demo_result, Inr demo_order)"
    using demo_created unfolding demo_result_def .
  moreover have "TrimSpace (cr_IdempotencyKey demo_request) \<noteq> []" by code_simp
  ultimately show ?thesis
    using create_order_idempotent [OF demo_ok _ refl, of demo_env id "''a''" "''b''" 60000000000 7 demo_request
        "fst demo_result" demo_order demo_env demo_request "[OpCancel demo_env 7 5]" "\<lambda>_. None" "''c''" "''d''" 0]
    by (simp add: demo_env_def demo_request_def)
qed

section \<open>Cancelling and the life of an order\<close>

text \<open>C8. When \<^verbatim>\<open>CancelOrder\<close> succeeds the order is cancelled. If it was so before, nothing changes; otherwise it was
  pending, no other order changes its status, and the stock of every product rises by exactly what the order
  held, so that the quantities are returned once.\<close>

theorem cancel_order_effect:
  assumes "shop_ok db" and "svc_CancelOrder env userID oid db = (db', None)"
  shows "status_of db' oid = Some OrderStatusCancelled \<and>
    (if status_of db oid = Some OrderStatusCancelled then db' = db
     else status_of db oid = Some OrderStatusPending \<and>
       status_of db' = (status_of db)(oid := Some OrderStatusCancelled) \<and>
       (\<forall>p. stock_of db' p = stock_of db p + item_qty (dao_ListOrderItemsByOrderID oid db) p))"
proof -
  have core: "shop_core no_due db" using assms(1) by (simp add: shop_ok_split)
  from assms(2) have "cancel_body env userID oid db = Inr (db', ())"
    by (auto simp: svc_CancelOrder_def no_result_def Transaction_def split: sum.splits outcome.splits)
  then obtain order where o: "dao_GetOrderByID userID oid db = Some order"
    and b: "if mo_Status order = OrderStatusCancelled then db' = db
      else mo_Status order = OrderStatusPending \<and> cancelPendingOrder env order db = Inr (db', True)"
    by (auto simp: cancel_body_def stmt_Inr split: if_splits)
  have ord: "order \<in> set (shop_orders db)" "mo_ID order = oid" using GetOrderByID_D [OF o] by simp_all
  have "distinct (map mo_ID (shop_orders db))" using core by (simp add: shop_core_def)
  from lookup_by_distinct [OF this ord(1)] have st: "status_of db oid = Some (mo_Status order)"
    by (simp add: status_of_def ord(2))
  show ?thesis
  proof (cases "mo_Status order = OrderStatusCancelled")
    case True
    with b st show ?thesis by simp
  next
    case False
    with b have "cancelPendingOrder env order db = Inr (db', True)" "mo_Status order = OrderStatusPending" by simp_all
    with cancelPendingOrder_core [OF this(1) core] st False ord(2) show ?thesis by (simp add: shop_consts)
  qed
qed

theorem cancel_order_effect_witness:
  "status_of (fst (svc_CancelOrder demo_env 7 5 (fst demo_result))) 5 = Some OrderStatusCancelled \<and>
   stock_of (fst demo_result) 1 = 7 \<and> stock_of (fst (svc_CancelOrder demo_env 7 5 (fst demo_result))) 1 = 10"
proof -
  let ?db' = "fst (svc_CancelOrder demo_env 7 5 (fst demo_result))"
  have ok: "shop_ok (fst demo_result)"
    using accepted_request [OF demo_ok] demo_created unfolding demo_result_def by metis
  have "snd (svc_CancelOrder demo_env 7 5 (fst demo_result)) = None" by code_simp
  then have "svc_CancelOrder demo_env 7 5 (fst demo_result) = (?db', None)" by (metis prod.collapse)
  from cancel_order_effect [OF ok this]
  have "status_of ?db' 5 = Some OrderStatusCancelled \<and>
    (if status_of (fst demo_result) 5 = Some OrderStatusCancelled then ?db' = fst demo_result
     else (\<forall>p. stock_of ?db' p = stock_of (fst demo_result) p + item_qty (dao_ListOrderItemsByOrderID 5 (fst demo_result)) p))"
    by (simp split: if_splits)
  moreover have "status_of (fst demo_result) 5 = Some 1" "stock_of (fst demo_result) 1 = 7"
    "item_qty (dao_ListOrderItemsByOrderID 5 (fst demo_result)) 1 = 3" by code_simp+
  ultimately show ?thesis by (simp add: shop_consts)
qed


definition demo_run :: "shop_op list" where
  "demo_run = demo_setup @ [OpCreateOrder demo_env id ''a'' ''b'' 60000000000 7 demo_request, OpCancel demo_env 7 5]"


text \<open>C10. \<^verbatim>\<open>CancelExpiredOrder\<close> changes the database only for an order whose timeout event it was given, whose deadline
  has passed on the clock it read, and which was pending; it then is cancelled and its stock is returned. Every
  other call leaves the database as it was.\<close>

theorem expired_order_effect:
  assumes "shop_ok db"
  shows "fst (svc_CancelExpiredOrder env eventID oid db) = db \<or>
    (\<exists>ev. dao_GetOrderTimeoutOutbox eventID oid db = Some ev \<and> mb_TimeoutAt ev \<le> e_now env SOutboxFind \<and>
      status_of db oid = Some OrderStatusPending \<and>
      status_of (fst (svc_CancelExpiredOrder env eventID oid db)) = (status_of db)(oid := Some OrderStatusCancelled) \<and>
      (\<forall>p. stock_of (fst (svc_CancelExpiredOrder env eventID oid db)) p =
        stock_of db p + item_qty (dao_ListOrderItemsByOrderID oid db) p))"
proof -
  have core: "shop_core no_due db" using assms by (simp add: shop_ok_split)
  define db' where "db' = fst (svc_CancelExpiredOrder env eventID oid db)"
  consider "db' = db" | "expire_body env eventID oid db = Inr (db', ())"
  proof -
    have "fst (Transaction (e_out env SOrderCommit) db_plain (expire_body env eventID oid) db) = db'"
      by (simp add: db'_def svc_CancelExpiredOrder_def)
    then obtain r where "Transaction (e_out env SOrderCommit) db_plain (expire_body env eventID oid) db = (db', r)"
      by (metis prod.collapse)
    from Transaction_cases [OF this] that show thesis by auto
  qed
  then show ?thesis
    unfolding db'_def [symmetric]
  proof cases
    case 2
    then consider "db' = db" | ev order b where "dao_GetOrderTimeoutOutbox eventID oid db = Some ev"
      "mb_TimeoutAt ev \<le> e_now env SOutboxFind" "lookup_by mo_ID oid (shop_orders db) = Some order"
      "cancelPendingOrder env order db = Inr (db', b)"
      by (auto simp: expire_body_def stmt_Inr dao_GetOrderByIDForSystem_def not_less split: if_splits option.splits)
    then show "db' = db \<or>
      (\<exists>ev. dao_GetOrderTimeoutOutbox eventID oid db = Some ev \<and> mb_TimeoutAt ev \<le> e_now env SOutboxFind \<and>
        status_of db oid = Some OrderStatusPending \<and> status_of db' = (status_of db)(oid := Some OrderStatusCancelled) \<and>
        (\<forall>p. stock_of db' p = stock_of db p + item_qty (dao_ListOrderItemsByOrderID oid db) p))"
    proof cases
      case (2 ev order b)
      have "mo_ID order = oid" using lookup_by_Some_D [OF 2(3)] by simp
      with cancelPendingOrder_core [OF 2(4) core] 2(1,2) show ?thesis by (cases b) simp_all
    qed simp
  qed simp
qed

definition late_env :: "shop_site env" where
  "late_env = demo_env\<lparr>e_now := \<lambda>_. 70000000000\<rparr>"

theorem expired_order_effect_witness:
  "stock_of (fst demo_result) 1 = 7 \<and> stock_of (fst (svc_CancelExpiredOrder late_env ''b'' 5 (fst demo_result))) 1 = 10"
proof -
  let ?db' = "fst (svc_CancelExpiredOrder late_env ''b'' 5 (fst demo_result))"
  have ok: "shop_ok (fst demo_result)"
    using accepted_request [OF demo_ok] demo_created unfolding demo_result_def by metis
  have st: "status_of ?db' 5 = Some 4" "status_of (fst demo_result) 5 = Some 1" by code_simp+
  have "?db' \<noteq> fst demo_result"
  proof
    assume "?db' = fst demo_result"
    with st show False by simp
  qed
  with expired_order_effect [OF ok, of late_env "''b''" 5]
  have "stock_of ?db' 1 = stock_of (fst demo_result) 1 + item_qty (dao_ListOrderItemsByOrderID 5 (fst demo_result)) 1" by blast
  moreover have "stock_of (fst demo_result) 1 = 7" "item_qty (dao_ListOrderItemsByOrderID 5 (fst demo_result)) 1 = 3"
    by code_simp+
  ultimately show ?thesis by simp
qed

end
