(* ===== verification/Shop_API.thy ===== *)
theory Shop_API
  imports Shop_Properties
begin

text \<open>
  The handlers of the single-process application (\<^verbatim>\<open>internal/handler\<close>) on the services, with the validation tags
  of \<^verbatim>\<open>internal/request\<close>. A body is what \<^verbatim>\<open>ShouldBindJSON\<close> decoded before the tags are checked, \<open>None\<close> when it does
  not decode; path and query parameters are texts. Message texts are left out.
\<close>

section \<open>Requests\<close>

text \<open>The number of characters of a valid UTF-8 text, which is what the tags \<^verbatim>\<open>min\<close> and \<^verbatim>\<open>max\<close> count.\<close>

definition rune_count :: "string \<Rightarrow> nat" where
  "rune_count s = length (filter (\<lambda>c. (of_char c :: nat) div 64 \<noteq> 2) s)"

definition bind_tags :: "('r \<Rightarrow> bool) \<Rightarrow> 'r option \<Rightarrow> 'r option" where
  "bind_tags ok body = (case body of None \<Rightarrow> None | Some r \<Rightarrow> if ok r then Some r else None)"

definition CreateOrderRequest_ok :: "create_order_request \<Rightarrow> bool" where
  "CreateOrderRequest_ok r \<longleftrightarrow> cr_IdempotencyKey r \<noteq> [] \<and> rune_count (cr_IdempotencyKey r) \<le> 128 \<and>
    cr_Items r \<noteq> [] \<and> list_all (\<lambda>(pid, q). 0 < pid \<and> 0 < q) (cr_Items r)"

definition CreateProductRequest_ok :: "create_product_request \<Rightarrow> bool" where
  "CreateProductRequest_ok r \<longleftrightarrow> 1 \<le> rune_count (cp_Name r) \<and> rune_count (cp_Name r) \<le> 100 \<and>
    rune_count (cp_Description r) \<le> 500 \<and> 0 < cp_PriceFen r"

definition InitInventoryRequest_ok :: "int \<times> int option \<Rightarrow> bool" where
  "InitInventoryRequest_ok r \<longleftrightarrow> 0 < fst r \<and> (case snd r of None \<Rightarrow> False | Some q \<Rightarrow> 0 \<le> q)"

definition AddInventoryRequest_ok :: "int \<times> int \<Rightarrow> bool" where
  "AddInventoryRequest_ok r \<longleftrightarrow> 0 < fst r \<and> 0 < snd r"

definition ListOrderRequest_ok :: "int \<times> int \<Rightarrow> bool" where
  "ListOrderRequest_ok r \<longleftrightarrow> 1 \<le> fst r \<and> fst r \<le> 1000000 \<and> 1 \<le> snd r \<and> snd r \<le> 100"

definition parsePositiveID :: "string \<Rightarrow> int option" where
  "parsePositiveID s = (case ParseInt 64 s of Some n \<Rightarrow> if n \<le> 0 then None else Some n | None \<Rightarrow> None)"

text \<open>\<^verbatim>\<open>parseOptionalPagination\<close>: zero and zero stand for no pagination.\<close>

definition parseOptionalPagination :: "string \<Rightarrow> string \<Rightarrow> (int \<times> int) option" where
  "parseOptionalPagination pageValue pageSizeValue =
    (if pageValue = [] \<and> pageSizeValue = [] then Some (0, 0)
     else (case (if pageValue = [] then Some 1 else Atoi pageValue) of
             None \<Rightarrow> None
           | Some page \<Rightarrow>
               (case (if pageSizeValue = [] then Some 20 else Atoi pageSizeValue) of
                  None \<Rightarrow> None
                | Some pageSize \<Rightarrow>
                    if page \<le> 0 \<or> pageSize \<le> 0 \<or> pageSize > 100 then None else Some (page, pageSize))))"

text \<open>\<^verbatim>\<open>parseProductStatus\<close>: the inner option is the nil pointer, which selects every status.\<close>

definition parseProductStatus :: "string \<Rightarrow> int option option" where
  "parseProductStatus v =
    (if v = ''all'' then Some None
     else if v = [] then Some (Some ProductOffSale)
     else (case ParseInt 8 v of
             None \<Rightarrow> None
           | Some n \<Rightarrow> if n \<noteq> ProductOnSale \<and> n \<noteq> ProductOffSale then None else Some (Some n)))"

section \<open>Replies\<close>

definition reply_of :: "response_code \<Rightarrow> service_error + 'd \<Rightarrow> 'd app_reply" where
  "reply_of fallback r = (case r of Inl e \<Rightarrow> handleError e fallback | Inr x \<Rightarrow> Success x)"

definition reply_unit :: "response_code \<Rightarrow> service_error option \<Rightarrow> unit app_reply" where
  "reply_unit fallback r = (case r of Some e \<Rightarrow> handleError e fallback | None \<Rightarrow> Success ())"

section \<open>Order handlers\<close>

definition order_handler_CreateOrder ::
  "shop_site env \<Rightarrow> (string \<Rightarrow> string) \<Rightarrow> string \<Rightarrow> string \<Rightarrow> duration \<Rightarrow> int option \<Rightarrow> create_order_request option \<Rightarrow> shop_db
    \<Rightarrow> shop_db \<times> m_order app_reply" where
  "order_handler_CreateOrder env sha256hex orderUUID eventUUID orderTimeout ctx body db =
    (case app_currentUserID ctx of
       None \<Rightarrow> (db, Fail 500 CodeTokenUserInvalid)
     | Some userID \<Rightarrow>
         (case bind_tags CreateOrderRequest_ok body of
            None \<Rightarrow> (db, Fail 400 CodeOrderParameterError)
          | Some req \<Rightarrow>
              if cr_IdempotencyKey req = [] then (db, Fail 400 CodeOrderParameterError)
              else map_prod id (reply_of CodeCreateOrderFailed)
                (svc_CreateOrder env sha256hex orderUUID eventUUID orderTimeout userID req db)))"

text \<open>The query has the defaults 1 and 10 where it is silent.\<close>

definition order_handler_ListOrders ::
  "shop_site env \<Rightarrow> int option \<Rightarrow> (int \<times> int) option \<Rightarrow> shop_db \<Rightarrow> (m_order list \<times> int \<times> int \<times> int) app_reply" where
  "order_handler_ListOrders env ctx query db =
    (case app_currentUserID ctx of
       None \<Rightarrow> Fail 500 CodeTokenUserInvalid
     | Some userID \<Rightarrow>
         (case bind_tags ListOrderRequest_ok query of
            None \<Rightarrow> Fail 400 CodeOrderParameterError
          | Some (page, pageSize) \<Rightarrow>
              reply_of CodeQueryOrderListFailed
                (map_sum id (\<lambda>(orders, cnt). (orders, cnt, page, pageSize)) (svc_ListOrders env userID page pageSize db))))"

definition order_handler_GetOrderByID ::
  "shop_site env \<Rightarrow> int option \<Rightarrow> string \<Rightarrow> shop_db \<Rightarrow> (m_order \<times> m_order_item list) app_reply" where
  "order_handler_GetOrderByID env ctx idParam db =
    (case app_currentUserID ctx of
       None \<Rightarrow> Fail 500 CodeTokenUserInvalid
     | Some userID \<Rightarrow>
         (case parsePositiveID idParam of
            None \<Rightarrow> Fail 400 CodeParameterError
          | Some oid \<Rightarrow> reply_of CodeQueryOrderDetailFailed (svc_GetOrderByID env userID oid db)))"

text \<open>\<^verbatim>\<open>PayOrder\<close>, \<^verbatim>\<open>FinishOrder\<close> and \<^verbatim>\<open>CancelOrders\<close> differ in the service they call and the code of other errors.\<close>

definition order_action ::
  "(int \<Rightarrow> int \<Rightarrow> shop_db \<Rightarrow> shop_db \<times> service_error option) \<Rightarrow> response_code \<Rightarrow> int option \<Rightarrow> string \<Rightarrow> shop_db
    \<Rightarrow> shop_db \<times> unit app_reply" where
  "order_action act fallback ctx idParam db =
    (case app_currentUserID ctx of
       None \<Rightarrow> (db, Fail 500 CodeTokenUserInvalid)
     | Some userID \<Rightarrow>
         (case parsePositiveID idParam of
            None \<Rightarrow> (db, Fail 400 CodeParameterError)
          | Some oid \<Rightarrow> map_prod id (reply_unit fallback) (act userID oid db)))"

definition order_handler_PayOrder where
  "order_handler_PayOrder env readDb = order_action (\<lambda>u oid. svc_PayOrder env u oid readDb) CodeOrderPayFailed"

definition order_handler_FinishOrder where
  "order_handler_FinishOrder env readDb = order_action (\<lambda>u oid. svc_FinishOrder env u oid readDb) CodeOrderFinishFailed"

definition order_handler_CancelOrders where
  "order_handler_CancelOrders env = order_action (svc_CancelOrder env) CodeOrderCancelFailed"

section \<open>Product handlers\<close>

definition product_handler_CreateProduct ::
  "shop_site env \<Rightarrow> create_product_request option \<Rightarrow> shop_db \<Rightarrow> shop_db \<times> m_product app_reply" where
  "product_handler_CreateProduct env body db =
    (case bind_tags CreateProductRequest_ok body of
       None \<Rightarrow> (db, Fail 400 CodeParameterError)
     | Some req \<Rightarrow> map_prod id (reply_of CodeCreateProductFailed) (svc_CreateProduct env req db))"

text \<open>The reply has the page when the request was paginated, and the products alone otherwise.\<close>

definition product_handler_ListProducts ::
  "shop_site env \<Rightarrow> string \<Rightarrow> string \<Rightarrow> string \<Rightarrow> shop_db \<Rightarrow> (m_product list \<times> (int \<times> int \<times> int) option) app_reply" where
  "product_handler_ListProducts env statusQ pageQ pageSizeQ db =
    (case parseProductStatus statusQ of
       None \<Rightarrow> Fail 400 CodeParameterError
     | Some status \<Rightarrow>
         (case parseOptionalPagination pageQ pageSizeQ of
            None \<Rightarrow> Fail 400 CodeParameterError
          | Some (page, pageSize) \<Rightarrow>
              reply_of CodeQueryProductListFailed
                (map_sum id (\<lambda>(ps, cnt). (ps, if 0 < pageSize then Some (cnt, page, pageSize) else None))
                  (svc_ListProducts env status page pageSize db))))"

definition product_handler_GetProductByID ::
  "shop_site env \<Rightarrow> redis_env \<Rightarrow> string \<Rightarrow> shop_db \<times> product_cache \<Rightarrow> (shop_db \<times> product_cache) \<times> m_product app_reply" where
  "product_handler_GetProductByID env re idParam s =
    (case parsePositiveID idParam of
       None \<Rightarrow> (s, Fail 400 CodeParameterError)
     | Some pid \<Rightarrow> map_prod id (reply_of CodeQueryProductFailed) (svc_GetProductByID env re pid s))"

definition product_handler_OnSaleProduct ::
  "shop_site env \<Rightarrow> redis_env \<Rightarrow> string \<Rightarrow> shop_db \<times> product_cache \<Rightarrow> (shop_db \<times> product_cache) \<times> unit app_reply" where
  "product_handler_OnSaleProduct env re idParam s =
    (case parsePositiveID idParam of
       None \<Rightarrow> (s, Fail 400 CodeParameterError)
     | Some pid \<Rightarrow> map_prod id (reply_unit CodeProductOnSaleFailed) (OnSaleProduct env re pid s))"

definition product_handler_OffSaleProduct ::
  "shop_site env \<Rightarrow> redis_env \<Rightarrow> string \<Rightarrow> shop_db \<times> product_cache \<Rightarrow> (shop_db \<times> product_cache) \<times> unit app_reply" where
  "product_handler_OffSaleProduct env re idParam s =
    (case parsePositiveID idParam of
       None \<Rightarrow> (s, Fail 400 CodeParameterError)
     | Some pid \<Rightarrow> map_prod id (reply_unit CodeProductOffSaleFailed) (OffSaleProduct env re pid s))"

section \<open>Inventory and stock log handlers\<close>

definition inventory_handler_InitInventory ::
  "shop_site env \<Rightarrow> (int \<times> int option) option \<Rightarrow> shop_db \<Rightarrow> shop_db \<times> unit app_reply" where
  "inventory_handler_InitInventory env body db =
    (case bind_tags InitInventoryRequest_ok body of
       None \<Rightarrow> (db, Fail 400 CodeParameterError)
     | Some (pid, stock) \<Rightarrow> map_prod id (reply_unit CodeInitInventoryFailed) (svc_InitInventory env pid stock db))"

definition inventory_handler_AddInventory ::
  "shop_site env \<Rightarrow> (int \<times> int) option \<Rightarrow> shop_db \<Rightarrow> shop_db \<times> unit app_reply" where
  "inventory_handler_AddInventory env body db =
    (case bind_tags AddInventoryRequest_ok body of
       None \<Rightarrow> (db, Fail 400 CodeParameterError)
     | Some (pid, quantity) \<Rightarrow> map_prod id (reply_unit CodeAddInventoryError) (svc_AddInventory env pid quantity db))"

definition inventory_handler_GetInventory :: "shop_site env \<Rightarrow> string \<Rightarrow> shop_db \<Rightarrow> m_inventory app_reply" where
  "inventory_handler_GetInventory env idParam db =
    (case parsePositiveID idParam of
       None \<Rightarrow> Fail 400 CodeParameterError
     | Some pid \<Rightarrow> reply_of CodeInventoryNotFound (svc_GetInventoryByProductID env pid db))"

definition stock_log_handler_ListStockLogs :: "shop_site env \<Rightarrow> string \<Rightarrow> shop_db \<Rightarrow> m_stock_log list app_reply" where
  "stock_log_handler_ListStockLogs env productIDStr db =
    (if productIDStr = [] then reply_of CodeQueryStockLogFailed (svc_ListStockLogs env None db)
     else case parsePositiveID productIDStr of
       None \<Rightarrow> Fail 400 CodeParameterError
     | Some pid \<Rightarrow> reply_of CodeQueryStockLogFailed (svc_ListStockLogs env (Some pid) db))"

section \<open>Isolation of users\<close>

text \<open>The orders of everyone else.\<close>

definition foreign :: "int \<Rightarrow> shop_db \<Rightarrow> m_order list" where
  "foreign u db = filter (\<lambda>r. mo_UserID r \<noteq> u) (shop_orders db)"

lemma reply_of_Success: "reply_of c r = Success x \<longleftrightarrow> r = Inr x"
  by (auto simp: reply_of_def handleError_def split: sum.splits option.splits)

lemma set_sql_page: "set (sql_page off lim rows) \<subseteq> set rows"
  by (auto simp: sql_page_def dest: in_set_takeD in_set_dropD)

lemma map_sum_Inr: "map_sum id f r = Inr y \<longleftrightarrow> (\<exists>x. r = Inr x \<and> y = f x)"
  by (cases r) auto

lemma foreign_patch:
  assumes "dao_PatchOrderStatus now u oid from_st to_st fld db = Inr (db', n)"
  shows "foreign u db' = foreign u db"
proof -
  define f where "f r = set_time_field fld (round_ms now) (r\<lparr>mo_Status := to_st, mo_UpdatedAt := round_ms now\<rparr>)" for r
  note d = update_orders_D(1) [OF assms [unfolded dao_PatchOrderStatus_def], folded f_def]
  have "mo_UserID (f r) = mo_UserID r" for r by (simp add: f_def)
  then have "filter (\<lambda>r. mo_UserID r \<noteq> u) (map (\<lambda>r. if mo_UserID r = u \<and> mo_ID r = oid \<and> mo_Status r = from_st then f r else r) rows) =
      filter (\<lambda>r. mo_UserID r \<noteq> u) rows" for rows
    by (induction rows) auto
  then show ?thesis by (simp add: foreign_def d)
qed

lemma foreign_patch_status: "foreign u (fst (patch_status env u oid from_st to_st fld e db)) = foreign u db"
proof -
  have "foreign u (fst (autocommit env SOrderStatus (dao_PatchOrderStatus (e_now env SOrderStatus) u oid from_st to_st fld) db)) = foreign u db"
    unfolding autocommit_def by (rule Transaction_preserves [of "\<lambda>d. foreign u d = foreign u db"]) (auto dest: foreign_patch)
  then show ?thesis by (auto simp: patch_status_def split: prod.splits sum.splits)
qed

lemma foreign_cancel:
  assumes c: "cancelPendingOrder env order db = Inr (db', b)" and core: "shop_core no_due db"
  shows "foreign (mo_UserID order) db' = foreign (mo_UserID order) db"
proof -
  from c obtain tx n where p: "dao_PatchOrderStatus (e_now env SOrderStatus) (mo_UserID order) (mo_ID order)
      OrderStatusPending OrderStatusCancelled CancelledAt db = Inr (tx, n)"
    and rest: "if n = 0 then db' = tx
      else return_items env (mo_ID order) 0 (dao_ListOrderItemsByOrderID (mo_ID order) tx) tx = Inr db'"
    by (auto simp: cancelPendingOrder_def stmt_Inr split: if_splits)
  from cancel_patch [OF p core] obtain rows where r: "tx = db\<lparr>shop_orders := rows\<rparr>"
    "n \<noteq> 0 \<Longrightarrow> shop_core (\<lambda>p. item_qty (dao_ListOrderItemsByOrderID (mo_ID order) db) p + 0) tx" by metis
  have "dao_ListOrderItemsByOrderID (mo_ID order) tx = dao_ListOrderItemsByOrderID (mo_ID order) db"
    by (simp add: dao_ListOrderItemsByOrderID_def r(1))
  then have "shop_orders db' = shop_orders tx"
    using rest return_items_core [of env "mo_ID order" 0 "dao_ListOrderItemsByOrderID (mo_ID order) db" tx db' no_due] r(2)
    by (auto simp: same_but_stock_def split: if_splits)
  then show ?thesis using foreign_patch [OF p] by (simp add: foreign_def)
qed

lemma foreign_CancelOrder:
  assumes "shop_ok db"
  shows "foreign u (fst (svc_CancelOrder env u oid db)) = foreign u db"
proof -
  have core: "shop_core no_due db" using assms by (simp add: shop_ok_split)
  have "foreign u (fst (Transaction (e_out env SOrderCommit) db_plain (cancel_body env u oid) db)) = foreign u db"
  proof (rule Transaction_preserves [of "\<lambda>d. foreign u d = foreign u db"])
    fix db' x
    assume "cancel_body env u oid db = Inr (db', x)"
    then consider "db' = db" | order where "dao_GetOrderByID u oid db = Some order" "cancelPendingOrder env order db = Inr (db', True)"
      by (auto simp: cancel_body_def stmt_Inr split: if_splits)
    then show "foreign u db' = foreign u db"
    proof cases
      case (2 order)
      then show ?thesis using foreign_cancel [OF 2(2) core] GetOrderByID_D [OF 2(1)] by simp
    qed simp
  qed simp
  then show ?thesis by (simp add: svc_CancelOrder_def)
qed

text \<open>C11. A user reaches only the own orders. The order a user reads and every order in a list the user reads are the user's
  own, and paying, finishing or cancelling leaves every order of anyone else exactly as it was, whatever id the
  request names.\<close>

theorem order_isolation:
  assumes "shop_ok db" and "app_currentUserID ctx = Some u"
  shows "(case order_handler_GetOrderByID env ctx idParam db of Success x \<Rightarrow> mo_UserID (fst x) = u | Fail _ _ \<Rightarrow> True) \<and>
    (case order_handler_ListOrders env ctx query db of Success x \<Rightarrow> list_all (\<lambda>r. mo_UserID r = u) (fst x) | Fail _ _ \<Rightarrow> True) \<and>
    foreign u (fst (order_handler_PayOrder env readDb ctx idParam db)) = foreign u db \<and>
    foreign u (fst (order_handler_FinishOrder env readDb ctx idParam db)) = foreign u db \<and>
    foreign u (fst (order_handler_CancelOrders env ctx idParam db)) = foreign u db"
proof (intro conjI)
  show "case order_handler_GetOrderByID env ctx idParam db of Success x \<Rightarrow> mo_UserID (fst x) = u | Fail _ _ \<Rightarrow> True"
    using GetOrderByID_D
    by (auto simp: order_handler_GetOrderByID_def assms(2) reply_of_def handleError_def svc_GetOrderByID_def and_then_def
        found_def or_err_def stmt_def split: option.splits sum.splits outcome.splits app_reply.splits)
  show "case order_handler_ListOrders env ctx query db of Success x \<Rightarrow> list_all (\<lambda>r. mo_UserID r = u) (fst x) | Fail _ _ \<Rightarrow> True"
  proof (cases "order_handler_ListOrders env ctx query db")
    case (Success x)
    then obtain page pageSize cnt where "svc_ListOrders env u page pageSize db = Inr (fst x, cnt)"
      by (auto simp: order_handler_ListOrders_def assms(2) reply_of_Success map_sum_Inr split: option.splits prod.splits)
    then obtain off lim where "sql_page off lim (rev (filter (\<lambda>r. mo_UserID r = u) (shop_orders db))) = fst x"
      by (auto simp: svc_ListOrders_def dao_ListOrders_def Let_def stmt_Inr split: if_splits sum.splits)
    then have "set (fst x) \<subseteq> set (filter (\<lambda>r. mo_UserID r = u) (shop_orders db))"
      using set_sql_page [of off lim "rev (filter (\<lambda>r. mo_UserID r = u) (shop_orders db))"] by simp
    with Success show ?thesis by (auto simp: list_all_iff)
  qed simp
  show "foreign u (fst (order_handler_PayOrder env readDb ctx idParam db)) = foreign u db"
    by (auto simp: order_handler_PayOrder_def order_action_def assms(2) svc_PayOrder_def foreign_patch_status
        split: option.splits sum.splits)
  show "foreign u (fst (order_handler_FinishOrder env readDb ctx idParam db)) = foreign u db"
    by (auto simp: order_handler_FinishOrder_def order_action_def assms(2) svc_FinishOrder_def foreign_patch_status
        split: option.splits sum.splits)
  show "foreign u (fst (order_handler_CancelOrders env ctx idParam db)) = foreign u db"
    using foreign_CancelOrder [OF assms(1)]
    by (auto simp: order_handler_CancelOrders_def order_action_def assms(2) split: option.splits)
qed

definition two_users :: shop_db where
  "two_users = fst (shop_run id
    [OpUsers [7, 8],
     OpCreateProduct calm_env \<lparr>cp_Name = ''pen'', cp_Description = [], cp_PriceFen = 250\<rparr>,
     OpOnSale calm_env \<lparr>re_get = True, re_set = True, re_del = True\<rparr> 1,
     OpInit calm_env 1 (Some 10),
     OpCreateOrder calm_env id ''a'' ''b'' 0 7 \<lparr>cr_IdempotencyKey = ''k1'', cr_Items = [(1, 3)]\<rparr>])"

theorem order_isolation_witness:
  "map mo_ID (foreign 8 two_users) = [5] \<and>
   foreign 8 (fst (order_handler_CancelOrders calm_env (Some 8) ''5'' two_users)) = foreign 8 two_users"
proof -
  have "shop_ok two_users" unfolding two_users_def by (rule shop_run_ok)
  from order_isolation [OF this, of "Some 8" 8 calm_env "''5''" None two_users]
  have "foreign 8 (fst (order_handler_CancelOrders calm_env (Some 8) ''5'' two_users)) = foreign 8 two_users"
    by (simp add: app_currentUserID_def)
  moreover have "map mo_ID (foreign 8 two_users) = [5]" by code_simp
  ultimately show ?thesis by simp
qed

end
