(* ===== verification/Shop_Timeout.thy ===== *)
theory Shop_Timeout
  imports Shop_Properties
begin

text \<open>
  The timeout worker of the single-process application (\<^verbatim>\<open>internal/ordertimeout\<close>): it publishes the timeout events of
  the outbox to a delay queue of RabbitMQ and cancels the orders whose events come back. RabbitMQ is not part
  of the repository: what a publication and a settlement return are arguments. The JSON form of an event
  decodes to the event; a body that is no event, that has unknown fields or that is followed by another value
  is \<open>NoEvent\<close>. Connections, channels, the declaration of queues and the loops that wait and repeat are in
  \<open>Shop_Loops\<close>.
\<close>

section \<open>Events\<close>

record timeout_event =
  te_EventID :: string
  te_OrderID :: int
  te_UserID :: int
  te_TimeoutAt :: time

text \<open>The zero \<^verbatim>\<open>time.Time\<close> is the first of January of the year one.\<close>

definition zero_time :: time where
  "zero_time = - 62135596800 * 1000000000"

definition event_Validate :: "timeout_event \<Rightarrow> string option" where
  "event_Validate e =
    (if TrimSpace (te_EventID e) = [] then Some ''order timeout event ID is required''
     else if te_OrderID e \<le> 0 then Some ''order timeout order ID must be positive''
     else if te_UserID e \<le> 0 then Some ''order timeout user ID must be positive''
     else if te_TimeoutAt e = zero_time then Some ''order timeout deadline is required''
     else None)"

datatype event_body = EventJSON timeout_event | NoEvent string \<comment> \<open>the error of the decoder\<close>

definition encodeEvent :: "timeout_event \<Rightarrow> string + event_body" where
  "encodeEvent e = (case event_Validate e of Some m \<Rightarrow> Inl m | None \<Rightarrow> Inr (EventJSON e))"

definition decodeEvent :: "event_body \<Rightarrow> string + timeout_event" where
  "decodeEvent b = (case b of NoEvent m \<Rightarrow> Inl m | EventJSON e \<Rightarrow> (case event_Validate e of Some m \<Rightarrow> Inl m | None \<Rightarrow> Inr e))"

section \<open>Worker\<close>

record shop_worker_config =
  wc_URL :: string
  wc_ConnectTimeout :: duration
  wc_ReconnectDelay :: duration
  wc_OutboxPollInterval :: duration
  wc_OutboxRetryDelay :: duration
  wc_PublishBatchSize :: int
  wc_ConsumerPrefetch :: int

text \<open>\<^verbatim>\<open>NewWorker\<close>, with whether the database, the canceller and the logger are there.\<close>

definition shop_NewWorker :: "shop_worker_config \<Rightarrow> bool \<Rightarrow> bool \<Rightarrow> bool \<Rightarrow> string + shop_worker_config" where
  "shop_NewWorker cfg hasDb hasCanceller hasLogger =
    (if TrimSpace (wc_URL cfg) = [] then Inl ''RabbitMQ URL is required''
     else if wc_ConnectTimeout cfg \<le> 0 \<or> wc_ReconnectDelay cfg \<le> 0 \<or> wc_OutboxPollInterval cfg \<le> 0 \<or>
       wc_OutboxRetryDelay cfg \<le> 0 \<or> wc_PublishBatchSize cfg \<le> 0 \<or> wc_ConsumerPrefetch cfg \<le> 0
     then Inl ''durations and limits must be positive''
     else if \<not> hasDb then Inl ''database is required''
     else if \<not> hasCanceller then Inl ''order canceller is required''
     else if \<not> hasLogger then Inl ''logger is required''
     else Inr cfg)"

text \<open>\<^verbatim>\<open>Duration.Milliseconds\<close> drops the fraction.\<close>

definition expirationMilliseconds :: "time \<Rightarrow> time \<Rightarrow> string" where
  "expirationMilliseconds now timeoutAt =
    (let remaining = go_div (timeoutAt - now) 1000000 in FormatInt (if remaining < 1 then 1 else remaining))"

definition truncateError :: "string \<Rightarrow> string" where
  "truncateError message = (if length message \<le> 255 then message else take 255 message)"

text \<open>What becomes of a publication: it cannot be sent, has no confirmation, waiting for it fails, or the broker
  answers.\<close>

datatype publish_outcome = PublishFails string | NoConfirmation | WaitFails string | Rejected | Confirmed

record shop_message =
  sm_MessageId :: string
  sm_Expiration :: string
  sm_Body :: event_body

text \<open>\<^verbatim>\<open>publishEvent\<close>: the message, if it gets that far, and the error.\<close>

definition shop_publishEvent :: "time \<Rightarrow> publish_outcome \<Rightarrow> m_outbox \<Rightarrow> shop_message option \<times> string option" where
  "shop_publishEvent now out outbox =
    (let event = \<lparr>te_EventID = mb_EventID outbox, te_OrderID = mb_OrderID outbox, te_UserID = mb_UserID outbox,
                  te_TimeoutAt = mb_TimeoutAt outbox\<rparr> in
     case encodeEvent event of
       Inl m \<Rightarrow> (None, Some (''encode order timeout event: '' @ m))
     | Inr body \<Rightarrow>
         (Some \<lparr>sm_MessageId = te_EventID event, sm_Expiration = expirationMilliseconds now (te_TimeoutAt event), sm_Body = body\<rparr>,
          (case out of
             PublishFails m \<Rightarrow> Some (''publish order timeout event: '' @ m)
           | NoConfirmation \<Rightarrow> Some ''publish order timeout event: confirmation unavailable''
           | WaitFails m \<Rightarrow> Some (''wait for order timeout publish confirmation: '' @ m)
           | Rejected \<Rightarrow> Some ''RabbitMQ rejected order timeout event''
           | Confirmed \<Rightarrow> None)))"

text \<open>The loop of \<^verbatim>\<open>publishBatch\<close>, which keeps the messages the broker confirmed; the first error ends it. \<open>clock\<close> is the
  reading at the publication of an event.\<close>

fun publish_events ::
  "shop_site env \<Rightarrow> duration \<Rightarrow> (string \<Rightarrow> time) \<Rightarrow> (string \<Rightarrow> publish_outcome) \<Rightarrow> m_outbox list \<Rightarrow> shop_db \<Rightarrow> shop_message list
    \<Rightarrow> shop_db \<times> shop_message list \<times> string option" where
  "publish_events env retryDelay clock out [] db msgs = (db, msgs, None)"
| "publish_events env retryDelay clock out (ev # rest) db msgs =
    (let eid = mb_EventID ev in
     case shop_publishEvent (clock eid) (out eid) ev of
       (_, Some err) \<Rightarrow>
         (fst (autocommit env (SOutboxFailed eid)
            (dao_MarkOrderTimeoutOutboxFailed eid (truncateError err) (e_now env (SOutboxFailed eid) + retryDelay)) db), msgs, Some err)
     | (msg, None) \<Rightarrow>
         let msgs' = (case msg of None \<Rightarrow> msgs | Some m \<Rightarrow> msgs @ [m]) in
         (case autocommit env (SOutboxPublished eid) (dao_MarkOrderTimeoutOutboxPublished eid (e_now env (SOutboxPublished eid))) db of
            (db', Inl d) \<Rightarrow> (db', msgs', Some (''mark order timeout event published: '' @ e_text env d))
          | (db', Inr _) \<Rightarrow> publish_events env retryDelay clock out rest db' msgs'))"

definition publishBatch ::
  "shop_site env \<Rightarrow> shop_worker_config \<Rightarrow> (string \<Rightarrow> time) \<Rightarrow> (string \<Rightarrow> publish_outcome) \<Rightarrow> shop_db \<Rightarrow> shop_message list
    \<Rightarrow> shop_db \<times> shop_message list \<times> string option" where
  "publishBatch env cfg clock out db msgs =
    (case stmt env SOutboxList (Inr (dao_ListPendingOrderTimeoutOutbox (e_now env SOutboxList) (wc_PublishBatchSize cfg) db)) of
       Inl _ \<Rightarrow> (db, msgs, None)
     | Inr events \<Rightarrow> publish_events env (wc_OutboxRetryDelay cfg) clock out events db msgs)"

text \<open>One delivery of \<^verbatim>\<open>consumeLoop\<close>: how it is settled. The context may end while the loop waits before a requeue;
  then the delivery stays unsettled and the broker delivers it again.\<close>

datatype shop_settlement = SettleAck | SettleDrop | SettleRequeue | Unsettled

definition consume_delivery ::
  "(string \<Rightarrow> int \<Rightarrow> 's \<Rightarrow> 's \<times> service_error option) \<Rightarrow> bool \<Rightarrow> event_body \<Rightarrow> 's \<Rightarrow> 's \<times> shop_settlement" where
  "consume_delivery CancelExpiredOrder stopped body s =
    (case decodeEvent body of
       Inl _ \<Rightarrow> (s, SettleDrop)
     | Inr event \<Rightarrow>
         (case CancelExpiredOrder (te_EventID event) (te_OrderID event) s of
            (s', Some _) \<Rightarrow> (s', if stopped then Unsettled else SettleRequeue)
          | (s', None) \<Rightarrow> (s', SettleAck)))"

section \<open>The canceller\<close>

text \<open>What the worker relies on in the interface \<^verbatim>\<open>ExpiredOrderCanceller\<close>: the operation keeps the invariant of the state,
  and when it returns no error for an event the state knows, the order of the event is not open any more.\<close>

locale expired_order_canceller =
  fixes cancel :: "string \<Rightarrow> int \<Rightarrow> 's \<Rightarrow> 's \<times> service_error option"
    and ok :: "'s \<Rightarrow> bool" and known :: "string \<Rightarrow> int \<Rightarrow> 's \<Rightarrow> bool" and open_order :: "int \<Rightarrow> 's \<Rightarrow> bool"
  assumes cancel_ok: "ok s \<Longrightarrow> ok (fst (cancel ev oid s))"
    and cancel_closes: "ok s \<Longrightarrow> known ev oid s \<Longrightarrow> cancel ev oid s = (s', None) \<Longrightarrow> \<not> open_order oid s'"
begin

lemma delivery_ok: "ok s \<Longrightarrow> ok (fst (consume_delivery cancel stopped body s))"
  using cancel_ok by (auto simp: consume_delivery_def split: sum.splits prod.splits option.splits) (metis fst_conv)+

lemma deliveries_ok: "ok s \<Longrightarrow> ok (fold (\<lambda>body s. fst (consume_delivery cancel stopped body s)) bodies s)"
  by (induction bodies arbitrary: s) (simp_all add: delivery_ok)

lemma ack_closes:
  assumes "ok s" and "consume_delivery cancel stopped body s = (s', SettleAck)" and "decodeEvent body = Inr event"
    and "known (te_EventID event) (te_OrderID event) s"
  shows "\<not> open_order (te_OrderID event) s'"
proof -
  from assms(2,3) have "cancel (te_EventID event) (te_OrderID event) s = (s', None)"
    by (auto simp: consume_delivery_def split: prod.splits option.splits if_splits)
  with assms(1,4) show ?thesis by (rule cancel_closes)
qed

end

section \<open>Publishing\<close>

text \<open>An event that is marked published was so before, or the broker confirmed its message.\<close>

definition confirmed_only :: "shop_db \<Rightarrow> shop_message list \<Rightarrow> bool" where
  "confirmed_only db msgs \<longleftrightarrow> (\<forall>e\<in>set (order_timeout_outbox db). mb_PublishedAt e \<noteq> None \<longrightarrow>
    (\<exists>m\<in>set msgs. shop_collate db (sm_MessageId m) = shop_collate db (mb_EventID e)))"

lemma confirmed_only_more: "confirmed_only db msgs \<Longrightarrow> set msgs \<subseteq> set msgs' \<Longrightarrow> confirmed_only db msgs'"
  unfolding confirmed_only_def by blast

lemma outbox_update_rows:
  assumes "update_shop_outbox ev f db = Inr (db', x)"
  shows "shop_collate db' = shop_collate db \<and> order_timeout_outbox db' =
    map (\<lambda>e. if shop_collate db (mb_EventID e) = shop_collate db ev \<and> mb_PublishedAt e = None then f e else e) (order_timeout_outbox db)"
  using assms by (auto simp: update_shop_outbox_def sql_update_Inr split: sum.splits)

lemma mark_failed_confirmed:
  assumes "confirmed_only db msgs"
  shows "confirmed_only (fst (autocommit env site (dao_MarkOrderTimeoutOutboxFailed ev m t) db)) msgs"
  unfolding autocommit_def
proof (rule Transaction_preserves [of "\<lambda>d. confirmed_only d msgs"])
  fix db' x
  assume "dao_MarkOrderTimeoutOutboxFailed ev m t db = Inr (db', x)"
  from outbox_update_rows [OF this [unfolded dao_MarkOrderTimeoutOutboxFailed_def]] assms
  show "confirmed_only db' msgs" by (auto simp: confirmed_only_def)
qed (fact assms)

lemma mark_published_confirmed:
  assumes "confirmed_only db msgs" and "\<exists>m\<in>set msgs. sm_MessageId m = ev"
  shows "confirmed_only (fst (autocommit env site (dao_MarkOrderTimeoutOutboxPublished ev t) db)) msgs"
  unfolding autocommit_def
proof (rule Transaction_preserves [of "\<lambda>d. confirmed_only d msgs"])
  fix db' x
  assume "dao_MarkOrderTimeoutOutboxPublished ev t db = Inr (db', x)"
  from outbox_update_rows [OF this [unfolded dao_MarkOrderTimeoutOutboxPublished_def]] assms
  show "confirmed_only db' msgs" by (auto simp: confirmed_only_def)
qed (fact assms)

lemma publishEvent_None:
  assumes "shop_publishEvent now out ev = (msg, None)"
  obtains m where "msg = Some m" "sm_MessageId m = mb_EventID ev" "out = Confirmed"
  using assms by (auto simp: shop_publishEvent_def Let_def split: sum.splits publish_outcome.splits)

lemma publish_events_confirmed:
  assumes "confirmed_only db msgs" and "publish_events env d clock out evs db msgs = (db', msgs', r)"
  shows "confirmed_only db' msgs'"
  using assms
proof (induction evs arbitrary: db msgs)
  case (Cons ev evs)
  obtain msg e where p: "shop_publishEvent (clock (mb_EventID ev)) (out (mb_EventID ev)) ev = (msg, e)" by fastforce
  show ?case
  proof (cases e)
    case None
    from p None obtain m where m: "msg = Some m" "sm_MessageId m = mb_EventID ev"
      by (auto elim: publishEvent_None)
    obtain db1 res where mk: "autocommit env (SOutboxPublished (mb_EventID ev))
      (dao_MarkOrderTimeoutOutboxPublished (mb_EventID ev) (e_now env (SOutboxPublished (mb_EventID ev)))) db = (db1, res)"
      by fastforce
    have "confirmed_only db (msgs @ [m])" by (rule confirmed_only_more [OF Cons.prems(1)]) auto
    moreover have "\<exists>m'\<in>set (msgs @ [m]). sm_MessageId m' = mb_EventID ev" using m(2) by simp
    ultimately have c: "confirmed_only db1 (msgs @ [m])"
      using mark_published_confirmed mk by (metis fst_conv)
    show ?thesis
    proof (cases res)
      case (Inl err)
      with Cons.prems(2) p None m(1) c show ?thesis by (simp add: Let_def mk)
    next
      case (Inr x)
      with Cons.prems(2) p None m(1) have "publish_events env d clock out evs db1 (msgs @ [m]) = (db', msgs', r)"
        by (simp add: Let_def mk)
      with Cons.IH [OF c] show ?thesis by simp
    qed
  next
    case (Some err)
    with Cons.prems p show ?thesis by (auto simp: Let_def intro: mark_failed_confirmed)
  qed
qed simp

lemma pending_is_cancelled:
  assumes "cancelPendingOrder env order db = Inr (db', b)" and "order \<in> set (shop_orders db)"
    and "mo_Status order = OrderStatusPending"
  shows b
proof -
  from assms(1) obtain tx n where p: "dao_PatchOrderStatus (e_now env SOrderStatus) (mo_UserID order) (mo_ID order)
      OrderStatusPending OrderStatusCancelled CancelledAt db = Inr (tx, n)" and n: "n = 0 \<or> b"
    by (auto simp: cancelPendingOrder_def stmt_Inr split: if_splits)
  note d = update_orders_D(2) [OF p [unfolded dao_PatchOrderStatus_def]]
  have "n \<noteq> 0" using assms(2,3) by (auto simp: d filter_empty_conv)
  with n show ?thesis by simp
qed

lemma expired_closes:
  assumes ok: "shop_ok db" and known: "dao_GetOrderTimeoutOutbox ev oid db \<noteq> None"
    and c: "svc_CancelExpiredOrder env ev oid db = (db', None)"
  shows "status_of db' oid \<noteq> Some OrderStatusPending"
proof -
  from c have b: "expire_body env ev oid db = Inr (db', ())"
    by (auto simp: svc_CancelExpiredOrder_def no_result_def Transaction_def split: sum.splits outcome.splits)
  have core: "shop_core no_due db" using ok by (simp add: shop_ok_split)
  show ?thesis
  proof (cases "lookup_by mo_ID oid (shop_orders db)")
    case None
    with b known have "db' = db"
      by (auto simp: expire_body_def stmt_Inr dao_GetOrderByIDForSystem_def split: if_splits)
    with None show ?thesis by (simp add: status_of_def)
  next
    case (Some order)
    have o: "order \<in> set (shop_orders db)" "mo_ID order = oid" using lookup_by_Some_D [OF Some] by simp_all
    from b known Some consider "db' = db" "mo_Status order \<noteq> OrderStatusPending"
      | d where "mo_Status order = OrderStatusPending" "cancelPendingOrder env order db = Inr (db', d)"
      by (auto simp: expire_body_def stmt_Inr dao_GetOrderByIDForSystem_def split: if_splits)
    then show ?thesis
    proof cases
      case 1
      with Some show ?thesis by (simp add: status_of_def)
    next
      case (2 d)
      with cancelPendingOrder_core [OF 2(2) core] pending_is_cancelled [OF 2(2) o(1)] o(2) show ?thesis
        by (simp add: shop_consts)
    qed
  qed
qed

interpretation shop_canceller: expired_order_canceller "svc_CancelExpiredOrder env" shop_ok
  "\<lambda>ev oid db. dao_GetOrderTimeoutOutbox ev oid db \<noteq> None" "\<lambda>oid db. status_of db oid = Some OrderStatusPending" for env
  by unfold_locales (simp add: svc_CancelExpiredOrder_def expire_exec, rule expired_closes)

section \<open>Properties\<close>

text \<open>The worker marks an event as published only when RabbitMQ confirmed a message with the id of that event,
  whatever faults the publication and the database have.\<close>

theorem shop_published_confirmed:
  assumes "confirmed_only db msgs" and "publishBatch env cfg clock out db msgs = (db', msgs', r)"
  shows "confirmed_only db' msgs'"
proof (cases "stmt env SOutboxList (Inr (dao_ListPendingOrderTimeoutOutbox (e_now env SOutboxList) (wc_PublishBatchSize cfg) db))")
  case (Inl d)
  with assms show ?thesis by (simp add: publishBatch_def)
next
  case (Inr events)
  with assms show ?thesis by (auto simp: publishBatch_def intro: publish_events_confirmed)
qed

definition demo_outbox :: "m_outbox list" where
  "demo_outbox = [\<lparr>mb_ID = 1, mb_EventID = ''e1'', mb_OrderID = 5, mb_UserID = 7, mb_TimeoutAt = 60000000,
     mb_PublishedAt = None, mb_Attempts = 0, mb_NextAttemptAt = 0, mb_LastError = []\<rparr>]"

definition demo_worker :: shop_worker_config where
  "demo_worker = \<lparr>wc_URL = ''amqp'', wc_ConnectTimeout = 1, wc_ReconnectDelay = 1, wc_OutboxPollInterval = 1,
     wc_OutboxRetryDelay = 1, wc_PublishBatchSize = 10, wc_ConsumerPrefetch = 1\<rparr>"

definition demo_batch :: "shop_db \<times> shop_message list \<times> string option" where
  "demo_batch = publishBatch calm_env demo_worker (\<lambda>_. 0) (\<lambda>_. Confirmed)
     ((empty_shop id)\<lparr>order_timeout_outbox := demo_outbox\<rparr>) []"

theorem shop_published_confirmed_witness:
  "confirmed_only (fst demo_batch) (fst (snd demo_batch)) \<and>
   map mb_PublishedAt (order_timeout_outbox (fst demo_batch)) = [Some 0] \<and> map sm_Expiration (fst (snd demo_batch)) = [''60'']"
proof -
  have "confirmed_only ((empty_shop id)\<lparr>order_timeout_outbox := demo_outbox\<rparr>) []"
    by (simp add: confirmed_only_def demo_outbox_def)
  moreover have "publishBatch calm_env demo_worker (\<lambda>_. 0) (\<lambda>_. Confirmed) ((empty_shop id)\<lparr>order_timeout_outbox := demo_outbox\<rparr>) [] =
      (fst demo_batch, fst (snd demo_batch), snd (snd demo_batch))"
    by (simp add: demo_batch_def)
  ultimately have "confirmed_only (fst demo_batch) (fst (snd demo_batch))" by (rule shop_published_confirmed)
  moreover have "map mb_PublishedAt (order_timeout_outbox (fst demo_batch)) = [Some 0]"
    "map sm_Expiration (fst (snd demo_batch)) = [''60'']" by code_simp+
  ultimately show ?thesis by simp
qed


definition demo_live :: shop_db where
  "demo_live = fst (shop_run id
    [OpUsers [7],
     OpCreateProduct calm_env \<lparr>cp_Name = ''pen'', cp_Description = [], cp_PriceFen = 250\<rparr>,
     OpOnSale calm_env \<lparr>re_get = True, re_set = True, re_del = True\<rparr> 1,
     OpInit calm_env 1 (Some 10),
     OpCreateOrder calm_env id ''a'' ''b'' 0 7 \<lparr>cr_IdempotencyKey = ''k1'', cr_Items = [(1, 3)]\<rparr>])"

definition demo_event :: timeout_event where
  "demo_event = \<lparr>te_EventID = ''b'', te_OrderID = 5, te_UserID = 7, te_TimeoutAt = 0\<rparr>"


end
