(* ===== verification/Metrics.thy ===== *)
theory Metrics
  imports Complex_Main Go_Prelude "HOL-Library.AList" "HOL-Library.Char_ord" "HOL-Library.List_Lexorder"
begin

text \<open>
  The metrics registry of \<^verbatim>\<open>internal/platform/metrics\<close>: counters, gauges and histograms by name and labels, their
  text form, and the classification of HTTP requests that bounds the labels. A Go map is an association list with
  distinct keys. A \<^verbatim>\<open>float64\<close> is a real number, or \<open>None\<close> when it is not finite; its text form
  (\<^verbatim>\<open>strconv.FormatFloat\<close>) is an argument, and sums are exact where the code rounds. A \<^verbatim>\<open>uint64\<close> counter is a natural
  number reduced modulo \<^term>\<open>2 ^ 64 :: nat\<close>. An operation returns the registry and the message of its panic, if any.
\<close>

section \<open>Registry\<close>

type_synonym labels = "(string \<times> string) list"
type_synonym go_float = "real option"

datatype metric_kind = CounterKind | GaugeKind | HistogramKind

record sample =
  sa_labels :: labels
  sa_value :: real
  sa_histogramSum :: real
  sa_histogramN :: nat
  sa_buckets :: "nat list"

record family =
  fa_name :: string
  fa_help :: string
  fa_kind :: metric_kind
  fa_bounds :: "real list"
  fa_samples :: "(string \<times> sample) list"

type_synonym registry = "(string \<times> family) list"

text \<open>The patterns of metric and label names.\<close>

definition name_start :: "char \<Rightarrow> bool" where
  "name_start c \<longleftrightarrow> (let n = (of_char c :: nat) in 97 \<le> n \<and> n \<le> 122 \<or> 65 \<le> n \<and> n \<le> 90 \<or> n = 95)"

definition metric_name_ok :: "string \<Rightarrow> bool" where
  "metric_name_ok s \<longleftrightarrow> s \<noteq> [] \<and> (name_start (hd s) \<or> hd s = CHR '':'') \<and>
    list_all (\<lambda>c. name_start c \<or> is_digit c \<or> c = CHR '':'') (tl s)"

definition label_name_ok :: "string \<Rightarrow> bool" where
  "label_name_ok s \<longleftrightarrow> s \<noteq> [] \<and> name_start (hd s) \<and> list_all (\<lambda>c. name_start c \<or> is_digit c) (tl s) \<and>
    \<not> HasPrefix s ''__''"

text \<open>\<^verbatim>\<open>normalizeLabels\<close>: the pairs by name, and the key of the sample, which writes every text with its length.\<close>

definition label_key :: "labels \<Rightarrow> string" where
  "label_key pairs = concat (map (\<lambda>(name, v).
    FormatInt (int (length name)) @ '':'' @ name @ ''='' @ FormatInt (int (length v)) @ '':'' @ v @ '';'') pairs)"

definition normalizeLabels :: "labels \<Rightarrow> string + labels \<times> string" where
  "normalizeLabels ls =
    (case List.find (\<lambda>(name, _). \<not> label_name_ok name) ls of
       Some (name, _) \<Rightarrow> Inl (''invalid metric label name: '' @ name)
     | None \<Rightarrow> let pairs = sort_key fst ls in Inr (pairs, label_key pairs))"

text \<open>\<^verbatim>\<open>normalizeBounds\<close>: finite, ascending and without repetition.\<close>

fun dedup_sorted :: "real list \<Rightarrow> real list" where
  "dedup_sorted (x # y # rest) = (if x = y then dedup_sorted (y # rest) else x # dedup_sorted (y # rest))"
| "dedup_sorted xs = xs"

definition normalizeBounds :: "go_float list \<Rightarrow> string + real list" where
  "normalizeBounds bounds =
    (if bounds = [] then Inl ''histogram bounds are required''
     else if None \<in> set bounds then Inl ''histogram bounds must be finite''
     else Inr (dedup_sorted (sort (map the bounds))))"

definition familyLocked :: "string \<Rightarrow> string \<Rightarrow> metric_kind \<Rightarrow> real list \<Rightarrow> registry \<Rightarrow> string + registry \<times> family" where
  "familyLocked name help kind bounds reg =
    (if \<not> metric_name_ok name then Inl (''invalid metric name: '' @ name)
     else if TrimSpace help = [] then Inl ''metric help is required''
     else case map_of reg name of
       None \<Rightarrow>
         let f = \<lparr>fa_name = name, fa_help = help, fa_kind = kind, fa_bounds = bounds, fa_samples = []\<rparr>
         in Inr (AList.update name f reg, f)
     | Some f \<Rightarrow>
         if fa_kind f \<noteq> kind \<or> fa_help f \<noteq> help \<or> fa_bounds f \<noteq> bounds
         then Inl (''metric family definition conflicts with existing registration: '' @ name)
         else Inr (reg, f))"

definition sampleLocked :: "labels \<Rightarrow> family \<Rightarrow> string + string \<times> sample" where
  "sampleLocked ls f =
    (case normalizeLabels ls of
       Inl m \<Rightarrow> Inl m
     | Inr (pairs, key) \<Rightarrow>
         Inr (key, case map_of (fa_samples f) key of
           Some s \<Rightarrow> s
         | None \<Rightarrow> \<lparr>sa_labels = pairs, sa_value = 0, sa_histogramSum = 0, sa_histogramN = 0,
             sa_buckets = (if fa_kind f = HistogramKind then replicate (length (fa_bounds f)) 0 else [])\<rparr>))"

text \<open>The common part of the three operations: find the family and the sample, and change the sample. A family
  that is new stays registered when the labels are refused.\<close>

definition update_metric ::
  "string \<Rightarrow> string \<Rightarrow> metric_kind \<Rightarrow> real list \<Rightarrow> labels \<Rightarrow> (family \<Rightarrow> sample \<Rightarrow> sample) \<Rightarrow> registry \<Rightarrow> registry \<times> string option" where
  "update_metric name help kind bounds ls change reg =
    (case familyLocked name help kind bounds reg of
       Inl m \<Rightarrow> (reg, Some m)
     | Inr (reg', f) \<Rightarrow>
         (case sampleLocked ls f of
            Inl m \<Rightarrow> (reg', Some m)
          | Inr (key, s) \<Rightarrow>
              (AList.update name (f\<lparr>fa_samples := AList.update key (change f s) (fa_samples f)\<rparr>) reg', None)))"

definition AddCounter :: "string \<Rightarrow> string \<Rightarrow> labels \<Rightarrow> go_float \<Rightarrow> registry \<Rightarrow> registry \<times> string option" where
  "AddCounter name help ls delta reg =
    (case delta of
       None \<Rightarrow> (reg, Some ''counter delta must be finite and non-negative'')
     | Some d \<Rightarrow>
         if d < 0 then (reg, Some ''counter delta must be finite and non-negative'')
         else update_metric name help CounterKind [] ls (\<lambda>_ s. s\<lparr>sa_value := sa_value s + d\<rparr>) reg)"

definition IncCounter :: "string \<Rightarrow> string \<Rightarrow> labels \<Rightarrow> registry \<Rightarrow> registry \<times> string option" where
  "IncCounter name help ls = AddCounter name help ls (Some 1)"

definition SetGauge :: "string \<Rightarrow> string \<Rightarrow> labels \<Rightarrow> go_float \<Rightarrow> registry \<Rightarrow> registry \<times> string option" where
  "SetGauge name help ls v reg =
    (case v of
       None \<Rightarrow> (reg, Some ''gauge value must be finite'')
     | Some x \<Rightarrow> update_metric name help GaugeKind [] ls (\<lambda>_ s. s\<lparr>sa_value := x\<rparr>) reg)"

definition inc_u64 :: "nat \<Rightarrow> nat" where
  "inc_u64 n = (n + 1) mod 2 ^ 64"

definition observe :: "real \<Rightarrow> family \<Rightarrow> sample \<Rightarrow> sample" where
  "observe x f s = s\<lparr>sa_histogramN := inc_u64 (sa_histogramN s), sa_histogramSum := sa_histogramSum s + x,
     sa_buckets := map2 (\<lambda>bound n. if x \<le> bound then inc_u64 n else n) (fa_bounds f) (sa_buckets s)\<rparr>"

definition ObserveHistogram :: "string \<Rightarrow> string \<Rightarrow> labels \<Rightarrow> go_float \<Rightarrow> go_float list \<Rightarrow> registry \<Rightarrow> registry \<times> string option" where
  "ObserveHistogram name help ls v bounds reg =
    (case v of
       None \<Rightarrow> (reg, Some ''histogram observation must be finite'')
     | Some x \<Rightarrow>
         (case normalizeBounds bounds of
            Inl m \<Rightarrow> (reg, Some m)
          | Inr normalized \<Rightarrow> update_metric name help HistogramKind normalized ls (observe x) reg))"

section \<open>Text form\<close>

definition escapeHelp :: "string \<Rightarrow> string" where
  "escapeHelp v = concat (map (\<lambda>c. if c = CHR 0x5C then [CHR 0x5C, CHR 0x5C] else if c = CHR 0x0A then [CHR 0x5C, CHR ''n''] else [c]) v)"

definition escapeLabelValue :: "string \<Rightarrow> string" where
  "escapeLabelValue v = concat (map (\<lambda>c. if c = CHR 0x5C then [CHR 0x5C, CHR 0x5C] else if c = CHR 0x0A then [CHR 0x5C, CHR ''n'']
     else if c = CHR 0x22 then [CHR 0x5C, CHR 0x22] else [c]) v)"

text \<open>\<^verbatim>\<open>sort.Slice\<close> need not be stable; the registry refuses no label called \<^verbatim>\<open>le\<close>, and for it the order of the two is open.\<close>

definition appendLabel :: "labels \<Rightarrow> string \<Rightarrow> string \<Rightarrow> labels" where
  "appendLabel ls name v = sort_key fst (ls @ [(name, v)])"

fun join_labels :: "labels \<Rightarrow> string" where
  "join_labels [] = []"
| "join_labels [(name, v)] = name @ [CHR ''='', CHR 0x22] @ escapeLabelValue v @ [CHR 0x22]"
| "join_labels ((name, v) # rest) = name @ [CHR ''='', CHR 0x22] @ escapeLabelValue v @ [CHR 0x22] @ '','' @ join_labels rest"

definition writeSample :: "(real \<Rightarrow> string) \<Rightarrow> string \<Rightarrow> labels \<Rightarrow> real \<Rightarrow> string" where
  "writeSample formatFloat name ls x =
    name @ (if ls = [] then [] else ''{'' @ join_labels ls @ ''}'') @ '' '' @ formatFloat x @ [CHR 0x0A]"

definition kind_text :: "metric_kind \<Rightarrow> string" where
  "kind_text k = (case k of CounterKind \<Rightarrow> ''counter'' | GaugeKind \<Rightarrow> ''gauge'' | HistogramKind \<Rightarrow> ''histogram'')"

definition sample_text :: "(real \<Rightarrow> string) \<Rightarrow> family \<Rightarrow> sample \<Rightarrow> string" where
  "sample_text formatFloat f s =
    (if fa_kind f = HistogramKind
     then concat (map2 (\<lambda>bound n. writeSample formatFloat (fa_name f @ ''_bucket'') (appendLabel (sa_labels s) ''le'' (formatFloat bound)) (real n))
            (fa_bounds f) (sa_buckets s)) @
          writeSample formatFloat (fa_name f @ ''_bucket'') (appendLabel (sa_labels s) ''le'' ''+Inf'') (real (sa_histogramN s)) @
          writeSample formatFloat (fa_name f @ ''_sum'') (sa_labels s) (sa_histogramSum s) @
          writeSample formatFloat (fa_name f @ ''_count'') (sa_labels s) (real (sa_histogramN s))
     else writeSample formatFloat (fa_name f) (sa_labels s) (sa_value s))"

definition Gather :: "(real \<Rightarrow> string) \<Rightarrow> registry \<Rightarrow> string" where
  "Gather formatFloat reg = concat (map (\<lambda>(_, f).
    ''# HELP '' @ fa_name f @ '' '' @ escapeHelp (fa_help f) @ [CHR 0x0A] @
    ''# TYPE '' @ fa_name f @ '' '' @ kind_text (fa_kind f) @ [CHR 0x0A] @
    concat (map (\<lambda>(_, s). sample_text formatFloat f s) (sort_key fst (fa_samples f)))) (sort_key fst reg))"

text \<open>\<^verbatim>\<open>Handler\<close>: a collector is its name and what it does to the registry, with whether it failed.\<close>

definition collector_name :: "string \<Rightarrow> string" where
  "collector_name name = (let n = TrimSpace name in if n = [] then ''unknown'' else n)"

fun run_collectors :: "(string \<times> (registry \<Rightarrow> registry \<times> bool) option) list \<Rightarrow> registry \<Rightarrow> registry" where
  "run_collectors [] reg = reg"
| "run_collectors ((_, None) # rest) reg = run_collectors rest reg"
| "run_collectors ((name, Some collect) # rest) reg =
    (let (reg', failed) = collect reg in
     run_collectors rest (if failed
       then fst (IncCounter ''go_order_metrics_collection_errors_total'' ''Total metric collection errors by collector.''
              [(''collector'', collector_name name)] reg')
       else reg'))"

definition metrics_Handler ::
  "(real \<Rightarrow> string) \<Rightarrow> (string \<times> (registry \<Rightarrow> registry \<times> bool) option) list \<Rightarrow> registry \<Rightarrow> registry \<times> string" where
  "metrics_Handler formatFloat collectors reg = (let reg' = run_collectors collectors reg in (reg', Gather formatFloat reg'))"

section \<open>HTTP\<close>

definition StatusClass :: "int \<Rightarrow> string" where
  "StatusClass status =
    (if status \<le> 0 then ''none''
     else let c = go_div status 100 in if c < 1 \<or> c > 5 then ''other'' else FormatInt c @ ''xx'')"

definition route_groups :: "(string \<times> string) list" where
  "route_groups =
    [(''/api/v1/auth'', ''api_auth''), (''/api/v1/users'', ''api_users''), (''/api/v1/products'', ''api_products''),
     (''/api/v1/inventory'', ''api_inventory''), (''/api/v1/stock-logs'', ''api_stock_logs''), (''/api/v1/orders'', ''api_orders''),
     (''/internal/v1/operations'', ''internal_operations''), (''/internal/v1/users'', ''internal_users''),
     (''/internal/v1/products'', ''internal_products''), (''/internal/v1/inventory'', ''internal_inventory''),
     (''/internal/v1/orders'', ''internal_orders''), (''/internal/v1'', ''internal_other'')]"

definition RouteGroup :: "string \<Rightarrow> string" where
  "RouteGroup path =
    (let clean = TrimSpace path in
     if clean = ''/ping'' then ''ping'' else if clean = ''/live'' then ''live''
     else if clean = ''/readyz'' then ''readyz'' else if clean = ''/metrics'' then ''metrics''
     else case List.find (\<lambda>(prefix, _). clean = prefix \<or> HasPrefix clean (prefix @ ''/'')) route_groups of
       Some (_, name) \<Rightarrow> name
     | None \<Rightarrow> ''unmatched'')"

definition boundedMethod :: "string \<Rightarrow> string" where
  "boundedMethod m = (if m \<in> {''GET'', ''POST'', ''PUT'', ''PATCH'', ''DELETE'', ''HEAD'', ''OPTIONS''} then m else ''OTHER'')"

definition boundedOutcome :: "string \<Rightarrow> string" where
  "boundedOutcome r = (if r \<in> {''success'', ''transport_error'', ''http_error'', ''circuit_open''} then r else ''other'')"

definition boundedValue :: "string \<Rightarrow> string" where
  "boundedValue v0 = (let v = TrimSpace v0 in if v = [] then ''unknown'' else if length v > 80 then take 80 v else v)"

definition durationBuckets :: "go_float list" where
  "durationBuckets = map Some [5 / 1000, 1 / 100, 25 / 1000, 5 / 100, 1 / 10, 25 / 100, 5 / 10, 1, 25 / 10, 5, 10]"

text \<open>The recorder: the status it remembers, the statuses it passes on, and the bytes written.\<close>

record response_recorder =
  rr_status :: int
  rr_passed :: "int list"
  rr_bytes :: int

definition new_recorder :: response_recorder where
  "new_recorder = \<lparr>rr_status = 200, rr_passed = [], rr_bytes = 0\<rparr>"

definition recorder_WriteHeader :: "int \<Rightarrow> response_recorder \<Rightarrow> response_recorder" where
  "recorder_WriteHeader status rec =
    (if rr_status rec \<noteq> 200 \<or> status = 200 then rec
     else rec\<lparr>rr_status := status, rr_passed := rr_passed rec @ [status]\<rparr>)"

definition recorder_Write :: "int \<Rightarrow> response_recorder \<Rightarrow> response_recorder" where
  "recorder_Write written rec = rec\<lparr>rr_bytes := wrap64 (rr_bytes rec + written)\<rparr>"

text \<open>\<^verbatim>\<open>InstrumentHTTP\<close> after the inner handler ran on a request that is not for \<^verbatim>\<open>/metrics\<close>; \<open>seconds\<close> is the measured
  duration. A panic of an operation ends the function.\<close>

definition and_observe :: "registry \<times> string option \<Rightarrow> (registry \<Rightarrow> registry \<times> string option) \<Rightarrow> registry \<times> string option" where
  "and_observe r k = (case r of (reg, Some m) \<Rightarrow> (reg, Some m) | (reg, None) \<Rightarrow> k reg)"

definition request_labels :: "string \<Rightarrow> string \<Rightarrow> string \<Rightarrow> int \<Rightarrow> labels" where
  "request_labels service verb path status =
    [(''service'', service), (''method'', boundedMethod verb), (''route_group'', RouteGroup path), (''status_class'', StatusClass status)]"

definition record_request :: "string \<Rightarrow> string \<Rightarrow> string \<Rightarrow> response_recorder \<Rightarrow> real \<Rightarrow> registry \<Rightarrow> registry \<times> string option" where
  "record_request service verb path rec seconds reg =
    (let ls = request_labels service verb path (rr_status rec) in
     and_observe (IncCounter ''go_order_http_server_requests_total''
       ''Total HTTP server requests by service, method, route group and status class.'' ls reg) (\<lambda>reg.
     and_observe (AddCounter ''go_order_http_server_response_bytes_total''
       ''Total HTTP response bytes by service, method, route group and status class.'' ls (Some (of_int (rr_bytes rec))) reg) (\<lambda>reg.
     ObserveHistogram ''go_order_http_server_request_duration_seconds''
       ''HTTP server request duration in seconds by service, method, route group and status class.'' ls (Some seconds) durationBuckets reg)))"

definition RecordHTTPClientAttempt ::
  "string \<Rightarrow> string \<Rightarrow> string \<Rightarrow> int \<Rightarrow> bool \<Rightarrow> real \<Rightarrow> registry \<Rightarrow> registry \<times> string option" where
  "RecordHTTPClientAttempt upstream operation result status retryable seconds reg =
    (let ls = [(''upstream'', boundedValue upstream), (''operation'', boundedValue operation), (''outcome'', boundedOutcome result),
               (''status_class'', StatusClass status), (''retryable'', if retryable then ''true'' else ''false'')] in
     and_observe (IncCounter ''go_order_http_client_attempts_total''
       ''Total upstream HTTP attempts by upstream, operation, outcome, status class and retryability.'' ls reg) (\<lambda>reg.
     ObserveHistogram ''go_order_http_client_attempt_duration_seconds''
       ''Upstream HTTP attempt duration in seconds by upstream, operation, outcome, status class and retryability.'' ls (Some seconds)
       durationBuckets reg))"

definition RecordCircuitRejection :: "string \<Rightarrow> string \<Rightarrow> registry \<Rightarrow> registry \<times> string option" where
  "RecordCircuitRejection upstream operation =
    IncCounter ''go_order_http_client_circuit_rejections_total''
      ''Total upstream HTTP requests rejected before network I/O because a circuit was open.''
      [(''upstream'', boundedValue upstream), (''operation'', boundedValue operation)]"

text \<open>\<^verbatim>\<open>InstrumentHTTP\<close>: \<open>serve\<close> is what the inner handler does to the recorder it is given.\<close>

definition InstrumentHTTP ::
  "(real \<Rightarrow> string) \<Rightarrow> string \<Rightarrow> (response_recorder \<Rightarrow> response_recorder) \<Rightarrow> (string \<times> (registry \<Rightarrow> registry \<times> bool) option) list \<Rightarrow>
   string \<Rightarrow> string \<Rightarrow> real \<Rightarrow> registry \<Rightarrow> registry \<times> string option" where
  "InstrumentHTTP formatFloat service serve collectors verb path seconds reg =
    (if path = ''/metrics'' then (fst (metrics_Handler formatFloat collectors reg), None)
     else record_request service verb path (serve new_recorder) seconds reg)"

text \<open>The labels of a request take finitely many values, whatever the client sends.\<close>

lemma find_mem: "List.find P xs = Some x \<Longrightarrow> x \<in> set xs"
  by (induction xs) (auto split: if_splits)

lemma RouteGroup_bounded:
  "RouteGroup path \<in> set ([''ping'', ''live'', ''readyz'', ''metrics'', ''unmatched''] @ map snd route_groups)"
proof (cases "List.find (\<lambda>(prefix, _). TrimSpace path = prefix \<or> HasPrefix (TrimSpace path) (prefix @ ''/'')) route_groups")
  case None
  then show ?thesis by (simp add: RouteGroup_def Let_def)
next
  case (Some g)
  then have "g \<in> set route_groups" by (rule find_mem)
  then have "snd g \<in> snd ` set route_groups" by simp
  with Some show ?thesis by (cases g) (auto simp: RouteGroup_def Let_def)
qed

lemma StatusClass_bounded: "StatusClass status \<in> {''none'', ''other'', ''1xx'', ''2xx'', ''3xx'', ''4xx'', ''5xx''}"
proof (cases "status \<le> 0 \<or> go_div status 100 < 1 \<or> go_div status 100 > 5")
  case False
  then consider "go_div status 100 = 1" | "go_div status 100 = 2" | "go_div status 100 = 3" | "go_div status 100 = 4" | "go_div status 100 = 5"
    by linarith
  moreover have "FormatInt 1 = ''1''" "FormatInt 2 = ''2''" "FormatInt 3 = ''3''" "FormatInt 4 = ''4''" "FormatInt 5 = ''5''"
    by code_simp+
  ultimately show ?thesis using False by cases (simp_all add: StatusClass_def)
qed (auto simp: StatusClass_def Let_def)

lemma boundedMethod_bounded:
  "boundedMethod m \<in> {''GET'', ''POST'', ''PUT'', ''PATCH'', ''DELETE'', ''HEAD'', ''OPTIONS'', ''OTHER''}"
  by (simp add: boundedMethod_def)

section \<open>Well-formed registries\<close>

text \<open>A sample belongs to its labels; a counter is not negative; the buckets of a histogram are cumulative and
  none exceeds the number of observations, itself at most the number \<open>n\<close> of operations.\<close>

definition sample_ok :: "nat \<Rightarrow> family \<Rightarrow> string \<Rightarrow> sample \<Rightarrow> bool" where
  "sample_ok n f key s \<longleftrightarrow> key = label_key (sa_labels s) \<and> sorted (map fst (sa_labels s)) \<and>
    list_all (\<lambda>(name, _). label_name_ok name) (sa_labels s) \<and>
    (fa_kind f = CounterKind \<longrightarrow> 0 \<le> sa_value s) \<and>
    (fa_kind f = HistogramKind \<longrightarrow> length (sa_buckets s) = length (fa_bounds f) \<and> sorted (sa_buckets s) \<and>
      list_all (\<lambda>k. k \<le> sa_histogramN s) (sa_buckets s) \<and> sa_histogramN s \<le> n)"

definition family_ok :: "nat \<Rightarrow> string \<Rightarrow> family \<Rightarrow> bool" where
  "family_ok n name f \<longleftrightarrow> fa_name f = name \<and> metric_name_ok name \<and> sorted (fa_bounds f) \<and> distinct (fa_bounds f) \<and>
    distinct (map fst (fa_samples f)) \<and> list_all (\<lambda>(key, s). sample_ok n f key s) (fa_samples f)"

definition registry_ok :: "nat \<Rightarrow> registry \<Rightarrow> bool" where
  "registry_ok n reg \<longleftrightarrow> distinct (map fst reg) \<and> list_all (\<lambda>(name, f). family_ok n name f) reg"

lemma list_all_update:
  "list_all (\<lambda>(k, v). P k v) xs \<Longrightarrow> P k v \<Longrightarrow> list_all (\<lambda>(k, v). P k v) (AList.update k v xs)"
  by (induction xs) auto

lemma registry_ok_update: "registry_ok n reg \<Longrightarrow> family_ok n name f \<Longrightarrow> registry_ok n (AList.update name f reg)"
  by (simp add: registry_ok_def distinct_update list_all_update)

lemma registry_ok_lookup: "registry_ok n reg \<Longrightarrow> map_of reg name = Some f \<Longrightarrow> family_ok n name f"
  by (auto simp: registry_ok_def list_all_iff dest: map_of_SomeD)

lemma family_ok_lookup: "family_ok n name f \<Longrightarrow> map_of (fa_samples f) key = Some s \<Longrightarrow> sample_ok n f key s"
  by (auto simp: family_ok_def list_all_iff dest: map_of_SomeD)

lemma sample_ok_family: "sample_ok n (f\<lparr>fa_samples := xs\<rparr>) key s = sample_ok n f key s"
  by (simp add: sample_ok_def)

lemma family_ok_update:
  assumes "family_ok n name f" and "sample_ok n f key s"
  shows "family_ok n name (f\<lparr>fa_samples := AList.update key s (fa_samples f)\<rparr>)"
  using assms list_all_update [of "sample_ok n f" "fa_samples f" key s]
  by (simp add: family_ok_def distinct_update sample_ok_family)

lemma familyLocked_ok:
  assumes "familyLocked name help kind bounds reg = Inr (reg', f)" and "registry_ok n reg"
    and "sorted bounds" "distinct bounds"
  shows "registry_ok n reg' \<and> family_ok n name f \<and> fa_kind f = kind \<and> fa_bounds f = bounds"
proof (cases "map_of reg name")
  case None
  with assms(1) have f: "f = \<lparr>fa_name = name, fa_help = help, fa_kind = kind, fa_bounds = bounds, fa_samples = []\<rparr>"
    "reg' = AList.update name f reg" "metric_name_ok name"
    by (auto simp: familyLocked_def Let_def split: if_splits)
  then have "family_ok n name f" using assms(3,4) by (simp add: family_ok_def)
  with f assms(2) show ?thesis by (simp add: registry_ok_update)
next
  case (Some g)
  with assms(1) have "f = g" "reg' = reg" "fa_kind g = kind" "fa_bounds g = bounds"
    by (auto simp: familyLocked_def split: if_splits)
  with registry_ok_lookup [OF assms(2) Some] assms(2) show ?thesis by simp
qed

lemma normalizeLabels_ok:
  assumes "normalizeLabels ls = Inr (pairs, key)"
  shows "pairs = sort_key fst ls \<and> key = label_key pairs \<and> list_all (\<lambda>(name, _). label_name_ok name) pairs"
  using assms by (force simp: normalizeLabels_def Let_def find_None_iff list_all_iff split: option.splits)

lemma sampleLocked_ok:
  assumes "sampleLocked ls f = Inr (key, s)" and "family_ok n name f"
  shows "sample_ok n f key s"
proof -
  from assms(1) obtain pairs where n: "normalizeLabels ls = Inr (pairs, key)"
    by (auto simp: sampleLocked_def split: sum.splits)
  show ?thesis
  proof (cases "map_of (fa_samples f) key")
    case None
    with assms(1) n normalizeLabels_ok [OF n] show ?thesis
      by (auto simp: sampleLocked_def sample_ok_def list_all_iff [of "\<lambda>n. n = 0"])
  next
    case (Some t)
    with assms(1) n have "s = t" by (simp add: sampleLocked_def)
    with family_ok_lookup [OF assms(2) Some] show ?thesis by simp
  qed
qed

lemma sample_ok_mono: "sample_ok n f key s \<Longrightarrow> n \<le> m \<Longrightarrow> sample_ok m f key s"
  by (auto simp: sample_ok_def)

lemma family_ok_mono: "family_ok n name f \<Longrightarrow> n \<le> m \<Longrightarrow> family_ok m name f"
  by (auto simp: family_ok_def list_all_iff intro: sample_ok_mono)

lemma registry_ok_mono: "registry_ok n reg \<Longrightarrow> n \<le> m \<Longrightarrow> registry_ok m reg"
  by (auto simp: registry_ok_def list_all_iff intro: family_ok_mono)

lemma update_metric_ok:
  assumes "registry_ok n reg" and "sorted bounds" "distinct bounds"
    and "\<And>f key s. fa_kind f = kind \<Longrightarrow> fa_bounds f = bounds \<Longrightarrow> sample_ok n f key s \<Longrightarrow> sample_ok (n + 1) f key (change f s)"
  shows "registry_ok (n + 1) (fst (update_metric name help kind bounds ls change reg))"
proof (cases "familyLocked name help kind bounds reg")
  case (Inl m)
  with registry_ok_mono [OF assms(1), of "n + 1"] show ?thesis by (simp add: update_metric_def)
next
  case (Inr p)
  obtain reg' f where p: "p = (reg', f)" by fastforce
  note fam = familyLocked_ok [OF Inr [unfolded p] assms(1-3)]
  then have later: "registry_ok (n + 1) reg'" using registry_ok_mono [of n reg' "n + 1"] by simp
  show ?thesis
  proof (cases "sampleLocked ls f")
    case (Inl m)
    with Inr p later show ?thesis by (simp add: update_metric_def)
  next
    case inr2: (Inr q)
    obtain key s where q: "q = (key, s)" by fastforce
    have "sample_ok (n + 1) f key (change f s)"
      using assms(4) fam sampleLocked_ok [OF inr2 [unfolded q]] by blast
    moreover have "family_ok (n + 1) name f"
      using family_ok_mono [of n name f "n + 1"] fam by simp
    ultimately show ?thesis using later Inr p inr2 q
      by (simp add: update_metric_def registry_ok_update family_ok_update)
  qed
qed

lemma dedup_sorted_ok:
  "sorted xs \<Longrightarrow> set (dedup_sorted xs) = set xs \<and> sorted (dedup_sorted xs) \<and> distinct (dedup_sorted xs)"
  by (induction xs rule: dedup_sorted.induct) (auto simp: less_le)

lemma normalizeBounds_ok: "normalizeBounds bounds = Inr bs \<Longrightarrow> sorted bs \<and> distinct bs"
  by (auto simp: normalizeBounds_def dedup_sorted_ok split: if_splits)

lemma observe_buckets:
  assumes "sorted bounds" "length ks = length bounds" "sorted ks" "list_all (\<lambda>k. k < 2 ^ 64 - 1) ks"
  shows "sorted (map2 (\<lambda>bound k. if x \<le> bound then inc_u64 k else k) bounds ks)"
  using assms
proof (induction bounds arbitrary: ks)
  case (Cons b bounds)
  then obtain k ks' where ks: "ks = k # ks'" by (cases ks) auto
  have "(if x \<le> b then inc_u64 k else k) \<le> (if x \<le> b' then inc_u64 k' else k')" if "(b', k') \<in> set (zip bounds ks')" for b' k'
  proof -
    from that have "b' \<in> set bounds" "k' \<in> set ks'" by (auto dest: set_zip_leftD set_zip_rightD)
    with Cons.prems ks show ?thesis by (auto simp: inc_u64_def list_all_iff)
  qed
  with Cons ks show ?case by auto
qed simp

lemma observe_ok:
  assumes "sample_ok n f key s" "fa_kind f = HistogramKind" "sorted (fa_bounds f)" "n + 1 < 2 ^ 64"
  shows "sample_ok (n + 1) f key (observe x f s)"
proof -
  have le: "k \<le> sa_histogramN s" "sa_histogramN s \<le> n" if "k \<in> set (sa_buckets s)" for k
    using assms(1,2) that by (auto simp: sample_ok_def list_all_iff)
  have "list_all (\<lambda>k. k < 2 ^ 64 - 1) (sa_buckets s)"
    using le assms(4) by (fastforce simp: list_all_iff)
  then have "sorted (sa_buckets (observe x f s))"
    using observe_buckets [OF assms(3)] assms(1,2) by (simp add: observe_def sample_ok_def)
  moreover have "(if x \<le> b then inc_u64 k else k) \<le> inc_u64 (sa_histogramN s)" if "(b, k) \<in> set (zip (fa_bounds f) (sa_buckets s))" for b k
    using le [OF set_zip_rightD [OF that]] assms(4) by (auto simp: inc_u64_def)
  ultimately show ?thesis using assms by (auto simp: sample_ok_def observe_def list_all_iff inc_u64_def)
qed

section \<open>Runs of the registry\<close>

datatype metric_op =
    OpAdd string string labels go_float
  | OpGauge string string labels go_float
  | OpObserve string string labels go_float "go_float list"

fun metric_exec :: "metric_op \<Rightarrow> registry \<Rightarrow> registry" where
  "metric_exec (OpAdd name help ls d) reg = fst (AddCounter name help ls d reg)"
| "metric_exec (OpGauge name help ls v) reg = fst (SetGauge name help ls v reg)"
| "metric_exec (OpObserve name help ls v bounds) reg = fst (ObserveHistogram name help ls v bounds reg)"

lemma AddCounter_ok: "registry_ok n reg \<Longrightarrow> registry_ok (n + 1) (fst (AddCounter name help ls d reg))"
proof -
  assume reg: "registry_ok n reg"
  have "registry_ok (n + 1) (fst (update_metric name help CounterKind [] ls (\<lambda>_ s. s\<lparr>sa_value := sa_value s + x\<rparr>) reg))"
    if "0 \<le> x" for x
    using that by (intro update_metric_ok reg) (auto simp: sample_ok_def)
  with registry_ok_mono [OF reg, of "n + 1"] show ?thesis by (auto simp: AddCounter_def split: option.splits)
qed

lemma SetGauge_ok: "registry_ok n reg \<Longrightarrow> registry_ok (n + 1) (fst (SetGauge name help ls v reg))"
proof -
  assume reg: "registry_ok n reg"
  have "registry_ok (n + 1) (fst (update_metric name help GaugeKind [] ls (\<lambda>_ s. s\<lparr>sa_value := x\<rparr>) reg))" for x
    by (intro update_metric_ok reg) (auto simp: sample_ok_def)
  with registry_ok_mono [OF reg, of "n + 1"] show ?thesis by (auto simp: SetGauge_def split: option.splits)
qed

lemma ObserveHistogram_ok:
  assumes reg: "registry_ok n reg" and small: "n + 1 < 2 ^ 64"
  shows "registry_ok (n + 1) (fst (ObserveHistogram name help ls v bounds reg))"
proof -
  have "registry_ok (n + 1) (fst (update_metric name help HistogramKind bs ls (observe x) reg))"
    if "sorted bs" "distinct bs" for bs x
    using observe_ok [OF _ _ _ small] that by (intro update_metric_ok reg) auto
  with registry_ok_mono [OF reg, of "n + 1"] normalizeBounds_ok [of bounds] show ?thesis
    by (auto simp: ObserveHistogram_def split: option.splits sum.splits)
qed

lemma metric_exec_ok: "registry_ok n reg \<Longrightarrow> n + 1 < 2 ^ 64 \<Longrightarrow> registry_ok (n + 1) (metric_exec m reg)"
  by (cases m) (simp_all only: metric_exec.simps AddCounter_ok SetGauge_ok ObserveHistogram_ok)

lemma fold_metric_ok: "registry_ok n reg \<Longrightarrow> n + length ms < 2 ^ 64 \<Longrightarrow> registry_ok (n + length ms) (fold metric_exec ms reg)"
proof (induction ms arbitrary: n reg)
  case (Cons m ms)
  then have "registry_ok (n + 1) (metric_exec m reg)" by (intro metric_exec_ok) simp_all
  from Cons.IH [OF this] Cons.prems(2) show ?case by simp
qed simp

text \<open>C31. Whatever operations reach the registry, in any order and with any arguments, accepted or refused by a
  panic: every family has a valid name and ascending bounds without repetition; every sample is filed under its own
  labels, which are sorted and have valid names; no counter is negative; the buckets of a histogram are cumulative
  and none exceeds the count of the observations, for as long as fewer than \<^term>\<open>2 ^ 64 :: nat\<close> operations ran.\<close>

theorem registry_invariant:
  assumes "length ms < 2 ^ 64"
  shows "registry_ok (length ms) (fold metric_exec ms [])"
  using fold_metric_ok [of 0 "[]" ms] assms by (simp add: registry_ok_def)

theorem registry_invariant_witness:
  "registry_ok (Suc (Suc (Suc (Suc 0)))) (fold metric_exec
     [OpObserve ''d'' ''h'' [(''b'', ''2''), (''a'', ''1'')] (Some 3) [Some 5, Some 1, Some 5], OpAdd ''n'' ''h'' [] (Some 1),
      OpAdd ''d'' ''h'' [] (Some 1), OpGauge ''9'' ''h'' [] None] [])"
  using registry_invariant [of "[OpObserve ''d'' ''h'' [(''b'', ''2''), (''a'', ''1'')] (Some 3) [Some 5, Some 1, Some 5],
      OpAdd ''n'' ''h'' [] (Some 1), OpAdd ''d'' ''h'' [] (Some 1), OpGauge ''9'' ''h'' [] None]"]
  by (simp del: metric_exec.simps)

section \<open>Labels identify samples\<close>

lemma colon_notin: "CHR '':'' \<notin> set (FormatInt (int n))"
  by (simp add: FormatInt_def format_nat_notin is_digit_def)

lemma sized_read:
  "FormatInt (int (length a)) @ '':'' @ a @ u = FormatInt (int (length b)) @ '':'' @ b @ v \<longleftrightarrow> a = b \<and> u = v"
  using read_off [OF colon_notin [of "length a"] colon_notin [of "length b"], of "a @ u" "b @ v"] by (auto simp: FormatInt_inj)

lemma label_key_inj: "label_key ps = label_key qs \<longleftrightarrow> ps = qs"
proof (induction ps arbitrary: qs)
  case Nil
  show ?case by (cases qs) (auto simp: label_key_def)
next
  case (Cons p ps)
  show ?case
  proof (cases qs)
    case Nil
    then show ?thesis by (cases p) (auto simp: label_key_def)
  next
    case (Cons q qs')
    have step: "label_key ((k, v) # rs) = FormatInt (int (length k)) @ '':'' @ k @ CHR ''='' #
        (FormatInt (int (length v)) @ '':'' @ v @ CHR '';'' # label_key rs)" for k v rs
      by (simp add: label_key_def)
    obtain a b c d where "p = (a, b)" "q = (c, d)" by fastforce
    with Cons Cons.IH show ?thesis
      using sized_read [of b "CHR '';'' # label_key ps" d "CHR '';'' # label_key qs'"]
        sized_read [of a _ c] by (simp add: step)
  qed
qed

lemma sort_labels_eq:
  assumes "distinct (map fst ls)" "distinct (map fst ls')"
  shows "sort_key fst ls = sort_key fst ls' \<longleftrightarrow> set ls = set ls'"
proof
  assume eq: "set ls = set ls'"
  have "inj_on fst (set ls)" using assms(1) by (simp add: distinct_map)
  moreover have "distinct (map fst (sort_key fst ls))" "distinct (map fst (sort_key fst ls'))"
    using assms by (simp_all add: distinct_map)
  ultimately show "sort_key fst ls = sort_key fst ls'"
    using map_sorted_distinct_set_unique [of fst "sort_key fst ls" "sort_key fst ls'"] eq by simp
qed (metis set_sort)

definition metric_sample :: "registry \<Rightarrow> string \<Rightarrow> labels \<Rightarrow> sample option" where
  "metric_sample reg name ls = (case map_of reg name of
     None \<Rightarrow> None | Some f \<Rightarrow> map_of (fa_samples f) (label_key (sort_key fst ls)))"

definition counter_value :: "registry \<Rightarrow> string \<Rightarrow> labels \<Rightarrow> real" where
  "counter_value reg name ls = (case metric_sample reg name ls of None \<Rightarrow> 0 | Some s \<Rightarrow> sa_value s)"

lemma update_metric_sample:
  assumes "update_metric name help kind bounds ls change reg = (reg', None)"
    and "distinct (map fst ls)" "distinct (map fst ls')"
  shows "metric_sample reg' name' ls' =
    (if name' = name \<and> set ls' = set ls
     then Some (let f = (case map_of reg name of Some f \<Rightarrow> f | None \<Rightarrow> \<lparr>fa_name = name, fa_help = help, fa_kind = kind, fa_bounds = bounds, fa_samples = []\<rparr>)
                in change f (case metric_sample reg name ls of Some s \<Rightarrow> s
                  | None \<Rightarrow> \<lparr>sa_labels = sort_key fst ls, sa_value = 0, sa_histogramSum = 0, sa_histogramN = 0,
                      sa_buckets = (if kind = HistogramKind then replicate (length bounds) 0 else [])\<rparr>))
     else metric_sample reg name' ls')"
proof -
  from assms(1) obtain reg1 f key s where fam: "familyLocked name help kind bounds reg = Inr (reg1, f)"
    and smp: "sampleLocked ls f = Inr (key, s)"
    and reg': "reg' = AList.update name (f\<lparr>fa_samples := AList.update key (change f s) (fa_samples f)\<rparr>) reg1"
    by (auto simp: update_metric_def split: sum.splits prod.splits)
  have f: "f = (case map_of reg name of Some f \<Rightarrow> f | None \<Rightarrow> \<lparr>fa_name = name, fa_help = help, fa_kind = kind, fa_bounds = bounds, fa_samples = []\<rparr>)"
    "fa_kind f = kind" "fa_bounds f = bounds"
    and reg1: "name' \<noteq> name \<Longrightarrow> map_of reg1 name' = map_of reg name'"
    using fam by (auto simp: familyLocked_def Let_def update_conv split: if_splits option.splits)
  from smp obtain pairs where n: "normalizeLabels ls = Inr (pairs, key)"
    by (auto simp: sampleLocked_def split: sum.splits)
  then have key: "key = label_key (sort_key fst ls)" "pairs = sort_key fst ls" using normalizeLabels_ok [OF n] by auto
  have old: "metric_sample reg name l = map_of (fa_samples f) (label_key (sort_key fst l))" for l
    using f(1) by (simp add: metric_sample_def split: option.splits)
  have s: "s = (case metric_sample reg name ls of Some s \<Rightarrow> s
      | None \<Rightarrow> \<lparr>sa_labels = sort_key fst ls, sa_value = 0, sa_histogramSum = 0, sa_histogramN = 0,
          sa_buckets = (if kind = HistogramKind then replicate (length bounds) 0 else [])\<rparr>)"
    using smp n key f(2,3) by (auto simp: sampleLocked_def old)
  show ?thesis
  proof (cases "name' = name")
    case True
    then have "metric_sample reg' name' ls' = ((map_of (fa_samples f))(key \<mapsto> change f s)) (label_key (sort_key fst ls'))"
      by (simp add: reg' metric_sample_def update_conv)
    then show ?thesis using True sort_labels_eq [OF assms(2,3)] s f(1)
      by (auto simp: key label_key_inj old Let_def)
  next
    case False
    then show ?thesis by (simp add: reg' metric_sample_def update_conv reg1)
  qed
qed

text \<open>A counter counts exactly what was added to it: an accepted addition to a counter changes the value of the
  counter with that name and those labels by the amount, and of no other name or set of labels, however the values
  of the labels are written.\<close>

theorem counter_effect:
  assumes "AddCounter name help ls (Some d) reg = (reg', None)"
    and "distinct (map fst ls)" and "distinct (map fst ls')"
  shows "counter_value reg' name' ls' = counter_value reg name' ls' + (if name' = name \<and> set ls' = set ls then d else 0)"
proof -
  have "metric_sample reg name ls' = metric_sample reg name ls" if "set ls' = set ls"
    using sort_labels_eq [OF assms(2,3)] that by (simp add: metric_sample_def split: option.split)
  moreover have "update_metric name help CounterKind [] ls (\<lambda>_ s. s\<lparr>sa_value := sa_value s + d\<rparr>) reg = (reg', None)"
    using assms(1) by (simp add: AddCounter_def split: if_splits)
  note update_metric_sample [OF this assms(2,3), of name']
  ultimately show ?thesis by (auto simp: counter_value_def Let_def split: option.splits)
qed

theorem counter_effect_witness:
  "counter_value (fst (AddCounter ''n'' ''h'' [(''a'', ''1''), (''b'', ''2'')] (Some 3) [])) ''n'' [(''b'', ''2''), (''a'', ''1'')] = 3 \<and>
   counter_value (fst (AddCounter ''n'' ''h'' [(''a'', ''1''), (''b'', ''2'')] (Some 3) [])) ''n'' [(''a'', ''1;1:b=1:2'')] = 0"
proof -
  have described: "TrimSpace ''h'' \<noteq> []" by code_simp
  have ok: "AddCounter ''n'' ''h'' [(''a'', ''1''), (''b'', ''2'')] (Some 3) [] =
      (fst (AddCounter ''n'' ''h'' [(''a'', ''1''), (''b'', ''2'')] (Some 3) []), None)"
    by (simp add: AddCounter_def update_metric_def familyLocked_def sampleLocked_def normalizeLabels_def described
        metric_name_ok_def label_name_ok_def name_start_def is_digit_def HasPrefix_def Let_def)
  have empty: "counter_value [] name ls = 0" for name ls by (simp add: counter_value_def metric_sample_def)
  show ?thesis
    using counter_effect [OF ok, of "[(''b'', ''2''), (''a'', ''1'')]" "''n''"] counter_effect [OF ok, of "[(''a'', ''1;1:b=1:2'')]" "''n''"]
    by (auto simp: empty)
qed

end
