(* ===== verification/Reliability.thy ===== *)
theory Reliability
  imports Timeout_Correct Metrics
begin

text \<open>
  The reliability indicators of the order service: \<^verbatim>\<open>internal/ordersvc/reliability_indicators.go\<close>,
  \<^verbatim>\<open>reliability_routes.go\<close> and \<^verbatim>\<open>prometheus_metrics.go\<close>. Two queries count the timeout outbox and the orders; the
  counts are served as a snapshot and set as gauges of the metrics registry. The queries are not one transaction, so
  each has its own state of the database. A duration in seconds is taken to be exact where the code divides in
  \<^verbatim>\<open>float64\<close>.
\<close>

section \<open>Snapshot\<close>

record OutboxStatusIndicators =
  osi_Pending :: int
  osi_Failed :: int
  osi_Published :: int
  osi_Completed :: int

record OutboxIndicators =
  oi_ByStatus :: OutboxStatusIndicators
  oi_Leased :: int
  oi_RetryReady :: int
  oi_Overdue :: int
  oi_OldestActionableAgeSeconds :: int
  oi_MaximumAttempts :: int
  oi_TotalFailedAttempts :: int

record OrderStatusIndicators =
  st_Reserving :: int
  st_Pending :: int
  st_Paying :: int
  st_Paid :: int
  st_Cancelling :: int
  st_Cancelled :: int
  st_Finished :: int
  st_Failed :: int
  st_ReconciliationRequired :: int

record OrderSagaIndicators =
  sg_ByStatus :: OrderStatusIndicators
  sg_ReconciliationRequired :: int
  sg_OldestReconciliationAgeSeconds :: int
  sg_StuckTransient :: int
  sg_TransientStuckThresholdSeconds :: int

record ReliabilitySnapshot =
  rs_CollectedAt :: time
  rs_QueryDurationMS :: int
  rs_Outbox :: OutboxIndicators
  rs_Orders :: OrderSagaIndicators

datatype report_site = OutboxCounts | OrderCounts

text \<open>\<^verbatim>\<open>NewReliabilityReporter\<close> keeps the threshold, five minutes unless a positive one is given.\<close>

definition NewReliabilityReporter :: "bool \<Rightarrow> duration \<Rightarrow> string + duration" where
  "NewReliabilityReporter hasDb stuckThreshold =
    (if \<not> hasDb then Inl ''reliability reporter database is required''
     else Inr (if stuckThreshold \<le> 0 then 300000000000 else stuckThreshold))"

text \<open>\<^verbatim>\<open>COALESCE(SUM(p), 0)\<close>, \<^verbatim>\<open>MIN\<close> and \<^verbatim>\<open>COALESCE(MAX(x), 0)\<close> over the rows of a table.\<close>

definition count_rows :: "('r \<Rightarrow> bool) \<Rightarrow> 'r list \<Rightarrow> int" where
  "count_rows p rows = int (length (filter p rows))"

definition min_row :: "int list \<Rightarrow> int option" where
  "min_row xs = (case xs of [] \<Rightarrow> None | x # rest \<Rightarrow> Some (fold min rest x))"

definition max_row :: "int list \<Rightarrow> int" where
  "max_row xs = (case xs of [] \<Rightarrow> 0 | x # rest \<Rightarrow> fold max rest x)"

definition ageSeconds :: "time \<Rightarrow> time option \<Rightarrow> int" where
  "ageSeconds now t0 = (case t0 of None \<Rightarrow> 0 | Some t \<Rightarrow> if now < t then 0 else go_div (now - t) 1000000000)"

definition outbox_indicators :: "time \<Rightarrow> ordering_db \<Rightarrow> OutboxIndicators" where
  "outbox_indicators now db =
    (let rows = order_timeout_outbox_v2 db;
         is_status = (\<lambda>s e. to_Status e = s);
         actionable = (\<lambda>e. to_Status e \<in> {OutboxPending, OutboxFailed})
     in \<lparr>oi_ByStatus =
           \<lparr>osi_Pending = count_rows (is_status OutboxPending) rows, osi_Failed = count_rows (is_status OutboxFailed) rows,
            osi_Published = count_rows (is_status OutboxPublished) rows, osi_Completed = count_rows (is_status OutboxCompleted) rows\<rparr>,
         oi_Leased = count_rows (\<lambda>e. ord_collate db (to_LeaseOwner e) \<noteq> ord_collate db [] \<and>
           (case to_LeaseUntil e of None \<Rightarrow> False | Some until \<Rightarrow> until > now)) rows,
         oi_RetryReady = count_rows (\<lambda>e. actionable e \<and> to_NextAttemptAt e \<le> now \<and>
           (case to_LeaseUntil e of None \<Rightarrow> True | Some until \<Rightarrow> until < now)) rows,
         oi_Overdue = count_rows (\<lambda>e. to_DueAt e < now \<and> to_Status e \<noteq> OutboxCompleted) rows,
         oi_OldestActionableAgeSeconds = ageSeconds now (min_row (map to_CreatedAt (filter actionable rows))),
         oi_MaximumAttempts = max_row (map to_Attempts rows),
         oi_TotalFailedAttempts = sum_list (map (\<lambda>e. if to_Status e = OutboxFailed then to_Attempts e else 0) rows)\<rparr>)"

definition order_indicators :: "duration \<Rightarrow> time \<Rightarrow> ordering_db \<Rightarrow> OrderSagaIndicators" where
  "order_indicators stuckThreshold now db =
    (let rows = orders_v2 db;
         n = (\<lambda>s. count_rows (\<lambda>r. o_Status r = s) rows);
         stuckBefore = now - stuckThreshold
     in \<lparr>sg_ByStatus =
           \<lparr>st_Reserving = n OrderStatusReserving, st_Pending = n OrderStatusPending, st_Paying = n OrderStatusPaying,
            st_Paid = n OrderStatusPaid, st_Cancelling = n OrderStatusCancelling, st_Cancelled = n OrderStatusCancelled,
            st_Finished = n OrderStatusFinished, st_Failed = n OrderStatusFailed,
            st_ReconciliationRequired = n OrderStatusReconciliationRequired\<rparr>,
         sg_ReconciliationRequired = n OrderStatusReconciliationRequired,
         sg_OldestReconciliationAgeSeconds =
           ageSeconds now (min_row (map o_UpdatedAt (filter (\<lambda>r. o_Status r = OrderStatusReconciliationRequired) rows))),
         sg_StuckTransient = count_rows (\<lambda>r. o_Status r \<in> {OrderStatusReserving, OrderStatusPaying, OrderStatusCancelling} \<and>
           o_UpdatedAt r < stuckBefore) rows,
         sg_TransientStuckThresholdSeconds = go_div stuckThreshold 1000000000\<rparr>)"

text \<open>\<^verbatim>\<open>Snapshot\<close> of a reporter with the threshold: \<open>now\<close> is the reporter's clock and \<open>took\<close> the time of the two queries.\<close>

definition Snapshot ::
  "report_site env \<Rightarrow> duration \<Rightarrow> time \<Rightarrow> duration \<Rightarrow> ordering_db \<Rightarrow> ordering_db \<Rightarrow> db_error + ReliabilitySnapshot" where
  "Snapshot env stuckThreshold now took db1 db2 =
    (case stmt env OutboxCounts (Inr (outbox_indicators now db1)) of
       Inl d \<Rightarrow> Inl d
     | Inr outbox \<Rightarrow>
         (case stmt env OrderCounts (Inr (order_indicators stuckThreshold now db2)) of
            Inl d \<Rightarrow> Inl d
          | Inr orders \<Rightarrow> Inr \<lparr>rs_CollectedAt = now, rs_QueryDurationMS = go_div took 1000000,
              rs_Outbox = outbox, rs_Orders = orders\<rparr>))"

text \<open>\<^verbatim>\<open>GET /internal/v1/operations/reliability\<close>, behind \<^verbatim>\<open>internalapi.Middleware\<close>.\<close>

definition reliability_route ::
  "string \<Rightarrow> string \<Rightarrow> ('s \<Rightarrow> 's \<times> (db_error + ReliabilitySnapshot)) \<Rightarrow> 's \<Rightarrow> 's \<times> (string, ReliabilitySnapshot) reply" where
  "reliability_route internalToken header snapshotter = internal_middleware id internalToken header (\<lambda>s.
    (case snapshotter s of
       (s', Inl _) \<Rightarrow> (s', FailReply 500 50031 ''collect reliability snapshot failed'')
     | (s', Inr snapshot) \<Rightarrow> (s', PlainReply 200 snapshot)))"

section \<open>Gauges\<close>

text \<open>The map of the statuses is ranged over in an open order; the gauges of different statuses are different samples.\<close>

definition set_gauges :: "string \<Rightarrow> string \<Rightarrow> (labels \<times> int) list \<Rightarrow> registry \<Rightarrow> registry \<times> string option" where
  "set_gauges name help vs reg =
    fold (\<lambda>(ls, v) r. and_observe r (SetGauge name help ls (Some (of_int v)))) vs (reg, None)"

definition setOutboxMetrics :: "OutboxIndicators \<Rightarrow> registry \<Rightarrow> registry \<times> string option" where
  "setOutboxMetrics i reg =
    (let s = oi_ByStatus i; status = (\<lambda>t v. ([(''status'', t)], v)) in
     and_observe (set_gauges ''go_order_outbox_events'' ''Current timeout Outbox event count by bounded status.''
       [status ''pending'' (osi_Pending s), status ''failed'' (osi_Failed s), status ''published'' (osi_Published s),
        status ''completed'' (osi_Completed s)] reg) (\<lambda>reg.
     and_observe (set_gauges ''go_order_outbox_leased'' ''Current timeout Outbox events with an active lease.'' [([], oi_Leased i)] reg) (\<lambda>reg.
     and_observe (set_gauges ''go_order_outbox_retry_ready'' ''Current timeout Outbox events ready for retry.'' [([], oi_RetryReady i)] reg) (\<lambda>reg.
     and_observe (set_gauges ''go_order_outbox_overdue'' ''Current timeout Outbox events overdue and not completed.'' [([], oi_Overdue i)] reg) (\<lambda>reg.
     and_observe (set_gauges ''go_order_outbox_oldest_actionable_age_seconds''
       ''Age in seconds of the oldest actionable timeout Outbox event.'' [([], oi_OldestActionableAgeSeconds i)] reg) (\<lambda>reg.
     and_observe (set_gauges ''go_order_outbox_maximum_attempts'' ''Maximum publish attempt count among timeout Outbox events.''
       [([], oi_MaximumAttempts i)] reg) (\<lambda>reg.
     set_gauges ''go_order_outbox_failed_attempts_total_snapshot''
       ''Snapshot total of failed publish attempts recorded on failed timeout Outbox events.'' [([], oi_TotalFailedAttempts i)] reg)))))))"

definition setOrderMetrics :: "OrderSagaIndicators \<Rightarrow> registry \<Rightarrow> registry \<times> string option" where
  "setOrderMetrics i reg =
    (let s = sg_ByStatus i; status = (\<lambda>t v. ([(''status'', t)], v)) in
     and_observe (set_gauges ''go_order_orders'' ''Current Order count by bounded Saga status.''
       [status ''reserving'' (st_Reserving s), status ''pending'' (st_Pending s), status ''paying'' (st_Paying s),
        status ''paid'' (st_Paid s), status ''cancelling'' (st_Cancelling s), status ''cancelled'' (st_Cancelled s),
        status ''finished'' (st_Finished s), status ''failed'' (st_Failed s),
        status ''reconciliation_required'' (st_ReconciliationRequired s)] reg) (\<lambda>reg.
     and_observe (set_gauges ''go_order_reconciliation_required'' ''Current Orders requiring reconciliation.''
       [([], sg_ReconciliationRequired i)] reg) (\<lambda>reg.
     and_observe (set_gauges ''go_order_reconciliation_oldest_age_seconds'' ''Age in seconds of the oldest Order requiring reconciliation.''
       [([], sg_OldestReconciliationAgeSeconds i)] reg) (\<lambda>reg.
     and_observe (set_gauges ''go_order_saga_stuck_transient''
       ''Current Orders stuck in a transient Saga status beyond the configured threshold.'' [([], sg_StuckTransient i)] reg) (\<lambda>reg.
     set_gauges ''go_order_saga_stuck_threshold_seconds''
       ''Configured threshold in seconds for a transient Saga status to be considered stuck.''
       [([], sg_TransientStuckThresholdSeconds i)] reg)))))"

text \<open>The collector reports a failed snapshot and leaves the gauges as they are.\<close>

definition ReliabilityPrometheusCollector ::
  "db_error + ReliabilitySnapshot \<Rightarrow> registry \<Rightarrow> registry \<times> string option \<times> bool" where
  "ReliabilityPrometheusCollector r reg =
    (case r of
       Inl _ \<Rightarrow> (reg, None, True)
     | Inr s \<Rightarrow>
         (let (reg', p) =
            and_observe (setOutboxMetrics (rs_Outbox s) reg) (\<lambda>reg.
            and_observe (setOrderMetrics (rs_Orders s) reg) (\<lambda>reg.
            and_observe (SetGauge ''go_order_reliability_snapshot_query_duration_seconds''
              ''Duration of the latest Order reliability snapshot query in seconds.'' []
              (Some (of_int (rs_QueryDurationMS s) / 1000)) reg)
            (SetGauge ''go_order_reliability_snapshot_collected_timestamp_seconds''
              ''Unix timestamp of the latest successful Order reliability snapshot.'' []
              (Some (of_int (rs_CollectedAt s div 1000000000))))))
          in (reg', p, False)))"

section \<open>The counts are the counts of the tables\<close>

lemma outbox_status_count:
  "count_rows (\<lambda>e. to_Status e = OutboxPending) rows + count_rows (\<lambda>e. to_Status e = OutboxFailed) rows +
   count_rows (\<lambda>e. to_Status e = OutboxPublished) rows + count_rows (\<lambda>e. to_Status e = OutboxCompleted) rows = int (length rows)"
proof (induction rows)
  case (Cons e rows)
  then show ?case by (cases "to_Status e") (simp_all add: count_rows_def)
qed (simp add: count_rows_def)

lemma order_status_count:
  "(\<Sum>s\<leftarrow>[OrderStatusReserving, OrderStatusPending, OrderStatusPaying, OrderStatusPaid, OrderStatusCancelling,
     OrderStatusCancelled, OrderStatusFinished, OrderStatusFailed, OrderStatusReconciliationRequired].
     count_rows (\<lambda>r. o_Status r = s) rows) = int (length rows)"
proof (induction rows)
  case (Cons r rows)
  then show ?case by (cases "o_Status r") (simp_all add: count_rows_def)
qed (simp add: count_rows_def)

lemma count_rows_mono: "(\<And>r. p r \<Longrightarrow> q r) \<Longrightarrow> count_rows p rows \<le> count_rows q rows"
  by (induction rows) (auto simp: count_rows_def)

lemma count_rows_disjoint:
  "(\<And>r. \<not> (p r \<and> q r)) \<Longrightarrow> count_rows p rows + count_rows q rows = count_rows (\<lambda>r. p r \<or> q r) rows"
  by (induction rows) (auto simp: count_rows_def)

lemma Snapshot_Inr:
  assumes "Snapshot env stuckThreshold now took db1 db2 = Inr s"
  shows "rs_Outbox s = outbox_indicators now db1" "rs_Orders s = order_indicators stuckThreshold now db2"
  using assms by (auto simp: Snapshot_def stmt_def split: outcome.splits)

text \<open>A snapshot accounts for every row. The numbers of events by status add up to the number of events, and
  of orders to the number of orders; the events ready for a retry and the leased ones are different events; the orders
  counted as stuck are among those that are reserving, paying or cancelling.\<close>

theorem snapshot_accounts:
  assumes "Snapshot env stuckThreshold now took db1 db2 = Inr s"
  shows "(let b = oi_ByStatus (rs_Outbox s) in
      osi_Pending b + osi_Failed b + osi_Published b + osi_Completed b = int (length (order_timeout_outbox_v2 db1)) \<and>
      oi_RetryReady (rs_Outbox s) \<le> osi_Pending b + osi_Failed b) \<and>
    oi_RetryReady (rs_Outbox s) + oi_Leased (rs_Outbox s) \<le> int (length (order_timeout_outbox_v2 db1)) \<and>
    (let b = sg_ByStatus (rs_Orders s) in
      st_Reserving b + st_Pending b + st_Paying b + st_Paid b + st_Cancelling b + st_Cancelled b + st_Finished b + st_Failed b +
        st_ReconciliationRequired b = int (length (orders_v2 db2)) \<and>
      sg_StuckTransient (rs_Orders s) \<le> st_Reserving b + st_Paying b + st_Cancelling b)"
proof (intro conjI)
  let ?ev = "order_timeout_outbox_v2 db1" and ?or = "orders_v2 db2"
  let ?ready = "\<lambda>e. to_Status e \<in> {OutboxPending, OutboxFailed} \<and> to_NextAttemptAt e \<le> now \<and>
      (case to_LeaseUntil e of None \<Rightarrow> True | Some until \<Rightarrow> until < now)"
  let ?leased = "\<lambda>e. ord_collate db1 (to_LeaseOwner e) \<noteq> ord_collate db1 [] \<and>
      (case to_LeaseUntil e of None \<Rightarrow> False | Some until \<Rightarrow> until > now)"
  have "count_rows ?ready ?ev \<le> count_rows (\<lambda>e. to_Status e = OutboxPending \<or> to_Status e = OutboxFailed) ?ev"
    by (rule count_rows_mono) auto
  moreover have "count_rows (\<lambda>e. to_Status e = OutboxPending) ?ev + count_rows (\<lambda>e. to_Status e = OutboxFailed) ?ev =
      count_rows (\<lambda>e. to_Status e = OutboxPending \<or> to_Status e = OutboxFailed) ?ev"
    by (rule count_rows_disjoint) simp
  ultimately show "let b = oi_ByStatus (rs_Outbox s) in
      osi_Pending b + osi_Failed b + osi_Published b + osi_Completed b = int (length ?ev) \<and>
      oi_RetryReady (rs_Outbox s) \<le> osi_Pending b + osi_Failed b"
    using outbox_status_count [of ?ev] by (simp add: Snapshot_Inr [OF assms] outbox_indicators_def Let_def)
  have "count_rows ?ready ?ev + count_rows ?leased ?ev = count_rows (\<lambda>e. ?ready e \<or> ?leased e) ?ev"
    by (rule count_rows_disjoint) (auto split: option.splits)
  also have "\<dots> \<le> int (length ?ev)" by (simp add: count_rows_def)
  finally show "oi_RetryReady (rs_Outbox s) + oi_Leased (rs_Outbox s) \<le> int (length ?ev)"
    by (simp add: Snapshot_Inr [OF assms] outbox_indicators_def Let_def)
  let ?is = "\<lambda>t r. o_Status r = t"
  have "count_rows (\<lambda>r. o_Status r \<in> {OrderStatusReserving, OrderStatusPaying, OrderStatusCancelling} \<and> o_UpdatedAt r < now - stuckThreshold) ?or
      \<le> count_rows (\<lambda>r. (?is OrderStatusReserving r \<or> ?is OrderStatusPaying r) \<or> ?is OrderStatusCancelling r) ?or"
    by (rule count_rows_mono) auto
  moreover have "count_rows (?is OrderStatusReserving) ?or + count_rows (?is OrderStatusPaying) ?or =
      count_rows (\<lambda>r. ?is OrderStatusReserving r \<or> ?is OrderStatusPaying r) ?or"
    by (rule count_rows_disjoint) simp
  moreover have "count_rows (\<lambda>r. ?is OrderStatusReserving r \<or> ?is OrderStatusPaying r) ?or + count_rows (?is OrderStatusCancelling) ?or =
      count_rows (\<lambda>r. (?is OrderStatusReserving r \<or> ?is OrderStatusPaying r) \<or> ?is OrderStatusCancelling r) ?or"
    by (rule count_rows_disjoint) auto
  ultimately show "let b = sg_ByStatus (rs_Orders s) in
      st_Reserving b + st_Pending b + st_Paying b + st_Paid b + st_Cancelling b + st_Cancelled b + st_Finished b + st_Failed b +
        st_ReconciliationRequired b = int (length ?or) \<and>
      sg_StuckTransient (rs_Orders s) \<le> st_Reserving b + st_Paying b + st_Cancelling b"
    using order_status_count [of ?or] by (simp add: Snapshot_Inr [OF assms] order_indicators_def Let_def)
qed

text \<open>C29. The number of events ready for a retry is the worker's own: at the instant of the snapshot, a worker whose
  batch is large enough claims exactly that many events from the same table.\<close>

theorem retry_ready_claimed:
  assumes "Snapshot env stuckThreshold now took db1 db2 = Inr s"
    and "fault_free wenv" and "distinct (map to_ID (order_timeout_outbox_v2 db1))"
    and "int (length (order_timeout_outbox_v2 db1)) \<le> wc_BatchSize cfg"
  shows "\<exists>db' events. claimPending wenv cfg now db1 = (db', Inr events) \<and> int (length events) = oi_RetryReady (rs_Outbox s)"
proof -
  let ?ev = "order_timeout_outbox_v2 db1"
  have "length (filter (event_claimable now) ?ev) \<le> nat (wc_BatchSize cfg)"
    using assms(4) length_filter_le [of "event_claimable now" ?ev] by linarith
  moreover have "oi_RetryReady (rs_Outbox s) = int (length (filter (event_claimable now) ?ev))"
    by (auto simp: Snapshot_Inr [OF assms(1)] outbox_indicators_def Let_def count_rows_def event_claimable_def event_free_def
        intro!: arg_cong [where f = length] filter_cong)
  ultimately show ?thesis using claimPending_calm [OF assms(2,3), of cfg now] by auto
qed

theorem retry_ready_claimed_witness:
  "\<exists>db' events. claimPending calm_env ((demo_worker ''a'')\<lparr>wc_BatchSize := 5\<rparr>) 0 demo_outbox = (db', Inr events) \<and>
    int (length events) = oi_RetryReady (outbox_indicators 0 demo_outbox)"
proof -
  have s: "Snapshot calm_env 1 0 0 demo_outbox demo_outbox = Inr \<lparr>rs_CollectedAt = 0, rs_QueryDurationMS = go_div 0 1000000,
      rs_Outbox = outbox_indicators 0 demo_outbox, rs_Orders = order_indicators 1 0 demo_outbox\<rparr>"
    by (simp add: Snapshot_def)
  have "int (length (order_timeout_outbox_v2 demo_outbox)) \<le> wc_BatchSize ((demo_worker ''a'')\<lparr>wc_BatchSize := 5\<rparr>)" by code_simp
  from retry_ready_claimed [OF s fault_free_calm demo_outbox_distinct this] show ?thesis by simp
qed

theorem snapshot_accounts_witness:
  "osi_Pending (oi_ByStatus (outbox_indicators 0 demo_outbox)) + osi_Failed (oi_ByStatus (outbox_indicators 0 demo_outbox)) +
   osi_Published (oi_ByStatus (outbox_indicators 0 demo_outbox)) + osi_Completed (oi_ByStatus (outbox_indicators 0 demo_outbox)) = 3"
proof -
  have s: "Snapshot calm_env 1 0 0 demo_outbox demo_outbox = Inr \<lparr>rs_CollectedAt = 0, rs_QueryDurationMS = go_div 0 1000000,
      rs_Outbox = outbox_indicators 0 demo_outbox, rs_Orders = order_indicators 1 0 demo_outbox\<rparr>"
    by (simp add: Snapshot_def)
  have "int (length (order_timeout_outbox_v2 demo_outbox)) = 3" by code_simp
  with snapshot_accounts [OF s] show ?thesis by (simp add: Let_def)
qed

end
