(* ===== verification/Worker_Metrics.thy ===== *)
theory Worker_Metrics
  imports Metrics Executor
begin

text \<open>
  What the workers and the HTTP clients record: \<^verbatim>\<open>internal/ordersvc/rabbitmq_metrics.go\<close> (the session, the deliveries and
  the queues of RabbitMQ), \<^verbatim>\<open>internal/platform/resiliencehttp/metrics_transport.go\<close> (the attempts of a client) and the
  gauges of \<^verbatim>\<open>StartMetricsHTTP\<close> in \<^verbatim>\<open>internal/platform/servicehost/metrics.go\<close>. The answers of the management interface of
  RabbitMQ and the parts of a parsed URL are arguments.
\<close>

section \<open>RabbitMQ\<close>

definition setRabbitMQSessionUp :: "bool \<Rightarrow> registry \<Rightarrow> registry \<times> string option" where
  "setRabbitMQSessionUp up =
    SetGauge ''go_order_rabbitmq_session_up'' ''Whether the Timeout Worker has an active RabbitMQ consumer and publisher session.''
      [(''role'', ''timeout_worker'')] (Some (if up then 1 else 0))"

definition recordRabbitMQDelivery :: "string \<Rightarrow> registry \<Rightarrow> registry \<times> string option" where
  "recordRabbitMQDelivery result =
    IncCounter ''go_order_rabbitmq_delivery_total'' ''Total RabbitMQ timeout-delivery outcomes owned by the application.''
      [(''outcome'', result)]"

record rabbitMQQueueSnapshot =
  qs_Messages :: int
  qs_MessagesReady :: int
  qs_MessagesUnacknowledged :: int
  qs_Consumers :: int

definition rabbitMQQueues :: "(string \<times> string) list" where
  "rabbitMQQueues = [(''delay'', ''order.timeout.delay.v2''), (''cancel'', ''order.timeout.cancel.v2'')]"

text \<open>The parts of a URL that are read: \<open>pu_User\<close> is the user name and, if there is one, the password.\<close>

record parsed_url =
  pu_Scheme :: string
  pu_Host :: string
  pu_User :: "(string \<times> string option) option"
  pu_EscapedPath :: string

definition rabbitMQManagementTarget ::
  "(string \<Rightarrow> parsed_url option) \<Rightarrow> (string \<Rightarrow> string option) \<Rightarrow> string \<Rightarrow> string + string \<times> string \<times> string" where
  "rabbitMQManagementTarget url_Parse PathUnescape amqpURL =
    (case url_Parse (TrimSpace amqpURL) of
       None \<Rightarrow> Inl ''invalid RabbitMQ AMQP URL''
     | Some parsed \<Rightarrow>
         if pu_Scheme parsed \<noteq> ''amqp'' \<and> pu_Scheme parsed \<noteq> ''amqps'' \<or> pu_Host parsed = [] then Inl ''invalid RabbitMQ AMQP URL''
         else
           (case pu_User parsed of
              None \<Rightarrow> Inl ''RabbitMQ AMQP URL must include a username''
            | Some (username, password0) \<Rightarrow>
                if username = [] then Inl ''RabbitMQ AMQP URL must include a username''
                else
                  (case password0 of
                     None \<Rightarrow> Inl ''RabbitMQ AMQP URL must include a password''
                   | Some password \<Rightarrow>
                       if password = [] then Inl ''RabbitMQ AMQP URL must include a password''
                       else
                         let path = pu_EscapedPath parsed;
                             escapedVhost = (if HasPrefix path ''/'' then tl path else path)
                         in if escapedVhost = [] then Inr (username, password, ''/'')
                            else
                              (case PathUnescape escapedVhost of
                                 None \<Rightarrow> Inl ''RabbitMQ AMQP URL contains an invalid virtual host''
                               | Some vhost \<Rightarrow>
                                   if vhost = [] then Inl ''RabbitMQ AMQP URL contains an invalid virtual host''
                                   else Inr (username, password, vhost)))))"

record rabbitMQManagementCollector =
  mc_baseURL :: string
  mc_username :: string
  mc_password :: string
  mc_vhost :: string
  mc_timeout :: duration

definition RabbitMQManagementPrometheusCollector ::
  "(string \<Rightarrow> parsed_url option) \<Rightarrow> (string \<Rightarrow> string option) \<Rightarrow> string \<Rightarrow> string \<Rightarrow> duration \<Rightarrow> string + rabbitMQManagementCollector" where
  "RabbitMQManagementPrometheusCollector url_Parse PathUnescape baseURL0 amqpURL timeout =
    (let baseURL = rev (dropWhile (\<lambda>c. c = CHR ''/'') (rev (TrimSpace baseURL0))) in
     if baseURL = [] then Inl ''RabbitMQ management URL is required''
     else case url_Parse baseURL of
       None \<Rightarrow> Inl ''invalid RabbitMQ management URL''
     | Some parsed \<Rightarrow>
         if pu_Scheme parsed = [] \<or> pu_Host parsed = [] then Inl ''invalid RabbitMQ management URL''
         else
           (case rabbitMQManagementTarget url_Parse PathUnescape amqpURL of
              Inl m \<Rightarrow> Inl m
            | Inr (username, password, vhost) \<Rightarrow>
                Inr \<lparr>mc_baseURL = baseURL, mc_username = username, mc_password = password, mc_vhost = vhost,
                  mc_timeout = (if timeout \<le> 0 then 2000000000 else timeout)\<rparr>))"

text \<open>\<^verbatim>\<open>fetchQueue\<close>: \<open>Get\<close> gives the answer to a request with basic authentication, or the error of the transport;
  \<open>Decode\<close> reads the body.\<close>

definition fetchQueue ::
  "(string \<Rightarrow> string) \<Rightarrow> (string \<Rightarrow> string \<Rightarrow> string \<Rightarrow> string + int \<times> 'b) \<Rightarrow> ('b \<Rightarrow> string + rabbitMQQueueSnapshot) \<Rightarrow>
   rabbitMQManagementCollector \<Rightarrow> string \<Rightarrow> string + rabbitMQQueueSnapshot" where
  "fetchQueue PathEscape Get Decode c queueName =
    (case Get (mc_username c) (mc_password c)
        (mc_baseURL c @ ''/api/queues/'' @ PathEscape (mc_vhost c) @ ''/'' @ PathEscape queueName) of
       Inl e \<Rightarrow> Inl (''query RabbitMQ management API: '' @ e)
     | Inr (status, body) \<Rightarrow>
         if status \<noteq> 200 then Inl (''RabbitMQ management API returned HTTP '' @ FormatInt status)
         else (case Decode body of Inl e \<Rightarrow> Inl (''decode RabbitMQ queue snapshot: '' @ e) | Inr s \<Rightarrow> Inr s))"

text \<open>\<^verbatim>\<open>collect\<close>: the registry, the panic and the error. The map of the states is ranged over in an open order.\<close>

definition queue_gauges :: "string \<Rightarrow> rabbitMQQueueSnapshot \<Rightarrow> registry \<Rightarrow> registry \<times> string option" where
  "queue_gauges role s reg =
    (let set_state = (\<lambda>state v. SetGauge ''go_order_rabbitmq_queue_messages''
           ''Current bounded RabbitMQ queue message count by queue role and state.'' [(''queue_role'', role), (''state'', state)] (Some (of_int v)))
     in and_observe (set_state ''total'' (qs_Messages s) reg) (\<lambda>reg.
        and_observe (set_state ''ready'' (qs_MessagesReady s) reg) (\<lambda>reg.
        and_observe (set_state ''unacknowledged'' (qs_MessagesUnacknowledged s) reg) (\<lambda>reg.
        SetGauge ''go_order_rabbitmq_queue_consumers'' ''Current RabbitMQ consumer count by bounded queue role.''
          [(''queue_role'', role)] (Some (of_int (qs_Consumers s))) reg))))"

definition set_management_up :: "real \<Rightarrow> registry \<Rightarrow> registry \<times> string option" where
  "set_management_up v = SetGauge ''go_order_rabbitmq_management_up''
    ''Whether the RabbitMQ management API collector completed successfully.'' [] (Some v)"

fun collect_queues ::
  "(string \<Rightarrow> string + rabbitMQQueueSnapshot) \<Rightarrow> (string \<times> string) list \<Rightarrow> registry \<Rightarrow> registry \<times> string option \<times> string option" where
  "collect_queues fetch [] reg = (let (reg', p) = set_management_up 1 reg in (reg', p, None))"
| "collect_queues fetch ((role, name) # queues) reg =
    (case fetch name of
       Inl e \<Rightarrow> (reg, None, Some e)
     | Inr s \<Rightarrow>
         (case queue_gauges role s reg of
            (reg', Some p) \<Rightarrow> (reg', Some p, None)
          | (reg', None) \<Rightarrow> collect_queues fetch queues reg'))"

definition rabbitmq_collect :: "(string \<Rightarrow> string + rabbitMQQueueSnapshot) \<Rightarrow> registry \<Rightarrow> registry \<times> string option \<times> string option" where
  "rabbitmq_collect fetch reg =
    (case set_management_up 0 reg of
       (reg', Some p) \<Rightarrow> (reg', Some p, None)
     | (reg', None) \<Rightarrow> collect_queues fetch rabbitMQQueues reg')"

section \<open>Attempts of a client\<close>

text \<open>\<^verbatim>\<open>RoundTrip\<close> of the observed transport; \<open>host\<close> and \<open>path\<close> are those of the request's URL.\<close>

definition metrics_RoundTrip ::
  "string \<Rightarrow> string \<Rightarrow> ctx_error option \<Rightarrow> real \<Rightarrow> call_error + 'b http_response \<Rightarrow> registry \<Rightarrow> registry \<times> string option" where
  "metrics_RoundTrip host path ctxErr seconds r =
    (let status = (case r of Inl _ \<Rightarrow> 0 | Inr resp \<Rightarrow> hr_status resp);
         result = (case r of Inl _ \<Rightarrow> ''transport_error'' | Inr _ \<Rightarrow> if status < 200 \<or> status \<ge> 300 then ''http_error'' else ''success'')
     in RecordHTTPClientAttempt (TrimSpace host) (RouteGroup path) result status (shouldRetry ctxErr r) seconds)"

section \<open>The metrics listener of a worker\<close>

text \<open>The gauge writes of \<^verbatim>\<open>StartMetricsHTTP\<close>. \<^verbatim>\<open>ListenerUp\<close> is set by the starting goroutine and \<^verbatim>\<open>ListenerFailed\<close> by the
  one that listens, when it fails; their order is open.\<close>

datatype listener_step = WorkerUp | ListenerUp | ListenerFailed | WorkerDown

definition listener_exec :: "string \<Rightarrow> listener_step \<Rightarrow> registry \<Rightarrow> registry" where
  "listener_exec service step reg =
    (let up = ''go_order_worker_up''; up_help = ''Whether the current background Worker process is running.'';
         lst = ''go_order_worker_metrics_listener_up''; lst_help = ''Whether the background Worker metrics listener is available.''
     in case step of
          WorkerUp \<Rightarrow> fst (SetGauge up up_help [(''worker'', service)] (Some 1) reg)
        | ListenerUp \<Rightarrow> fst (SetGauge lst lst_help [(''worker'', service)] (Some 1) reg)
        | ListenerFailed \<Rightarrow> fst (SetGauge lst lst_help [(''worker'', service)] (Some 0) reg)
        | WorkerDown \<Rightarrow> fst (SetGauge up up_help [(''worker'', service)] (Some 0) reg))"

section \<open>Gauges hold what was last set\<close>

text \<open>A gauge is read like a counter.\<close>

lemma SetGauge_effect:
  assumes "SetGauge name help ls (Some v) reg = (reg', None)"
    and "distinct (map fst ls)" and "distinct (map fst ls')"
  shows "counter_value reg' name' ls' = (if name' = name \<and> set ls' = set ls then v else counter_value reg name' ls')"
proof -
  have "update_metric name help GaugeKind [] ls (\<lambda>_ s. s\<lparr>sa_value := v\<rparr>) reg = (reg', None)"
    using assms(1) by (simp add: SetGauge_def)
  from update_metric_sample [OF this assms(2,3), of name'] show ?thesis
    by (auto simp: counter_value_def Let_def)
qed

lemma and_observe_None: "and_observe r k = (reg', None) \<longleftrightarrow> (\<exists>reg. r = (reg, None) \<and> k reg = (reg', None))"
  by (auto simp: and_observe_def split: prod.splits option.splits)

abbreviation management_up :: "registry \<Rightarrow> real" where
  "management_up reg \<equiv> counter_value reg ''go_order_rabbitmq_management_up'' []"

lemma SetGauge_other:
  "SetGauge name help ls (Some v) reg = (reg', None) \<Longrightarrow> distinct (map fst ls) \<Longrightarrow> name \<noteq> ''go_order_rabbitmq_management_up'' \<Longrightarrow>
    management_up reg' = management_up reg"
  using SetGauge_effect [of name "help" ls v reg reg' "[]" "''go_order_rabbitmq_management_up''"] by simp

lemma set_management_up_effect: "set_management_up v reg = (reg', None) \<Longrightarrow> management_up reg' = v"
  unfolding set_management_up_def
  using SetGauge_effect [of "''go_order_rabbitmq_management_up''" _ "[]" v reg reg' "[]" "''go_order_rabbitmq_management_up''"] by simp

lemma queue_gauges_up:
  assumes "queue_gauges role s reg = (reg', None)"
  shows "management_up reg' = management_up reg"
proof -
  from assms obtain r1 r2 r3 a b where
    "SetGauge ''go_order_rabbitmq_queue_messages'' a [(''queue_role'', role), (''state'', ''total'')] (Some (of_int (qs_Messages s))) reg = (r1, None)"
    "SetGauge ''go_order_rabbitmq_queue_messages'' a [(''queue_role'', role), (''state'', ''ready'')] (Some (of_int (qs_MessagesReady s))) r1 = (r2, None)"
    "SetGauge ''go_order_rabbitmq_queue_messages'' a [(''queue_role'', role), (''state'', ''unacknowledged'')]
       (Some (of_int (qs_MessagesUnacknowledged s))) r2 = (r3, None)"
    "SetGauge ''go_order_rabbitmq_queue_consumers'' b [(''queue_role'', role)] (Some (of_int (qs_Consumers s))) r3 = (reg', None)"
    unfolding queue_gauges_def Let_def and_observe_None by blast
  note up = this [THEN SetGauge_other]
  show ?thesis using up by simp
qed

text \<open>Whether every queue can be read.\<close>

definition all_fetched :: "(string \<Rightarrow> string + rabbitMQQueueSnapshot) \<Rightarrow> (string \<times> string) list \<Rightarrow> bool" where
  "all_fetched fetch queues \<longleftrightarrow> list_all (\<lambda>(_, name). case fetch name of Inl _ \<Rightarrow> False | Inr _ \<Rightarrow> True) queues"

lemma collect_queues_up:
  "collect_queues fetch queues reg = (reg', None, err) \<Longrightarrow>
    (err = None \<longleftrightarrow> all_fetched fetch queues) \<and> management_up reg' = (if err = None then 1 else management_up reg)"
proof (induction queues arbitrary: reg)
  case Nil
  then show ?case by (auto simp: all_fetched_def dest: set_management_up_effect split: prod.splits)
next
  case (Cons q queues)
  obtain role name where q: "q = (role, name)" by fastforce
  show ?case
  proof (cases "fetch name")
    case (Inl e)
    with Cons.prems q show ?thesis by (auto simp: all_fetched_def)
  next
    case (Inr s)
    with Cons.prems q obtain reg1 where g: "queue_gauges role s reg = (reg1, None)"
      and c: "collect_queues fetch queues reg1 = (reg', None, err)"
      by (auto split: prod.splits option.splits)
    from Cons.IH [OF c] queue_gauges_up [OF g] Inr q show ?thesis by (simp add: all_fetched_def)
  qed
qed

text \<open>The management gauge tells whether the last collection succeeded: after a collection it is 1 if every queue could
  be read and 0 otherwise.\<close>

theorem rabbitmq_management_up:
  assumes "rabbitmq_collect fetch reg = (reg', None, err)"
  shows "management_up reg' = (if all_fetched fetch rabbitMQQueues then 1 else 0)"
proof -
  from assms obtain reg1 where z: "set_management_up 0 reg = (reg1, None)"
    and c: "collect_queues fetch rabbitMQQueues reg1 = (reg', None, err)"
    by (auto simp: rabbitmq_collect_def split: prod.splits option.splits)
  from collect_queues_up [OF c] set_management_up_effect [OF z] show ?thesis by auto
qed

end
