(* ===== verification/Loops.thy ===== *)
theory Loops
  imports Go_Prelude
begin

text \<open>
  What the loops of the workers share. First, loops of goroutines that serve one event after the other, \<^verbatim>\<open>for { select { ... } }\<close>. What becomes ready, and which of several
  ready cases \<^verbatim>\<open>select\<close> takes, is a sequence of events. A step may itself run a loop and so may not return; a loop that does
  not return is \<open>None\<close>. Then the operations with which the workers set up a session of RabbitMQ; what they answer is an
  argument.
\<close>

section \<open>Loops\<close>

partial_function (option) select_loop ::
  "('e \<Rightarrow> 's \<Rightarrow> ('s \<times> 'r option) option) \<Rightarrow> (nat \<Rightarrow> 'e) \<Rightarrow> nat \<Rightarrow> 's \<Rightarrow> ('s \<times> nat \<times> 'r) option" where
  "select_loop step ev n s =
    (case step (ev n) s of
       None \<Rightarrow> None
     | Some (s', Some r) \<Rightarrow> Some (s', Suc n, r)
     | Some (s', None) \<Rightarrow> select_loop step ev (Suc n) s')"

text \<open>What a loop needs to return: the steps of the \<open>good\<close> events return, and the \<open>stop\<close> events end the loop.\<close>

locale event_loop =
  fixes step :: "'e \<Rightarrow> 's \<Rightarrow> ('s \<times> 'r option) option" and good :: "'e \<Rightarrow> bool" and stop :: "'e \<Rightarrow> bool"
  assumes step_returns: "good e \<Longrightarrow> \<exists>s' r. step e s = Some (s', r)"
    and step_stops: "stop e \<Longrightarrow> step e s = Some (s', r) \<Longrightarrow> r \<noteq> None"
begin

lemma loop_returns:
  assumes "stop (ev k)" and "n \<le> k" and "\<And>j. n \<le> j \<Longrightarrow> j \<le> k \<Longrightarrow> good (ev j)"
  shows "\<exists>s' m r. select_loop step ev n s = Some (s', m, r) \<and> n < m \<and> m \<le> Suc k"
  using assms(2,3)
proof (induction "k - n" arbitrary: n s rule: less_induct)
  case less
  obtain s' r where st: "step (ev n) s = Some (s', r)" using step_returns less.prems by blast
  show ?case
  proof (cases r)
    case (Some x)
    with st less.prems(1) show ?thesis by (simp add: select_loop.simps [of step ev n s])
  next
    case None
    with step_stops [OF _ st] assms(1) have "n \<noteq> k" by auto
    with less.prems(1) have "k - Suc n < k - n" "Suc n \<le> k" by auto
    from less.hyps [OF this, of s'] less.prems(2) None st show ?thesis
      by (fastforce simp: select_loop.simps [of step ev n s])
  qed
qed

end

text \<open>A property of the state that every step keeps, the loop keeps.\<close>

lemma select_loop_keeps:
  fixes step :: "'e \<Rightarrow> 's \<Rightarrow> ('s \<times> 'r option) option"
  assumes "select_loop step ev n s = Some y" and "P s"
    and "\<And>e s s' x. P s \<Longrightarrow> step e s = Some (s', x) \<Longrightarrow> P s'"
  shows "P (fst y)"
proof -
  have "step = step \<longrightarrow> P s \<longrightarrow> P (fst y)"
    using assms(1)
  proof (rule select_loop.raw_induct [where P = "\<lambda>st ev n s y. st = step \<longrightarrow> P s \<longrightarrow> P (fst y)", rotated])
    fix loop :: "('e \<Rightarrow> 's \<Rightarrow> ('s \<times> 'r option) option) \<Rightarrow> (nat \<Rightarrow> 'e) \<Rightarrow> nat \<Rightarrow> 's \<Rightarrow> ('s \<times> nat \<times> 'r) option"
    fix st ev n s y
    assume IH: "\<And>st ev n s y. loop st ev n s = Some y \<Longrightarrow> st = step \<longrightarrow> P s \<longrightarrow> P (fst y)"
      and body: "(case st (ev n) s of None \<Rightarrow> None | Some (s', Some r) \<Rightarrow> Some (s', Suc n, r)
        | Some (s', None) \<Rightarrow> loop st ev (Suc n) s') = Some y"
    show "st = step \<longrightarrow> P s \<longrightarrow> P (fst y)"
    proof (intro impI)
      assume "st = step" "P s"
      with body obtain s1 x where st: "step (ev n) s = Some (s1, x)" "P s1"
        using assms(3) by (fastforce split: option.splits)
      with body \<open>st = step\<close> IH [of st ev "Suc n" s1 y] show "P (fst y)" by (cases x) auto
    qed
  qed
  then show ?thesis using assms(2) by simp
qed

section \<open>Operations of RabbitMQ\<close>

datatype amqp_op =
    Dial string
  | OpenChannel
  | ExchangeDeclare string
  | QueueDeclare string "(string \<times> string) list" \<comment> \<open>with its arguments\<close>
  | QueueBind string string string \<comment> \<open>queue, routing key, exchange\<close>
  | ConfirmMode
  | Qos int
  | Consume string

text \<open>A sequence of operations that returns at the first that fails, with the text that wraps its error. An empty text
  stands for an error that is returned as it is.\<close>

fun first_failure :: "(amqp_op \<Rightarrow> string option) \<Rightarrow> (amqp_op \<times> string) list \<Rightarrow> string option" where
  "first_failure answer [] = None"
| "first_failure answer ((operation, wrap) # rest) =
    (case answer operation of Some e \<Rightarrow> Some (wrap @ e) | None \<Rightarrow> first_failure answer rest)"

text \<open>The queues bound to a routing key, and those that get what dies in a queue, as the operations declare them.\<close>

definition bound_queues :: "(amqp_op \<times> string) list \<Rightarrow> string \<Rightarrow> string \<Rightarrow> string list" where
  "bound_queues ops exchange key =
    concat (map (\<lambda>(operation, _). case operation of QueueBind q k x \<Rightarrow> if k = key \<and> x = exchange then [q] else [] | _ \<Rightarrow> []) ops)"

definition dead_letters :: "(amqp_op \<times> string) list \<Rightarrow> string \<Rightarrow> string list" where
  "dead_letters ops queue =
    concat (map (\<lambda>(operation, _). case operation of
        QueueDeclare q args \<Rightarrow>
          if q \<noteq> queue then []
          else (case (map_of args ''x-dead-letter-exchange'', map_of args ''x-dead-letter-routing-key'') of
                  (Some x, Some k) \<Rightarrow> bound_queues ops x k
                | _ \<Rightarrow> [])
      | _ \<Rightarrow> []) ops)"

end
