(* ===== verification/Worker_Loops.thy ===== *)
theory Worker_Loops
  imports Loops Timeout_Correct Reconciliation
begin

text \<open>
  The loops of the workers of the order service: \<^verbatim>\<open>Run\<close>, \<^verbatim>\<open>runSession\<close> and \<^verbatim>\<open>declareTimeoutTopology\<close> of
  \<^verbatim>\<open>internal/ordersvc/worker.go\<close> and \<^verbatim>\<open>Run\<close> of \<^verbatim>\<open>reconciliation_worker.go\<close>. What RabbitMQ answers to each operation, what the
  channels deliver and when the context ends are arguments; the work of an event is \<open>publishPending\<close>,
  \<open>handleDelivery\<close> or \<open>processBatch\<close>.
\<close>

section \<open>Topology\<close>

definition timeoutExchange :: string where "timeoutExchange = ''order.timeout.v2''"
definition timeoutDelayQueue :: string where "timeoutDelayQueue = ''order.timeout.delay.v2''"
definition timeoutCancelQueue :: string where "timeoutCancelQueue = ''order.timeout.cancel.v2''"

definition declareTimeoutTopology :: "(amqp_op \<times> string) list" where
  "declareTimeoutTopology =
    [(ExchangeDeclare timeoutExchange, ''declare timeout exchange: ''),
     (QueueDeclare timeoutDelayQueue
        [(''x-dead-letter-exchange'', timeoutExchange), (''x-dead-letter-routing-key'', ''cancel'')], ''declare timeout delay queue: ''),
     (QueueBind timeoutDelayQueue ''delay'' timeoutExchange, ''bind timeout delay queue: ''),
     (QueueDeclare timeoutCancelQueue [], ''declare timeout cancel queue: ''),
     (QueueBind timeoutCancelQueue ''cancel'' timeoutExchange, ''bind timeout cancel queue: '')]"

definition session_setup :: "WorkerConfig \<Rightarrow> (amqp_op \<times> string) list" where
  "session_setup cfg =
    [(Dial (wc_URL cfg), ''connect rabbitmq: ''), (OpenChannel, ''open rabbitmq consumer channel: ''),
     (OpenChannel, ''open rabbitmq publisher channel: '')] @ declareTimeoutTopology @
    [(ConfirmMode, ''enable rabbitmq publisher confirms: ''), (Qos (wc_Prefetch cfg), ''set consumer qos: ''),
     (Consume timeoutCancelQueue, ''consume timeout queue: '')]"

section \<open>A session of the timeout worker\<close>

text \<open>The cases of the \<^verbatim>\<open>select\<close> of \<^verbatim>\<open>runSession\<close>. A tick comes with what the database and the broker do while the batch runs, a
  delivery with its decoded body and whether RabbitMQ accepts the settlement.\<close>

datatype session_event =
    CtxDone
  | ConsumerClosed "string option"
  | PublisherClosed "string option"
  | PollTick "outbox_site env" broker time "int \<Rightarrow> time"
  | Delivered "outbox_site env" "settlement \<Rightarrow> bool" "int option"
  | DeliveriesClosed

datatype session_error =
    SetupFailed string
  | ConsumerChannelClosed "string option"
  | PublisherChannelClosed "string option"
  | PublishPendingFailed outbox_error
  | DeliveryChannelClosed

record 'i worker_state =
  ws_db :: ordering_db
  ws_rest :: 'i
  ws_sent :: "(message \<times> bool) list"
  ws_settled :: "settlement list"
  ws_sessionUp :: bool

text \<open>What the client of the order service does to the tables and to the rest of the system.\<close>

type_synonym 'i timeout_client = "int \<Rightarrow> ordering_db \<times> 'i \<Rightarrow> (ordering_db \<times> 'i) \<times> client_error option"

definition session_step ::
  "WorkerConfig \<Rightarrow> 'i timeout_client \<Rightarrow> session_event \<Rightarrow> 'i worker_state \<Rightarrow> ('i worker_state \<times> session_error option option) option" where
  "session_step cfg TimeoutCancel e s =
    Some (case e of
       CtxDone \<Rightarrow> (s, Some None)
     | ConsumerClosed err \<Rightarrow> (s, Some (Some (ConsumerChannelClosed err)))
     | PublisherClosed err \<Rightarrow> (s, Some (Some (PublisherChannelClosed err)))
     | PollTick env b now clock \<Rightarrow>
         (case publishPending env cfg b now clock (ws_db s) of
            (db, sent, r) \<Rightarrow>
              (s\<lparr>ws_db := db, ws_sent := ws_sent s @ sent\<rparr>, map_option (\<lambda>err. Some (PublishPendingFailed err)) r))
     | Delivered env accepted payload \<Rightarrow>
         (case handleDelivery env TimeoutCancel accepted payload (ws_db s, ws_rest s) of
            ((db, i), st, _) \<Rightarrow> (s\<lparr>ws_db := db, ws_rest := i, ws_settled := ws_settled s @ [st]\<rparr>, None))
     | DeliveriesClosed \<Rightarrow> (s, Some (Some DeliveryChannelClosed)))"

text \<open>The gauge of the session is up between the end of the setup and the return.\<close>

definition runSession ::
  "WorkerConfig \<Rightarrow> 'i timeout_client \<Rightarrow> (amqp_op \<Rightarrow> string option) \<Rightarrow> (nat \<Rightarrow> session_event) \<Rightarrow> 'i worker_state
    \<Rightarrow> ('i worker_state \<times> session_error option) option" where
  "runSession cfg TimeoutCancel answer ev s =
    (case first_failure answer (session_setup cfg) of
       Some e \<Rightarrow> Some (s, Some (SetupFailed e))
     | None \<Rightarrow>
         (case select_loop (session_step cfg TimeoutCancel) ev 0 (s\<lparr>ws_sessionUp := True\<rparr>) of
            None \<Rightarrow> None
          | Some (s', _, r) \<Rightarrow> Some (s'\<lparr>ws_sessionUp := False\<rparr>, r)))"

text \<open>A round of \<^verbatim>\<open>Run\<close>: whether the context has ended when the round starts, the session, and whether the wait for the
  reconnect delay runs to its end.\<close>

record session_round =
  sr_cancelled :: bool
  sr_answer :: "amqp_op \<Rightarrow> string option"
  sr_events :: "nat \<Rightarrow> session_event"
  sr_waited :: bool

definition run_round ::
  "WorkerConfig \<Rightarrow> 'i timeout_client \<Rightarrow> session_round \<Rightarrow> 'i worker_state \<Rightarrow> ('i worker_state \<times> unit option) option" where
  "run_round cfg TimeoutCancel rd s =
    (if sr_cancelled rd then Some (s, Some ())
     else
       (case runSession cfg TimeoutCancel (sr_answer rd) (sr_events rd) s of
          None \<Rightarrow> None
        | Some (s', _) \<Rightarrow> Some (s', if sr_waited rd then None else Some ())))"

definition worker_Run ::
  "WorkerConfig \<Rightarrow> 'i timeout_client \<Rightarrow> (nat \<Rightarrow> session_round) \<Rightarrow> 'i worker_state \<Rightarrow> ('i worker_state \<times> nat \<times> unit) option" where
  "worker_Run cfg TimeoutCancel rounds = select_loop (run_round cfg TimeoutCancel) rounds 0"

section \<open>The loop of the reconciliation worker\<close>

record rec_round =
  rr_env :: "rec_site env"
  rr_envs :: "int \<Rightarrow> rec_site env"
  rr_now :: time
  rr_clock :: "int \<Rightarrow> time"
  rr_done :: bool \<comment> \<open>the context ends while the loop waits for the next tick\<close>

definition reconciliation_round ::
  "ReconciliationWorkerConfig \<Rightarrow> 'i inventory_api \<Rightarrow> rec_round \<Rightarrow> ordering_db \<times> 'i \<Rightarrow> ((ordering_db \<times> 'i) \<times> unit option) option" where
  "reconciliation_round cfg api rd s =
    (case processBatch (rr_env rd) (rr_envs rd) cfg api (rr_now rd) (rr_clock rd) (fst s) (snd s) of
       (db, i, _) \<Rightarrow> Some ((db, i), if rr_done rd then Some () else None))"

definition reconciliation_Run ::
  "ReconciliationWorkerConfig \<Rightarrow> 'i inventory_api \<Rightarrow> (nat \<Rightarrow> rec_round) \<Rightarrow> ordering_db \<times> 'i \<Rightarrow> ((ordering_db \<times> 'i) \<times> nat \<times> unit) option" where
  "reconciliation_Run cfg api rounds = select_loop (reconciliation_round cfg api) rounds 0"

section \<open>The loops return\<close>

definition ends_session :: "session_event \<Rightarrow> bool" where
  "ends_session e = (case e of CtxDone \<Rightarrow> True | ConsumerClosed _ \<Rightarrow> True | PublisherClosed _ \<Rightarrow> True | DeliveriesClosed \<Rightarrow> True | _ \<Rightarrow> False)"

interpretation session: event_loop "session_step cfg TimeoutCancel" "\<lambda>_. True" ends_session for cfg TimeoutCancel
  by unfold_locales (auto simp: session_step_def ends_session_def split: session_event.splits)

interpretation reconciliation: event_loop "reconciliation_round cfg api" "\<lambda>_. True" rr_done for cfg api
  by unfold_locales (auto simp: reconciliation_round_def split: prod.splits)

text \<open>A round returns if its session does: it is over at once, its setup fails, or one of its events ends it.\<close>

definition round_ends :: "WorkerConfig \<Rightarrow> session_round \<Rightarrow> bool" where
  "round_ends cfg rd \<longleftrightarrow> sr_cancelled rd \<or> first_failure (sr_answer rd) (session_setup cfg) \<noteq> None \<or>
    (\<exists>n. ends_session (sr_events rd n))"

lemma runSession_returns:
  assumes "ends_session (ev n)"
  shows "\<exists>s' r. runSession cfg TimeoutCancel answer ev s = Some (s', r)"
proof -
  obtain s' m r where "select_loop (session_step cfg TimeoutCancel) ev 0 (s\<lparr>ws_sessionUp := True\<rparr>) = Some (s', m, r)"
    using session.loop_returns [where ev = ev and k = n and n = 0, OF assms] by fastforce
  then show ?thesis by (simp add: runSession_def split: option.split)
qed

lemma run_round_returns:
  assumes "round_ends cfg rd"
  shows "\<exists>s' r. run_round cfg TimeoutCancel rd s = Some (s', r)"
proof -
  have "\<exists>s' r. runSession cfg TimeoutCancel (sr_answer rd) (sr_events rd) s = Some (s', r)" if "\<not> sr_cancelled rd"
  proof (cases "first_failure (sr_answer rd) (session_setup cfg)")
    case None
    with assms that show ?thesis by (auto simp: round_ends_def intro: runSession_returns)
  qed (simp add: runSession_def)
  then show ?thesis by (auto simp: run_round_def)
qed

interpretation worker_rounds: event_loop "run_round cfg TimeoutCancel" "round_ends cfg" "\<lambda>rd. sr_cancelled rd \<or> \<not> sr_waited rd"
  for cfg TimeoutCancel
proof unfold_locales
  show "\<exists>s' r. run_round cfg TimeoutCancel rd s = Some (s', r)" if "round_ends cfg rd" for rd s
    using that by (rule run_round_returns)
  show "r \<noteq> None" if "sr_cancelled rd \<or> \<not> sr_waited rd" "run_round cfg TimeoutCancel rd s = Some (s', r)" for rd s s' r
    using that by (auto simp: run_round_def split: if_splits option.splits prod.splits)
qed

lemma run_round_down: "\<not> ws_sessionUp s \<Longrightarrow> run_round cfg TimeoutCancel rd s = Some (s', r) \<Longrightarrow> \<not> ws_sessionUp s'"
  by (auto simp: run_round_def runSession_def split: if_splits option.splits prod.splits)

text \<open>C25. The timeout worker stops: if the context is cancelled in some round, or ends the wait of that round, and every
  session up to it is closed or sees the end of the context, then \<^verbatim>\<open>Run\<close> returns by that round, and the session gauge is
  down.\<close>

theorem worker_Run_returns:
  assumes "sr_cancelled (rounds k) \<or> \<not> sr_waited (rounds k)" and "\<forall>j\<le>k. round_ends cfg (rounds j)" and "\<not> ws_sessionUp s"
  shows "\<exists>s' m. worker_Run cfg TimeoutCancel rounds s = Some (s', m, ()) \<and> m \<le> Suc k \<and> \<not> ws_sessionUp s'"
proof -
  have "\<exists>s' m r. select_loop (run_round cfg TimeoutCancel) rounds 0 s = Some (s', m, r) \<and> 0 < m \<and> m \<le> Suc k"
    by (rule worker_rounds.loop_returns) (use assms(1,2) in simp_all)
  then obtain s' m where r: "worker_Run cfg TimeoutCancel rounds s = Some (s', m, ())" "m \<le> Suc k"
    unfolding worker_Run_def by auto
  moreover have "\<not> ws_sessionUp (fst (s', m, ()))"
    using r(1) [unfolded worker_Run_def] assms(3) run_round_down by (rule select_loop_keeps)
  ultimately show ?thesis by auto
qed

definition demo_rounds :: "nat \<Rightarrow> session_round" where
  "demo_rounds n = \<lparr>sr_cancelled = (n = 2), sr_answer = (\<lambda>operation. if n = 0 \<and> operation = Qos 10 then Some ''refused'' else None),
     sr_events = (\<lambda>i. if i = 0 then PollTick calm_env demo_broker 0 (\<lambda>_. 0) else if i = 1 then Delivered calm_env (\<lambda>_. True) (Some 101)
       else ConsumerClosed None), sr_waited = True\<rparr>"

definition demo_worker_state :: "unit worker_state" where
  "demo_worker_state = \<lparr>ws_db = demo_outbox, ws_rest = (), ws_sent = [], ws_settled = [], ws_sessionUp = False\<rparr>"

theorem worker_Run_returns_witness:
  "\<exists>s' m. worker_Run (demo_worker ''a'') (\<lambda>_ s. (s, None)) demo_rounds demo_worker_state = Some (s', m, ()) \<and> m \<le> 3 \<and> \<not> ws_sessionUp s'"
proof -
  have "ends_session (sr_events (demo_rounds j) 2)" for j by (simp add: demo_rounds_def ends_session_def)
  then have "\<forall>j\<le>2. round_ends (demo_worker ''a'') (demo_rounds j)" by (auto simp: round_ends_def)
  moreover have "sr_cancelled (demo_rounds 2) \<or> \<not> sr_waited (demo_rounds 2)" by (simp add: demo_rounds_def)
  moreover have "\<not> ws_sessionUp demo_worker_state" by (simp add: demo_worker_state_def)
  ultimately show ?thesis using worker_Run_returns [of demo_rounds 2 "demo_worker ''a''" demo_worker_state "\<lambda>_ s. (s, None)"] by simp
qed

text \<open>So does the reconciliation worker, after the batch of the round in which its context ends.\<close>

theorem reconciliation_Run_returns:
  assumes "rr_done (rounds k)"
  shows "\<exists>s' m. reconciliation_Run cfg api rounds s = Some (s', m, ()) \<and> m \<le> Suc k"
  using reconciliation.loop_returns [where ev = rounds and k = k and n = 0, OF assms] unfolding reconciliation_Run_def by fastforce

text \<open>The queues are wired: the key the worker publishes with is bound to the delay queue, and what dies there is routed to
  the queue the worker consumes.\<close>

theorem timeout_topology:
  "bound_queues (session_setup cfg) timeoutExchange ''delay'' = [timeoutDelayQueue]"
  "dead_letters (session_setup cfg) timeoutDelayQueue = [timeoutCancelQueue]"
  "dead_letters (session_setup cfg) timeoutCancelQueue = []"
  "Consume timeoutCancelQueue \<in> fst ` set (session_setup cfg)"
  by (simp_all add: bound_queues_def dead_letters_def session_setup_def declareTimeoutTopology_def
      timeoutExchange_def timeoutDelayQueue_def timeoutCancelQueue_def)

end
