(* ===== verification/Shop_Loops.thy ===== *)
theory Shop_Loops
  imports Loops Shop_Timeout
begin

text \<open>
  The loops of the timeout worker of the single-process application: \<^verbatim>\<open>Run\<close>, \<^verbatim>\<open>runSession\<close>, \<^verbatim>\<open>publishLoop\<close>, \<^verbatim>\<open>consumeLoop\<close>,
  \<^verbatim>\<open>declareTopology\<close> and \<^verbatim>\<open>openConsumer\<close> of \<^verbatim>\<open>internal/ordertimeout/worker.go\<close>. The two loops of a session are goroutines; a
  session is an interleaving of their rounds, each of which is a batch or a delivery. The session ends with the first
  of the two loops; what the other one still does before it notices is not part of the session.
\<close>

section \<open>Topology\<close>

record topology =
  tp_exchange :: string
  tp_delayQueue :: string
  tp_cancelQueue :: string
  tp_failedQueue :: string
  tp_delayRoutingKey :: string
  tp_cancelRoutingKey :: string
  tp_failedRoutingKey :: string

definition productionTopology :: topology where
  "productionTopology = \<lparr>tp_exchange = ''order.timeout'', tp_delayQueue = ''order.timeout.delay'', tp_cancelQueue = ''order.timeout.cancel'',
     tp_failedQueue = ''order.timeout.failed'', tp_delayRoutingKey = ''delay'', tp_cancelRoutingKey = ''cancel'',
     tp_failedRoutingKey = ''failed''\<rparr>"

definition declareTopology :: "topology \<Rightarrow> (amqp_op \<times> string) list" where
  "declareTopology t =
    [(OpenChannel, ''open RabbitMQ topology channel: ''),
     (ExchangeDeclare (tp_exchange t), ''declare order timeout exchange: ''),
     (QueueDeclare (tp_delayQueue t) [(''x-dead-letter-exchange'', tp_exchange t), (''x-dead-letter-routing-key'', tp_cancelRoutingKey t)],
        ''declare order timeout delay queue: ''),
     (QueueBind (tp_delayQueue t) (tp_delayRoutingKey t) (tp_exchange t), ''bind order timeout delay queue: ''),
     (QueueDeclare (tp_cancelQueue t) [(''x-dead-letter-exchange'', tp_exchange t), (''x-dead-letter-routing-key'', tp_failedRoutingKey t)],
        ''declare order timeout cancel queue: ''),
     (QueueBind (tp_cancelQueue t) (tp_cancelRoutingKey t) (tp_exchange t), ''bind order timeout cancel queue: ''),
     (QueueDeclare (tp_failedQueue t) [], ''declare order timeout failed queue: ''),
     (QueueBind (tp_failedQueue t) (tp_failedRoutingKey t) (tp_exchange t), ''bind order timeout failed queue: '')]"

definition openConsumer :: "string \<Rightarrow> int \<Rightarrow> (amqp_op \<times> string) list" where
  "openConsumer queue prefetch =
    [(OpenChannel, ''open order timeout consumer channel: ''),
     (Qos prefetch, ''configure order timeout consumer prefetch: ''),
     (Consume queue, ''consume order timeout queue: '')]"

definition shop_setup :: "shop_worker_config \<Rightarrow> topology \<Rightarrow> (amqp_op \<times> string) list" where
  "shop_setup cfg t =
    [(Dial (wc_URL cfg), ''connect RabbitMQ: '')] @ declareTopology t @
    [(OpenChannel, ''open order timeout publisher channel: ''), (ConfirmMode, ''enable order timeout publisher confirms: '')] @
    openConsumer (tp_cancelQueue t) (wc_ConsumerPrefetch cfg)"

section \<open>Sessions\<close>

text \<open>The events of a session: the end of the context seen by the session or by the consumer, the loss of the connection, a
  batch of \<^verbatim>\<open>publishLoop\<close> with whether the wait after it runs to its end, and a delivery of \<^verbatim>\<open>consumeLoop\<close> with whether the
  context ends before a requeue and what the settlement returns.\<close>

datatype shop_event =
    ShopCtxDone
  | ShopConnectionClosed "string option"
  | ShopBatch "shop_site env" "string \<Rightarrow> time" "string \<Rightarrow> publish_outcome" bool
  | ShopDelivered "shop_site env" bool "shop_settlement \<Rightarrow> string option" event_body
  | ShopDeliveriesClosed

record shop_worker_state =
  sw_db :: shop_db
  sw_confirmed :: "shop_message list"
  sw_settled :: "shop_settlement list"

definition settle_error :: "(shop_settlement \<Rightarrow> string option) \<Rightarrow> shop_settlement \<Rightarrow> string option" where
  "settle_error answer st =
    (case st of
       SettleAck \<Rightarrow> map_option (\<lambda>e. ''acknowledge order timeout event: '' @ e) (answer st)
     | SettleDrop \<Rightarrow> map_option (\<lambda>e. ''reject invalid order timeout event: '' @ e) (answer st)
     | SettleRequeue \<Rightarrow> map_option (\<lambda>e. ''requeue order timeout event: '' @ e) (answer st)
     | Unsettled \<Rightarrow> None)"

definition shop_session_step ::
  "shop_worker_config \<Rightarrow> shop_event \<Rightarrow> shop_worker_state \<Rightarrow> (shop_worker_state \<times> string option option) option" where
  "shop_session_step cfg e s =
    Some (case e of
       ShopCtxDone \<Rightarrow> (s, Some None)
     | ShopConnectionClosed None \<Rightarrow> (s, Some (Some ''RabbitMQ connection closed''))
     | ShopConnectionClosed (Some m) \<Rightarrow> (s, Some (Some (''RabbitMQ connection closed: '' @ m)))
     | ShopBatch env clock out waited \<Rightarrow>
         (case publishBatch env cfg clock out (sw_db s) (sw_confirmed s) of
            (db, msgs, Some err) \<Rightarrow> (s\<lparr>sw_db := db, sw_confirmed := msgs\<rparr>, Some (Some err))
          | (db, msgs, None) \<Rightarrow> (s\<lparr>sw_db := db, sw_confirmed := msgs\<rparr>, if waited then None else Some None))
     | ShopDelivered env stopped answer body \<Rightarrow>
         (case consume_delivery (svc_CancelExpiredOrder env) stopped body (sw_db s) of
            (db, st) \<Rightarrow>
              (s\<lparr>sw_db := db, sw_settled := sw_settled s @ [st]\<rparr>,
               if st = Unsettled then Some None else map_option Some (settle_error answer st)))
     | ShopDeliveriesClosed \<Rightarrow> (s, Some (Some ''order timeout delivery channel closed'')))"

definition shop_runSession ::
  "shop_worker_config \<Rightarrow> (amqp_op \<Rightarrow> string option) \<Rightarrow> (nat \<Rightarrow> shop_event) \<Rightarrow> shop_worker_state \<Rightarrow> (shop_worker_state \<times> string option) option" where
  "shop_runSession cfg answer ev s =
    (case first_failure answer (shop_setup cfg productionTopology) of
       Some e \<Rightarrow> Some (s, Some e)
     | None \<Rightarrow>
         (case select_loop (shop_session_step cfg) ev 0 s of
            None \<Rightarrow> None
          | Some (s', _, r) \<Rightarrow> Some (s', r)))"

record shop_round =
  sr_cancelled :: bool
  sr_answer :: "amqp_op \<Rightarrow> string option"
  sr_events :: "nat \<Rightarrow> shop_event"
  sr_waited :: bool

definition shop_run_round ::
  "shop_worker_config \<Rightarrow> shop_round \<Rightarrow> shop_worker_state \<Rightarrow> (shop_worker_state \<times> unit option) option" where
  "shop_run_round cfg rd s =
    (if sr_cancelled rd then Some (s, Some ())
     else
       (case shop_runSession cfg (sr_answer rd) (sr_events rd) s of
          None \<Rightarrow> None
        | Some (s', _) \<Rightarrow> Some (s', if sr_waited rd then None else Some ())))"

definition shop_worker_Run ::
  "shop_worker_config \<Rightarrow> (nat \<Rightarrow> shop_round) \<Rightarrow> shop_worker_state \<Rightarrow> (shop_worker_state \<times> nat \<times> unit) option" where
  "shop_worker_Run cfg rounds = select_loop (shop_run_round cfg) rounds 0"

section \<open>The loops return\<close>

definition shop_ends :: "shop_event \<Rightarrow> bool" where
  "shop_ends e = (case e of ShopCtxDone \<Rightarrow> True | ShopConnectionClosed _ \<Rightarrow> True | ShopBatch _ _ _ waited \<Rightarrow> \<not> waited
     | ShopDeliveriesClosed \<Rightarrow> True | _ \<Rightarrow> False)"

interpretation shop_session: event_loop "shop_session_step cfg" "\<lambda>_. True" shop_ends for cfg
  by unfold_locales (auto simp: shop_session_step_def shop_ends_def split: shop_event.splits option.splits prod.splits)

definition shop_round_ends :: "shop_worker_config \<Rightarrow> shop_round \<Rightarrow> bool" where
  "shop_round_ends cfg rd \<longleftrightarrow> sr_cancelled rd \<or> first_failure (sr_answer rd) (shop_setup cfg productionTopology) \<noteq> None \<or>
    (\<exists>n. shop_ends (sr_events rd n))"

lemma shop_runSession_returns:
  assumes "shop_ends (ev n)"
  shows "\<exists>s' r. shop_runSession cfg answer ev s = Some (s', r)"
proof -
  have "\<exists>s' m r. select_loop (shop_session_step cfg) ev 0 s = Some (s', m, r) \<and> 0 < m \<and> m \<le> Suc n"
    by (rule shop_session.loop_returns) (use assms in simp_all)
  then show ?thesis by (auto simp: shop_runSession_def split: option.split)
qed

interpretation shop_rounds: event_loop "shop_run_round cfg" "shop_round_ends cfg" "\<lambda>rd. sr_cancelled rd \<or> \<not> sr_waited rd" for cfg
proof unfold_locales
  show "\<exists>s' r. shop_run_round cfg rd s = Some (s', r)" if ends: "shop_round_ends cfg rd" for rd s
  proof -
    have "\<exists>s' r. shop_runSession cfg (sr_answer rd) (sr_events rd) s = Some (s', r)" if "\<not> sr_cancelled rd"
    proof (cases "first_failure (sr_answer rd) (shop_setup cfg productionTopology)")
      case None
      with ends that show ?thesis by (auto simp: shop_round_ends_def intro: shop_runSession_returns)
    qed (simp add: shop_runSession_def)
    then show ?thesis by (auto simp: shop_run_round_def)
  qed
  show "r \<noteq> None" if "sr_cancelled rd \<or> \<not> sr_waited rd" "shop_run_round cfg rd s = Some (s', r)" for rd s s' r
    using that by (auto simp: shop_run_round_def split: if_splits option.splits prod.splits)
qed

section \<open>The loops keep the invariant\<close>

lemma publish_events_ok:
  "shop_ok db \<Longrightarrow> shop_ok (fst (publish_events env d clock out evs db msgs))"
proof (induction evs arbitrary: db msgs)
  case (Cons ev evs)
  have failed: "shop_ok (fst (autocommit env site (dao_MarkOrderTimeoutOutboxFailed e m t) db))" for site e m t
    unfolding dao_MarkOrderTimeoutOutboxFailed_def by (rule outbox_exec [OF Cons.prems]) simp
  have published: "shop_ok (fst (autocommit env site (dao_MarkOrderTimeoutOutboxPublished e t) db))" for site e t
    unfolding dao_MarkOrderTimeoutOutboxPublished_def by (rule outbox_exec [OF Cons.prems]) simp
  obtain msg e where p: "shop_publishEvent (clock (mb_EventID ev)) (out (mb_EventID ev)) ev = (msg, e)" by fastforce
  obtain db1 res where mk: "autocommit env (SOutboxPublished (mb_EventID ev))
    (dao_MarkOrderTimeoutOutboxPublished (mb_EventID ev) (e_now env (SOutboxPublished (mb_EventID ev)))) db = (db1, res)" by fastforce
  have "shop_ok db1" using published [of "SOutboxPublished (mb_EventID ev)"] mk by (metis fst_conv)
  then show ?case using Cons.IH failed p mk by (cases e; cases res) (simp_all add: Let_def)
qed simp

lemma publishBatch_ok: "shop_ok db \<Longrightarrow> publishBatch env cfg clock out db msgs = (db', msgs', r) \<Longrightarrow> shop_ok db'"
  using publish_events_ok [of db env "wc_OutboxRetryDelay cfg" clock out _ msgs]
  by (auto simp: publishBatch_def split: sum.splits) (metis fst_conv)

lemma shop_session_step_ok: "shop_ok (sw_db s) \<Longrightarrow> shop_session_step cfg e s = Some (s', x) \<Longrightarrow> shop_ok (sw_db s')"
  using shop_canceller.delivery_ok [of "sw_db s"]
  by (auto simp: shop_session_step_def publishBatch_ok split: shop_event.splits option.splits prod.splits if_splits) (metis fst_conv)+

lemma shop_run_round_ok: "shop_ok (sw_db s) \<Longrightarrow> shop_run_round cfg rd s = Some (s', x) \<Longrightarrow> shop_ok (sw_db s')"
proof -
  assume s: "shop_ok (sw_db s)" and r: "shop_run_round cfg rd s = Some (s', x)"
  have "shop_ok (sw_db s1)" if "select_loop (shop_session_step cfg) ev 0 s = Some (s1, n, y)" for ev s1 n y
    using select_loop_keeps [OF that, of "\<lambda>s. shop_ok (sw_db s)"] s shop_session_step_ok by auto
  with s r show ?thesis
    by (auto simp: shop_run_round_def shop_runSession_def split: if_splits option.splits prod.splits)
qed


definition shop_demo_rounds :: "nat \<Rightarrow> shop_round" where
  "shop_demo_rounds n = \<lparr>sr_cancelled = (n = 2), sr_answer = (\<lambda>operation. if n = 0 \<and> operation = ConfirmMode then Some ''refused'' else None),
     sr_events = (\<lambda>i. if i = 0 then ShopBatch calm_env (\<lambda>_. 0) (\<lambda>_. Confirmed) True
       else if i = 1 then ShopDelivered calm_env False (\<lambda>_. None) (EventJSON demo_event) else ShopConnectionClosed None),
     sr_waited = True\<rparr>"


text \<open>The queues are wired: the key the worker publishes with is bound to the delay queue, what dies there is routed to the
  queue the worker consumes, and what the worker drops from that queue to the queue of failed events.\<close>

theorem shop_timeout_topology:
  "bound_queues (shop_setup cfg productionTopology) ''order.timeout'' ''delay'' = [''order.timeout.delay'']"
  "dead_letters (shop_setup cfg productionTopology) ''order.timeout.delay'' = [''order.timeout.cancel'']"
  "dead_letters (shop_setup cfg productionTopology) ''order.timeout.cancel'' = [''order.timeout.failed'']"
  "Consume ''order.timeout.cancel'' \<in> fst ` set (shop_setup cfg productionTopology)"
  by (simp_all add: bound_queues_def dead_letters_def shop_setup_def declareTopology_def openConsumer_def productionTopology_def)

end
