(* ===== verification/App_Config.thy ===== *)
theory App_Config
  imports Auth
begin

text \<open>
  The configuration of the processes: \<^verbatim>\<open>config/config.go\<close>, \<^verbatim>\<open>config_validate.go\<close> and \<^verbatim>\<open>rabbitmq_config.go\<close>, the data source name and
  the Redis client of \<^verbatim>\<open>pkg/database\<close> and \<^verbatim>\<open>pkg/redis\<close>, the settings read from the environment in the \<^verbatim>\<open>main\<close> functions, and the
  servers of \<^verbatim>\<open>internal/app\<close> and \<^verbatim>\<open>servicehost\<close>. The environment (\<^verbatim>\<open>os.Getenv\<close>), the file, the YAML decoder,
  \<^verbatim>\<open>time.ParseDuration\<close> and \<^verbatim>\<open>url.ParseRequestURI\<close> are arguments.
\<close>

section \<open>Configuration\<close>

record MySQLConfig =
  my_User :: string
  my_Host :: string
  my_Port :: string
  my_Database :: string
  my_MaxOpenConns :: int
  my_MaxIdleConns :: int
  my_ConnMaxLifetime :: duration
  my_ConnMaxIdleTime :: duration
  my_PingTimeout :: duration

record RedisConfig =
  rd_Addr :: string
  rd_DB :: int

record OrderTimeoutConfig =
  ot_Delay :: duration
  ot_OutboxPollInterval :: duration
  ot_OutboxRetryDelay :: duration
  ot_PublishBatchSize :: int
  ot_ConsumerPrefetch :: int

record RabbitMQConfig =
  mq_URL :: string
  mq_ConnectTimeout :: duration
  mq_ReconnectDelay :: duration
  mq_OrderTimeout :: OrderTimeoutConfig

record HttpServerConfig =
  hs_ReadTimeOut :: duration
  hs_WriteTimeout :: duration
  hs_IdleTimeout :: duration
  hs_ReadHeaderTimeout :: duration
  hs_MaxHeaderBytesKib :: int
  hs_Timeout :: duration

record Config =
  cf_ServerPort :: int
  cf_MySQL :: MySQLConfig
  cf_Redis :: RedisConfig
  cf_RabbitMQ :: RabbitMQConfig
  cf_ExpireHours :: int
  cf_Http :: HttpServerConfig

datatype config_error =
    ErrInvalidServerPort
  | ErrInvalidMySQLPort
  | ErrMySQLDatabaseNotFound
  | ErrMySQLUserNotFound
  | ErrMySQLHostNotFound
  | ErrInvalidHttpServerReadTimeout
  | ErrInvalidHttpServerWriteTimeout
  | ErrInvalidHttpServerIdleTimeout
  | ErrInvalidHttpServerReadHeaderTimeout
  | ErrInvalidHttpServerMaxHeaderBytes
  | ErrInvalidHttpServerTimeout
  | ErrMySQLMaxOpenConnsFailed
  | ErrMySQLMaxIdleConnsFailed
  | ErrMySQLInvalidConnMaxIdleTime
  | ErrMySQLInvalidConnMaxLifetime
  | ErrMySQLInvalidPingTimeout
  | ErrInvalidJWTExpireHours
  | ErrInvalidRabbitMQURL
  | ErrInvalidRabbitMQConnectTimeout
  | ErrInvalidRabbitMQReconnectDelay
  | ErrInvalidOrderTimeoutDelay
  | ErrInvalidOrderTimeoutPollInterval
  | ErrInvalidOrderTimeoutRetryDelay
  | ErrInvalidOrderTimeoutBatchSize
  | ErrInvalidOrderTimeoutPrefetch
  | ReadConfigFailed string
  | ParseConfigFailed string
  | InvalidEnv string \<comment> \<open>the name of the variable\<close>

abbreviation minute :: duration where "minute \<equiv> 60000000000"
abbreviation hour :: duration where "hour \<equiv> 3600000000000"

definition OrderTimeoutConfig_Validate :: "OrderTimeoutConfig \<Rightarrow> config_error option" where
  "OrderTimeoutConfig_Validate c =
    (if ot_Delay c \<le> 0 \<or> ot_Delay c > 24 * hour then Some ErrInvalidOrderTimeoutDelay
     else if ot_OutboxPollInterval c \<le> 0 \<or> ot_OutboxPollInterval c > minute then Some ErrInvalidOrderTimeoutPollInterval
     else if ot_OutboxRetryDelay c \<le> 0 \<or> ot_OutboxRetryDelay c > hour then Some ErrInvalidOrderTimeoutRetryDelay
     else if ot_PublishBatchSize c < 1 \<or> ot_PublishBatchSize c > 1000 then Some ErrInvalidOrderTimeoutBatchSize
     else if ot_ConsumerPrefetch c < 1 \<or> ot_ConsumerPrefetch c > 1000 then Some ErrInvalidOrderTimeoutPrefetch
     else None)"

text \<open>\<open>ParseRequestURI\<close> gives the scheme and the host.\<close>

definition RabbitMQConfig_Validate :: "(string \<Rightarrow> (string \<times> string) option) \<Rightarrow> RabbitMQConfig \<Rightarrow> config_error option" where
  "RabbitMQConfig_Validate ParseRequestURI c =
    (let rabbitURL = TrimSpace (mq_URL c) in
     if rabbitURL = [] then Some ErrInvalidRabbitMQURL
     else if (case ParseRequestURI rabbitURL of None \<Rightarrow> True
              | Some (scheme, host) \<Rightarrow> host = [] \<or> scheme \<noteq> ''amqp'' \<and> scheme \<noteq> ''amqps'') then Some ErrInvalidRabbitMQURL
     else if mq_ConnectTimeout c \<le> 0 \<or> mq_ConnectTimeout c > minute then Some ErrInvalidRabbitMQConnectTimeout
     else if mq_ReconnectDelay c \<le> 0 \<or> mq_ReconnectDelay c > minute then Some ErrInvalidRabbitMQReconnectDelay
     else OrderTimeoutConfig_Validate (mq_OrderTimeout c))"

definition Config_Validate :: "(string \<Rightarrow> (string \<times> string) option) \<Rightarrow> Config \<Rightarrow> config_error option" where
  "Config_Validate ParseRequestURI c =
    (let mysql = cf_MySQL c; http = cf_Http c in
     if cf_ServerPort c \<le> 0 then Some ErrInvalidServerPort
     else if my_Host mysql = [] then Some ErrMySQLHostNotFound
     else if (case Atoi (my_Port mysql) of None \<Rightarrow> True | Some mysqlPort \<Rightarrow> mysqlPort \<le> 0 \<or> mysqlPort > 65535) then Some ErrInvalidMySQLPort
     else if my_Database mysql = [] then Some ErrMySQLDatabaseNotFound
     else if my_User mysql = [] then Some ErrMySQLUserNotFound
     else if hs_ReadTimeOut http \<le> 0 then Some ErrInvalidHttpServerReadTimeout
     else if hs_WriteTimeout http \<le> 0 then Some ErrInvalidHttpServerWriteTimeout
     else if hs_IdleTimeout http \<le> 0 then Some ErrInvalidHttpServerIdleTimeout
     else if hs_ReadHeaderTimeout http \<le> 0 then Some ErrInvalidHttpServerReadHeaderTimeout
     else if hs_MaxHeaderBytesKib http \<le> 0 then Some ErrInvalidHttpServerMaxHeaderBytes
     else if hs_Timeout http \<le> 0 then Some ErrInvalidHttpServerTimeout
     else if my_MaxOpenConns mysql \<le> 0 then Some ErrMySQLMaxOpenConnsFailed
     else if my_MaxIdleConns mysql < 0 \<or> my_MaxIdleConns mysql > my_MaxOpenConns mysql then Some ErrMySQLMaxIdleConnsFailed
     else if my_ConnMaxIdleTime mysql \<le> 0 then Some ErrMySQLInvalidConnMaxIdleTime
     else if my_ConnMaxLifetime mysql \<le> 0 then Some ErrMySQLInvalidConnMaxLifetime
     else if my_PingTimeout mysql \<le> 0 then Some ErrMySQLInvalidPingTimeout
     else if cf_ExpireHours c \<le> 0 then Some ErrInvalidJWTExpireHours
     else RabbitMQConfig_Validate ParseRequestURI (cf_RabbitMQ c))"

section \<open>Environment and file\<close>

text \<open>\<^verbatim>\<open>if v := os.Getenv(key); v != "" { ... }\<close> on a field, for a text and for a number that may not parse.\<close>

definition override :: "(string \<Rightarrow> string) \<Rightarrow> string \<Rightarrow> (string \<Rightarrow> 'c \<Rightarrow> 'c) \<Rightarrow> 'c \<Rightarrow> 'c" where
  "override Getenv key set_field c = (if Getenv key \<noteq> [] then set_field (Getenv key) c else c)"

definition override_parsed ::
  "(string \<Rightarrow> string) \<Rightarrow> (string \<Rightarrow> 'v option) \<Rightarrow> string \<Rightarrow> ('v \<Rightarrow> 'c \<Rightarrow> 'c) \<Rightarrow> 'c \<Rightarrow> config_error + 'c" where
  "override_parsed Getenv parse key set_field c =
    (if Getenv key = [] then Inr c
     else case parse (Getenv key) of None \<Rightarrow> Inl (InvalidEnv key) | Some v \<Rightarrow> Inr (set_field v c))"

definition and_config :: "config_error + 'c \<Rightarrow> ('c \<Rightarrow> config_error + 'd) \<Rightarrow> config_error + 'd" where
  "and_config r k = (case r of Inl e \<Rightarrow> Inl e | Inr c \<Rightarrow> k c)"

definition applyRabbitMQEnvOverrides ::
  "(string \<Rightarrow> string) \<Rightarrow> (string \<Rightarrow> duration option) \<Rightarrow> RabbitMQConfig \<Rightarrow> config_error + RabbitMQConfig" where
  "applyRabbitMQEnvOverrides Getenv ParseDuration cfg =
    override_parsed Getenv ParseDuration ''ORDER_TIMEOUT_DELAY'' (\<lambda>delay c. c\<lparr>mq_OrderTimeout := (mq_OrderTimeout c)\<lparr>ot_Delay := delay\<rparr>\<rparr>)
      (override Getenv ''RABBITMQ_URL'' (\<lambda>v c. c\<lparr>mq_URL := v\<rparr>) cfg)"

definition applyEnvOverrides :: "(string \<Rightarrow> string) \<Rightarrow> (string \<Rightarrow> duration option) \<Rightarrow> Config \<Rightarrow> config_error + Config" where
  "applyEnvOverrides Getenv ParseDuration cfg =
    and_config (override_parsed Getenv Atoi ''APP_PORT'' (\<lambda>port c. c\<lparr>cf_ServerPort := port\<rparr>) cfg) (\<lambda>c.
    let c = override Getenv ''DB_HOST'' (\<lambda>v c. c\<lparr>cf_MySQL := (cf_MySQL c)\<lparr>my_Host := v\<rparr>\<rparr>) c;
        c = override Getenv ''DB_PORT'' (\<lambda>v c. c\<lparr>cf_MySQL := (cf_MySQL c)\<lparr>my_Port := v\<rparr>\<rparr>) c;
        c = override Getenv ''DB_USER'' (\<lambda>v c. c\<lparr>cf_MySQL := (cf_MySQL c)\<lparr>my_User := v\<rparr>\<rparr>) c;
        c = override Getenv ''DB_NAME'' (\<lambda>v c. c\<lparr>cf_MySQL := (cf_MySQL c)\<lparr>my_Database := v\<rparr>\<rparr>) c;
        c = override Getenv ''REDIS_ADDR'' (\<lambda>v c. c\<lparr>cf_Redis := (cf_Redis c)\<lparr>rd_Addr := v\<rparr>\<rparr>) c
    in and_config (override_parsed Getenv Atoi ''REDIS_DB'' (\<lambda>n c. c\<lparr>cf_Redis := (cf_Redis c)\<lparr>rd_DB := n\<rparr>\<rparr>) c) (\<lambda>c.
       and_config (applyRabbitMQEnvOverrides Getenv ParseDuration (cf_RabbitMQ c)) (\<lambda>mq.
       override_parsed Getenv Atoi ''JWT_EXPIRE_HOURS'' (\<lambda>hours c. c\<lparr>cf_ExpireHours := hours\<rparr>) (c\<lparr>cf_RabbitMQ := mq\<rparr>))))"

text \<open>\<^verbatim>\<open>LoadConfig\<close>: \<open>file\<close> is what reading it gives and \<open>Unmarshal\<close> decodes the YAML.\<close>

definition LoadConfig ::
  "(string \<Rightarrow> string) \<Rightarrow> (string \<Rightarrow> duration option) \<Rightarrow> (string \<Rightarrow> (string \<times> string) option) \<Rightarrow> ('f \<Rightarrow> string + Config) \<Rightarrow> string + 'f
    \<Rightarrow> config_error + Config" where
  "LoadConfig Getenv ParseDuration ParseRequestURI Unmarshal file =
    (case file of
       Inl e \<Rightarrow> Inl (ReadConfigFailed e)
     | Inr data \<Rightarrow>
         (case Unmarshal data of
            Inl e \<Rightarrow> Inl (ParseConfigFailed e)
          | Inr cfg \<Rightarrow>
              and_config (applyEnvOverrides Getenv ParseDuration cfg) (\<lambda>c.
                case Config_Validate ParseRequestURI c of Some e \<Rightarrow> Inl e | None \<Rightarrow> Inr c)))"

section \<open>Settings of the processes\<close>

definition durationFromEnv ::
  "(string \<Rightarrow> string) \<Rightarrow> (string \<Rightarrow> duration option) \<Rightarrow> string \<Rightarrow> duration \<Rightarrow> config_error + duration" where
  "durationFromEnv Getenv ParseDuration key fallback =
    (let raw = TrimSpace (Getenv key) in
     if raw = [] then Inr fallback
     else case ParseDuration raw of None \<Rightarrow> Inl (InvalidEnv key) | Some d \<Rightarrow> if d \<le> 0 then Inl (InvalidEnv key) else Inr d)"

definition positiveIntFromEnv :: "(string \<Rightarrow> string) \<Rightarrow> string \<Rightarrow> int \<Rightarrow> config_error + int" where
  "positiveIntFromEnv Getenv key fallback =
    (let raw = TrimSpace (Getenv key) in
     if raw = [] then Inr fallback
     else case Atoi raw of None \<Rightarrow> Inl (InvalidEnv key) | Some n \<Rightarrow> if n \<le> 0 then Inl (InvalidEnv key) else Inr n)"

definition ParseBool :: "string \<Rightarrow> bool option" where
  "ParseBool s =
    (if s \<in> set [''1'', ''t'', ''T'', ''true'', ''TRUE'', ''True''] then Some True
     else if s \<in> set [''0'', ''f'', ''F'', ''false'', ''FALSE'', ''False''] then Some False
     else None)"

definition boolFromEnv :: "(string \<Rightarrow> string) \<Rightarrow> string \<Rightarrow> bool \<Rightarrow> config_error + bool" where
  "boolFromEnv Getenv key fallback =
    (let raw = TrimSpace (Getenv key) in
     if raw = [] then Inr fallback else case ParseBool raw of None \<Rightarrow> Inl (InvalidEnv key) | Some b \<Rightarrow> Inr b)"

text \<open>\<^verbatim>\<open>time.Duration(cfg.JWT.ExpireHours)*time.Hour\<close> in 64 bits.\<close>

definition jwt_ttl :: "Config \<Rightarrow> duration" where
  "jwt_ttl cfg = wrap64 (cf_ExpireHours cfg * hour)"

definition buildDSN :: "Config \<Rightarrow> string \<Rightarrow> string option" where
  "buildDSN cfg dbPassword =
    (let m = cf_MySQL cfg in
     if my_User m = [] \<or> dbPassword = [] \<or> my_Host m = [] \<or> my_Port m = [] \<or> my_Database m = [] then None
     else Some (my_User m @ '':'' @ dbPassword @ ''@tcp('' @ my_Host m @ '':'' @ my_Port m @ '')/'' @ my_Database m @
       ''?charset=utf8mb4&parseTime=True&loc=Local''))"

text \<open>\<^verbatim>\<open>InitDB\<close> and \<^verbatim>\<open>InitRedis\<close>: whether the connection is there. \<open>ping\<close> is the outcome of opening and pinging.\<close>

definition InitDB :: "(string \<Rightarrow> string) \<Rightarrow> (string \<Rightarrow> string option) \<Rightarrow> Config \<Rightarrow> string option" where
  "InitDB Getenv ping cfg =
    (case buildDSN cfg (Getenv ''MYSQL_PASSWORD'') of
       None \<Rightarrow> Some ''database config missing''
     | Some dsn \<Rightarrow> ping dsn)"

definition InitRedis :: "(string \<Rightarrow> string) \<Rightarrow> (string \<Rightarrow> string \<Rightarrow> int \<Rightarrow> string option) \<Rightarrow> Config \<Rightarrow> string option" where
  "InitRedis Getenv ping cfg =
    (if rd_Addr (cf_Redis cfg) = [] then Some ''redis addr missing''
     else map_option (\<lambda>e. ''failed to connect to redis: '' @ e)
       (ping (rd_Addr (cf_Redis cfg)) (Getenv ''REDIS_PASSWORD'') (rd_DB (cf_Redis cfg))))"

record http_server =
  sv_Addr :: string
  sv_ReadTimeout :: duration
  sv_WriteTimeout :: duration
  sv_IdleTimeout :: duration
  sv_ReadHeaderTimeout :: duration
  sv_MaxHeaderBytes :: int

definition NewHTTPServer :: "int \<Rightarrow> HttpServerConfig \<Rightarrow> http_server" where
  "NewHTTPServer port cfg = \<lparr>sv_Addr = '':'' @ FormatInt port, sv_ReadTimeout = hs_ReadTimeOut cfg, sv_WriteTimeout = hs_WriteTimeout cfg,
     sv_IdleTimeout = hs_IdleTimeout cfg, sv_ReadHeaderTimeout = hs_ReadHeaderTimeout cfg,
     sv_MaxHeaderBytes = wrap64 (hs_MaxHeaderBytesKib cfg * 1024)\<rparr>"

text \<open>What every service with a token manager does first.\<close>

datatype startup_error = StartConfig config_error | StartDB string | StartWorker string | StartToken token_error | StartSetting config_error

definition Issuer :: string where
  "Issuer = ''go-order-management-system-cloudnative-lab''"

definition service_tokens :: "(string \<Rightarrow> string) \<Rightarrow> Config \<Rightarrow> startup_error + TokenManager" where
  "service_tokens Getenv cfg =
    (case NewTokenManager (Getenv ''JWT_SECRET'') Issuer (jwt_ttl cfg) of Inl e \<Rightarrow> Inl (StartToken e) | Inr m \<Rightarrow> Inr m)"

section \<open>What a loaded configuration promises\<close>

definition order_timeout_ok :: "OrderTimeoutConfig \<Rightarrow> bool" where
  "order_timeout_ok c \<longleftrightarrow> 0 < ot_Delay c \<and> ot_Delay c \<le> 24 * hour \<and> 0 < ot_OutboxPollInterval c \<and> ot_OutboxPollInterval c \<le> minute \<and>
    0 < ot_OutboxRetryDelay c \<and> ot_OutboxRetryDelay c \<le> hour \<and> 1 \<le> ot_PublishBatchSize c \<and> ot_PublishBatchSize c \<le> 1000 \<and>
    1 \<le> ot_ConsumerPrefetch c \<and> ot_ConsumerPrefetch c \<le> 1000"

definition rabbitmq_ok :: "(string \<Rightarrow> (string \<times> string) option) \<Rightarrow> RabbitMQConfig \<Rightarrow> bool" where
  "rabbitmq_ok ParseRequestURI c \<longleftrightarrow> TrimSpace (mq_URL c) \<noteq> [] \<and>
    (\<exists>scheme host. ParseRequestURI (TrimSpace (mq_URL c)) = Some (scheme, host) \<and> host \<noteq> [] \<and> (scheme = ''amqp'' \<or> scheme = ''amqps'')) \<and>
    0 < mq_ConnectTimeout c \<and> mq_ConnectTimeout c \<le> minute \<and> 0 < mq_ReconnectDelay c \<and> mq_ReconnectDelay c \<le> minute \<and>
    order_timeout_ok (mq_OrderTimeout c)"

definition mysql_ok :: "MySQLConfig \<Rightarrow> bool" where
  "mysql_ok m \<longleftrightarrow> my_Host m \<noteq> [] \<and> (\<exists>n. Atoi (my_Port m) = Some n \<and> 0 < n \<and> n \<le> 65535) \<and> my_Database m \<noteq> [] \<and> my_User m \<noteq> [] \<and>
    0 < my_MaxOpenConns m \<and> 0 \<le> my_MaxIdleConns m \<and> my_MaxIdleConns m \<le> my_MaxOpenConns m \<and>
    0 < my_ConnMaxIdleTime m \<and> 0 < my_ConnMaxLifetime m \<and> 0 < my_PingTimeout m"

definition http_ok :: "HttpServerConfig \<Rightarrow> bool" where
  "http_ok h \<longleftrightarrow> 0 < hs_ReadTimeOut h \<and> 0 < hs_WriteTimeout h \<and> 0 < hs_IdleTimeout h \<and> 0 < hs_ReadHeaderTimeout h \<and>
    0 < hs_MaxHeaderBytesKib h \<and> 0 < hs_Timeout h"

definition config_ok :: "(string \<Rightarrow> (string \<times> string) option) \<Rightarrow> Config \<Rightarrow> bool" where
  "config_ok ParseRequestURI c \<longleftrightarrow> 0 < cf_ServerPort c \<and> mysql_ok (cf_MySQL c) \<and> http_ok (cf_Http c) \<and> 0 < cf_ExpireHours c \<and>
    rabbitmq_ok ParseRequestURI (cf_RabbitMQ c)"

lemma OrderTimeout_valid: "OrderTimeoutConfig_Validate c = None \<longleftrightarrow> order_timeout_ok c"
  by (auto simp: OrderTimeoutConfig_Validate_def order_timeout_ok_def)

lemma RabbitMQ_valid: "RabbitMQConfig_Validate P c = None \<longleftrightarrow> rabbitmq_ok P c"
  by (auto simp: RabbitMQConfig_Validate_def rabbitmq_ok_def OrderTimeout_valid Let_def split: option.splits)

lemma Config_valid: "Config_Validate P c = None \<longleftrightarrow> config_ok P c"
proof -
  have port: "(case x of None \<Rightarrow> True | Some n \<Rightarrow> n \<le> 0 \<or> n > (65535 :: int)) \<longleftrightarrow> \<not> (\<exists>n. x = Some n \<and> 0 < n \<and> n \<le> 65535)" for x
    by (cases x) auto
  show ?thesis
    unfolding Config_Validate_def Let_def port config_ok_def mysql_ok_def http_ok_def
    by (simp add: RabbitMQ_valid not_le not_less conj_ac)
qed

lemma LoadConfig_ok: "LoadConfig Getenv ParseDuration P Unmarshal file = Inr cfg \<Longrightarrow> config_ok P cfg"
  by (auto simp: LoadConfig_def and_config_def Config_valid split: sum.splits option.splits)

text \<open>A process that has a database password gets a data source name, and its token manager exists exactly if the secret is
  long enough and the lifetime does not overflow.\<close>

lemma config_DSN: "config_ok P cfg \<Longrightarrow> buildDSN cfg password = None \<longleftrightarrow> password = []"
  by (auto simp: config_ok_def mysql_ok_def buildDSN_def Let_def Atoi_def ParseInt_def)

lemma config_tokens:
  assumes "config_ok P cfg" and "cf_ExpireHours cfg * hour < 2 ^ 63"
  shows "(\<exists>m. service_tokens Getenv cfg = Inr m \<and> tm_ttl m = cf_ExpireHours cfg * hour) \<longleftrightarrow> 32 \<le> length (TrimSpace (Getenv ''JWT_SECRET''))"
proof -
  have "0 < cf_ExpireHours cfg" using assms(1) by (simp add: config_ok_def)
  then have ttl: "jwt_ttl cfg = cf_ExpireHours cfg * hour" using assms(2) unfolding jwt_ttl_def by (intro wrap64_id) (simp add: int64_defs)
  moreover have "TrimSpace Issuer \<noteq> []" by code_simp
  ultimately show ?thesis using \<open>0 < cf_ExpireHours cfg\<close>
    by (auto simp: service_tokens_def NewTokenManager_def Let_def split: sum.splits)
qed

end
