(* ===== verification/Shop_Main.thy ===== *)
theory Shop_Main
  imports App_Config Shop_Timeout
begin

text \<open>
  The start of the single-process application: \<^verbatim>\<open>InitDeps\<close> of \<^verbatim>\<open>internal/app/deps.go\<close>. It loads the configuration, opens the database,
  tries Redis, and builds the worker and the token manager. The order of the steps decides which error is reported.
\<close>

definition shop_worker_config_of :: "Config \<Rightarrow> shop_worker_config" where
  "shop_worker_config_of cfg =
    (let mq = cf_RabbitMQ cfg; t = mq_OrderTimeout mq in
     \<lparr>wc_URL = mq_URL mq, wc_ConnectTimeout = mq_ConnectTimeout mq, wc_ReconnectDelay = mq_ReconnectDelay mq,
      wc_OutboxPollInterval = ot_OutboxPollInterval t, wc_OutboxRetryDelay = ot_OutboxRetryDelay t,
      wc_PublishBatchSize = ot_PublishBatchSize t, wc_ConsumerPrefetch = ot_ConsumerPrefetch t\<rparr>)"

record deps =
  dp_Config :: Config
  dp_Redis :: bool \<comment> \<open>whether the product cache has a client\<close>
  dp_TimeoutDelay :: duration
  dp_Worker :: shop_worker_config
  dp_TokenManager :: TokenManager

definition InitDeps ::
  "(string \<Rightarrow> string) \<Rightarrow> (string \<Rightarrow> string option) \<Rightarrow> (string \<Rightarrow> string \<Rightarrow> int \<Rightarrow> string option) \<Rightarrow> config_error + Config \<Rightarrow> startup_error + deps" where
  "InitDeps Getenv pingDB pingRedis loaded =
    (case loaded of
       Inl e \<Rightarrow> Inl (StartConfig e)
     | Inr cfg \<Rightarrow>
         (case InitDB Getenv pingDB cfg of
            Some e \<Rightarrow> Inl (StartDB e)
          | None \<Rightarrow>
              let redis = (InitRedis Getenv pingRedis cfg = None) in
              (case shop_NewWorker (shop_worker_config_of cfg) True True True of
                 Inl e \<Rightarrow> Inl (StartWorker e)
               | Inr worker \<Rightarrow>
                   (case service_tokens Getenv cfg of
                      Inl e \<Rightarrow> Inl e
                    | Inr tokens \<Rightarrow>
                        Inr \<lparr>dp_Config = cfg, dp_Redis = redis, dp_TimeoutDelay = ot_Delay (mq_OrderTimeout (cf_RabbitMQ cfg)),
                          dp_Worker = worker, dp_TokenManager = tokens\<rparr>))))"

definition app_NewHTTPServer :: "deps \<Rightarrow> http_server" where
  "app_NewHTTPServer d = NewHTTPServer (cf_ServerPort (dp_Config d)) (cf_Http (dp_Config d))"

lemma worker_accepts_config:
  "config_ok P cfg \<Longrightarrow> shop_NewWorker (shop_worker_config_of cfg) True True True = Inr (shop_worker_config_of cfg)"
  by (auto simp: config_ok_def rabbitmq_ok_def order_timeout_ok_def shop_NewWorker_def shop_worker_config_of_def Let_def)

text \<open>C40. A configuration that loads is complete: with it the application starts exactly if there is a database password, the
  database answers and the secret of the tokens has at least 32 bytes; otherwise the first of these that is missing is
  reported. The worker accepts the configuration, the tokens live as many hours as configured, and a Redis that cannot be
  reached only switches the cache off. The hours must be few enough for 64-bit nanoseconds.\<close>

theorem startup_needs:
  assumes "LoadConfig Getenv ParseDuration ParseRequestURI Unmarshal file = Inr cfg" and "cf_ExpireHours cfg * hour < 2 ^ 63"
  shows "InitDeps Getenv pingDB pingRedis (Inr cfg) =
    (if Getenv ''MYSQL_PASSWORD'' = [] then Inl (StartDB ''database config missing'')
     else case pingDB (the (buildDSN cfg (Getenv ''MYSQL_PASSWORD''))) of
       Some e \<Rightarrow> Inl (StartDB e)
     | None \<Rightarrow>
         if length (TrimSpace (Getenv ''JWT_SECRET'')) < 32 then Inl (StartToken ErrJWTSecretTooShort)
         else Inr \<lparr>dp_Config = cfg, dp_Redis = (InitRedis Getenv pingRedis cfg = None),
           dp_TimeoutDelay = ot_Delay (mq_OrderTimeout (cf_RabbitMQ cfg)), dp_Worker = shop_worker_config_of cfg,
           dp_TokenManager = \<lparr>tm_secret = TrimSpace (Getenv ''JWT_SECRET''), tm_issuer = Issuer, tm_ttl = cf_ExpireHours cfg * hour\<rparr>\<rparr>)"
proof -
  have ok: "config_ok ParseRequestURI cfg" using assms(1) by (rule LoadConfig_ok)
  have "0 < cf_ExpireHours cfg" using ok by (simp add: config_ok_def)
  then have ttl: "jwt_ttl cfg = cf_ExpireHours cfg * hour" using assms(2) unfolding jwt_ttl_def by (intro wrap64_id) (simp add: int64_defs)
  have "TrimSpace Issuer \<noteq> []" by code_simp
  with \<open>0 < cf_ExpireHours cfg\<close> have tokens: "service_tokens Getenv cfg =
      (if length (TrimSpace (Getenv ''JWT_SECRET'')) < 32 then Inl (StartToken ErrJWTSecretTooShort)
       else Inr \<lparr>tm_secret = TrimSpace (Getenv ''JWT_SECRET''), tm_issuer = Issuer, tm_ttl = cf_ExpireHours cfg * hour\<rparr>)"
    by (simp add: service_tokens_def NewTokenManager_def Let_def ttl)
  show ?thesis
    using config_DSN [OF ok, of "Getenv ''MYSQL_PASSWORD''"]
    by (auto simp: InitDeps_def InitDB_def worker_accepts_config [OF ok] tokens Let_def split: option.splits)
qed

text \<open>The hours of a valid configuration are not bounded: with these the lifetime overflows, and is negative or 25 minutes.\<close>

lemma jwt_ttl_overflow:
  "cf_ExpireHours cfg = 2562048 \<Longrightarrow> jwt_ttl cfg < 0"
  "cf_ExpireHours cfg = 5124096 \<Longrightarrow> jwt_ttl cfg = 1526290448384"
  by (simp_all add: jwt_ttl_def wrap64_def)

section \<open>A configuration\<close>

definition demo_config :: Config where
  "demo_config = \<lparr>cf_ServerPort = 8080,
     cf_MySQL = \<lparr>my_User = ''app'', my_Host = ''db'', my_Port = ''3306'', my_Database = ''shop'', my_MaxOpenConns = 20, my_MaxIdleConns = 5,
       my_ConnMaxLifetime = 30 * minute, my_ConnMaxIdleTime = 5 * minute, my_PingTimeout = minute\<rparr>,
     cf_Redis = \<lparr>rd_Addr = ''redis:6379'', rd_DB = 0\<rparr>,
     cf_RabbitMQ = \<lparr>mq_URL = ''amqp://rabbitmq'', mq_ConnectTimeout = minute, mq_ReconnectDelay = minute,
       mq_OrderTimeout = \<lparr>ot_Delay = 15 * minute, ot_OutboxPollInterval = minute, ot_OutboxRetryDelay = minute, ot_PublishBatchSize = 100,
         ot_ConsumerPrefetch = 10\<rparr>\<rparr>,
     cf_ExpireHours = 24,
     cf_Http = \<lparr>hs_ReadTimeOut = minute, hs_WriteTimeout = minute, hs_IdleTimeout = minute, hs_ReadHeaderTimeout = minute,
       hs_MaxHeaderBytesKib = 64, hs_Timeout = minute\<rparr>\<rparr>"

definition demo_env :: "string \<Rightarrow> string" where
  "demo_env key = (if key = ''MYSQL_PASSWORD'' then ''pw'' else if key = ''JWT_SECRET'' then replicate 32 CHR ''s'' else [])"

theorem startup_needs_witness:
  "\<exists>d. InitDeps demo_env (\<lambda>_. None) (\<lambda>_ _ _. Some ''refused'') (Inr demo_config) = Inr d \<and> \<not> dp_Redis d \<and>
     tm_ttl (dp_TokenManager d) = 24 * hour"
proof -
  let ?uri = "\<lambda>_ :: string. Some (''amqp'', ''rabbitmq'')"
  have "config_ok ?uri demo_config"
  proof -
    have "Atoi ''3306'' = Some 3306" by code_simp
    moreover have "TrimSpace ''amqp://rabbitmq'' \<noteq> []" by code_simp
    ultimately show ?thesis
      by (simp add: demo_config_def config_ok_def mysql_ok_def http_ok_def rabbitmq_ok_def order_timeout_ok_def)
  qed
  then have load: "LoadConfig demo_env (\<lambda>_. None) ?uri Inr (Inr demo_config) = Inr demo_config"
    by (simp add: LoadConfig_def applyEnvOverrides_def applyRabbitMQEnvOverrides_def override_def override_parsed_def and_config_def
        demo_env_def Let_def flip: Config_valid)
  have small: "cf_ExpireHours demo_config * hour < 2 ^ 63" by (simp add: demo_config_def)
  have "length (TrimSpace (demo_env ''JWT_SECRET'')) = 32" by code_simp
  with startup_needs [OF load small, of "\<lambda>_. None" "\<lambda>_ _ _. Some ''refused''"] show ?thesis
    by (simp add: demo_env_def InitRedis_def) (simp add: demo_config_def)
qed

end
