(* ===== verification/Service_Main.thy ===== *)
theory Service_Main
  imports App_Config Gateway Reliability Worker_Metrics Reconciliation
begin

text \<open>
  The start of the worker processes, \<^verbatim>\<open>cmd/order-timeout-worker\<close> and \<^verbatim>\<open>cmd/order-reconciliation-worker\<close>: the settings they read
  from the environment and what they build from them, up to the point where they run. An invalid setting ends the
  process with its error. Loading the configuration and opening the database come first and are the same as in
  \<^verbatim>\<open>InitDeps\<close>.
\<close>

definition and_setting :: "config_error + 'a \<Rightarrow> ('a \<Rightarrow> startup_error + 'b) \<Rightarrow> startup_error + 'b" where
  "and_setting r k = (case r of Inl e \<Rightarrow> Inl (StartSetting e) | Inr x \<Rightarrow> k x)"

record timeout_process =
  tp_worker :: WorkerConfig
  tp_indicatorInterval :: duration
  tp_stuckThreshold :: duration
  tp_collector :: rabbitMQManagementCollector
  tp_metricsAddr :: string

definition timeout_worker_config ::
  "(string \<Rightarrow> string) \<Rightarrow> Config \<Rightarrow> duration \<Rightarrow> duration \<Rightarrow> WorkerConfig" where
  "timeout_worker_config Getenv cfg lease confirm =
    \<lparr>wc_URL = mq_URL (cf_RabbitMQ cfg), wc_ReconnectDelay = mq_ReconnectDelay (cf_RabbitMQ cfg),
     wc_PollInterval = ot_OutboxPollInterval (mq_OrderTimeout (cf_RabbitMQ cfg)),
     wc_RetryDelay = ot_OutboxRetryDelay (mq_OrderTimeout (cf_RabbitMQ cfg)),
     wc_BatchSize = ot_PublishBatchSize (mq_OrderTimeout (cf_RabbitMQ cfg)),
     wc_Prefetch = ot_ConsumerPrefetch (mq_OrderTimeout (cf_RabbitMQ cfg)),
     wc_OrderServiceURL = Getenv ''ORDER_SERVICE_URL'', wc_InternalToken = Getenv ''INTERNAL_SERVICE_TOKEN'',
     wc_CallTimeout = 10000000000, wc_WorkerID = Getenv ''WORKER_ID'', wc_LeaseDuration = lease, wc_PublishConfirmTimeout = confirm\<rparr>"

definition timeout_worker_main ::
  "(string \<Rightarrow> string) \<Rightarrow> (string \<Rightarrow> duration option) \<Rightarrow> (string \<Rightarrow> parsed_url option) \<Rightarrow> (string \<Rightarrow> string option) \<Rightarrow> string \<Rightarrow> Config
    \<Rightarrow> startup_error + timeout_process" where
  "timeout_worker_main Getenv ParseDuration url_Parse PathUnescape uuid cfg =
    and_setting (durationFromEnv Getenv ParseDuration ''OUTBOX_LEASE_DURATION'' 30000000000) (\<lambda>lease.
    and_setting (durationFromEnv Getenv ParseDuration ''RABBITMQ_PUBLISH_CONFIRM_TIMEOUT'' 5000000000) (\<lambda>confirm.
    and_setting (durationFromEnv Getenv ParseDuration ''ORDER_RELIABILITY_LOG_INTERVAL'' 60000000000) (\<lambda>interval.
    and_setting (durationFromEnv Getenv ParseDuration ''ORDER_TRANSIENT_STUCK_THRESHOLD'' 300000000000) (\<lambda>stuck.
    and_setting (durationFromEnv Getenv ParseDuration ''RABBITMQ_MANAGEMENT_METRICS_TIMEOUT'' 2000000000) (\<lambda>management.
      (case NewReliabilityReporter True stuck of
         Inl e \<Rightarrow> Inl (StartWorker e)
       | Inr threshold \<Rightarrow>
           (case RabbitMQManagementPrometheusCollector url_Parse PathUnescape
               (envOrDefault Getenv ''RABBITMQ_MANAGEMENT_URL'' ''http://rabbitmq:15672'') (mq_URL (cf_RabbitMQ cfg)) management of
              Inl e \<Rightarrow> Inl (StartWorker e)
            | Inr collector \<Rightarrow>
                (case NewWorker uuid (timeout_worker_config Getenv cfg lease confirm) of
                   None \<Rightarrow> Inl (StartWorker ''order timeout worker configuration is incomplete'')
                 | Some worker \<Rightarrow>
                     Inr \<lparr>tp_worker = worker, tp_indicatorInterval = interval, tp_stuckThreshold = threshold, tp_collector = collector,
                       tp_metricsAddr = envOrDefault Getenv ''METRICS_ADDR'' '':9091''\<rparr>))))))))"

text \<open>\<^verbatim>\<open>RunReliabilityLogLoop\<close> normalises its interval.\<close>

definition log_interval :: "duration \<Rightarrow> duration" where
  "log_interval interval = (if interval \<le> 0 then 60000000000 else interval)"

definition reconciliation_main ::
  "(string \<Rightarrow> string) \<Rightarrow> (string \<Rightarrow> duration option) \<Rightarrow> time \<Rightarrow> startup_error + ReconciliationWorkerConfig \<times> bool" where
  "reconciliation_main Getenv ParseDuration now =
    and_setting (durationFromEnv Getenv ParseDuration ''RECONCILIATION_POLL_INTERVAL'' 2000000000) (\<lambda>poll.
    and_setting (durationFromEnv Getenv ParseDuration ''RECONCILIATION_RETRY_DELAY'' 5000000000) (\<lambda>retry.
    and_setting (durationFromEnv Getenv ParseDuration ''RECONCILIATION_MAX_RETRY_DELAY'' 300000000000) (\<lambda>maxRetry.
    and_setting (durationFromEnv Getenv ParseDuration ''RECONCILIATION_LEASE_DURATION'' 30000000000) (\<lambda>lease.
    and_setting (durationFromEnv Getenv ParseDuration ''RECONCILIATION_CALL_TIMEOUT'' 10000000000) (\<lambda>call.
    and_setting (positiveIntFromEnv Getenv ''RECONCILIATION_BATCH_SIZE'' 10) (\<lambda>batch.
    and_setting (boolFromEnv Getenv ''RECONCILIATION_DRY_RUN'' False) (\<lambda>dryRun.
      Inr (rw_normalized now \<lparr>rw_WorkerID = Getenv ''WORKER_ID'', rw_PollInterval = poll, rw_RetryDelay = retry,
        rw_MaxRetryDelay = maxRetry, rw_LeaseDuration = lease, rw_CallTimeout = call, rw_BatchSize = batch\<rparr>, dryRun))))))))"

section \<open>What the processes run with\<close>

lemma durationFromEnv_pos: "durationFromEnv G PD key fallback = Inr d \<Longrightarrow> 0 < fallback \<Longrightarrow> 0 < d"
  by (auto simp: durationFromEnv_def Let_def split: if_splits option.splits)

lemma positiveIntFromEnv_pos: "positiveIntFromEnv G key fallback = Inr n \<Longrightarrow> 0 < fallback \<Longrightarrow> 0 < n"
  by (auto simp: positiveIntFromEnv_def Let_def split: if_splits option.splits)

lemma and_setting_Inr: "and_setting r k = Inr y \<longleftrightarrow> (\<exists>x. r = Inr x \<and> k x = Inr y)"
  by (cases r) (simp_all add: and_setting_def)

lemma case_sum_Inr: "(case r of Inl e \<Rightarrow> Inl (f e) | Inr x \<Rightarrow> k x) = Inr y \<longleftrightarrow> (\<exists>x. r = Inr x \<and> k x = Inr y)"
  by (cases r) simp_all

lemma case_option_Inr: "(case r of None \<Rightarrow> Inl e | Some x \<Rightarrow> k x) = Inr y \<longleftrightarrow> (\<exists>x. r = Some x \<and> k x = Inr y)"
  by (cases r) simp_all

text \<open>A timeout worker that starts from a loaded configuration keeps its settings: nothing is replaced by a default, the
  leases and waits are positive, and the batch is that of the configuration.\<close>

theorem timeout_process_settings:
  assumes "config_ok P cfg" and "timeout_worker_main Getenv ParseDuration url_Parse PathUnescape uuid cfg = Inr p"
  shows "wc_BatchSize (tp_worker p) = ot_PublishBatchSize (mq_OrderTimeout (cf_RabbitMQ cfg)) \<and>
    wc_RetryDelay (tp_worker p) = ot_OutboxRetryDelay (mq_OrderTimeout (cf_RabbitMQ cfg)) \<and>
    wc_PollInterval (tp_worker p) = ot_OutboxPollInterval (mq_OrderTimeout (cf_RabbitMQ cfg)) \<and>
    durationFromEnv Getenv ParseDuration ''OUTBOX_LEASE_DURATION'' 30000000000 = Inr (wc_LeaseDuration (tp_worker p)) \<and>
    0 < wc_LeaseDuration (tp_worker p) \<and> 0 < wc_PublishConfirmTimeout (tp_worker p) \<and> 0 < tp_stuckThreshold p \<and>
    log_interval (tp_indicatorInterval p) = tp_indicatorInterval p"
proof -
  from assms(2) obtain lease confirm interval stuck w where
    l: "durationFromEnv Getenv ParseDuration ''OUTBOX_LEASE_DURATION'' 30000000000 = Inr lease"
    and c: "durationFromEnv Getenv ParseDuration ''RABBITMQ_PUBLISH_CONFIRM_TIMEOUT'' 5000000000 = Inr confirm"
    and i: "durationFromEnv Getenv ParseDuration ''ORDER_RELIABILITY_LOG_INTERVAL'' 60000000000 = Inr interval"
    and s: "durationFromEnv Getenv ParseDuration ''ORDER_TRANSIENT_STUCK_THRESHOLD'' 300000000000 = Inr stuck"
    and w: "NewWorker uuid (timeout_worker_config Getenv cfg lease confirm) = Some w"
    and p: "tp_worker p = w" "tp_indicatorInterval p = interval" "tp_stuckThreshold p = (if stuck \<le> 0 then 300000000000 else stuck)"
    unfolding timeout_worker_main_def and_setting_Inr case_sum_Inr case_option_Inr
    by (auto simp: NewReliabilityReporter_def)
  have pos: "0 < lease" "0 < confirm" "0 < interval" "0 < stuck"
    using durationFromEnv_pos [OF l] durationFromEnv_pos [OF c] durationFromEnv_pos [OF i] durationFromEnv_pos [OF s] by simp_all
  have "order_timeout_ok (mq_OrderTimeout (cf_RabbitMQ cfg))" using assms(1) by (simp add: config_ok_def rabbitmq_ok_def)
  with w pos show ?thesis unfolding p l
    by (auto simp: NewWorker_def timeout_worker_config_def order_timeout_ok_def log_interval_def Let_def split: if_splits)
qed

text \<open>A reconciliation worker runs with positive delays, a delay cap at least as large as the first delay and a batch of at
  most a hundred.\<close>

theorem reconciliation_settings:
  assumes "reconciliation_main Getenv ParseDuration now = Inr (cfg, dryRun)"
  shows "0 < rw_PollInterval cfg \<and> 0 < rw_RetryDelay cfg \<and> rw_RetryDelay cfg \<le> rw_MaxRetryDelay cfg \<and> 0 < rw_LeaseDuration cfg \<and>
    0 < rw_CallTimeout cfg \<and> 0 < rw_BatchSize cfg \<and> rw_BatchSize cfg \<le> 100 \<and> rw_WorkerID cfg \<noteq> []"
proof -
  from assms obtain poll retry maxRetry lease call batch where
    "durationFromEnv Getenv ParseDuration ''RECONCILIATION_POLL_INTERVAL'' 2000000000 = Inr poll"
    "durationFromEnv Getenv ParseDuration ''RECONCILIATION_RETRY_DELAY'' 5000000000 = Inr retry"
    "durationFromEnv Getenv ParseDuration ''RECONCILIATION_LEASE_DURATION'' 30000000000 = Inr lease"
    "durationFromEnv Getenv ParseDuration ''RECONCILIATION_CALL_TIMEOUT'' 10000000000 = Inr call"
    "positiveIntFromEnv Getenv ''RECONCILIATION_BATCH_SIZE'' 10 = Inr batch"
    and c: "cfg = rw_normalized now \<lparr>rw_WorkerID = Getenv ''WORKER_ID'', rw_PollInterval = poll, rw_RetryDelay = retry,
        rw_MaxRetryDelay = maxRetry, rw_LeaseDuration = lease, rw_CallTimeout = call, rw_BatchSize = batch\<rparr>"
    unfolding reconciliation_main_def and_setting_Inr by auto
  then have "0 < poll" "0 < retry" "0 < lease" "0 < call" "0 < batch"
    by (auto dest: durationFromEnv_pos positiveIntFromEnv_pos)
  then show ?thesis by (auto simp: c rw_normalized_def Let_def)
qed

end
