(* ===== verification/Routes.thy ===== *)
theory Routes
  imports Auth
begin

text \<open>
  The HTTP surface of the single-process application: the route table of \<^verbatim>\<open>router/router.go\<close>, the health handlers, and the
  middlewares in front of every handler (request id, recovery, access log, timeout). Matching a path against the
  registered patterns is \<^verbatim>\<open>gin\<close>'s: it is an argument, of which only is used that it picks a registered route of the
  request's method.
\<close>

section \<open>Routes\<close>

datatype guard = NeedsToken | NeedsAdmin

datatype endpoint =
    EpPing | EpLive | EpReadyz
  | EpRegister | EpLogin | EpMe | EpUpdateProfile | EpUpdatePassword
  | EpListProducts | EpGetProductByID | EpCreateProduct | EpOnSaleProduct | EpOffSaleProduct
  | EpGetInventoryByProductID | EpInitInventory | EpAddInventory | EpListStockLogs
  | EpCreateOrder | EpGetOrderByID | EpListOrders | EpCancelOrders | EpPayOrder | EpFinishOrder

record shop_route =
  rt_verb :: string
  rt_path :: string
  rt_guards :: "guard list"
  rt_endpoint :: endpoint

text \<open>A group of \<^verbatim>\<open>gin\<close> has a prefix and the middlewares of its handlers.\<close>

definition route_in :: "string \<Rightarrow> guard list \<Rightarrow> string \<Rightarrow> string \<Rightarrow> endpoint \<Rightarrow> shop_route" where
  "route_in prefix guards verb path e = \<lparr>rt_verb = verb, rt_path = prefix @ path, rt_guards = guards, rt_endpoint = e\<rparr>"

definition registerHealthRouters :: "shop_route list" where
  "registerHealthRouters =
    [route_in [] [] ''GET'' ''/ping'' EpPing, route_in [] [] ''GET'' ''/live'' EpLive, route_in [] [] ''GET'' ''/readyz'' EpReadyz]"

definition registerAuthAPIRouter :: "string \<Rightarrow> guard list \<Rightarrow> shop_route list" where
  "registerAuthAPIRouter rg gs =
    [route_in (rg @ ''/auth'') gs ''POST'' ''/register'' EpRegister, route_in (rg @ ''/auth'') gs ''POST'' ''/login'' EpLogin]"

definition registerUserAPIRouter :: "string \<Rightarrow> guard list \<Rightarrow> shop_route list" where
  "registerUserAPIRouter rg gs =
    [route_in (rg @ ''/users'') gs ''GET'' ''/me'' EpMe, route_in (rg @ ''/users'') gs ''PUT'' ''/me/profile'' EpUpdateProfile,
     route_in (rg @ ''/users'') gs ''PATCH'' ''/me/password'' EpUpdatePassword]"

definition registerProductAPIRouter :: "string \<Rightarrow> guard list \<Rightarrow> shop_route list" where
  "registerProductAPIRouter rg gs =
    (let admin = gs @ [NeedsAdmin] in
     [route_in rg gs ''GET'' ''/products'' EpListProducts, route_in rg gs ''GET'' ''/products/:id'' EpGetProductByID,
      route_in rg admin ''POST'' ''/products'' EpCreateProduct, route_in rg admin ''PATCH'' ''/products/:id/on-sale'' EpOnSaleProduct,
      route_in rg admin ''PATCH'' ''/products/:id/off-sale'' EpOffSaleProduct])"

definition registerInventoryAPIRouter :: "string \<Rightarrow> guard list \<Rightarrow> shop_route list" where
  "registerInventoryAPIRouter rg gs =
    (let admin = gs @ [NeedsAdmin] in
     [route_in rg gs ''GET'' ''/inventory/products/:product_id'' EpGetInventoryByProductID,
      route_in rg admin ''POST'' ''/inventory/init'' EpInitInventory, route_in rg admin ''POST'' ''/inventory/add'' EpAddInventory])"

definition registerStockLogAPIRouter :: "string \<Rightarrow> guard list \<Rightarrow> shop_route list" where
  "registerStockLogAPIRouter rg gs = [route_in rg (gs @ [NeedsAdmin]) ''GET'' ''/stock-logs'' EpListStockLogs]"

definition registerOrderAPIRouter :: "string \<Rightarrow> guard list \<Rightarrow> shop_route list" where
  "registerOrderAPIRouter rg gs =
    [route_in rg gs ''POST'' ''/orders'' EpCreateOrder, route_in rg gs ''GET'' ''/orders/:id'' EpGetOrderByID,
     route_in rg gs ''GET'' ''/orders'' EpListOrders, route_in rg gs ''PATCH'' ''/orders/:id/cancel'' EpCancelOrders,
     route_in rg gs ''PATCH'' ''/orders/:id/pay'' EpPayOrder, route_in rg gs ''PATCH'' ''/orders/:id/finish'' EpFinishOrder]"

definition registerAPIRouter :: "shop_route list" where
  "registerAPIRouter =
    (let apiV1 = ''/api/v1''; protected = [NeedsToken] in
     registerAuthAPIRouter apiV1 [] @ registerUserAPIRouter apiV1 protected @ registerProductAPIRouter apiV1 protected @
     registerInventoryAPIRouter apiV1 protected @ registerStockLogAPIRouter apiV1 protected @ registerOrderAPIRouter apiV1 protected)"

definition SetupRouters :: "shop_route list" where
  "SetupRouters = registerHealthRouters @ registerAPIRouter"

section \<open>Serving a request\<close>

text \<open>The guards of a route, in order. The identity they establish is \<open>None\<close> until the token is checked.\<close>

fun run_guards ::
  "jwt_parse \<Rightarrow> TokenManager \<Rightarrow> time \<Rightarrow> (int \<Rightarrow> string \<Rightarrow> 's \<Rightarrow> 's \<times> ('e + bool)) option \<Rightarrow> string \<Rightarrow> guard list
    \<Rightarrow> auth_identity option \<Rightarrow> 's \<Rightarrow> 's \<times> auth_identity option gate" where
  "run_guards Parse tm now checker header [] who s = (s, Inr who)"
| "run_guards Parse tm now checker header (NeedsToken # gs) who s =
    (case AuthMiddleware Parse tm now header of
       Inl e \<Rightarrow> (s, Inl e)
     | Inr identity \<Rightarrow> run_guards Parse tm now checker header gs (Some identity) s)"
| "run_guards Parse tm now checker header (NeedsAdmin # gs) who s =
    (case AdminMiddleware checker (map_option id_UserID who) s of
       (s', Inl e) \<Rightarrow> (s', Inl e)
     | (s', Inr _) \<Rightarrow> run_guards Parse tm now checker header gs who s')"

datatype served = RouteNotFound | Refused int response_code | Handled endpoint "auth_identity option"

definition route_request ::
  "(shop_route list \<Rightarrow> string \<Rightarrow> string \<Rightarrow> shop_route option) \<Rightarrow> jwt_parse \<Rightarrow> TokenManager \<Rightarrow> time
    \<Rightarrow> (int \<Rightarrow> string \<Rightarrow> 's \<Rightarrow> 's \<times> ('e + bool)) option \<Rightarrow> string \<Rightarrow> string \<Rightarrow> string \<Rightarrow> 's \<Rightarrow> 's \<times> served" where
  "route_request Match Parse tm now checker verb path header s =
    (case Match SetupRouters verb path of
       None \<Rightarrow> (s, RouteNotFound)
     | Some r \<Rightarrow>
         (case run_guards Parse tm now checker header (rt_guards r) None s of
            (s', Inl (status, code)) \<Rightarrow> (s', Refused status code)
          | (s', Inr who) \<Rightarrow> (s', Handled (rt_endpoint r) who)))"

text \<open>The role checker of the application reads the identity tables in the same process.\<close>

definition local_checker :: "id_site env \<Rightarrow> int \<Rightarrow> string \<Rightarrow> identity_db \<Rightarrow> identity_db \<times> (db_error + bool)" where
  "local_checker env userID role db = (db, HasRole env userID role db)"

section \<open>Health\<close>

datatype health_data = HealthMessage string | HealthStatus string

definition PingHandler :: "health_data app_reply" where "PingHandler = Success (HealthMessage ''success'')"
definition LiveHandler :: "health_data app_reply" where "LiveHandler = Success (HealthMessage ''live'')"

definition ReadyzHandler :: "bool \<Rightarrow> bool \<Rightarrow> health_data app_reply" where
  "ReadyzHandler hasDb pings =
    (if \<not> hasDb then Fail 503 CodeReadinessFailed
     else if \<not> pings then Fail 503 CodeReadinessFailed
     else Success (HealthStatus ''ready''))"

section \<open>Middlewares around every handler\<close>

text \<open>\<^verbatim>\<open>ensureRequestID\<close>: the id of the request, which is also put into its header.\<close>

definition ensureRequestID :: "string \<Rightarrow> string \<Rightarrow> string" where
  "ensureRequestID uuid header = (if header = [] then uuid else header)"

text \<open>\<^verbatim>\<open>Recovery\<close>: a handler answers, or panics after writing an answer or before.\<close>

datatype handler_run = Answers int | Panics "int option"

definition Recovery :: "handler_run \<Rightarrow> int" where
  "Recovery r = (case r of Answers status \<Rightarrow> status | Panics (Some status) \<Rightarrow> status | Panics None \<Rightarrow> 500)"

datatype log_level = LevelInfo | LevelWarn | LevelError

definition access_level :: "int \<Rightarrow> log_level" where
  "access_level status = (if status \<ge> 500 then LevelError else if status \<ge> 400 then LevelWarn else LevelInfo)"

text \<open>What a client and the log see of a request: the chain \<^verbatim>\<open>TimeoutHandler\<close>, \<^verbatim>\<open>RequestID\<close>, \<^verbatim>\<open>AccessLog\<close>, \<^verbatim>\<open>Recovery\<close> and the handler.
  \<open>finishes\<close> says whether the handler is done before the timeout; if not, \<^verbatim>\<open>http.TimeoutHandler\<close> answers 503 in its place.
  The log has the id and the status of the handler.\<close>

record exchange =
  ex_status :: int
  ex_requestID :: string
  ex_logged :: "string \<times> int \<times> log_level"

definition serve_exchange :: "duration \<Rightarrow> bool \<Rightarrow> string \<Rightarrow> string \<Rightarrow> handler_run \<Rightarrow> exchange" where
  "serve_exchange timeout finishes uuid header r =
    (let rid = ensureRequestID uuid header;
         inner = ensureRequestID uuid rid;
         status = Recovery r
     in \<lparr>ex_status = (if 0 < timeout \<and> \<not> finishes then 503 else status), ex_requestID = (if 0 < timeout then rid else inner),
         ex_logged = (inner, status, access_level status)\<rparr>)"

section \<open>Properties\<close>

lemma serve_exchange_id:
  assumes "uuid \<noteq> []"
  shows "ex_requestID (serve_exchange t f uuid header r) = fst (ex_logged (serve_exchange t f uuid header r))"
    and "ex_requestID (serve_exchange t f uuid header r) \<noteq> []"
  using assms by (auto simp: serve_exchange_def ensureRequestID_def Let_def)

definition admin_endpoints :: "endpoint list" where
  "admin_endpoints = [EpCreateProduct, EpOnSaleProduct, EpOffSaleProduct, EpInitInventory, EpAddInventory, EpListStockLogs]"

definition public_endpoints :: "endpoint list" where
  "public_endpoints = [EpPing, EpLive, EpReadyz, EpRegister, EpLogin]"

lemma route_guards:
  assumes "r \<in> set SetupRouters"
  shows "rt_guards r = (if rt_endpoint r \<in> set public_endpoints then []
    else if rt_endpoint r \<in> set admin_endpoints then [NeedsToken, NeedsAdmin] else [NeedsToken])"
proof -
  have "list_all (\<lambda>r. rt_guards r = (if rt_endpoint r \<in> set public_endpoints then []
    else if rt_endpoint r \<in> set admin_endpoints then [NeedsToken, NeedsAdmin] else [NeedsToken])) SetupRouters"
    by code_simp
  with assms show ?thesis by (simp add: list_all_iff)
qed

lemma local_admin:
  "AdminMiddleware (Some (local_checker env)) (Some u) db = (db', Inr ()) \<Longrightarrow> db' = db \<and> 0 < u \<and> UserHasRole u ''admin'' db"
  by (auto simp: AdminMiddleware_def app_currentUserID_def local_checker_def HasRole_def stmt_def
      split: option.splits if_splits sum.splits outcome.splits)

text \<open>What is used of the matching of paths.\<close>

definition match_law :: "(shop_route list \<Rightarrow> string \<Rightarrow> string \<Rightarrow> shop_route option) \<Rightarrow> bool" where
  "match_law Match \<longleftrightarrow> (\<forall>rs verb path r. Match rs verb path = Some r \<longrightarrow> r \<in> set rs \<and> rt_verb r = verb)"

text \<open>C39. The routes are protected. A request reaches a handler other than those for health, registration and login only with a
  token the token manager accepts, and the handler is given the identity of that token; it reaches a handler that changes
  products or stock or reads the stock log only if that user also has the administrator role. Without that, nothing
  is served: the answer is a refusal.\<close>

theorem routes_protected:
  assumes "match_law Match"
    and "route_request Match Parse tm now (Some (local_checker env)) verb path header db = (db', Handled e who)"
  shows "e \<in> set public_endpoints \<and> who = None \<or>
    (\<exists>identity. who = Some identity \<and> AuthMiddleware Parse tm now header = Inr identity \<and>
      (e \<in> set admin_endpoints \<longrightarrow> 0 < id_UserID identity \<and> UserHasRole (id_UserID identity) ''admin'' db))"
proof -
  from assms(2) obtain r where m: "Match SetupRouters verb path = Some r" and e: "rt_endpoint r = e"
    and g: "run_guards Parse tm now (Some (local_checker env)) header (rt_guards r) None db = (db', Inr who)"
    by (auto simp: route_request_def split: option.splits prod.splits sum.splits)
  have r: "r \<in> set SetupRouters" "rt_endpoint r = e"
    using assms(1) [unfolded match_law_def, rule_format, OF m] e by simp_all
  consider "e \<in> set public_endpoints" | "e \<notin> set public_endpoints" "e \<in> set admin_endpoints"
    | "e \<notin> set public_endpoints" "e \<notin> set admin_endpoints" by blast
  then show ?thesis
  proof cases
    case 1
    with r g route_guards [OF r(1)] show ?thesis by simp
  next
    case 2
    with g route_guards [OF r(1)] r(2) obtain identity where a: "AuthMiddleware Parse tm now header = Inr identity"
      "AdminMiddleware (Some (local_checker env)) (Some (id_UserID identity)) db = (db', Inr ())" "who = Some identity"
      by (auto split: sum.splits prod.splits)
    with local_admin [OF a(2)] show ?thesis by simp
  next
    case 3
    with g route_guards [OF r(1)] r(2) show ?thesis by (auto split: sum.splits)
  qed
qed

definition demo_match :: "shop_route list \<Rightarrow> string \<Rightarrow> string \<Rightarrow> shop_route option" where
  "demo_match rs verb path = List.find (\<lambda>r. rt_verb r = verb \<and> rt_path r = path) rs"

lemma demo_match_law: "match_law demo_match"
proof -
  have "List.find (\<lambda>r. rt_verb r = verb \<and> rt_path r = path) rs = Some r \<Longrightarrow> r \<in> set rs \<and> rt_verb r = verb" for rs verb path r
    by (induction rs) (auto split: if_splits)
  then show ?thesis unfolding match_law_def demo_match_def by blast
qed

theorem routes_protected_witness:
  "snd (route_request demo_match demo_jwt demo_manager 1000 (Some (local_checker calm_env)) ''POST'' ''/api/v1/products'' ''Bearer token'' demo_admins) =
     Handled EpCreateProduct (Some \<lparr>id_UserID = 7, id_Username = ''alice''\<rparr>) \<and> UserHasRole 7 ''admin'' demo_admins"
proof -
  let ?r = "route_request demo_match demo_jwt demo_manager 1000 (Some (local_checker calm_env)) ''POST'' ''/api/v1/products'' ''Bearer token'' demo_admins"
  have s: "snd ?r = Handled EpCreateProduct (Some \<lparr>id_UserID = 7, id_Username = ''alice''\<rparr>)" by code_simp
  have "?r = (fst ?r, Handled EpCreateProduct (Some \<lparr>id_UserID = 7, id_Username = ''alice''\<rparr>))"
    unfolding s [symmetric] by (rule prod.collapse [symmetric])
  from routes_protected [OF demo_match_law this] have "UserHasRole 7 ''admin'' demo_admins"
    by (auto simp: admin_endpoints_def public_endpoints_def)
  with s show ?thesis by (rule conjI)
qed

text \<open>No two routes have the same method and path.\<close>

theorem routes_distinct: "distinct (map (\<lambda>r. (rt_verb r, rt_path r)) SetupRouters)"
  by code_simp

end
