(* ===== verification/Service_Routes.thy ===== *)
theory Service_Routes
  imports Auth Gateway
begin

text \<open>
  The HTTP surface of the four services: the \<^verbatim>\<open>RegisterRoutes\<close> of the catalog, inventory and order services, the routes of the
  identity service and the health routes, which the \<^verbatim>\<open>main\<close> functions register, and a request that passes the guards of
  its route. Matching of paths is \<^verbatim>\<open>gin\<close>'s: an argument with the law that a path agrees with the pattern of its route
  segment by segment.
\<close>

section \<open>Route tables\<close>

datatype svc_guard = UserToken | AdminRole | InternalToken

record svc_route =
  sv_verb :: string
  sv_path :: string
  sv_guards :: "svc_guard list"
  sv_handler :: string

text \<open>A group of \<^verbatim>\<open>gin\<close>: a prefix and the middlewares of its handlers.\<close>

definition group_route :: "string \<Rightarrow> svc_guard list \<Rightarrow> string \<Rightarrow> string \<Rightarrow> string \<Rightarrow> svc_route" where
  "group_route prefix guards verb path h = \<lparr>sv_verb = verb, sv_path = prefix @ path, sv_guards = guards, sv_handler = h\<rparr>"

definition health_routes :: "svc_route list" where
  "health_routes =
    [group_route [] [] ''GET'' ''/ping'' ''PingHandler'', group_route [] [] ''GET'' ''/live'' ''LiveHandler'',
     group_route [] [] ''GET'' ''/readyz'' ''ReadyzHandler'']"

definition identity_routes :: "svc_route list" where
  "identity_routes =
    (let api = group_route ''/api/v1''; internal = group_route ''/internal/v1'' [InternalToken] in
     [api [] ''POST'' ''/auth/register'' ''Register'', api [] ''POST'' ''/auth/login'' ''Login'',
      api [UserToken] ''GET'' ''/users/me'' ''Me'', api [UserToken] ''PUT'' ''/users/me/profile'' ''UpdateProfile'',
      api [UserToken] ''PATCH'' ''/users/me/password'' ''UpdatePassword'',
      internal ''GET'' ''/users/:id/roles/:role'' ''role''])"

definition catalog_RegisterRoutes :: "svc_route list" where
  "catalog_RegisterRoutes =
    (let api = group_route ''/api/v1'' [UserToken]; admin = group_route ''/api/v1'' [UserToken, AdminRole];
         internal = group_route ''/internal/v1'' [InternalToken] in
     [api ''GET'' ''/products'' ''list'', api ''GET'' ''/products/:id'' ''get'',
      admin ''POST'' ''/products'' ''create'', admin ''PATCH'' ''/products/:id/on-sale'' ''onSale'',
      admin ''PATCH'' ''/products/:id/off-sale'' ''offSale'',
      internal ''GET'' ''/products/:id'' ''internalGet''])"

definition inventory_RegisterRoutes :: "svc_route list" where
  "inventory_RegisterRoutes =
    (let api = group_route ''/api/v1'' [UserToken]; admin = group_route ''/api/v1'' [UserToken, AdminRole];
         internal = group_route ''/internal/v1'' [InternalToken] in
     [api ''GET'' ''/inventory/products/:product_id'' ''get'',
      admin ''POST'' ''/inventory/init'' ''init'', admin ''POST'' ''/inventory/add'' ''add'', admin ''GET'' ''/stock-logs'' ''listLogs'',
      internal ''POST'' ''/reservations'' ''reserve'', internal ''POST'' ''/reservations/:id/confirm'' ''confirm'',
      internal ''POST'' ''/reservations/:id/release'' ''release''])"

definition order_RegisterRoutes :: "svc_route list" where
  "order_RegisterRoutes =
    (let api = group_route ''/api/v1'' [UserToken]; internal = group_route ''/internal/v1'' [InternalToken] in
     [api ''POST'' ''/orders'' ''create'', api ''GET'' ''/orders/:id'' ''get'', api ''GET'' ''/orders'' ''list'',
      api ''PATCH'' ''/orders/:id/cancel'' ''cancel'', api ''PATCH'' ''/orders/:id/pay'' ''pay'',
      api ''PATCH'' ''/orders/:id/finish'' ''finish'',
      internal ''POST'' ''/orders/:id/timeout-cancel'' ''timeoutCancel''])"

definition RegisterReliabilityRoutes :: "svc_route list" where
  "RegisterReliabilityRoutes = [group_route ''/internal/v1'' [InternalToken] ''GET'' ''/operations/reliability'' ''reliability'']"

text \<open>The routers that the four \<^verbatim>\<open>main\<close> functions build.\<close>

definition service_routes :: "(string \<times> svc_route list) list" where
  "service_routes =
    [(''identity-service'', health_routes @ identity_routes),
     (''catalog-service'', health_routes @ catalog_RegisterRoutes),
     (''inventory-service'', health_routes @ inventory_RegisterRoutes),
     (''order-service'', health_routes @ order_RegisterRoutes @ RegisterReliabilityRoutes)]"

section \<open>Serving a request\<close>

text \<open>\<^verbatim>\<open>internalapi.Middleware\<close>, its decision.\<close>

definition internal_ok :: "string \<Rightarrow> string \<Rightarrow> bool" where
  "internal_ok expected actual \<longleftrightarrow> TrimSpace expected \<noteq> [] \<and> actual = TrimSpace expected"

lemma internal_middleware_ok:
  "internal_middleware msg expected actual h s =
    (if internal_ok expected actual then h s else (s, FailReply 401 40101 (msg ''invalid internal service token'')))"
  by (auto simp: internal_middleware_def internal_ok_def Let_def)

text \<open>What a service is given: the token manager, the clock, the role checker and the internal token.\<close>

record ('s, 'e) svc_setup =
  ss_Parse :: jwt_parse
  ss_TokenManager :: TokenManager
  ss_now :: time
  ss_checker :: "(int \<Rightarrow> string \<Rightarrow> 's \<Rightarrow> 's \<times> ('e + bool)) option"
  ss_internalToken :: string

record svc_request =
  sq_verb :: string
  sq_path :: string
  sq_authorization :: string
  sq_internalToken :: string

fun pass_guards :: "('s, 'e) svc_setup \<Rightarrow> svc_request \<Rightarrow> svc_guard list \<Rightarrow> auth_identity option \<Rightarrow> 's \<Rightarrow> 's \<times> (int + auth_identity option)" where
  "pass_guards su q [] who s = (s, Inr who)"
| "pass_guards su q (UserToken # gs) who s =
    (case AuthMiddleware (ss_Parse su) (ss_TokenManager su) (ss_now su) (sq_authorization q) of
       Inl e \<Rightarrow> (s, Inl (fst e))
     | Inr identity \<Rightarrow> pass_guards su q gs (Some identity) s)"
| "pass_guards su q (AdminRole # gs) who s =
    (case AdminMiddleware (ss_checker su) (map_option id_UserID who) s of
       (s', Inl e) \<Rightarrow> (s', Inl (fst e))
     | (s', Inr _) \<Rightarrow> pass_guards su q gs who s')"
| "pass_guards su q (InternalToken # gs) who s =
    (if internal_ok (ss_internalToken su) (sq_internalToken q) then pass_guards su q gs who s else (s, Inl 401))"

datatype svc_served = SvcNotFound | SvcRefused int | SvcHandled string "auth_identity option"

definition service_request ::
  "(svc_route list \<Rightarrow> string \<Rightarrow> string \<Rightarrow> svc_route option) \<Rightarrow> ('s, 'e) svc_setup \<Rightarrow> string \<Rightarrow> svc_request \<Rightarrow> 's \<Rightarrow> 's \<times> svc_served" where
  "service_request Match su svc q s =
    (case map_of service_routes svc of
       None \<Rightarrow> (s, SvcNotFound)
     | Some rs \<Rightarrow>
         (case Match rs (sq_verb q) (sq_path q) of
            None \<Rightarrow> (s, SvcNotFound)
          | Some r \<Rightarrow>
              (case pass_guards su q (sv_guards r) None s of
                 (s', Inl status) \<Rightarrow> (s', SvcRefused status)
               | (s', Inr who) \<Rightarrow> (s', SvcHandled (sv_handler r) who))))"

section \<open>Paths by segments\<close>

fun segments :: "string \<Rightarrow> string list" where
  "segments [] = [[]]"
| "segments (c # cs) =
    (if c = CHR ''/'' then [] # segments cs
     else case segments cs of [] \<Rightarrow> [[c]] | s # ss \<Rightarrow> (c # s) # ss)"

fun join_path :: "string list \<Rightarrow> string" where
  "join_path [] = []"
| "join_path [s] = s"
| "join_path (s # t # ss) = s @ ''/'' @ join_path (t # ss)"

lemma segments_ne [simp]: "segments p \<noteq> []"
  by (cases p) (auto split: list.split)

lemma join_Cons: "ss \<noteq> [] \<Longrightarrow> join_path (s # ss) = s @ ''/'' @ join_path ss"
  by (cases ss) simp_all

lemma join_push: "join_path ((c # s) # ss) = c # join_path (s # ss)"
  by (cases ss) simp_all

lemma join_segments [simp]: "join_path (segments p) = p"
proof (induction p)
  case (Cons c cs)
  then show ?case using segments_ne [of cs] by (cases "segments cs") (simp_all add: join_Cons join_push)
qed simp

lemma segments_slash: "segments (a @ ''/'' @ b) = segments a @ segments b"
proof (induction a)
  case (Cons c cs)
  then show ?case using segments_ne [of cs] by (cases "segments cs") simp_all
qed simp

lemma join_append: "xs \<noteq> [] \<Longrightarrow> ys \<noteq> [] \<Longrightarrow> join_path (xs @ ys) = join_path xs @ ''/'' @ join_path ys"
  by (induction xs rule: join_path.induct) (simp_all add: join_Cons)

text \<open>The gateway's test on prefixes is a test on segments.\<close>

lemma pathMatches_segments: "pathMatches path prefix \<longleftrightarrow> take (length (segments prefix)) (segments path) = segments prefix"
proof
  assume "pathMatches path prefix"
  then consider "path = prefix" | b where "path = prefix @ ''/'' @ b"
    unfolding pathMatches_def HasPrefix_def by (metis append.assoc append_take_drop_id)
  then show "take (length (segments prefix)) (segments path) = segments prefix"
    by cases (simp_all add: segments_slash del: append.simps append_Cons)
next
  assume t: "take (length (segments prefix)) (segments path) = segments prefix"
  let ?r = "drop (length (segments prefix)) (segments path)"
  have s: "segments path = segments prefix @ ?r" using t by (metis append_take_drop_id)
  show "pathMatches path prefix"
  proof (cases "?r = []")
    case True
    with s have "join_path (segments path) = join_path (segments prefix)" by simp
    then show ?thesis by (simp add: pathMatches_def)
  next
    case False
    then have "join_path (segments path) = prefix @ ''/'' @ join_path ?r"
      using s join_append [OF segments_ne False, of prefix] by (metis join_segments)
    then obtain b where "path = prefix @ ''/'' @ b" by simp
    then show ?thesis by (simp add: pathMatches_def HasPrefix_def)
  qed
qed

definition segment_matches :: "string \<Rightarrow> string \<Rightarrow> bool" where
  "segment_matches pat s \<longleftrightarrow> pat = s \<or> (case pat of [] \<Rightarrow> False | c # _ \<Rightarrow> c = CHR '':'')"

text \<open>What is used of the matching of paths.\<close>

definition path_law :: "(svc_route list \<Rightarrow> string \<Rightarrow> string \<Rightarrow> svc_route option) \<Rightarrow> bool" where
  "path_law Match \<longleftrightarrow> (\<forall>rs verb path r. Match rs verb path = Some r \<longrightarrow>
    r \<in> set rs \<and> sv_verb r = verb \<and> list_all2 segment_matches (segments (sv_path r)) (segments path))"

definition literal :: "string \<Rightarrow> bool" where
  "literal s \<longleftrightarrow> (case s of [] \<Rightarrow> True | c # _ \<Rightarrow> c \<noteq> CHR '':'')"

lemma literal_matches: "segment_matches pat s \<Longrightarrow> literal pat \<Longrightarrow> s = pat"
  by (auto simp: segment_matches_def literal_def split: list.splits)

lemma literal_prefix:
  assumes "list_all2 segment_matches pats ss" and "list_all literal (take n pats)"
  shows "take n ss = take n pats"
  using assms
proof (induction n arbitrary: pats ss)
  case (Suc n)
  then show ?case by (cases pats; cases ss) (auto dest: literal_matches)
qed simp

lemma find_eq: "list_all R xs \<Longrightarrow> (\<And>x. R x \<Longrightarrow> P x = Q x) \<Longrightarrow> List.find P xs = List.find Q xs"
  by (induction xs) auto

lemma owner_segments:
  "owner path = map_option fst (List.find (\<lambda>(name, prefix). take 4 (segments path) = segments prefix)
    [(''identity-service'', ''/api/v1/auth''), (''identity-service'', ''/api/v1/users''),
     (''catalog-service'', ''/api/v1/products''), (''inventory-service'', ''/api/v1/inventory''),
     (''inventory-service'', ''/api/v1/stock-logs''), (''order-service'', ''/api/v1/orders'')])"
  unfolding owner_def pathMatches_segments
proof (rule arg_cong [where f = "map_option fst"], rule find_eq)
  show "list_all (\<lambda>x. length (segments (snd x)) = 4)
    [(''identity-service'', ''/api/v1/auth''), (''identity-service'', ''/api/v1/users''),
     (''catalog-service'', ''/api/v1/products''), (''inventory-service'', ''/api/v1/inventory''),
     (''inventory-service'', ''/api/v1/stock-logs''), (''order-service'', ''/api/v1/orders'')]" by code_simp
qed auto

lemma owner_of_route:
  assumes "list_all2 segment_matches (segments (sv_path r)) (segments path)" and "list_all literal (take 4 (segments (sv_path r)))"
  shows "owner path = owner (sv_path r)"
  unfolding owner_segments literal_prefix [OF assms] ..

section \<open>The tables\<close>

definition public_handlers :: "string list" where
  "public_handlers = [''Register'', ''Login'']"

definition admin_handlers :: "(string \<times> string) list" where
  "admin_handlers = [(''catalog-service'', ''create''), (''catalog-service'', ''onSale''), (''catalog-service'', ''offSale''),
     (''inventory-service'', ''init''), (''inventory-service'', ''add''), (''inventory-service'', ''listLogs'')]"

text \<open>The gateway owns the public paths of each service and no other; a route it does not own is internal or a health route;
  a public route asks for a token unless it is for registration or login, and for the role where it changes
  products or stock or reads the stock log.\<close>

definition route_ok :: "string \<Rightarrow> svc_route \<Rightarrow> bool" where
  "route_ok svc r \<longleftrightarrow> list_all literal (take 4 (segments (sv_path r))) \<and>
    (if owner (sv_path r) = None then sv_guards r = [InternalToken] \<or> r \<in> set health_routes
     else owner (sv_path r) = Some svc \<and> sv_guards r =
       (if (svc, sv_handler r) \<in> set admin_handlers then [UserToken, AdminRole]
        else if svc = ''identity-service'' \<and> sv_handler r \<in> set public_handlers then [] else [UserToken]))"

lemma tables_ok: "list_all (\<lambda>(svc, rs). list_all (route_ok svc) rs) service_routes"
  by code_simp

lemma table_route: "map_of service_routes svc = Some rs \<Longrightarrow> r \<in> set rs \<Longrightarrow> route_ok svc r"
  using tables_ok by (fastforce simp: list_all_iff dest: map_of_SomeD)

text \<open>No service registers a method and path twice.\<close>

theorem service_routes_distinct: "list_all (\<lambda>(svc, rs). distinct (map (\<lambda>r. (sv_verb r, sv_path r)) rs)) service_routes"
  by code_simp

text \<open>Every path of a public route reaches the service that has it, and no path of an internal or health route reaches any.\<close>

theorem owner_complete:
  assumes "map_of service_routes svc = Some rs" and "r \<in> set rs" and "list_all2 segment_matches (segments (sv_path r)) (segments path)"
  shows "owner path = (if InternalToken \<in> set (sv_guards r) \<or> r \<in> set health_routes then None else Some svc)"
proof -
  have "list_all (\<lambda>r. owner (sv_path r) = None) health_routes" by code_simp
  then have "r \<in> set health_routes \<Longrightarrow> owner (sv_path r) = None" by (simp add: list_all_iff)
  moreover have ok: "route_ok svc r" using table_route [OF assms(1,2)] .
  then have "owner path = owner (sv_path r)" by (intro owner_of_route [OF assms(3)]) (simp add: route_ok_def)
  ultimately show ?thesis using ok by (auto simp: route_ok_def split: if_splits)
qed

text \<open>What the guards of a public route establish.\<close>

lemma public_guards:
  assumes "route_ok svc r" and "owner (sv_path r) \<noteq> None" and "pass_guards su q (sv_guards r) None s = (s', Inr who)"
  shows "svc = ''identity-service'' \<and> sv_handler r \<in> set public_handlers \<and> who = None \<or>
    (\<exists>identity. who = Some identity \<and> AuthMiddleware (ss_Parse su) (ss_TokenManager su) (ss_now su) (sq_authorization q) = Inr identity \<and>
      ((svc, sv_handler r) \<in> set admin_handlers \<longrightarrow> AdminMiddleware (ss_checker su) (Some (id_UserID identity)) s = (s', Inr ())))"
  using assms by (auto simp: route_ok_def split: if_splits sum.splits prod.splits)

lemma service_request_handled:
  assumes "path_law Match" and "owner (sq_path q) = Some svc" and "service_request Match su svc q s = (s', SvcHandled h who)"
  obtains r where "route_ok svc r" "owner (sv_path r) \<noteq> None" "sv_handler r = h" "pass_guards su q (sv_guards r) None s = (s', Inr who)"
proof -
  from assms(3) obtain rs r where m: "map_of service_routes svc = Some rs" "Match rs (sq_verb q) (sq_path q) = Some r"
    and g: "sv_handler r = h" "pass_guards su q (sv_guards r) None s = (s', Inr who)"
    by (auto simp: service_request_def split: option.splits prod.splits sum.splits)
  from assms(1) m(2) have r: "r \<in> set rs" "list_all2 segment_matches (segments (sv_path r)) (segments (sq_path q))"
    unfolding path_law_def by blast+
  have ok: "route_ok svc r" using table_route [OF m(1) r(1)] .
  then have "list_all literal (take 4 (segments (sv_path r)))" unfolding route_ok_def by (rule conjunct1)
  from owner_of_route [OF r(2) this] assms(2) have "owner (sv_path r) \<noteq> None" by (metis option.distinct(1))
  from that [OF ok this g] show thesis .
qed

text \<open>A reply of an upstream through the gateway.\<close>

lemma ready_not_upstream [simp]: "ready_loop live seen rs \<noteq> GwUpstream svc x"
  by (induction live seen rs rule: ready_loop.induct) (auto split: option.splits)

lemma gateway_upstream:
  assumes "buildRoutes parse services = Some routes"
    and "gateway_ServeHTTP routes live (\<lambda>r. ProxyReply (f (route_name r))) now \<lparr>gq_Path = path, gq_RemoteAddr = remote\<rparr> l = (l', GwUpstream svc x)"
  shows "owner path = Some svc" "f svc = x"
proof -
  from assms(2) obtain r where "List.find (\<lambda>r. pathMatches path (route_prefix r)) routes = Some r" and r: "route_name r = svc" "f svc = x"
    by (auto simp: gateway_ServeHTTP_def proxy_ServeHTTP_def split: if_splits prod.splits bool.splits option.splits)
  with find_owner [OF assms(1), of path] show "owner path = Some svc" "f svc = x" by simp_all
qed

section \<open>A small instance\<close>

definition segment_match :: "svc_route list \<Rightarrow> string \<Rightarrow> string \<Rightarrow> svc_route option" where
  "segment_match rs verb path = List.find (\<lambda>r. sv_verb r = verb \<and> list_all2 segment_matches (segments (sv_path r)) (segments path)) rs"

lemma segment_match_law: "path_law segment_match"
proof -
  have "List.find P rs = Some r \<Longrightarrow> r \<in> set rs \<and> P r" for P and rs :: "svc_route list" and r
    by (induction rs) (auto split: if_splits)
  then show ?thesis unfolding path_law_def segment_match_def by blast
qed

definition demo_service :: "(unit, db_error) svc_setup" where
  "demo_service = \<lparr>ss_Parse = demo_jwt, ss_TokenManager = demo_manager, ss_now = 1000,
     ss_checker = Some (\<lambda>uid role s. (s, HasRole calm_env uid role demo_admins)), ss_internalToken = ''t''\<rparr>"

definition demo_sale :: svc_request where
  "demo_sale = \<lparr>sq_verb = ''PATCH'', sq_path = ''/api/v1/products/9/on-sale'', sq_authorization = ''Bearer token'', sq_internalToken = []\<rparr>"

lemma demo_sale_served:
  "service_request segment_match demo_service ''catalog-service'' demo_sale () = ((), SvcHandled ''onSale'' (Some \<lparr>id_UserID = 7, id_Username = ''alice''\<rparr>))"
  by code_simp

lemma demo_sale_gateway:
  "gateway_ServeHTTP demo_routes (\<lambda>_. Some 200)
     (\<lambda>r. ProxyReply (service_request segment_match demo_service (route_name r) demo_sale ())) 0
     \<lparr>gq_Path = sq_path demo_sale, gq_RemoteAddr = ''10.0.0.1:5555''\<rparr> (newLimiter demo_rate 0) =
   (fst (Allow (clientKey ''10.0.0.1:5555'') 0 (newLimiter demo_rate 0)),
    GwUpstream ''catalog-service'' ((), SvcHandled ''onSale'' (Some \<lparr>id_UserID = 7, id_Username = ''alice''\<rparr>)))"
proof -
  obtain l w where a: "Allow (clientKey ''10.0.0.1:5555'') 0 (newLimiter demo_rate 0) = (l, True, w)"
    by (simp add: Allow_def newLimiter_def rate_normalized_def demo_rate_def cleanupLocked_def clientLocked_def
      refill_def waitDuration_def put_client_def zero_time_def Let_def)
  have "map_option route_name (List.find (\<lambda>r. pathMatches (sq_path demo_sale) (route_prefix r)) demo_routes) = Some ''catalog-service''"
    by code_simp
  moreover have "sq_path demo_sale \<notin> {''/ping'', ''/live'', ''/readyz''}" by code_simp
  ultimately show ?thesis by (auto simp: gateway_ServeHTTP_def a proxy_ServeHTTP_def demo_sale_served)
qed

end
