(* ===== verification/Telemetry.thy ===== *)
theory Telemetry
  imports Metrics
begin

text \<open>
  Tracing, \<^verbatim>\<open>internal/platform/telemetry\<close>: the spans of served requests and of calls to other services, the end of a span with
  the body of its response, the trace ids of log records, and the settings of the exporter. OpenTelemetry itself is a
  library: a span is what the code tells it, its name, attributes, error status and how often it was ended.
\<close>

section \<open>Spans\<close>

datatype span_kind = SpanServer | SpanClient

record span =
  sp_name :: string
  sp_kind :: span_kind
  sp_attributes :: "(string \<times> string) list"
  sp_error :: "string option"
  sp_ends :: nat

definition span_End :: "span \<Rightarrow> span" where
  "span_End s = s\<lparr>sp_ends := sp_ends s + 1\<rparr>"

definition span_Set :: "string \<Rightarrow> string \<Rightarrow> span \<Rightarrow> span" where
  "span_Set k v s = s\<lparr>sp_attributes := sp_attributes s @ [(k, v)]\<rparr>"

definition span_Fail :: "string \<Rightarrow> span \<Rightarrow> span" where
  "span_Fail m s = s\<lparr>sp_error := Some m\<rparr>"

definition excludedPath :: "string \<Rightarrow> bool" where
  "excludedPath path \<longleftrightarrow> path \<in> set [''/metrics'', ''/ping'', ''/live'', ''/readyz'']"

definition trace_method :: "string \<Rightarrow> string" where
  "trace_method m = (if m \<in> set [''GET'', ''POST'', ''PUT'', ''PATCH'', ''DELETE'', ''HEAD'', ''OPTIONS''] then m else ''OTHER'')"

definition bounded :: "string \<Rightarrow> nat \<Rightarrow> string" where
  "bounded v limit = (if v = [] then ''unknown'' else if length v > limit then take limit v else v)"

text \<open>The recorder of the status: what it remembers and what it passes on.\<close>

definition status_WriteHeader :: "int \<Rightarrow> int \<times> int list \<Rightarrow> int \<times> int list" where
  "status_WriteHeader status rec =
    (if fst rec \<noteq> 200 \<or> status = 200 then rec else (status, snd rec @ [status]))"

definition server_span :: "string \<Rightarrow> string \<Rightarrow> span" where
  "server_span verb path =
    (let routeGroup = RouteGroup path; m = trace_method verb in
     \<lparr>sp_name = m @ '' '' @ routeGroup, sp_kind = SpanServer,
      sp_attributes = [(''http.request.method'', m), (''go_order.route_group'', routeGroup)], sp_error = None, sp_ends = 0\<rparr>)"

text \<open>\<^verbatim>\<open>InstrumentHTTP\<close>: \<open>ids\<close> are the ids of the span if its context is valid, \<open>serve\<close> what the handler does to the recorder. The result
  is the finished span, if there is one, and the headers it adds to the response.\<close>

definition trace_InstrumentHTTP ::
  "(string \<times> string) option \<Rightarrow> (int \<times> int list \<Rightarrow> int \<times> int list) \<Rightarrow> string \<Rightarrow> string \<Rightarrow> span option \<times> (string \<times> string) list" where
  "trace_InstrumentHTTP ids serve verb path =
    (if excludedPath path then (None, [])
     else
       let status = fst (serve (200, []));
           s = span_Set ''http.response.status_code'' (FormatInt status) (server_span verb path);
           s = (if status \<ge> 500 then span_Fail ''server_error'' s else s)
       in (Some (span_End s), case ids of None \<Rightarrow> [] | Some (traceID, spanID) \<Rightarrow> [(''X-Trace-ID'', traceID), (''X-Span-ID'', spanID)]))"

section \<open>Calls\<close>

definition client_span :: "string \<Rightarrow> (string \<times> string) option \<Rightarrow> span" where
  "client_span verb url =
    (let routeGroup = (case url of None \<Rightarrow> ''unmatched'' | Some (_, path) \<Rightarrow> RouteGroup path);
         upstream = (case url of Some (host, _) \<Rightarrow> if host \<noteq> [] then host else ''unknown'' | None \<Rightarrow> ''unknown'');
         m = trace_method verb
     in \<lparr>sp_name = m @ '' '' @ routeGroup, sp_kind = SpanClient,
         sp_attributes = [(''http.request.method'', m), (''server.address'', bounded upstream 120), (''go_order.route_group'', routeGroup)],
         sp_error = None, sp_ends = 0\<rparr>)"

text \<open>What the base transport returns: an error, no response, or a response with or without a body.\<close>

datatype transport_result = TransportError | MissingResponse | HasResponse int bool

text \<open>The span after \<^verbatim>\<open>RoundTrip\<close>, and whether a body carries it on; then \<open>once\<close> is whether that body has ended it.\<close>

definition trace_RoundTrip :: "transport_result \<Rightarrow> string \<Rightarrow> (string \<times> string) option \<Rightarrow> span \<times> bool" where
  "trace_RoundTrip r verb url =
    (let s = client_span verb url in
     case r of
       TransportError \<Rightarrow> (span_End (span_Fail ''transport_error'' (span_Set ''go_order.outcome'' ''transport_error'' s)), False)
     | MissingResponse \<Rightarrow> (span_End (span_Fail ''missing_response'' (span_Set ''go_order.outcome'' ''missing_response'' s)), False)
     | HasResponse status hasBody \<Rightarrow>
         let s = span_Set ''http.response.status_code'' (FormatInt status) s;
             s = (if status \<ge> 500 then span_Fail ''server_error'' s else s)
         in if \<not> hasBody then (span_End s, False) else (s, True))"

record span_body =
  sb_span :: span
  sb_once :: bool

definition body_finish :: "span_body \<Rightarrow> span_body" where
  "body_finish b = (if sb_once b then b else b\<lparr>sb_span := span_End (sb_span b), sb_once := True\<rparr>)"

text \<open>An operation on the body: a read, with whether it returns an error (the end of the body is one), or the close.\<close>

datatype body_op = BodyRead bool | BodyClose

fun body_exec :: "body_op \<Rightarrow> span_body \<Rightarrow> span_body" where
  "body_exec (BodyRead failed) b = (if failed then body_finish b else b)"
| "body_exec BodyClose b = body_finish b"

section \<open>Logs and settings\<close>

text \<open>\<^verbatim>\<open>traceHandler.Handle\<close>: the attributes of a record.\<close>

definition trace_attrs :: "(string \<times> string) option \<Rightarrow> (string \<times> string) list \<Rightarrow> (string \<times> string) list" where
  "trace_attrs ids attrs =
    (case ids of None \<Rightarrow> attrs | Some (traceID, spanID) \<Rightarrow> attrs @ [(''trace_id'', traceID), (''span_id'', spanID)])"

definition exportConfigured :: "(string \<Rightarrow> string) \<Rightarrow> bool" where
  "exportConfigured Getenv \<longleftrightarrow> TrimSpace (Getenv ''OTEL_EXPORTER_OTLP_ENDPOINT'') \<noteq> [] \<or>
    TrimSpace (Getenv ''OTEL_EXPORTER_OTLP_TRACES_ENDPOINT'') \<noteq> []"

text \<open>A \<^verbatim>\<open>float64\<close> with the values that are no numbers; a comparison with \<open>FloatNaN\<close> is false.\<close>

datatype float_value = FloatNumber real | FloatNaN | FloatInf | FloatNegInf

definition float_less :: "float_value \<Rightarrow> real \<Rightarrow> bool" where
  "float_less x y = (case x of FloatNumber r \<Rightarrow> r < y | FloatNegInf \<Rightarrow> True | _ \<Rightarrow> False)"

definition float_greater :: "float_value \<Rightarrow> real \<Rightarrow> bool" where
  "float_greater x y = (case x of FloatNumber r \<Rightarrow> r > y | FloatInf \<Rightarrow> True | _ \<Rightarrow> False)"

definition sampleRatioFromEnvironment :: "(string \<Rightarrow> float_value option) \<Rightarrow> (string \<Rightarrow> string) \<Rightarrow> float_value option" where
  "sampleRatioFromEnvironment ParseFloat Getenv =
    (let raw = TrimSpace (Getenv ''OTEL_TRACES_SAMPLER_ARG'') in
     if raw = [] then Some (FloatNumber 1)
     else case ParseFloat raw of
       None \<Rightarrow> None
     | Some ratio \<Rightarrow> if float_less ratio 0 \<or> float_greater ratio 1 then None else Some ratio)"

record trace_setup =
  ts_service :: string
  ts_deployment :: string
  ts_ratio :: float_value
  ts_exports :: bool

text \<open>\<^verbatim>\<open>Setup\<close>: the provider and the error; an exporter that cannot be made is reported but leaves a provider without export.\<close>

definition telemetry_Setup ::
  "(string \<Rightarrow> float_value option) \<Rightarrow> (string \<Rightarrow> string) \<Rightarrow> bool \<Rightarrow> string \<Rightarrow> trace_setup option \<times> string option" where
  "telemetry_Setup ParseFloat Getenv exporterOk service0 =
    (let service = TrimSpace service0 in
     if service = [] then (None, Some ''telemetry service name is required'')
     else case sampleRatioFromEnvironment ParseFloat Getenv of
       None \<Rightarrow> (None, Some ''OTEL_TRACES_SAMPLER_ARG must be a number between 0 and 1'')
     | Some ratio \<Rightarrow>
         let deployment0 = TrimSpace (Getenv ''OTEL_DEPLOYMENT_ENVIRONMENT'');
             deployment = (if deployment0 = [] then ''unknown'' else deployment0);
             wanted = exportConfigured Getenv
         in (Some \<lparr>ts_service = service, ts_deployment = deployment, ts_ratio = ratio, ts_exports = (wanted \<and> exporterOk)\<rparr>,
             if wanted \<and> \<not> exporterOk then Some ''create OTLP trace exporter'' else None))"

section \<open>Properties\<close>

lemma trace_RoundTrip_ends: "trace_RoundTrip r verb url = (s, b) \<Longrightarrow> sp_ends s = (if b then 0 else 1)"
  by (auto simp: trace_RoundTrip_def Let_def client_span_def span_End_def span_Set_def span_Fail_def split: transport_result.splits if_splits)

lemma body_exec_once:
  assumes "sp_ends (sb_span b) = (if sb_once b then 1 else 0)"
  shows "sp_ends (sb_span (fold body_exec ops b)) = (if sb_once (fold body_exec ops b) then 1 else 0) \<and>
    (sb_once (fold body_exec ops b) \<longleftrightarrow> sb_once b \<or> list_ex (\<lambda>p. p \<noteq> BodyRead False) ops)"
  using assms
proof (induction ops arbitrary: b)
  case (Cons p ops)
  have "sp_ends (sb_span (body_exec p b)) = (if sb_once (body_exec p b) then 1 else 0)"
    and once: "sb_once (body_exec p b) \<longleftrightarrow> sb_once b \<or> p \<noteq> BodyRead False"
    using Cons.prems by (cases p; simp add: body_finish_def span_End_def)+
  from Cons.IH [OF this(1)] once show ?case by auto
qed simp

text \<open>The span of a call is ended once. It is ended by the call itself when there is no body to read; otherwise by the
  first read that fails or reaches the end, or by the close, whatever is read or closed after that.\<close>

theorem span_ended_once:
  assumes "trace_RoundTrip r verb url = (s, carried)"
  shows "sp_ends (if carried then sb_span (fold body_exec ops \<lparr>sb_span = s, sb_once = False\<rparr>) else s) =
    (if carried \<and> list_all (\<lambda>p. p = BodyRead False) ops then 0 else 1)"
proof (cases carried)
  case True
  with trace_RoundTrip_ends [OF assms] have "sp_ends (sb_span \<lparr>sb_span = s, sb_once = False\<rparr>) = (if sb_once \<lparr>sb_span = s, sb_once = False\<rparr> then 1 else 0)"
    by simp
  from body_exec_once [OF this, of ops] True show ?thesis by (auto simp: list_ex_iff list_all_iff)
qed (use trace_RoundTrip_ends [OF assms] in simp)

theorem span_ended_once_witness:
  "sp_ends (sb_span (fold body_exec [BodyRead False, BodyRead True, BodyClose, BodyClose]
     \<lparr>sb_span = fst (trace_RoundTrip (HasResponse 200 True) ''GET'' None), sb_once = False\<rparr>)) = 1"
proof -
  have "trace_RoundTrip (HasResponse 200 True) ''GET'' None = (fst (trace_RoundTrip (HasResponse 200 True) ''GET'' None), True)"
    by (simp add: trace_RoundTrip_def Let_def)
  from span_ended_once [OF this, of "[BodyRead False, BodyRead True, BodyClose, BodyClose]"] show ?thesis by simp
qed

text \<open>The span of a served request is ended when the request has been served, and is an error exactly for a status of 500 or
  more.\<close>

theorem served_span:
  assumes "trace_InstrumentHTTP ids serve verb path = (Some s, headers)"
  shows "sp_ends s = 1 \<and> (sp_error s \<noteq> None \<longleftrightarrow> 500 \<le> fst (serve (200, [])))"
  using assms by (auto simp: trace_InstrumentHTTP_def server_span_def Let_def span_End_def span_Set_def span_Fail_def split: if_splits)

text \<open>The sampling ratio is checked to be between 0 and 1, but a value that is no number passes.\<close>

lemma sample_ratio:
  assumes "sampleRatioFromEnvironment ParseFloat Getenv = Some ratio"
  shows "ratio = FloatNaN \<or> (\<exists>r. ratio = FloatNumber r \<and> 0 \<le> r \<and> r \<le> 1)"
  using assms by (cases ratio) (auto simp: sampleRatioFromEnvironment_def Let_def float_less_def float_greater_def split: if_splits option.splits)

lemma sample_ratio_NaN:
  "TrimSpace (Getenv ''OTEL_TRACES_SAMPLER_ARG'') \<noteq> [] \<Longrightarrow> sampleRatioFromEnvironment (\<lambda>_. Some FloatNaN) Getenv = Some FloatNaN"
  by (simp add: sampleRatioFromEnvironment_def Let_def float_less_def float_greater_def)

end
