(* ===== verification/Order_Client.thy ===== *)
theory Order_Client
  imports Timeout_Correct
begin

text \<open>
  The client of the order service, \<^verbatim>\<open>OrderServiceClient\<close> of \<^verbatim>\<open>internal/ordersvc/clients.go\<close>, with which the timeout worker asks for a
  cancellation, over a network of attempts like that of the inventory client; and the worker, the client and the order
  service together.
\<close>

section \<open>The client\<close>

text \<open>An attempt: what other requests do before it, whether it reaches the service, the outcomes of the service's
  statements, and what becomes of the reply.\<close>

record 'i ord_attempt =
  oa_others :: "ordering_db \<times> 'i \<Rightarrow> ordering_db \<times> 'i"
  oa_reach :: bool
  oa_env :: "ord_site env"
  oa_lost :: "call_error option"

record ('i, 'c) ord_world =
  ow_state :: "ordering_db \<times> 'i"
  ow_token :: string
  ow_net :: "'i ord_attempt list"
  ow_ctx :: 'c

type_synonym ord_reply = "(ord_msg, string) reply"

definition ord_serve ::
  "string \<Rightarrow> ord_site env \<Rightarrow> 'i inventory_api \<Rightarrow> http_request \<Rightarrow> int \<Rightarrow> ordering_db \<times> 'i \<Rightarrow> (ordering_db \<times> 'i) \<times> ord_reply" where
  "ord_serve token env api req orderID =
    internal_middleware OrdMsg token (case map_of (rq_headers req) ''X-Internal-Token'' of Some t \<Rightarrow> t | None \<Rightarrow> [])
      (\<lambda>(db, i). case handler_timeoutCancel env api (FormatInt orderID) db i of (db', i', r) \<Rightarrow> ((db', i'), r))"

definition ord_attempt ::
  "'c ctx_ops \<Rightarrow> 'i inventory_api \<Rightarrow> int \<Rightarrow> http_request \<Rightarrow> ('i, 'c) ord_world \<Rightarrow> ('i, 'c) ord_world \<times> (call_error + ord_reply http_response)" where
  "ord_attempt cx api orderID req w =
    (case ow_net w of
       [] \<Rightarrow> (w\<lparr>ow_ctx := cx_do cx (ow_ctx w)\<rparr>, Inl (NetError ''connection refused''))
     | a # rest \<Rightarrow>
         let s = oa_others a (ow_state w);
             (s', reply) = (if oa_reach a
                then (case ord_serve (ow_token w) (oa_env a) api req orderID s of (t, r) \<Rightarrow> (t, Some r)) else (s, None));
             w' = w\<lparr>ow_state := s', ow_net := rest, ow_ctx := cx_do cx (ow_ctx w)\<rparr>
         in (w', case oa_lost a of
                   Some e \<Rightarrow> Inl e
                 | None \<Rightarrow> (case reply of None \<Rightarrow> Inl (NetError ''connection refused'') | Some r \<Rightarrow> Inr \<lparr>hr_status = r_status r, hr_body = r\<rparr>)))"

definition ord_ops :: "'c ctx_ops \<Rightarrow> 'i inventory_api \<Rightarrow> int \<Rightarrow> (('i, 'c) ord_world, ord_reply) exec_ops" where
  "ord_ops cx api orderID =
    \<lparr>x_ctxErr = cx_ctxErr cx \<circ> ow_ctx, x_deadline = cx_deadline cx \<circ> ow_ctx,
     x_requestID = cx_requestID cx \<circ> ow_ctx, x_now = cx_now cx \<circ> ow_ctx, x_format = cx_format cx,
     x_do = (\<lambda>req st. case ord_attempt cx api orderID req (xs_world st) of (w, r) \<Rightarrow> (st\<lparr>xs_world := w\<rparr>, r)),
     x_sleep = (\<lambda>d st. case cx_sleep cx d (ow_ctx (xs_world st)) of
        (c, e) \<Rightarrow> (st\<lparr>xs_world := (xs_world st)\<lparr>ow_ctx := c\<rparr>\<rparr>, e)),
     x_jitter = (\<lambda>d w. cx_jitter cx d (ow_ctx w))\<rparr>"

record ord_client =
  oc_baseURL :: string
  oc_token :: string
  oc_breaker :: CircuitBreakerConfig
  oc_text :: "ord_reply \<Rightarrow> string"

definition NewOrderServiceClient :: "string \<Rightarrow> string \<Rightarrow> CircuitBreakerConfig \<Rightarrow> (ord_reply \<Rightarrow> string) \<Rightarrow> ord_client" where
  "NewOrderServiceClient baseURL token cfg text =
    \<lparr>oc_baseURL = rev (dropWhile (\<lambda>c. c = CHR ''/'') (rev (TrimSpace baseURL))), oc_token = TrimSpace token,
     oc_breaker = cfg, oc_text = text\<rparr>"

text \<open>The call has no output: any reply of the 200 class will do.\<close>

definition client_TimeoutCancel ::
  "'c ctx_ops \<Rightarrow> 'i inventory_api \<Rightarrow> ord_client \<Rightarrow> int \<Rightarrow> ('i, 'c) ord_world exec_state
    \<Rightarrow> ('i, 'c) ord_world exec_state \<times> client_error option" where
  "client_TimeoutCancel cx api c orderID st =
    (case doJSON (ord_ops cx api orderID) (oc_breaker c) (oc_text c) (\<lambda>_. Some ()) (oc_token c) ''order-service'' ''timeout-cancel-order''
        ''POST'' (oc_baseURL c @ ''/internal/v1/orders/'' @ FormatInt orderID @ ''/timeout-cancel'') (Some ''{}'') st of
       (st', Inl e) \<Rightarrow> (st', Some e)
     | (st', Inr _) \<Rightarrow> (st', None))"

section \<open>What success of the client means\<close>

definition ord_answered :: "'i inventory_api \<Rightarrow> int \<Rightarrow> 'i ord_attempt list \<Rightarrow> ord_reply http_response \<Rightarrow> bool" where
  "ord_answered api orderID net resp \<longleftrightarrow> (200 \<le> hr_status resp \<and> hr_status resp < 300 \<longrightarrow>
    (\<exists>a\<in>set net. oa_reach a \<and> (\<exists>db i db' i'. order_TimeoutCancel (oa_env a) api orderID db i = (db', i', None))))"

lemma ord_serve_processed:
  assumes "int64 orderID" and "ord_serve token env api req orderID s = (s', r)" and "200 \<le> r_status r" "r_status r < 300"
  shows "order_TimeoutCancel env api orderID (fst s) (snd s) = (fst s', snd s', None)"
  using assms
  by (auto simp: ord_serve_def internal_middleware_def handler_timeoutCancel_def Let_def
      split: if_splits prod.splits option.splits)

lemma ord_attempt_answered:
  assumes "int64 orderID" and "ord_attempt cx api orderID req w = (w', r)"
  shows "set (ow_net w') \<subseteq> set (ow_net w) \<and> (\<forall>resp. r = Inr resp \<longrightarrow> ord_answered api orderID (ow_net w) resp)"
proof (cases "ow_net w")
  case Nil
  with assms(2) show ?thesis by (auto simp: ord_attempt_def)
next
  case (Cons a rest)
  obtain t rep where s: "ord_serve (ow_token w) (oa_env a) api req orderID (oa_others a (ow_state w)) = (t, rep)" by fastforce
  show ?thesis
  proof (cases "oa_reach a")
    case True
    have "ow_net w' = rest" and r: "r = (case oa_lost a of Some e \<Rightarrow> Inl e | None \<Rightarrow> Inr \<lparr>hr_status = r_status rep, hr_body = rep\<rparr>)"
      using assms(2) by (auto simp: ord_attempt_def Let_def Cons s True split: option.splits)
    moreover have "ord_answered api orderID (ow_net w) \<lparr>hr_status = r_status rep, hr_body = rep\<rparr>"
      using ord_serve_processed [OF assms(1) s] True by (auto simp: ord_answered_def Cons)
    ultimately show ?thesis by (auto simp: Cons split: option.splits)
  next
    case False
    have "ow_net w' = rest" and "isl r"
      using assms(2) by (auto simp: ord_attempt_def Let_def Cons False split: option.splits)
    then show ?thesis by (auto simp: Cons)
  qed
qed

lemma ord_answered_mono: "ord_answered api orderID net resp \<Longrightarrow> set net \<subseteq> set net' \<Longrightarrow> ord_answered api orderID net' resp"
  unfolding ord_answered_def by blast

interpretation ord_net: json_client "ord_ops cx api orderID" "\<lambda>w. int64 orderID \<and> set (ow_net w) \<subseteq> set net"
  "\<lambda>resp w. ord_answered api orderID net resp" for cx api orderID net
proof unfold_locales
  fix s req s' r
  assume P: "int64 orderID \<and> set (ow_net (xs_world s)) \<subseteq> set net" and d: "x_do (ord_ops cx api orderID) req s = (s', r)"
  obtain w' where w': "ord_attempt cx api orderID req (xs_world s) = (w', r)" "s' = s\<lparr>xs_world := w'\<rparr>"
    using d by (auto simp: ord_ops_def split: prod.splits)
  from ord_attempt_answered [OF _ w'(1)] P w'(2) ord_answered_mono
  show "(int64 orderID \<and> set (ow_net (xs_world s')) \<subseteq> set net) \<and> (\<forall>resp. r = Inr resp \<longrightarrow> ord_answered api orderID net resp)"
    by fastforce
next
  fix s d s' e
  assume "int64 orderID \<and> set (ow_net (xs_world s)) \<subseteq> set net" "x_sleep (ord_ops cx api orderID) d s = (s', e)"
  then show "int64 orderID \<and> set (ow_net (xs_world s')) \<subseteq> set net" by (auto simp: ord_ops_def split: prod.splits)
qed

text \<open>When the client reports success, the order service has processed the timeout of that order in one of the attempts
  of the call: no failed, refused or garbled reply counts.\<close>

theorem timeout_client_processed:
  assumes "int64 orderID" and "client_TimeoutCancel cx api c orderID st = (st', None)"
  shows "\<exists>a\<in>set (ow_net (xs_world st)). oa_reach a \<and> (\<exists>db i db' i'. order_TimeoutCancel (oa_env a) api orderID db i = (db', i', None))"
proof -
  from assms(2) obtain x where d: "doJSON (ord_ops cx api orderID) (oc_breaker c) (oc_text c) (\<lambda>_. Some ()) (oc_token c) ''order-service''
      ''timeout-cancel-order'' ''POST'' (oc_baseURL c @ ''/internal/v1/orders/'' @ FormatInt orderID @ ''/timeout-cancel'') (Some ''{}'') st = (st', Inr x)"
    by (auto simp: client_TimeoutCancel_def split: prod.splits sum.splits)
  have "int64 orderID \<and> set (ow_net (xs_world st)) \<subseteq> set (ow_net (xs_world st))" using assms(1) by simp
  note k = ord_net.doJSON_keeps [OF this d]
  have "\<exists>resp. 200 \<le> hr_status resp \<and> hr_status resp < 300 \<and> ord_answered api orderID (ow_net (xs_world st)) resp"
  proof (cases x)
    case None
    with k(2) obtain resp where "hr_status resp = 204" "ord_answered api orderID (ow_net (xs_world st)) resp" by auto
    then show ?thesis by (intro exI [of _ resp]) simp
  next
    case (Some u)
    with k(3) show ?thesis by blast
  qed
  then show ?thesis by (auto simp: ord_answered_def)
qed

section \<open>A timeout during a payment or a cancellation\<close>

text \<open>The order service behind a network that loses nothing.\<close>

definition direct_client :: "ord_site env \<Rightarrow> 'i inventory_api \<Rightarrow> int \<Rightarrow> ordering_db \<times> 'i \<Rightarrow> (ordering_db \<times> 'i) \<times> client_error option" where
  "direct_client env api orderID s =
    (case order_TimeoutCancel env api orderID (fst s) (snd s) of
       (db, i, e) \<Rightarrow> ((db, i), map_option (\<lambda>_. RemoteError ''order-service'' 500 []) e))"

lemma fold_trigger_pending:
  "(\<And>r. o_Status (g r) \<noteq> OrderStatusReconciliationRequired) \<Longrightarrow> fold (\<lambda>r. reconciliation_trigger now r (g r)) rs db = db"
  by (induction rs) (simp_all add: reconciliation_trigger_def)

lemma revert_calm:
  assumes "fault_free env"
  shows "revert_order env oid claimed err db = db\<lparr>orders_v2 := map (\<lambda>r. if o_ID r = oid \<and> o_Status r = claimed
    then r\<lparr>o_Status := OrderStatusPending, o_FailureReason := Reason (OrderClient err), o_UpdatedAt := e_now env RevertUpdate\<rparr> else r) (orders_v2 db)\<rparr>"
  using assms by (simp add: revert_order_def autocommit_def Transaction_def update_orders_def Let_def fold_trigger_pending cong: if_cong)

text \<open>A completed event is not claimed again.\<close>

lemma completed_unclaimable:
  "to_Status e = OutboxCompleted \<Longrightarrow> \<not> event_claimable now e"
  by (simp add: event_claimable_def event_free_def)

text \<open>C26. A timeout that falls into a payment or a cancellation is lost. While an order is claimed for either, the worker's
  delivery is acknowledged; if the claim is then reverted, as after a refusal of the inventory service, the order is pending
  again and none of its events is claimable at any time, so the worker never publishes its timeout again.\<close>

theorem timeout_lost:
  assumes "fault_free wenv" and "fault_free oenv" and "0 < oid"
    and "order_row oid db = Some r" and "o_Status r = claimed" and "claimed \<in> {OrderStatusPaying, OrderStatusCancelling}"
    and "handleDelivery wenv (direct_client oenv api) accepted (Some oid) (db, i) = ((db1, i1), st, counted)"
    and "db2 = revert_order oenv oid claimed err db1"
  shows "st = Acked \<and> map_option o_Status (order_row oid db2) = Some OrderStatusPending \<and>
    list_all (\<lambda>e. to_OrderID e = oid \<longrightarrow> \<not> event_claimable now e) (order_timeout_outbox_v2 db2)"
proof -
  have "List.find (\<lambda>x. o_ID x = oid) (orders_v2 db) = Some r" using assms(4) by (simp add: order_row_def lookup_by_def)
  then have "order_cancel oenv api 0 oid True db i = (db, i, Inl ErrInvalidOrderState)"
    using assms(2,5,6) by (auto simp add: order_cancel_def loadForTransition_def first_order_def view_def)
  then have "direct_client oenv api oid (db, i) = ((db, i), None)" by (simp add: direct_client_def order_TimeoutCancel_def)
  then have h: "st = Acked" "db1 = db\<lparr>order_timeout_outbox_v2 := map (set_outbox (e_now wenv DeliveryDone) (\<lambda>e. to_OrderID e = oid)
      (\<lambda>e. e\<lparr>to_Status := OutboxCompleted, to_LastError := NoError, to_LeaseOwner := [], to_LeaseUntil := None\<rparr>)) (order_timeout_outbox_v2 db)\<rparr>"
    using assms(3,7) by (simp_all add: handleDelivery_def autocommit_calm [OF assms(1)])
  let ?f = "\<lambda>x. if o_ID x = oid \<and> o_Status x = claimed
    then x\<lparr>o_Status := OrderStatusPending, o_FailureReason := Reason (OrderClient err), o_UpdatedAt := e_now oenv RevertUpdate\<rparr> else x"
  have "order_row oid db2 = map_option ?f (order_row oid db)"
    by (simp add: assms(8) revert_calm [OF assms(2)] h(2) order_row_def lookup_by_map)
  moreover have "o_ID r = oid" using assms(4) by (auto simp: order_row_def dest: lookup_by_Some_D)
  ultimately have "map_option o_Status (order_row oid db2) = Some OrderStatusPending" using assms(4,5) by simp
  moreover have "order_timeout_outbox_v2 db2 = order_timeout_outbox_v2 db1" by (simp add: assms(8) revert_calm [OF assms(2)])
  then have "list_all (\<lambda>e. to_OrderID e = oid \<longrightarrow> \<not> event_claimable now e) (order_timeout_outbox_v2 db2)"
    unfolding h(2) by (simp add: list.pred_map comp_def list_all_iff)
      (simp add: completed_unclaimable set_outbox_def split: if_splits)
  ultimately show ?thesis using h(1) by blast
qed

definition demo_paying :: ordering_db where
  "demo_paying = demo_outbox\<lparr>orders_v2 := [\<lparr>o_ID = 101, o_UserID = 5, o_Status = OrderStatusPaying, o_TotalFen = 300,
     o_ReservationID = ''uuid'', o_IdempotencyKey = ''key'', o_FailureReason = NoReason, o_CreatedAt = 0, o_UpdatedAt = 0\<rparr>]\<rparr>"

definition refusing_api :: "unit inventory_api" where
  "refusing_api = \<lparr>ia_Reserve = (\<lambda>_ _ _ i. (i, Inl (RemoteError ''inventory-service'' 503 []))),
     ia_Confirm = (\<lambda>_ i. (i, Inl (RemoteError ''inventory-service'' 503 []))),
     ia_Release = (\<lambda>_ i. (i, Inl (RemoteError ''inventory-service'' 503 [])))\<rparr>"

text \<open>Order 101 is being paid when its timeout is delivered; the payment is then refused.\<close>

theorem timeout_lost_witness:
  "fst (snd (handleDelivery calm_env (direct_client calm_env refusing_api) (\<lambda>_. True) (Some 101) (demo_paying, ()))) = Acked \<and>
   map_option o_Status (order_row 101 (revert_order calm_env 101 OrderStatusPaying (RemoteError ''inventory-service'' 503 [])
     (fst (fst (handleDelivery calm_env (direct_client calm_env refusing_api) (\<lambda>_. True) (Some 101) (demo_paying, ())))))) =
   Some OrderStatusPending"
proof -
  let ?d = "handleDelivery calm_env (direct_client calm_env refusing_api) (\<lambda>_. True) (Some 101) (demo_paying, ())"
  have "order_row 101 demo_paying = Some (hd (orders_v2 demo_paying))" "o_Status (hd (orders_v2 demo_paying)) = OrderStatusPaying"
    by (simp_all add: demo_paying_def order_row_def lookup_by_def)
  moreover have "?d = ((fst (fst ?d), snd (fst ?d)), fst (snd ?d), snd (snd ?d))" by (simp only: prod.collapse)
  note timeout_lost [OF _ _ _ _ _ _ this refl, where r = "hd (orders_v2 demo_paying)" and claimed = OrderStatusPaying]
  ultimately show ?thesis by simp
qed

end
