(* ===== verification/Spec2Isabelle.thy ===== *)
theory Spec2Isabelle
  imports Saga_Properties Timeout_Correct Reconciliation_Correct Gateway Catalog Identity_Correct Auth Shop_Claims Shop_API Shop_Timeout Reliability
    Worker_Metrics Worker_Loops Shop_Loops Shop_Main Service_Main Routes Service_Routes Telemetry Order_Client
begin

text \<open>
  Verification of an order management system in Go. The repository holds the same business twice: as four services
  (identity, catalog, inventory, order) behind an API gateway, with two background workers, and as one single-process
  application, the shop. This development models both from their sources (paths below are under \<^verbatim>\<open>src/\<close>).

  \<^bold>\<open>How the parts work together.\<close> A client calls the gateway, which limits rates and forwards by path prefix. The services
  check a token (and the administrator role, by a call to the identity service). The order service creates an order by a
  saga: it reads prices from the catalog service, writes the order, asks the inventory service to reserve stock, and then
  writes the pending order together with a timeout event in an outbox table. Payment confirms the reservation, cancellation
  releases it; both claim the order first by a conditional update. The timeout worker publishes due events to RabbitMQ with
  confirmation and, when a delayed message comes back, asks the order service to cancel. Whatever is left half done is
  recorded as a reconciliation task by a database trigger; the reconciliation worker claims tasks under a lease and repeats
  the missing step. The shop does the same in one process and one database: orders deduct stock in the transaction that
  creates them.

  \<^bold>\<open>Conventions.\<close> An operation is a function from its arguments and the state to the new state and a result; errors are values
  of a sum or option type. A database is a record of tables, a table the list of its rows. The type \<open>'site env\<close> gives each statement of
  an operation its outcome (done, failed, or done with a lost acknowledgement) and the clock; a theorem without a hypothesis on the
  environment holds for all failures, and \<open>fault_free\<close> marks those that need none. A transaction takes effect as a whole or not at all.
  Integers of 64 bits are integers with \<open>wrap64\<close> written out. Times and durations are nanoseconds. Libraries are arguments:
  JSON, bcrypt, the JWT library, URL and duration parsing, Redis, RabbitMQ, gin's matching of paths, the
  OpenTelemetry SDK; what is used of them is a named hypothesis with an instance that satisfies it.

  \<^bold>\<open>Theories.\<close>
  \<^item> \<open>Go_Prelude\<close>, \<open>Database\<close>: Go's integers and strings, lists of rows; statements, transactions and their failures.
  \<^item> \<open>Inventory\<close>, \<open>Inventory_API\<close> (\<^verbatim>\<open>internal/inventorysvc\<close>, \<^verbatim>\<open>internal/platform/internalapi\<close>): stock and reservations, HTTP and gRPC.
    \<open>Inventory_Correct\<close>, \<open>Inventory_Properties\<close>: the invariant (available and reserved stock, reservations and stock logs agree), atomicity,
    idempotency of Reserve, finality and success of Confirm and Release.
  \<^item> \<open>Breaker\<close>, \<open>Executor\<close> (\<^verbatim>\<open>internal/platform/resiliencehttp\<close>): circuit breaker, retries, request budget; the invariant and recovery
    of the breaker, the bound on attempts.
  \<^item> \<open>Clients\<close>, \<open>Order_Client\<close> (\<^verbatim>\<open>internal/ordersvc/clients.go\<close>): calls over a network that loses requests and replies. The locale \<open>json_client\<close>
    carries what a call keeps to the inventory, catalog, identity and order clients. \<open>Order_Client\<close> also shows that a timeout that
    falls into a payment or cancellation is lost.
  \<^item> \<open>Ordering_DB\<close>, \<open>Ordering\<close> (\<^verbatim>\<open>internal/ordersvc/order.go\<close>, \<^verbatim>\<open>migrations/ordering\<close>): tables with the trigger, operations, handlers.
  \<^item> \<open>Saga\<close>, \<open>Saga_Correct\<close>, \<open>Saga_Properties\<close>: the steps of all order operations and of the reconciliation worker, interleaved with each
    other and with the inventory service (\<open>saga_step\<close>). The locale \<open>inventory_contract\<close> is what the saga needs of an
    inventory client; it is interpreted on the real client over the lossy network. Shown: orders and reservations agree in every
    reachable state, and the operations are runs of \<open>saga_step\<close>.
  \<^item> \<open>Timeout_Worker\<close>, \<open>Timeout_Correct\<close>, \<open>Worker_Loops\<close> (\<^verbatim>\<open>internal/ordersvc/worker.go\<close>, \<^verbatim>\<open>publisher_confirm.go\<close>): leases on events, publication with
    confirmation, deliveries; sessions with RabbitMQ and the endless loop around them. Shown: leases exclude each other, published means
    acknowledged, what a batch does, and that Run returns when its context ends.
  \<^item> \<open>Reconciliation\<close>, \<open>Reconciliation_Correct\<close> (\<^verbatim>\<open>reconciliation_worker.go\<close>, \<^verbatim>\<open>reconciliation_dry_run.go\<close>): tasks, leases, actions; the dry run predicts the run.
  \<^item> \<open>Reliability\<close>, \<open>Metrics\<close>, \<open>Worker_Metrics\<close>, \<open>Telemetry\<close> (\<^verbatim>\<open>reliability_*.go\<close>, \<^verbatim>\<open>prometheus_metrics.go\<close>, \<^verbatim>\<open>rabbitmq_metrics.go\<close>, \<^verbatim>\<open>internal/platform/metrics\<close>,
    \<^verbatim>\<open>servicehost/metrics.go\<close>, \<^verbatim>\<open>internal/platform/telemetry\<close>): indicators, the registry with its text form, what requests and workers record, spans.
  \<^item> \<open>Rate_Limiter\<close>, \<open>Gateway\<close> (\<^verbatim>\<open>internal/platform/ratelimit\<close>, \<^verbatim>\<open>cmd/api-gateway\<close>): token buckets and their bound; routing, readiness, settings.
  \<^item> \<open>Catalog\<close> (\<^verbatim>\<open>internal/catalogsvc\<close>), \<open>Identity\<close>, \<open>Identity_Correct\<close> (users and roles of \<^verbatim>\<open>internal/service\<close>, \<^verbatim>\<open>internal/dao\<close>, \<^verbatim>\<open>cmd/identity-service\<close>),
    \<open>Auth\<close> (\<^verbatim>\<open>internal/auth\<close>, \<^verbatim>\<open>internal/middleware\<close>, \<^verbatim>\<open>internal/platform/serviceclient\<close>), \<open>App_Error\<close> (\<^verbatim>\<open>internal/apperror\<close>, \<^verbatim>\<open>internal/response\<close>).
  \<^item> \<open>Shop_DB\<close>, \<open>Shop\<close>, \<open>Shop_API\<close>, \<open>Shop_Timeout\<close>, \<open>Shop_Loops\<close> (\<^verbatim>\<open>internal/model\<close>, \<^verbatim>\<open>internal/dao\<close>, \<^verbatim>\<open>internal/service\<close>, \<^verbatim>\<open>internal/bizcache\<close>, \<^verbatim>\<open>internal/handler\<close>,
    \<^verbatim>\<open>internal/ordertimeout\<close>): the shop. \<open>Shop_Correct\<close>, \<open>Shop_Properties\<close>, \<open>Shop_Claims\<close>: stock, stock logs and orders agree after every
    operation under every failure; effects of creating, cancelling and expiring an order; idempotency; isolation of users.
    The locale \<open>expired_order_canceller\<close> is the interface between worker and order service.
  \<^item> \<open>Loops\<close>: loops over events, with the locale \<open>event_loop\<close>, interpreted for the loops of all three workers.
  \<^item> \<open>Routes\<close> (\<^verbatim>\<open>router\<close>, middlewares), \<open>Service_Routes\<close> (\<^verbatim>\<open>RegisterRoutes\<close> of the services): route tables and their guards.
  \<^item> \<open>App_Config\<close>, \<open>Shop_Main\<close>, \<open>Service_Main\<close> (\<^verbatim>\<open>config\<close>, \<^verbatim>\<open>pkg\<close>, \<^verbatim>\<open>internal/app\<close>, \<^verbatim>\<open>cmd/order-*-worker\<close>): settings, their validation, the start.

  \<^bold>\<open>Bounds.\<close> No definition has fuel. The loops of the workers may run for ever: they are built on \<open>select_loop\<close>, a partial function into
  \<open>option\<close>, where \<open>None\<close> is running for ever, and that they return is proved from the event that ends them. All other loops
  terminate. Floating-point numbers of the limiter and the indicators are reals (rounding is not modelled). Small instances in the
  witnesses have two or three rows; the theorems are for all sizes.

  \<^bold>\<open>Not modelled.\<close> Generated gRPC code; listening, signals and shutdown of the processes (\<^verbatim>\<open>app.Run\<close>, \<^verbatim>\<open>servicehost.RunHTTP\<close>, \<^verbatim>\<open>StartGRPC\<close>): pure
  I/O. Log records apart from their level, and message texts of errors. Isolation levels below serialisable: a transaction is one
  step, as its row locks and conditional updates make it for the rows it writes. In a session of the shop's worker the two goroutines
  interleave batch by batch and delivery by delivery, and what one still does after the session has returned is left out. The
  web front end, deployment files and documentation have no state of the system.
\<close>

section \<open>What the system exposes\<close>

text \<open>C12. What the system exposes. A request that goes through the gateway reaches a handler of the service that owns its path, and never
  one of the internal interfaces. Only registration and login are open; every other handler has the identity of an
  accepted token, and one that changes products or stock or reads the stock log ran behind an administrator check
  for that user. The internal token does not matter: a caller who knows it gains nothing through the gateway.\<close>

theorem gateway_exposure:
  assumes "buildRoutes parse services = Some routes" and "path_law Match"
    and "gateway_ServeHTTP routes alive (\<lambda>r. ProxyReply (service_request Match (conf (route_name r)) (route_name r) q s)) now
      \<lparr>gq_Path = sq_path q, gq_RemoteAddr = remote\<rparr> l = (l', GwUpstream svc (s', SvcHandled h who))"
  shows "owner (sq_path q) = Some svc \<and>
    (svc = ''identity-service'' \<and> h \<in> set public_handlers \<and> who = None \<or>
     (\<exists>identity. who = Some identity \<and>
       AuthMiddleware (ss_Parse (conf svc)) (ss_TokenManager (conf svc)) (ss_now (conf svc)) (sq_authorization q) = Inr identity \<and>
       ((svc, h) \<in> set admin_handlers \<longrightarrow> AdminMiddleware (ss_checker (conf svc)) (Some (id_UserID identity)) s = (s', Inr ()))))"
proof -
  note g = gateway_upstream [OF assms(1,3)]
  obtain r where r: "route_ok svc r" "owner (sv_path r) \<noteq> None" "sv_handler r = h"
      "pass_guards (conf svc) q (sv_guards r) None s = (s', Inr who)"
    using service_request_handled [OF assms(2) g] .
  from public_guards [OF r(1,2,4)] g(1) show ?thesis unfolding r(3) by (rule conjI [rotated])
qed

text \<open>An administrator puts a product on sale through the gateway.\<close>

theorem gateway_exposure_witness:
  "AdminMiddleware (ss_checker demo_service) (Some 7) () = ((), Inr ()) \<and> owner (sq_path demo_sale) = Some ''catalog-service''"
proof -
  note gateway_exposure [where conf = "\<lambda>_. demo_service", OF demo_routes_built segment_match_law demo_sale_gateway]
  then show ?thesis by (simp add: admin_handlers_def)
qed

end
